(* ===== verification/Prelude.thy ===== *)
theory Prelude
  imports Complex_Main "HOL-Library.State_Monad"
begin

text \<open>
  Shared vocabulary of the development.

  Methods of the C++ classes become programs of the state monad of
  \<^theory_text>\<open>HOL-Library.State_Monad\<close> over a record that holds the members of the class.  This theory
  adds the few combinators the translations need (\<open>modify\<close>, \<open>gets\<close>, \<open>do_if\<close>,
  \<open>for_each\<close>), the two projections \<open>exec\<close> and \<open>result\<close> with the simplification
  rules that run a program symbolically (collection \<open>run_simps\<close>), and the locale
  \<open>frame_rel\<close>, in which the rules that carry a reflexive and transitive relation between the
  state before and the state after through every combinator are proved once.

  Time is kept in nanoseconds, the tick of the two clocks of the C++ standard library the sources
  use; \<open>duration_cast\<close> truncates towards zero, as the library specifies.  The float and double
  values of the sources (currents in ampere, duty cycles) are modelled as real numbers: every
  comparison and every arithmetic operation of the code is kept, rounding is not modelled.
\<close>

named_theorems run_simps \<open>equations that run a program of the state monad\<close>
named_theorems wp_simps \<open>equations of the weakest precondition\<close>
named_theorems frame_intros \<open>frame rules of single operations\<close>

section \<open>Combinators\<close>

abbreviation skip :: "('s, unit) state" where
  "skip \<equiv> State_Monad.return ()"

definition modify :: "('s \<Rightarrow> 's) \<Rightarrow> ('s, unit) state" where
  "modify f = State (\<lambda>s. ((), f s))"

definition gets :: "('s \<Rightarrow> 'a) \<Rightarrow> ('s, 'a) state" where
  "gets f = State (\<lambda>s. (f s, s))"

definition do_if :: "bool \<Rightarrow> ('s, unit) state \<Rightarrow> ('s, unit) state" where
  "do_if b m = (if b then m else skip)"

primrec for_each :: "'a list \<Rightarrow> ('a \<Rightarrow> ('s, unit) state) \<Rightarrow> ('s, unit) state" where
  "for_each [] f = skip"
| "for_each (x # xs) f = State_Monad.bind (f x) (\<lambda>_. for_each xs f)"

definition exec :: "('s, 'a) state \<Rightarrow> 's \<Rightarrow> 's" where
  "exec m s = snd (run_state m s)"

definition result :: "('s, 'a) state \<Rightarrow> 's \<Rightarrow> 'a" where
  "result m s = fst (run_state m s)"

section \<open>Time\<close>

type_synonym time = int

definition trunc_div :: "int \<Rightarrow> int \<Rightarrow> int" where
  "trunc_div a b = sgn a * sgn b * (\<bar>a\<bar> div \<bar>b\<bar>)"

definition ns_per_ms :: int where
  "ns_per_ms = 1000000"

definition milliseconds :: "int \<Rightarrow> time" where
  "milliseconds n = n * ns_per_ms"

definition count_ms :: "time \<Rightarrow> int" where
  "count_ms d = trunc_div d ns_per_ms"

definition count_s :: "time \<Rightarrow> int" where
  "count_s d = trunc_div d (1000 * ns_per_ms)"

section \<open>Running programs\<close>

lemma run_state_exec: "run_state m s = (result m s, exec m s)"
  by (simp add: exec_def result_def)

lemma exec_return [run_simps]: "exec (State_Monad.return a) s = s"
  by (simp add: exec_def)

lemma result_return [run_simps]: "result (State_Monad.return a) s = a"
  by (simp add: result_def)

lemma exec_bind [run_simps]:
  "exec (State_Monad.bind m f) s = exec (f (result m s)) (exec m s)"
  by (simp add: exec_def result_def split: prod.split)

lemma result_bind [run_simps]:
  "result (State_Monad.bind m f) s = result (f (result m s)) (exec m s)"
  by (simp add: exec_def result_def split: prod.split)

lemma exec_modify [run_simps]: "exec (modify f) s = f s"
  by (simp add: exec_def modify_def)

lemma result_modify [run_simps]: "result (modify f) s = ()"
  by simp

lemma exec_gets [run_simps]: "exec (gets f) s = s"
  by (simp add: exec_def gets_def)

lemma result_gets [run_simps]: "result (gets f) s = f s"
  by (simp add: result_def gets_def)

lemma exec_get [run_simps]: "exec State_Monad.get s = s"
  by (simp add: exec_def)

lemma result_get [run_simps]: "result State_Monad.get s = s"
  by (simp add: result_def)

lemma exec_when [run_simps]: "exec (do_if b m) s = (if b then exec m s else s)"
  by (simp add: do_if_def run_simps)

lemma exec_if [run_simps]:
  "exec (if b then m else n) s = (if b then exec m s else exec n s)"
  by simp

lemma result_if [run_simps]:
  "result (if b then m else n) s = (if b then result m s else result n s)"
  by simp

text \<open>
  The weakest precondition of a postcondition on the returned value and the final state.  Its
  equations turn a program into the conjunction of its paths, each with the branch conditions as
  hypotheses.
\<close>

definition wp :: "('s, 'a) state \<Rightarrow> ('a \<Rightarrow> 's \<Rightarrow> bool) \<Rightarrow> 's \<Rightarrow> bool" where
  "wp m Q s = Q (result m s) (exec m s)"

lemma wp_return [wp_simps]: "wp (State_Monad.return a) Q s = Q a s"
  by (simp add: wp_def run_simps)

lemma wp_bind [wp_simps]: "wp (State_Monad.bind m f) Q s = wp m (\<lambda>a. wp (f a) Q) s"
  by (simp add: wp_def run_simps)

lemma wp_modify [wp_simps]: "wp (modify f) Q s = Q () (f s)"
  by (simp add: wp_def run_simps)

lemma wp_gets [wp_simps]: "wp (gets f) Q s = Q (f s) s"
  by (simp add: wp_def run_simps)

lemma wp_get [wp_simps]: "wp State_Monad.get Q s = Q s s"
  by (simp add: wp_def run_simps)

lemma wp_do_if [wp_simps]: "wp (do_if b m) Q s = ((b \<longrightarrow> wp m Q s) \<and> (\<not> b \<longrightarrow> Q () s))"
  by (simp add: wp_def run_simps)

lemma wp_if [wp_simps]:
  "wp (if b then m else n) Q s = ((b \<longrightarrow> wp m Q s) \<and> (\<not> b \<longrightarrow> wp n Q s))"
  by simp

lemma wp_exec: "P (exec m s) \<longleftrightarrow> wp m (\<lambda>_. P) s"
  by (simp add: wp_def)

lemma wp_result: "P (result m s) \<longleftrightarrow> wp m (\<lambda>a _. P a) s"
  by (simp add: wp_def)

section \<open>Frame relations\<close>

locale frame_rel =
  fixes R :: "'s \<Rightarrow> 's \<Rightarrow> bool"
  assumes R_refl: "R s s"
    and R_trans: "R s t \<Longrightarrow> R t u \<Longrightarrow> R s u"
begin

definition keeps :: "('s, 'a) state \<Rightarrow> bool" where
  "keeps m \<longleftrightarrow> (\<forall>s. R s (exec m s))"

lemma keepsI: "(\<And>s. R s (exec m s)) \<Longrightarrow> keeps m"
  by (simp add: keeps_def)

lemma keepsD: "keeps m \<Longrightarrow> R s (exec m s)"
  by (simp add: keeps_def)

lemma keeps_return: "keeps (State_Monad.return a)"
  by (simp add: keeps_def run_simps R_refl)

lemma keeps_gets: "keeps (gets f)"
  by (simp add: keeps_def run_simps R_refl)

lemma keeps_get: "keeps State_Monad.get"
  by (simp add: keeps_def run_simps R_refl)

lemma keeps_bind: "keeps m \<Longrightarrow> (\<And>a. keeps (f a)) \<Longrightarrow> keeps (State_Monad.bind m f)"
  by (auto simp: keeps_def run_simps intro: R_trans)

lemma keeps_if: "(b \<Longrightarrow> keeps m) \<Longrightarrow> (\<not> b \<Longrightarrow> keeps n) \<Longrightarrow> keeps (if b then m else n)"
  by simp

lemma keeps_when: "(b \<Longrightarrow> keeps m) \<Longrightarrow> keeps (do_if b m)"
  by (simp add: do_if_def keeps_return)

lemma keeps_for_each: "(\<And>x. x \<in> set xs \<Longrightarrow> keeps (f x)) \<Longrightarrow> keeps (for_each xs f)"
  by (induction xs) (auto intro: keeps_return keeps_bind)

lemma keeps_modify: "(\<And>s. R s (f s)) \<Longrightarrow> keeps (modify f)"
  by (simp add: keeps_def run_simps)

lemma keeps_option:
  "(x = None \<Longrightarrow> keeps m) \<Longrightarrow> (\<And>y. x = Some y \<Longrightarrow> keeps (f y)) \<Longrightarrow> keeps (case x of None \<Rightarrow> m | Some y \<Rightarrow> f y)"
  by (simp split: option.split)

lemmas keeps_rules = keeps_return keeps_gets keeps_get keeps_bind keeps_if keeps_when keeps_for_each

end

section \<open>Arithmetic of clock differences\<close>

lemma trunc_div_nonneg: "0 \<le> a \<Longrightarrow> 0 < b \<Longrightarrow> trunc_div a b = a div b"
  by (cases "a = 0") (auto simp: trunc_div_def)

lemma count_ms_nonneg: "0 \<le> d \<Longrightarrow> count_ms d = d div ns_per_ms"
  by (simp add: count_ms_def ns_per_ms_def trunc_div_nonneg)

lemma count_ms_0 [simp]: "count_ms 0 = 0"
  by (simp add: count_ms_def trunc_div_def)

lemma count_ms_milliseconds [simp]: "0 \<le> n \<Longrightarrow> count_ms (milliseconds n) = n"
  by (simp add: count_ms_nonneg milliseconds_def ns_per_ms_def)

lemma count_ms_ge_iff:
  assumes "0 < n"
  shows "n \<le> count_ms d \<longleftrightarrow> milliseconds n \<le> d"
proof (cases "0 \<le> d")
  case True
  then show ?thesis
    by (simp add: count_ms_nonneg milliseconds_def ns_per_ms_def) linarith
next
  case False
  then have neg: "count_ms d \<le> 0"
    by (simp add: count_ms_def trunc_div_def ns_per_ms_def sgn_if)
  from assms have "0 < milliseconds n"
    by (simp add: milliseconds_def ns_per_ms_def)
  with False neg assms show ?thesis
    by linarith
qed

lemma count_s_pos_iff: "0 < count_s d \<longleftrightarrow> milliseconds 1000 \<le> d"
proof (cases "0 \<le> d")
  case True
  then have "count_s d = d div 1000000000"
    by (simp add: count_s_def ns_per_ms_def trunc_div_nonneg)
  then show ?thesis
    by (simp add: milliseconds_def ns_per_ms_def) linarith
next
  case False
  then show ?thesis
    by (simp add: count_s_def trunc_div_def ns_per_ms_def milliseconds_def sgn_if)
qed

section \<open>Runs at the end of a list\<close>

definition trailing :: "('a \<Rightarrow> bool) \<Rightarrow> 'a list \<Rightarrow> 'a list" where
  "trailing P xs = rev (takeWhile P (rev xs))"

lemma trailing_snoc: "trailing P (xs @ [x]) = (if P x then trailing P xs @ [x] else [])"
  by (simp add: trailing_def)

lemma trailing_Nil [simp]: "trailing P [] = []"
  by (simp add: trailing_def)

lemma trailing_all: "list_all P (trailing P xs)"
  by (auto simp: trailing_def list_all_iff dest: set_takeWhileD)

lemma trailing_suffix: "\<exists>pre. xs = pre @ trailing P xs"
proof -
  have "rev xs = takeWhile P (rev xs) @ dropWhile P (rev xs)"
    by simp
  then have "xs = rev (dropWhile P (rev xs)) @ trailing P xs"
    by (metis rev_append rev_rev_ident trailing_def)
  then show ?thesis by blast
qed

lemma trailing_longest:
  "list_all P run \<Longrightarrow> \<exists>mid. trailing P (pre @ run) = mid @ run"
  by (induction run rule: rev_induct) (auto simp: trailing_snoc simp flip: append_assoc)

lemma exec_for_each_append: "exec (for_each (xs @ ys) f) s = exec (for_each ys f) (exec (for_each xs f) s)"
  by (induction xs arbitrary: s) (simp_all add: run_simps)

lemma trunc_div_mono:
  assumes "a \<le> b" and "0 < d"
  shows "trunc_div a d \<le> trunc_div b d"
proof (cases "0 \<le> a")
  case True
  then show ?thesis using assms by (simp add: trunc_div_nonneg zdiv_mono1)
next
  case False
  then have a: "trunc_div a d = - (- a div d)" and "0 \<le> - a div d"
    using assms(2) by (simp_all add: trunc_div_def pos_imp_zdiv_nonneg_iff)
  show ?thesis
  proof (cases "0 \<le> b")
    case True
    then show ?thesis using a \<open>0 \<le> - a div d\<close> assms(2)
      by (simp add: trunc_div_nonneg) (meson neg_le_0_iff_le order_trans pos_imp_zdiv_nonneg_iff)
  next
    case False
    then have "trunc_div b d = - (- b div d)"
      using assms(2) by (simp add: trunc_div_def)
    then show ?thesis using a assms by (simp add: zdiv_mono1)
  qed
qed

lemma count_ms_mono: "a \<le> b \<Longrightarrow> count_ms a \<le> count_ms b"
  by (simp add: count_ms_def ns_per_ms_def trunc_div_mono)

end
