(* ===== verification/Sync_Primitives.thy ===== *)
theory Sync_Primitives
  imports Prelude
begin

text \<open>
  The helper classes of \<^verbatim>\<open>modules/EVSE/EvseManager\<close> that hold the timers and the
  hand-over buffers between threads: \<^verbatim>\<open>Timeout\<close> and \<^verbatim>\<open>AsyncTimeout\<close>
  (\<^verbatim>\<open>Timeout.hpp\<close>), \<^verbatim>\<open>EventQueue\<close> (\<^verbatim>\<open>EventQueue.hpp\<close>) and \<^verbatim>\<open>VarContainer\<close>
  (\<^verbatim>\<open>VarContainer.hpp\<close>).

  Every method runs under the mutex of its object, so each is one atomic function on the members.
  The reading of \<^verbatim>\<open>steady_clock::now()\<close> is an argument.  The waiting methods
  (\<^verbatim>\<open>EventQueue::wait\<close>, \<^verbatim>\<open>VarContainer::wait_for\<close>) are modelled at the instant the condition
  variable lets them go on.  The polling thread of an \<^verbatim>\<open>AsyncTimeout\<close> only calls
  \<^verbatim>\<open>reached_nolock\<close> and, when it is true once, the callbacks; it never clears \<^verbatim>\<open>running\<close>.
\<close>

section \<open>Timeout\<close>

record timeout =
  duration :: time
  start_time :: time
  running :: bool

definition timeout_init :: timeout where
  "timeout_init = \<lparr>duration = 0, start_time = 0, running = False\<rparr>"

definition timeout_start :: "time \<Rightarrow> time \<Rightarrow> timeout \<Rightarrow> timeout" where
  "timeout_start now d tm = tm\<lparr>duration := d, start_time := now, running := True\<rparr>"

definition timeout_stop :: "timeout \<Rightarrow> timeout" where
  "timeout_stop tm = tm\<lparr>running := False\<rparr>"

definition timeout_reached :: "time \<Rightarrow> timeout \<Rightarrow> bool \<times> timeout" where
  "timeout_reached now tm =
     (if \<not> running tm then (False, tm)
      else if now - start_time tm > duration tm then (True, tm\<lparr>running := False\<rparr>)
      else (False, tm))"

section \<open>AsyncTimeout\<close>

text \<open>Both start branches leave the same members: a running wait thread is stopped first.\<close>

definition async_start :: "time \<Rightarrow> time \<Rightarrow> timeout \<Rightarrow> timeout" where
  "async_start now d tm =
     (let tm = (if running tm then tm\<lparr>running := False\<rparr> else tm)
      in tm\<lparr>duration := d, start_time := now, running := True\<rparr>)"

definition async_stop :: "timeout \<Rightarrow> timeout" where
  "async_stop tm = (if running tm then tm\<lparr>running := False\<rparr> else tm)"

definition async_reached :: "time \<Rightarrow> timeout \<Rightarrow> bool" where
  "async_reached now tm =
     (if \<not> running tm then False else if now - start_time tm > duration tm then True else False)"

section \<open>EventQueue\<close>

type_synonym 'e event_queue = "'e list"

definition eq_push :: "'e \<Rightarrow> 'e event_queue \<Rightarrow> 'e event_queue" where
  "eq_push e pending = pending @ [e]"

definition eq_get_events :: "'e event_queue \<Rightarrow> 'e list \<times> 'e event_queue" where
  "eq_get_events pending = (pending, [])"

text \<open>None: the waiting thread stays blocked.\<close>

definition eq_wait :: "'e event_queue \<Rightarrow> ('e list \<times> 'e event_queue) option" where
  "eq_wait pending = (if pending = [] then None else Some (pending, []))"

section \<open>VarContainer\<close>

record 'a var_container =
  var_data :: 'a
  unread_data :: bool

definition var_assign :: "'a \<Rightarrow> 'a var_container \<Rightarrow> 'a var_container" where
  "var_assign d v = v\<lparr>var_data := d, unread_data := True\<rparr>"

definition var_clear :: "'a var_container \<Rightarrow> 'a var_container" where
  "var_clear v = v\<lparr>unread_data := False\<rparr>"

text \<open>None is the return value \<^verbatim>\<open>false\<close> after the timeout.\<close>

definition var_wait_for :: "'a var_container \<Rightarrow> 'a option \<times> 'a var_container" where
  "var_wait_for v =
     (if unread_data v then (Some (var_data v), v\<lparr>unread_data := False\<rparr>) else (None, v))"

section \<open>Interface of a batch queue\<close>

text \<open>
  What the producer and the consumer of a queue rely on: a batch that is taken is what was
  pushed since the last batch, in order, and nothing stays behind.
\<close>

datatype 'e queue_op = Push 'e | Take

locale batch_queue =
  fixes push :: "'e \<Rightarrow> 'q \<Rightarrow> 'q"
    and take_all :: "'q \<Rightarrow> 'e list \<times> 'q"
    and contents :: "'q \<Rightarrow> 'e list"
  assumes contents_push: "contents (push e q) = contents q @ [e]"
    and taken: "fst (take_all q) = contents q"
    and contents_taken: "contents (snd (take_all q)) = []"
begin

primrec run_ops :: "'e queue_op list \<Rightarrow> 'q \<Rightarrow> 'e list \<times> 'q" where
  "run_ops [] q = ([], q)"
| "run_ops (x # xs) q =
     (case x of
        Push e \<Rightarrow> run_ops xs (push e q)
      | Take \<Rightarrow> (let (es, q') = take_all q; (rest, q'') = run_ops xs q' in (es @ rest, q'')))"

lemma no_loss:
  "fst (run_ops xs q) @ contents (snd (run_ops xs q)) =
     contents q @ concat (map (\<lambda>x. case x of Push e \<Rightarrow> [e] | Take \<Rightarrow> []) xs)"
proof (induction xs arbitrary: q)
  case Nil
  show ?case by simp
next
  case (Cons x xs)
  show ?case
  proof (cases x)
    case (Push e)
    then show ?thesis by (simp add: Cons.IH contents_push)
  next
    case Take
    then show ?thesis
      using Cons.IH [of "snd (take_all q)"]
      by (simp add: taken contents_taken case_prod_unfold Let_def)
  qed
qed

end

interpretation eq: batch_queue eq_push eq_get_events "\<lambda>q. q"
  by unfold_locales (simp_all add: eq_push_def eq_get_events_def)

section \<open>Timer laws\<close>

lemma async_reached_iff:
  "async_reached now tm \<longleftrightarrow> running tm \<and> duration tm < now - start_time tm"
  by (auto simp: async_reached_def)

lemma async_start_reached:
  "async_reached now (async_start t0 d tm) \<longleftrightarrow> d < now - t0"
  by (auto simp: async_reached_iff async_start_def)

lemma running_async_start [simp]: "running (async_start now d tm)"
  by (simp add: async_start_def)

lemma async_stop_not_reached [simp]: "\<not> async_reached now (async_stop tm)"
  by (simp add: async_reached_iff async_stop_def)

lemma async_reached_stays:
  "async_reached now tm \<Longrightarrow> now \<le> later \<Longrightarrow> async_reached later tm"
  by (simp add: async_reached_iff)

lemma timeout_reached_once:
  assumes "timeout_reached now tm = (True, tm')"
  shows "fst (timeout_reached later tm') = False"
  using assms by (auto simp: timeout_reached_def split: if_splits)

lemma var_wait_for_assigned:
  "var_wait_for (var_assign d v) = (Some d, (var_clear v)\<lparr>var_data := d\<rparr>)"
  by (simp add: var_wait_for_def var_assign_def var_clear_def)

end
