(* ===== verification/IEC_State_Machine.thy ===== *)
theory IEC_State_Machine
  imports Sync_Primitives
begin

text \<open>
  The class \<^verbatim>\<open>IECStateMachine\<close> of \<^verbatim>\<open>modules/EVSE/EvseManager/IECStateMachine.{hpp,cpp}\<close>:
  the low level machine between the board support package (BSP) driver, which reports the control
  pilot (CP) states A to F of IEC 61851-1 and the state of the contactors, and the charger, which
  receives abstract events.

  \<open>iec\<close> holds the members of the class.  Three of its last fields are the local variables of
  \<^verbatim>\<open>state_machine()\<close> (\<open>queue\<close>, \<open>timer_state_C1\<close>, \<open>timer_unlock_state_F\<close>), which the
  method resets when it starts; \<open>feeds\<close> counts the detached threads \<^verbatim>\<open>feed_state_machine\<close> has
  started that have not run yet; \<open>iec_now\<close> is the reading of the steady clock and
  \<open>bsp_calls\<close> records, in order, the calls of the BSP driver and the emitted signals.  A method
  runs as one step: the mutex of the class covers its state changes, and what the sources do after
  releasing it (starting and stopping timers, signalling) follows at once.

  The lemmas show what the board is told: the contactors are commanded on only in the CP states C
  and D with the permission of the charger, never without PWM unless the timer of 6 seconds is
  armed, and the connector is locked whenever the contactors are closed.
\<close>

section \<open>Data\<close>

datatype TimerControl = do_nothing | timer_start | timer_stop

datatype CPEvent =
    CarPluggedIn | CarRequestedPower | PowerOn | PowerOff | CarRequestedStopPower | CarUnplugged
  | EFtoBCD | BCDtoEF | BCDtoE | EvseReplugStarted | EvseReplugFinished

datatype RawCPState = CP_Disabled | CP_A | CP_B | CP_C | CP_D | CP_E | CP_F

datatype BspEvent =
    Bsp_A | Bsp_B | Bsp_C | Bsp_D | Bsp_E | Bsp_F | Bsp_PowerOn | Bsp_PowerOff
  | Bsp_EvseReplugStarted | Bsp_EvseReplugFinished | Bsp_Disconnected

datatype Reason =
    Reason_DCCableCheck | Reason_DCPreCharge | Reason_FullPowerCharging | Reason_PowerOff

datatype Ampacity = Ampacity_None | A_13 | A_20 | A_32 | A_63_3ph_70_1ph

datatype bsp_call =
    call_pwm_off
  | call_pwm_F
  | call_pwm_on real
  | call_allow_power_on bool Reason
  | call_enable bool
  | call_evse_replug int
  | call_ac_switch_three_phases_while_charging bool
  | call_ac_set_overcurrent_limit_A real
  | signal_lock
  | signal_unlock
  | signal_event CPEvent

record iec =
  lock_connector_in_state_b :: bool
  iec_pwm_running :: bool
  last_pwm_running :: bool
  ev_simplified_mode_evse_limit :: bool
  ev_simplified_mode :: bool
  has_ventilation :: bool
  power_on_allowed :: bool
  last_power_on_allowed :: bool
  last_amps :: real
  three_phases :: bool
  car_plugged_in :: bool
  cp_state :: RawCPState
  last_cp_state :: RawCPState
  timeout_state_c1 :: timeout
  timeout_unlock_state_F :: timeout
  power_on_reason :: Reason
  is_locked :: bool
  should_be_locked :: bool
  force_unlocked :: bool
  enabled :: bool
  relais_on :: bool
  queue :: "CPEvent list"
  timer_state_C1 :: TimerControl
  timer_unlock_state_F :: TimerControl
  feeds :: nat
  iec_now :: time
  bsp_calls :: "bsp_call list"

type_synonym 'a iecM = "(iec, 'a) state"

definition ev_simplified_mode_evse_limit_pwm :: real where
  "ev_simplified_mode_evse_limit_pwm = 10 / 0.6 / 100"

definition power_off_under_load_in_c1_timeout :: time where
  "power_off_under_load_in_c1_timeout = milliseconds 6000"

definition unlock_in_state_f_timeout :: time where
  "unlock_in_state_f_timeout = milliseconds 5000"

definition iec_init :: "bool \<Rightarrow> iec" where
  "iec_init lock_b =
     \<lparr>lock_connector_in_state_b = lock_b, iec_pwm_running = False, last_pwm_running = False,
      ev_simplified_mode_evse_limit = False, ev_simplified_mode = False, has_ventilation = False,
      power_on_allowed = False, last_power_on_allowed = False, last_amps = -1, three_phases = True,
      car_plugged_in = False, cp_state = CP_Disabled, last_cp_state = CP_Disabled,
      timeout_state_c1 = timeout_init, timeout_unlock_state_F = timeout_init,
      power_on_reason = Reason_PowerOff, is_locked = False, should_be_locked = False,
      force_unlocked = False, enabled = False, relais_on = False, queue = [],
      timer_state_C1 = do_nothing, timer_unlock_state_F = do_nothing, feeds = 0, iec_now = 0,
      bsp_calls = []\<rparr>"

section \<open>Conversions\<close>

fun from_bsp_event :: "BspEvent \<Rightarrow> RawCPState + CPEvent" where
  "from_bsp_event Bsp_A = Inl CP_A"
| "from_bsp_event Bsp_B = Inl CP_B"
| "from_bsp_event Bsp_C = Inl CP_C"
| "from_bsp_event Bsp_D = Inl CP_D"
| "from_bsp_event Bsp_E = Inl CP_E"
| "from_bsp_event Bsp_F = Inl CP_F"
| "from_bsp_event Bsp_PowerOn = Inr PowerOn"
| "from_bsp_event Bsp_PowerOff = Inr PowerOff"
| "from_bsp_event Bsp_EvseReplugStarted = Inr EvseReplugStarted"
| "from_bsp_event Bsp_EvseReplugFinished = Inr EvseReplugFinished"
| "from_bsp_event _ = Inl CP_Disabled"

fun cpevent_to_string :: "CPEvent \<Rightarrow> string" where
  "cpevent_to_string CarPluggedIn = ''CarPluggedIn''"
| "cpevent_to_string CarRequestedPower = ''CarRequestedPower''"
| "cpevent_to_string PowerOn = ''PowerOn''"
| "cpevent_to_string PowerOff = ''PowerOff''"
| "cpevent_to_string CarRequestedStopPower = ''CarRequestedStopPower''"
| "cpevent_to_string CarUnplugged = ''CarUnplugged''"
| "cpevent_to_string EFtoBCD = ''EFtoBCD''"
| "cpevent_to_string BCDtoEF = ''BCDtoEF''"
| "cpevent_to_string BCDtoE = ''BCDtoE''"
| "cpevent_to_string EvseReplugStarted = ''EvseReplugStarted''"
| "cpevent_to_string EvseReplugFinished = ''EvseReplugFinished''"

section \<open>Elementary operations\<close>

definition bsp :: "bsp_call \<Rightarrow> unit iecM" where
  "bsp c = modify (\<lambda>s. s\<lparr>bsp_calls := bsp_calls s @ [c]\<rparr>)"

definition push_event :: "CPEvent \<Rightarrow> unit iecM" where
  "push_event e = modify (\<lambda>s. s\<lparr>queue := queue s @ [e]\<rparr>)"

definition set_timer_C1 :: "TimerControl \<Rightarrow> unit iecM" where
  "set_timer_C1 c = modify (\<lambda>s. s\<lparr>timer_state_C1 := c\<rparr>)"

definition set_timer_F :: "TimerControl \<Rightarrow> unit iecM" where
  "set_timer_F c = modify (\<lambda>s. s\<lparr>timer_unlock_state_F := c\<rparr>)"

definition set_pwm_running :: "bool \<Rightarrow> unit iecM" where
  "set_pwm_running b = modify (\<lambda>s. s\<lparr>iec_pwm_running := b\<rparr>)"

definition feed_state_machine :: "unit iecM" where
  "feed_state_machine = modify (\<lambda>s. s\<lparr>feeds := Suc (feeds s)\<rparr>)"

definition connector_lock :: "unit iecM" where
  "connector_lock = modify (\<lambda>s. s\<lparr>should_be_locked := True\<rparr>)"

definition connector_unlock :: "unit iecM" where
  "connector_unlock = modify (\<lambda>s. s\<lparr>should_be_locked := False, force_unlocked := False\<rparr>)"

definition check_connector_lock :: "unit iecM" where
  "check_connector_lock = do {
     s \<leftarrow> State_Monad.get;
     let should_be_locked_considering_relais_and_force =
       relais_on s \<or> (should_be_locked s \<and> \<not> force_unlocked s);
     if \<not> is_locked s \<and> should_be_locked_considering_relais_and_force then do {
       bsp signal_lock;
       modify (\<lambda>s. s\<lparr>is_locked := True\<rparr>)
     } else if is_locked s \<and> \<not> should_be_locked_considering_relais_and_force then do {
       bsp signal_unlock;
       modify (\<lambda>s. s\<lparr>is_locked := False\<rparr>)
     } else skip
   }"

definition call_allow_power_on_bsp :: "bool \<Rightarrow> unit iecM" where
  "call_allow_power_on_bsp v = do {
     do_if (\<not> v) (modify (\<lambda>s. s\<lparr>power_on_allowed := False, power_on_reason := Reason_PowerOff\<rparr>));
     r \<leftarrow> gets power_on_reason;
     bsp (call_allow_power_on v r)
   }"

section \<open>The state machine, one definition per case label\<close>

definition sm_Disabled :: "unit iecM" where
  "sm_Disabled = do {
     s \<leftarrow> State_Monad.get;
     do_if (last_cp_state s \<noteq> CP_Disabled) (do {
       set_pwm_running False;
       bsp call_pwm_off;
       modify (\<lambda>s. s\<lparr>ev_simplified_mode := False\<rparr>);
       set_timer_C1 timer_stop;
       call_allow_power_on_bsp False;
       connector_unlock
     })
   }"

definition sm_A :: "unit iecM" where
  "sm_A = do {
     s \<leftarrow> State_Monad.get;
     do_if (last_cp_state s \<noteq> CP_A) (do {
       set_pwm_running False;
       bsp call_pwm_off;
       modify (\<lambda>s. s\<lparr>ev_simplified_mode := False, car_plugged_in := False\<rparr>);
       call_allow_power_on_bsp False;
       set_timer_C1 timer_stop;
       connector_unlock
     });
     do_if (last_cp_state s \<noteq> CP_A \<and> last_cp_state s \<noteq> CP_Disabled) (push_event CarUnplugged)
   }"

definition sm_B :: "unit iecM" where
  "sm_B = do {
     s \<leftarrow> State_Monad.get;
     (if lock_connector_in_state_b s then connector_lock else connector_unlock);
     do_if (last_cp_state s \<noteq> CP_A \<and> last_cp_state s \<noteq> CP_B) (do {
       push_event CarRequestedStopPower;
       call_allow_power_on_bsp False;
       set_timer_C1 timer_stop
     });
     do_if (last_cp_state s = CP_A \<or> last_cp_state s = CP_Disabled \<or>
            (\<not> car_plugged_in s \<and> last_cp_state s = CP_F)) (do {
       push_event CarPluggedIn;
       modify (\<lambda>s. s\<lparr>car_plugged_in := True, ev_simplified_mode := False\<rparr>)
     });
     do_if (last_cp_state s = CP_E \<or> last_cp_state s = CP_F) (push_event EFtoBCD)
   }"

definition sm_C_plug_in :: "unit iecM" where
  "sm_C_plug_in = do {
     s \<leftarrow> State_Monad.get;
     if last_cp_state s = CP_A \<or> last_cp_state s = CP_Disabled \<or>
        (\<not> car_plugged_in s \<and> last_cp_state s = CP_F) then do {
       push_event CarPluggedIn;
       modify (\<lambda>s. s\<lparr>car_plugged_in := True, ev_simplified_mode := True\<rparr>)
     } else do_if (last_cp_state s = CP_B) (push_event CarRequestedPower)
   }"

definition sm_C_pwm_change :: "unit iecM" where
  "sm_C_pwm_change = do {
     s \<leftarrow> State_Monad.get;
     do_if (\<not> iec_pwm_running s \<and> last_pwm_running s) (set_timer_C1 timer_start);
     do_if (iec_pwm_running s \<and> \<not> last_pwm_running s) (do {
       set_timer_C1 timer_stop;
       do_if (power_on_allowed s) (call_allow_power_on_bsp True)
     })
   }"

definition sm_C_timeout :: "unit iecM" where
  "sm_C_timeout = do {
     s \<leftarrow> State_Monad.get;
     do_if (async_reached (iec_now s) (timeout_state_c1 s)) (call_allow_power_on_bsp False)
   }"

definition sm_C2 :: "unit iecM" where
  "sm_C2 = do {
     s \<leftarrow> State_Monad.get;
     do_if (iec_pwm_running s) (do {
       do_if (power_on_allowed s \<and> (\<not> last_power_on_allowed s \<or> last_cp_state s = CP_B))
         (call_allow_power_on_bsp True);
       do_if (\<not> last_pwm_running s \<and> ev_simplified_mode s) (push_event CarRequestedPower)
     })
   }"

definition sm_C :: "unit iecM" where
  "sm_C = do {
     connector_lock;
     sm_C_plug_in;
     sm_C_pwm_change;
     sm_C_timeout;
     sm_C2
   }"

definition sm_D :: "unit iecM" where
  "sm_D = do {
     connector_lock;
     s \<leftarrow> State_Monad.get;
     if \<not> has_ventilation s then do {
       call_allow_power_on_bsp False;
       set_timer_C1 timer_stop
     } else sm_C
   }"

definition sm_E :: "unit iecM" where
  "sm_E = do {
     connector_unlock;
     s \<leftarrow> State_Monad.get;
     do_if (last_cp_state s \<noteq> CP_E) (do {
       set_timer_C1 timer_stop;
       call_allow_power_on_bsp False;
       set_pwm_running False;
       bsp call_pwm_off;
       do_if (last_cp_state s = CP_B \<or> last_cp_state s = CP_C \<or> last_cp_state s = CP_D) (do {
         push_event BCDtoEF;
         push_event BCDtoE
       })
     })
   }"

definition sm_F :: "unit iecM" where
  "sm_F = do {
     set_timer_C1 timer_stop;
     call_allow_power_on_bsp False;
     s \<leftarrow> State_Monad.get;
     do_if (last_cp_state s \<noteq> CP_F) (do {
       set_timer_F timer_start;
       set_pwm_running False
     });
     do_if (last_cp_state s = CP_B \<or> last_cp_state s = CP_C \<or> last_cp_state s = CP_D)
       (push_event BCDtoEF);
     do_if (async_reached (iec_now s) (timeout_unlock_state_F s)) connector_unlock
   }"

fun sm_case :: "RawCPState \<Rightarrow> unit iecM" where
  "sm_case CP_Disabled = sm_Disabled"
| "sm_case CP_A = sm_A"
| "sm_case CP_B = sm_B"
| "sm_case CP_C = sm_C"
| "sm_case CP_D = sm_D"
| "sm_case CP_E = sm_E"
| "sm_case CP_F = sm_F"

fun apply_timer :: "time \<Rightarrow> time \<Rightarrow> TimerControl \<Rightarrow> timeout \<Rightarrow> timeout" where
  "apply_timer now d timer_start tm = async_start now d tm"
| "apply_timer now d timer_stop tm = async_stop tm"
| "apply_timer now d do_nothing tm = tm"

definition run_timers :: "unit iecM" where
  "run_timers = modify (\<lambda>s. s\<lparr>
     timeout_state_c1 := apply_timer (iec_now s) power_off_under_load_in_c1_timeout
       (timer_state_C1 s) (timeout_state_c1 s),
     timeout_unlock_state_F := apply_timer (iec_now s) unlock_in_state_f_timeout
       (timer_unlock_state_F s) (timeout_unlock_state_F s)\<rparr>)"

definition sm_begin :: "unit iecM" where
  "sm_begin = do {
     modify (\<lambda>s. s\<lparr>queue := [], timer_state_C1 := do_nothing, timer_unlock_state_F := do_nothing\<rparr>);
     s \<leftarrow> State_Monad.get;
     do_if (cp_state s \<noteq> CP_F \<and> last_cp_state s = CP_F) (set_timer_F timer_stop)
   }"

definition sm_finish :: "unit iecM" where
  "sm_finish = do {
     check_connector_lock;
     modify (\<lambda>s. s\<lparr>last_cp_state := cp_state s, last_pwm_running := iec_pwm_running s,
       last_power_on_allowed := power_on_allowed s\<rparr>);
     run_timers
   }"

definition state_machine :: "CPEvent list iecM" where
  "state_machine = do {
     sm_begin;
     cp \<leftarrow> gets cp_state;
     sm_case cp;
     sm_finish;
     gets queue
   }"

definition feed_state_machine_no_thread :: "unit iecM" where
  "feed_state_machine_no_thread = do {
     events \<leftarrow> state_machine;
     for_each events (\<lambda>e. bsp (signal_event e))
   }"

section \<open>Interface towards the BSP driver and the charger\<close>

definition process_bsp_event :: "BspEvent \<Rightarrow> unit iecM" where
  "process_bsp_event e =
     (case from_bsp_event e of
        Inl raw_state \<Rightarrow> do {
          modify (\<lambda>s. s\<lparr>cp_state := raw_state\<rparr>);
          feed_state_machine
        }
      | Inr event \<Rightarrow> do {
          (if event = PowerOn then modify (\<lambda>s. s\<lparr>relais_on := True\<rparr>)
           else do_if (event = PowerOff) (modify (\<lambda>s. s\<lparr>relais_on := False\<rparr>)));
          check_connector_lock;
          bsp (signal_event event)
        })"

text \<open>The handler the constructor subscribes to the events of the driver.\<close>

definition on_bsp_event :: "BspEvent \<Rightarrow> unit iecM" where
  "on_bsp_event e = do {
     en \<leftarrow> gets enabled;
     do_if en (process_bsp_event e)
   }"

definition set_pwm :: "real \<Rightarrow> unit iecM" where
  "set_pwm v = do {
     (if v > 0 \<and> v < 1 then set_pwm_running True else set_pwm_running False);
     s \<leftarrow> State_Monad.get;
     let v' = (if ev_simplified_mode_evse_limit s \<and> ev_simplified_mode s \<and>
                  v > ev_simplified_mode_evse_limit_pwm
               then ev_simplified_mode_evse_limit_pwm else v);
     bsp (call_pwm_on (v' * 100));
     feed_state_machine
   }"

definition set_pwm_off :: "unit iecM" where
  "set_pwm_off = do {
     set_pwm_running False;
     bsp call_pwm_off;
     feed_state_machine
   }"

definition set_pwm_F :: "unit iecM" where
  "set_pwm_F = do {
     set_pwm_running False;
     bsp call_pwm_F;
     feed_state_machine
   }"

definition allow_power_on :: "bool \<Rightarrow> Reason \<Rightarrow> unit iecM" where
  "allow_power_on v r = do {
     modify (\<lambda>s. s\<lparr>power_on_allowed := v, power_on_reason := r\<rparr>);
     do_if (\<not> v) (call_allow_power_on_bsp False);
     feed_state_machine
   }"

fun read_pp_ampacity :: "Ampacity \<Rightarrow> bool \<Rightarrow> real" where
  "read_pp_ampacity A_13 _ = 13"
| "read_pp_ampacity A_20 _ = 20"
| "read_pp_ampacity A_32 _ = 32"
| "read_pp_ampacity A_63_3ph_70_1ph three_ph = (if three_ph then 63 else 70)"
| "read_pp_ampacity _ _ = 0"

definition evse_replug :: "int \<Rightarrow> unit iecM" where
  "evse_replug ms = bsp (call_evse_replug ms)"

definition switch_three_phases_while_charging :: "bool \<Rightarrow> unit iecM" where
  "switch_three_phases_while_charging n = bsp (call_ac_switch_three_phases_while_charging n)"

definition iec_setup :: "bool \<Rightarrow> unit iecM" where
  "iec_setup v = modify (\<lambda>s. s\<lparr>has_ventilation := v\<rparr>)"

definition enable :: "bool \<Rightarrow> unit iecM" where
  "enable en = do {
     modify (\<lambda>s. s\<lparr>enabled := en\<rparr>);
     bsp (call_enable en)
   }"

definition set_overcurrent_limit :: "real \<Rightarrow> unit iecM" where
  "set_overcurrent_limit amps = do {
     la \<leftarrow> gets last_amps;
     do_if (amps \<noteq> la) (do {
       bsp (call_ac_set_overcurrent_limit_A amps);
       modify (\<lambda>s. s\<lparr>last_amps := amps\<rparr>)
     })
   }"

definition set_three_phases :: "bool \<Rightarrow> unit iecM" where
  "set_three_phases v = modify (\<lambda>s. s\<lparr>three_phases := v\<rparr>)"

definition set_ev_simplified_mode_evse_limit :: "bool \<Rightarrow> unit iecM" where
  "set_ev_simplified_mode_evse_limit v = modify (\<lambda>s. s\<lparr>ev_simplified_mode_evse_limit := v\<rparr>)"

definition connector_force_unlock :: "unit iecM" where
  "connector_force_unlock = do {
     s \<leftarrow> State_Monad.get;
     do_if (\<not> relais_on s) (do {
       bsp signal_unlock;
       modify (\<lambda>s. s\<lparr>is_locked := False\<rparr>)
     });
     do_if (cp_state s = CP_B \<or> cp_state s = CP_C) (do {
       modify (\<lambda>s. s\<lparr>force_unlocked := True\<rparr>);
       check_connector_lock
     })
   }"

section \<open>Runs\<close>

text \<open>
  The calls the charger and the EVSE manager make, the events of the driver, the detached feed
  threads, the callbacks of the two timers and the clock, in any order.
\<close>

datatype iec_input =
    In_bsp_event BspEvent
  | In_allow_power_on bool Reason
  | In_set_pwm real
  | In_set_pwm_off
  | In_set_pwm_F
  | In_enable bool
  | In_setup bool
  | In_evse_replug int
  | In_switch_three_phases bool
  | In_set_overcurrent_limit real
  | In_set_three_phases bool
  | In_set_ev_simplified_mode_evse_limit bool
  | In_connector_force_unlock

fun iec_handle :: "iec_input \<Rightarrow> unit iecM" where
  "iec_handle (In_bsp_event e) = on_bsp_event e"
| "iec_handle (In_allow_power_on v r) = allow_power_on v r"
| "iec_handle (In_set_pwm v) = set_pwm v"
| "iec_handle In_set_pwm_off = set_pwm_off"
| "iec_handle In_set_pwm_F = set_pwm_F"
| "iec_handle (In_enable b) = enable b"
| "iec_handle (In_setup b) = iec_setup b"
| "iec_handle (In_evse_replug ms) = evse_replug ms"
| "iec_handle (In_switch_three_phases b) = switch_three_phases_while_charging b"
| "iec_handle (In_set_overcurrent_limit a) = set_overcurrent_limit a"
| "iec_handle (In_set_three_phases b) = set_three_phases b"
| "iec_handle (In_set_ev_simplified_mode_evse_limit b) = set_ev_simplified_mode_evse_limit b"
| "iec_handle In_connector_force_unlock = connector_force_unlock"

inductive iec_step :: "iec \<Rightarrow> iec \<Rightarrow> bool" where
  input: "iec_step s (exec (iec_handle i) s)"
| feed: "0 < feeds s \<Longrightarrow>
    iec_step s (exec feed_state_machine_no_thread (s\<lparr>feeds := feeds s - 1\<rparr>))"
| timer_c1: "async_reached (iec_now s) (timeout_state_c1 s) \<Longrightarrow>
    iec_step s (exec feed_state_machine_no_thread s)"
| timer_F: "async_reached (iec_now s) (timeout_unlock_state_F s) \<Longrightarrow>
    iec_step s (exec feed_state_machine_no_thread s)"
| tick: "iec_now s \<le> later \<Longrightarrow> iec_step s (s\<lparr>iec_now := later\<rparr>)"

inductive iec_reachable :: "bool \<Rightarrow> iec \<Rightarrow> bool" for lock_b where
  iec_start: "iec_reachable lock_b (iec_init lock_b)"
| iec_next: "iec_reachable lock_b s \<Longrightarrow> iec_step s s' \<Longrightarrow> iec_reachable lock_b s'"

section \<open>What the board was told\<close>

definition power_cmd :: "bool \<Rightarrow> bsp_call \<Rightarrow> bool" where
  "power_cmd b c = (case c of call_allow_power_on v r \<Rightarrow> v | _ \<Rightarrow> b)"

definition commanded_on :: "bsp_call list \<Rightarrow> bool" where
  "commanded_on cs = foldl power_cmd False cs"

definition lock_cmd :: "bool \<Rightarrow> bsp_call \<Rightarrow> bool" where
  "lock_cmd b c = (case c of signal_lock \<Rightarrow> True | signal_unlock \<Rightarrow> False | _ \<Rightarrow> b)"

definition commanded_locked :: "bsp_call list \<Rightarrow> bool" where
  "commanded_locked cs = foldl lock_cmd False cs"

definition iec_inv :: "iec \<Rightarrow> bool" where
  "iec_inv s \<longleftrightarrow>
     (commanded_on (bsp_calls s) \<longrightarrow>
        power_on_allowed s \<and> (last_cp_state s = CP_C \<or> last_cp_state s = CP_D)) \<and>
     (commanded_on (bsp_calls s) \<and> \<not> last_pwm_running s \<longrightarrow> running (timeout_state_c1 s)) \<and>
     (relais_on s \<longrightarrow> is_locked s) \<and>
     commanded_locked (bsp_calls s) = is_locked s"

definition iec_synced :: "iec \<Rightarrow> bool" where
  "iec_synced s \<longleftrightarrow> cp_state s = last_cp_state s \<and> iec_pwm_running s = last_pwm_running s"

lemma commanded_on_append [simp]:
  "commanded_on (cs @ ds) = foldl power_cmd (commanded_on cs) ds"
  by (simp add: commanded_on_def)

lemma commanded_locked_append [simp]:
  "commanded_locked (cs @ ds) = foldl lock_cmd (commanded_locked cs) ds"
  by (simp add: commanded_locked_def)

lemma power_cmd_simps [simp]:
  "power_cmd b (call_allow_power_on v r) = v"
  "power_cmd b call_pwm_off = b" "power_cmd b call_pwm_F = b" "power_cmd b (call_pwm_on x) = b"
  "power_cmd b (call_enable v) = b" "power_cmd b (call_evse_replug n) = b"
  "power_cmd b (call_ac_switch_three_phases_while_charging v) = b"
  "power_cmd b (call_ac_set_overcurrent_limit_A x) = b"
  "power_cmd b signal_lock = b" "power_cmd b signal_unlock = b" "power_cmd b (signal_event e) = b"
  by (simp_all add: power_cmd_def)

lemma lock_cmd_simps [simp]:
  "lock_cmd b (call_allow_power_on v r) = b"
  "lock_cmd b call_pwm_off = b" "lock_cmd b call_pwm_F = b" "lock_cmd b (call_pwm_on x) = b"
  "lock_cmd b (call_enable v) = b" "lock_cmd b (call_evse_replug n) = b"
  "lock_cmd b (call_ac_switch_three_phases_while_charging v) = b"
  "lock_cmd b (call_ac_set_overcurrent_limit_A x) = b"
  "lock_cmd b signal_lock = True" "lock_cmd b signal_unlock = False"
  "lock_cmd b (signal_event e) = b"
  by (simp_all add: lock_cmd_def)

lemmas iec_basic_defs = bsp_def push_event_def set_timer_C1_def set_timer_F_def
  set_pwm_running_def feed_state_machine_def connector_lock_def connector_unlock_def
  call_allow_power_on_bsp_def run_timers_def

lemmas sm_C_defs = sm_C_def sm_C_plug_in_def sm_C_pwm_change_def sm_C_timeout_def sm_C2_def

lemmas sm_defs = sm_Disabled_def sm_A_def sm_B_def sm_C_defs sm_D_def sm_E_def sm_F_def

lemma exec_check_connector_lock [run_simps]:
  "exec check_connector_lock s =
     (let l = (relais_on s \<or> (should_be_locked s \<and> \<not> force_unlocked s)) in
      s\<lparr>is_locked := l,
        bsp_calls := bsp_calls s @
          (if l = is_locked s then [] else if l then [signal_lock] else [signal_unlock])\<rparr>)"
  by (auto simp: check_connector_lock_def iec_basic_defs run_simps Let_def)

lemma exec_signal_events:
  "exec (for_each es (\<lambda>e. bsp (signal_event e))) s =
     s\<lparr>bsp_calls := bsp_calls s @ map signal_event es\<rparr>"
  by (induction es arbitrary: s) (simp_all add: run_simps iec_basic_defs)

lemma commands_of_signals [simp]:
  "foldl power_cmd b (map signal_event es) = b"
  "foldl lock_cmd b (map signal_event es) = b"
  by (induction es) simp_all

lemma exec_feed_no_thread:
  "exec feed_state_machine_no_thread s =
     (exec state_machine s)\<lparr>bsp_calls := bsp_calls (exec state_machine s) @
        map signal_event (result state_machine s)\<rparr>"
  by (simp add: feed_state_machine_no_thread_def run_simps exec_signal_events)

section \<open>The invariant of the machine\<close>

definition sm_frame :: "iec \<Rightarrow> iec \<Rightarrow> bool" where
  "sm_frame s s' \<longleftrightarrow>
     cp_state s' = cp_state s \<and> last_cp_state s' = last_cp_state s \<and>
     last_pwm_running s' = last_pwm_running s \<and>
     relais_on s' = relais_on s \<and> is_locked s' = is_locked s \<and> feeds s' = feeds s \<and>
     iec_now s' = iec_now s \<and> has_ventilation s' = has_ventilation s \<and>
     timeout_state_c1 s' = timeout_state_c1 s \<and>
     timeout_unlock_state_F s' = timeout_unlock_state_F s \<and>
     commanded_locked (bsp_calls s') = commanded_locked (bsp_calls s)"

interpretation smf: frame_rel sm_frame
  by unfold_locales (simp_all add: sm_frame_def)

lemma sm_frame_ops:
  "smf.keeps (push_event e)" "smf.keeps (set_timer_C1 c)" "smf.keeps (set_timer_F c)"
  "smf.keeps (set_pwm_running b)" "smf.keeps connector_lock" "smf.keeps connector_unlock"
  "smf.keeps (bsp call_pwm_off)" "smf.keeps (call_allow_power_on_bsp b)"
  by (auto simp: iec_basic_defs sm_frame_def intro!: smf.keeps_rules smf.keeps_modify)

lemma sm_frame_case: "smf.keeps (sm_case c)"
  by (cases c)
    (simp_all add: sm_defs sm_frame_ops smf.keeps_rules smf.keeps_modify sm_frame_def)

text \<open>The part of the invariant about the contactors, inside a run of the machine.\<close>

definition sm_power :: "iec \<Rightarrow> bool" where
  "sm_power s \<longleftrightarrow>
     (commanded_on (bsp_calls s) \<longrightarrow>
        power_on_allowed s \<and> (cp_state s = CP_C \<or> cp_state s = CP_D) \<and>
        (iec_pwm_running s \<or> timer_state_C1 s = timer_start \<or>
         (timer_state_C1 s = do_nothing \<and> running (timeout_state_c1 s))))"

definition sm_power_pre :: "iec \<Rightarrow> bool" where
  "sm_power_pre s \<longleftrightarrow> timer_state_C1 s = do_nothing \<and>
     (commanded_on (bsp_calls s) \<longrightarrow>
        power_on_allowed s \<and> (last_pwm_running s \<or> running (timeout_state_c1 s)))"

abbreviation in_CD :: "iec \<Rightarrow> bool" where
  "in_CD s \<equiv> cp_state s = CP_C \<or> cp_state s = CP_D"

lemma sm_power_C_plug_in:
  "sm_power_pre s \<and> in_CD s \<Longrightarrow> sm_power_pre (exec sm_C_plug_in s) \<and> in_CD (exec sm_C_plug_in s)"
  unfolding wp_exec [of "\<lambda>s. sm_power_pre s \<and> in_CD s"] sm_C_plug_in_def iec_basic_defs
  by (simp add: wp_simps sm_power_pre_def)

lemma sm_power_C_pwm_change:
  "sm_power_pre s \<and> in_CD s \<Longrightarrow> sm_power (exec sm_C_pwm_change s) \<and> in_CD (exec sm_C_pwm_change s)"
  unfolding wp_exec [of "\<lambda>s. sm_power s \<and> in_CD s"] sm_C_pwm_change_def iec_basic_defs
  by (auto simp: wp_simps sm_power_pre_def sm_power_def)

lemma sm_power_C_timeout:
  "sm_power s \<and> in_CD s \<Longrightarrow> sm_power (exec sm_C_timeout s) \<and> in_CD (exec sm_C_timeout s)"
  unfolding wp_exec [of "\<lambda>s. sm_power s \<and> in_CD s"] sm_C_timeout_def iec_basic_defs
  by (auto simp: wp_simps sm_power_def)

lemma sm_power_C2:
  "sm_power s \<and> in_CD s \<Longrightarrow> sm_power (exec sm_C2 s)"
  unfolding wp_exec [of sm_power] sm_C2_def iec_basic_defs
  by (auto simp: wp_simps sm_power_def)

lemma sm_power_C:
  assumes "sm_power_pre s" and "in_CD s"
  shows "sm_power (exec sm_C s)"
proof -
  have "sm_power_pre (exec connector_lock s) \<and> in_CD (exec connector_lock s)"
    using assms by (simp add: connector_lock_def run_simps sm_power_pre_def)
  from sm_power_C2 [OF sm_power_C_timeout [OF sm_power_C_pwm_change [OF sm_power_C_plug_in [OF this]]]]
  show ?thesis
    by (simp add: sm_C_def run_simps)
qed

lemma sm_power_D:
  assumes "sm_power_pre s" and "cp_state s = CP_D"
  shows "sm_power (exec sm_D s)"
proof (cases "has_ventilation s")
  case True
  have "sm_power (exec sm_C (exec connector_lock s))"
    using assms by (intro sm_power_C) (simp_all add: connector_lock_def run_simps sm_power_pre_def)
  with True show ?thesis
    by (simp add: sm_D_def run_simps connector_lock_def)
next
  case False
  then show ?thesis
    by (simp add: sm_D_def run_simps iec_basic_defs sm_power_def)
qed

lemma sm_power_case:
  assumes "iec_inv s" and "timer_state_C1 s = do_nothing"
  shows "sm_power (exec (sm_case (cp_state s)) s)"
proof -
  have pre: "sm_power_pre s"
    using assms by (auto simp: iec_inv_def sm_power_pre_def)
  show ?thesis
  proof (cases "cp_state s")
    case CP_C
    with pre show ?thesis by (simp add: sm_power_C)
  next
    case CP_D
    with pre show ?thesis by (simp add: sm_power_D)
  qed (use assms in \<open>auto simp: iec_inv_def sm_power_def sm_defs iec_basic_defs run_simps\<close>)
qed

lemma sm_begin_inv:
  assumes "iec_inv s"
  shows "iec_inv (exec sm_begin s) \<and> timer_state_C1 (exec sm_begin s) = do_nothing \<and>
    feeds (exec sm_begin s) = feeds s"
  using assms
  unfolding wp_exec [of "\<lambda>s'. iec_inv s' \<and> timer_state_C1 s' = do_nothing \<and> feeds s' = feeds s"]
    sm_begin_def set_timer_F_def
  by (auto simp: wp_simps iec_inv_def)

lemma exec_sm_finish:
  "exec sm_finish s =
     (let l = (relais_on s \<or> (should_be_locked s \<and> \<not> force_unlocked s)) in
      s\<lparr>is_locked := l,
        bsp_calls := bsp_calls s @
          (if l = is_locked s then [] else if l then [signal_lock] else [signal_unlock]),
        last_cp_state := cp_state s, last_pwm_running := iec_pwm_running s,
        last_power_on_allowed := power_on_allowed s,
        timeout_state_c1 := apply_timer (iec_now s) power_off_under_load_in_c1_timeout
          (timer_state_C1 s) (timeout_state_c1 s),
        timeout_unlock_state_F := apply_timer (iec_now s) unlock_in_state_f_timeout
          (timer_unlock_state_F s) (timeout_unlock_state_F s)\<rparr>)"
  by (simp add: sm_finish_def run_simps run_timers_def Let_def)

lemma apply_timer_running:
  "c = timer_start \<or> (c = do_nothing \<and> running tm) \<Longrightarrow> running (apply_timer now d c tm)"
  by auto

lemma sm_finish_inv:
  assumes "sm_power s" and "commanded_locked (bsp_calls s) = is_locked s"
  shows "iec_inv (exec sm_finish s)" and "iec_synced (exec sm_finish s)"
    and "feeds (exec sm_finish s) = feeds s"
  using assms
  by (auto simp: exec_sm_finish iec_inv_def iec_synced_def sm_power_def apply_timer_running Let_def)

lemma state_machine_inv:
  assumes "iec_inv s"
  shows "iec_inv (exec state_machine s)" and "iec_synced (exec state_machine s)"
    and "feeds (exec state_machine s) = feeds s"
proof -
  define s0 where "s0 = exec sm_begin s"
  define s1 where "s1 = exec (sm_case (cp_state s0)) s0"
  have inv0: "iec_inv s0" and tm: "timer_state_C1 s0 = do_nothing" and fd: "feeds s0 = feeds s"
    using sm_begin_inv [OF assms] by (simp_all add: s0_def)
  have "sm_frame s0 s1"
    unfolding s1_def by (rule smf.keepsD [OF sm_frame_case])
  then have "commanded_locked (bsp_calls s1) = is_locked s1" and "feeds s1 = feeds s"
    using inv0 fd by (simp_all add: sm_frame_def iec_inv_def)
  moreover have "sm_power s1"
    unfolding s1_def by (rule sm_power_case [OF inv0 tm])
  moreover have "exec state_machine s = exec sm_finish s1"
    by (simp add: state_machine_def run_simps s1_def s0_def)
  ultimately show "iec_inv (exec state_machine s)" and "iec_synced (exec state_machine s)"
    and "feeds (exec state_machine s) = feeds s"
    by (simp_all add: sm_finish_inv)
qed

lemma feed_inv:
  assumes "iec_inv s"
  shows "iec_inv (exec feed_state_machine_no_thread s)"
    and "iec_synced (exec feed_state_machine_no_thread s)"
    and "feeds (exec feed_state_machine_no_thread s) = feeds s"
  using state_machine_inv [OF assms]
  by (simp_all add: exec_feed_no_thread iec_inv_def iec_synced_def)

lemma process_bsp_event_inv:
  assumes "iec_inv s"
  shows "iec_inv (exec (process_bsp_event e) s)"
  using assms
  by (cases e) (simp_all add: process_bsp_event_def run_simps iec_basic_defs iec_inv_def Let_def)

lemma force_unlock_inv:
  assumes "iec_inv s"
  shows "iec_inv (exec connector_force_unlock s)"
  using assms
  by (simp add: connector_force_unlock_def run_simps bsp_def iec_inv_def Let_def)

lemma iec_handle_inv:
  assumes "iec_inv s"
  shows "iec_inv (exec (iec_handle i) s)"
proof (cases i)
  case (In_bsp_event e)
  with assms show ?thesis
    by (simp add: on_bsp_event_def run_simps process_bsp_event_inv)
next
  case In_connector_force_unlock
  with assms show ?thesis by (simp add: force_unlock_inv)
qed (use assms in \<open>simp_all add: allow_power_on_def set_pwm_def set_pwm_off_def set_pwm_F_def
  enable_def iec_setup_def evse_replug_def switch_three_phases_while_charging_def
  set_overcurrent_limit_def set_three_phases_def set_ev_simplified_mode_evse_limit_def
  run_simps iec_basic_defs iec_inv_def Let_def\<close>)

text \<open>No wake-up is lost: a CP state or PWM change that the machine has not seen has a feed pending.\<close>

lemma iec_handle_pending:
  assumes "feeds s = 0 \<longrightarrow> iec_synced s"
  shows "feeds (exec (iec_handle i) s) = 0 \<longrightarrow> iec_synced (exec (iec_handle i) s)"
proof (cases i)
  case (In_bsp_event e)
  with assms show ?thesis
    by (cases e) (simp_all add: on_bsp_event_def process_bsp_event_def run_simps iec_basic_defs
        iec_synced_def Let_def)
next
  case In_connector_force_unlock
  with assms show ?thesis
    by (auto simp: connector_force_unlock_def run_simps iec_basic_defs iec_synced_def Let_def)
qed (use assms in \<open>simp_all add: allow_power_on_def set_pwm_def set_pwm_off_def set_pwm_F_def
  enable_def iec_setup_def evse_replug_def switch_three_phases_while_charging_def
  set_overcurrent_limit_def set_three_phases_def set_ev_simplified_mode_evse_limit_def
  run_simps iec_basic_defs iec_synced_def Let_def\<close>)

lemma iec_step_inv:
  assumes "iec_step s s'" and "iec_inv s" and "feeds s = 0 \<longrightarrow> iec_synced s"
  shows "iec_inv s' \<and> (feeds s' = 0 \<longrightarrow> iec_synced s')"
  using assms
proof (induction rule: iec_step.induct)
  case (input s i)
  then show ?case by (simp add: iec_handle_inv iec_handle_pending)
next
  case (feed s)
  then have "iec_inv (s\<lparr>feeds := feeds s - 1\<rparr>)"
    by (simp add: iec_inv_def)
  from feed_inv [OF this] show ?case by blast
next
  case (tick s later)
  then show ?case by (simp add: iec_inv_def iec_synced_def)
qed (simp_all add: feed_inv)

lemma iec_reachable_inv:
  "iec_reachable lock_b s \<Longrightarrow> iec_inv s \<and> (feeds s = 0 \<longrightarrow> iec_synced s)"
proof (induction rule: iec_reachable.induct)
  case iec_start
  show ?case
    by (simp add: iec_init_def iec_inv_def iec_synced_def commanded_on_def commanded_locked_def)
next
  case (iec_next s s')
  from iec_step_inv [OF iec_next.hyps(2)] iec_next.IH show ?case by simp
qed

section \<open>Executable runs\<close>

datatype iec_label = Lin iec_input | Lfeed | Ltimer_c1 | Ltick time

fun iec_run1 :: "iec_label \<Rightarrow> iec \<Rightarrow> iec" where
  "iec_run1 (Lin i) s = exec (iec_handle i) s"
| "iec_run1 Lfeed s =
     (if 0 < feeds s then exec feed_state_machine_no_thread (s\<lparr>feeds := feeds s - 1\<rparr>) else s)"
| "iec_run1 Ltimer_c1 s =
     (if async_reached (iec_now s) (timeout_state_c1 s) then exec feed_state_machine_no_thread s else s)"
| "iec_run1 (Ltick later) s = (if iec_now s \<le> later then s\<lparr>iec_now := later\<rparr> else s)"

definition iec_run :: "iec_label list \<Rightarrow> iec \<Rightarrow> iec" where
  "iec_run ls s = fold iec_run1 ls s"

lemma iec_run1_reachable: "iec_reachable lock_b s \<Longrightarrow> iec_reachable lock_b (iec_run1 l s)"
proof (cases l)
  case Lfeed
  moreover assume "iec_reachable lock_b s"
  ultimately show ?thesis
    by (simp add: iec_next [OF _ feed, simplified])
qed (auto intro: iec_next iec_step.intros)

lemma iec_run_reachable: "iec_reachable lock_b s \<Longrightarrow> iec_reachable lock_b (iec_run ls s)"
  unfolding iec_run_def
  by (induction ls arbitrary: s) (simp_all add: iec_run1_reachable)

text \<open>A session up to closed contactors: plug in, PWM at half duty cycle, power requested, allowed
  and confirmed.\<close>

definition charging_run :: "iec_label list" where
  "charging_run =
     [Lin (In_enable True), Lin (In_bsp_event Bsp_A), Lfeed, Lin (In_bsp_event Bsp_B), Lfeed,
      Lin (In_set_pwm (1/2)), Lfeed, Lin (In_bsp_event Bsp_C), Lfeed,
      Lin (In_allow_power_on True Reason_FullPowerCharging), Lfeed,
      Lin (In_bsp_event Bsp_PowerOn)]"

lemmas iec_eval = iec_run_def charging_run_def iec_init_def timeout_init_def
  exec_feed_no_thread state_machine_def sm_begin_def exec_sm_finish sm_defs iec_basic_defs
  process_bsp_event_def on_bsp_event_def allow_power_on_def set_pwm_def set_pwm_off_def enable_def

lemma charging_run_state:
  "let s = iec_run charging_run (iec_init True) in
     commanded_on (bsp_calls s) \<and> relais_on s \<and> feeds s = 0 \<and> cp_state s = CP_C"
  by (simp add: iec_eval run_simps Let_def commanded_on_def)

section \<open>The events of a run of the machine\<close>

abbreviation plugs_in :: "iec \<Rightarrow> bool" where
  "plugs_in s \<equiv> last_cp_state s = CP_A \<or> last_cp_state s = CP_Disabled \<or>
     (\<not> car_plugged_in s \<and> last_cp_state s = CP_F)"

definition events_C :: "iec \<Rightarrow> CPEvent list" where
  "events_C s =
     (if plugs_in s then [CarPluggedIn] else if last_cp_state s = CP_B then [CarRequestedPower] else [])
     @ (if iec_pwm_running s \<and> \<not> last_pwm_running s \<and> (ev_simplified_mode s \<or> plugs_in s)
        then [CarRequestedPower] else [])"

definition same_mode :: "iec \<Rightarrow> iec \<Rightarrow> bool" where
  "same_mode s s' \<longleftrightarrow> queue s' = queue s \<and> iec_pwm_running s' = iec_pwm_running s \<and>
     last_pwm_running s' = last_pwm_running s \<and> ev_simplified_mode s' = ev_simplified_mode s"

interpretation mode: frame_rel same_mode
  by unfold_locales (simp_all add: same_mode_def)

lemma same_mode_ops:
  "mode.keeps sm_C_pwm_change" "mode.keeps sm_C_timeout"
  by (simp_all add: sm_C_pwm_change_def sm_C_timeout_def iec_basic_defs mode.keeps_rules
      mode.keeps_modify same_mode_def)

lemma sm_C_queue: "queue (exec sm_C s) = queue s @ events_C s"
proof -
  define s1 where "s1 = exec sm_C_plug_in (exec connector_lock s)"
  define s2 where "s2 = exec sm_C_timeout (exec sm_C_pwm_change s1)"
  have s1: "queue s1 = queue s @ (if plugs_in s then [CarPluggedIn]
              else if last_cp_state s = CP_B then [CarRequestedPower] else [])"
    "iec_pwm_running s1 = iec_pwm_running s" "last_pwm_running s1 = last_pwm_running s"
    "ev_simplified_mode s1 = (ev_simplified_mode s \<or> plugs_in s)"
    by (auto simp: s1_def sm_C_plug_in_def connector_lock_def push_event_def run_simps)
  have "same_mode s1 s2"
    unfolding s2_def
    by (rule mode.R_trans [OF mode.keepsD [OF same_mode_ops(1)] mode.keepsD [OF same_mode_ops(2)]])
  moreover have "exec sm_C s = exec sm_C2 s2"
    by (simp add: sm_C_def run_simps s1_def s2_def)
  moreover have "queue (exec sm_C2 s2) = queue s2 @
      (if iec_pwm_running s2 \<and> \<not> last_pwm_running s2 \<and> ev_simplified_mode s2
       then [CarRequestedPower] else [])"
    by (simp add: sm_C2_def iec_basic_defs run_simps)
  ultimately show ?thesis
    by (simp add: s1 same_mode_def events_C_def)
qed

lemma sm_D_queue:
  "queue (exec sm_D s) = queue s @ (if has_ventilation s then events_C s else [])"
  by (simp add: sm_D_def run_simps sm_C_queue iec_basic_defs events_C_def)

lemma sm_begin_frame:
  "let s' = exec sm_begin s in
     queue s' = [] \<and> cp_state s' = cp_state s \<and> last_cp_state s' = last_cp_state s \<and>
     car_plugged_in s' = car_plugged_in s \<and> iec_pwm_running s' = iec_pwm_running s \<and>
     last_pwm_running s' = last_pwm_running s \<and> has_ventilation s' = has_ventilation s \<and>
     ev_simplified_mode s' = ev_simplified_mode s"
  by (simp add: sm_begin_def set_timer_F_def run_simps)

lemma result_state_machine:
  "result state_machine s = queue (exec (sm_case (cp_state s)) (exec sm_begin s))"
  using sm_begin_frame [of s] by (simp add: state_machine_def run_simps exec_sm_finish Let_def)

lemma state_machine_events:
  "result state_machine s =
     (case cp_state s of
        CP_Disabled \<Rightarrow> []
      | CP_A \<Rightarrow> (if last_cp_state s \<noteq> CP_A \<and> last_cp_state s \<noteq> CP_Disabled then [CarUnplugged] else [])
      | CP_B \<Rightarrow>
          (if last_cp_state s \<noteq> CP_A \<and> last_cp_state s \<noteq> CP_B then [CarRequestedStopPower] else [])
          @ (if plugs_in s then [CarPluggedIn] else [])
          @ (if last_cp_state s = CP_E \<or> last_cp_state s = CP_F then [EFtoBCD] else [])
      | CP_C \<Rightarrow> events_C s
      | CP_D \<Rightarrow> (if has_ventilation s then events_C s else [])
      | CP_E \<Rightarrow> (if last_cp_state s \<in> {CP_B, CP_C, CP_D} then [BCDtoEF, BCDtoE] else [])
      | CP_F \<Rightarrow> (if last_cp_state s \<in> {CP_B, CP_C, CP_D} then [BCDtoEF] else []))"
  using sm_begin_frame [of s] unfolding result_state_machine
  by (cases "cp_state s")
    (simp_all add: sm_C_queue sm_D_queue events_C_def sm_Disabled_def sm_A_def sm_B_def sm_E_def
      sm_F_def iec_basic_defs run_simps Let_def)

section \<open>Forced unlocking\<close>

definition forced_open :: "iec \<Rightarrow> bool" where
  "forced_open s \<longleftrightarrow> (cp_state s = CP_B \<or> cp_state s = CP_C) \<and> \<not> relais_on s \<and>
     \<not> (should_be_locked s \<and> \<not> force_unlocked s) \<and> (cp_state s = CP_C \<longrightarrow> force_unlocked s) \<and>
     (lock_connector_in_state_b s \<longrightarrow> force_unlocked s) \<and>
     \<not> is_locked s \<and> \<not> commanded_locked (bsp_calls s)"

definition lock_frame :: "iec \<Rightarrow> iec \<Rightarrow> bool" where
  "lock_frame s s' \<longleftrightarrow> cp_state s' = cp_state s \<and> relais_on s' = relais_on s \<and>
     force_unlocked s' = force_unlocked s \<and> is_locked s' = is_locked s \<and>
     lock_connector_in_state_b s' = lock_connector_in_state_b s \<and>
     commanded_locked (bsp_calls s') = commanded_locked (bsp_calls s)"

interpretation lckf: frame_rel lock_frame
  by unfold_locales (simp_all add: lock_frame_def)

lemma lock_frame_ops:
  "lckf.keeps (push_event e)" "lckf.keeps (set_timer_C1 c)" "lckf.keeps (set_timer_F c)"
  "lckf.keeps (set_pwm_running b)" "lckf.keeps connector_lock"
  "lckf.keeps (call_allow_power_on_bsp b)"
  by (auto simp: iec_basic_defs lock_frame_def intro!: lckf.keeps_rules lckf.keeps_modify)

lemma lock_frame_sm_C: "lckf.keeps sm_C"
  by (simp add: sm_C_defs lock_frame_ops lckf.keeps_rules lckf.keeps_modify lock_frame_def)

lemma forced_open_sm_case:
  assumes "forced_open s"
  shows "forced_open (exec (sm_case (cp_state s)) s)"
proof (cases "cp_state s")
  case CP_C
  moreover have "lock_frame s (exec sm_C s)"
    by (rule lckf.keepsD [OF lock_frame_sm_C])
  ultimately show ?thesis
    using assms by (simp add: forced_open_def lock_frame_def)
next
  case CP_B
  have "forced_open (exec sm_B s)"
    using assms CP_B
    unfolding wp_exec [of forced_open] sm_B_def iec_basic_defs
    by (auto simp: wp_simps forced_open_def)
  with CP_B show ?thesis by simp
qed (use assms in \<open>simp_all add: forced_open_def\<close>)

lemma forced_open_feed:
  assumes "forced_open s"
  shows "forced_open (exec feed_state_machine_no_thread s)"
proof -
  have "forced_open (exec sm_begin s)" and cp: "cp_state (exec sm_begin s) = cp_state s"
    using assms by (simp_all add: sm_begin_def set_timer_F_def run_simps forced_open_def)
  from forced_open_sm_case [OF this(1)] cp
  have "forced_open (exec (sm_case (cp_state s)) (exec sm_begin s))" by simp
  then have "forced_open (exec sm_finish (exec (sm_case (cp_state s)) (exec sm_begin s)))"
    by (auto simp: exec_sm_finish forced_open_def Let_def)
  with cp show ?thesis
    by (simp add: exec_feed_no_thread state_machine_def run_simps forced_open_def)
qed

lemma force_unlock_opens:
  assumes "cp_state s = CP_B \<or> cp_state s = CP_C" and "\<not> relais_on s"
  shows "forced_open (exec connector_force_unlock s)"
  using assms
  by (auto simp: connector_force_unlock_def run_simps bsp_def forced_open_def Let_def)

section \<open>The timer of 6 seconds\<close>

lemma sm_C_expired:
  assumes "async_reached (iec_now s) (timeout_state_c1 s)" and "\<not> iec_pwm_running s"
  shows "\<not> commanded_on (bsp_calls (exec sm_C s))"
  using assms
  by (simp add: sm_C_defs iec_basic_defs run_simps)

lemma sm_C_pwm_lost:
  assumes "\<not> iec_pwm_running s" and "last_pwm_running s"
  shows "timer_state_C1 (exec sm_C s) = timer_start" and "\<not> iec_pwm_running (exec sm_C s)"
  using assms
  by (simp_all add: sm_C_defs iec_basic_defs run_simps)

lemma feed_in_C:
  assumes "cp_state s = CP_C"
  shows "exec feed_state_machine_no_thread s =
     (exec sm_finish (exec sm_C (exec sm_begin s)))\<lparr>bsp_calls :=
        bsp_calls (exec sm_finish (exec sm_C (exec sm_begin s))) @ map signal_event (events_C s)\<rparr>"
  using assms sm_begin_frame [of s]
  by (simp add: exec_feed_no_thread state_machine_events run_simps Let_def)
    (simp add: state_machine_def run_simps)

lemma feed_frame_C:
  assumes "cp_state s = CP_C"
  shows "iec_now (exec feed_state_machine_no_thread s) = iec_now s"
    and "cp_state (exec feed_state_machine_no_thread s) = CP_C"
  using assms smf.keepsD [OF sm_frame_case, of "exec sm_begin s" CP_C]
  by (simp_all add: feed_in_C exec_sm_finish sm_frame_def Let_def)
    (simp_all add: sm_begin_def set_timer_F_def run_simps)

lemma feed_expired_C:
  assumes "cp_state s = CP_C" and "async_reached (iec_now s) (timeout_state_c1 s)"
    and "\<not> iec_pwm_running s"
  shows "\<not> commanded_on (bsp_calls (exec feed_state_machine_no_thread s))"
proof -
  have "\<not> commanded_on (bsp_calls (exec sm_C (exec sm_begin s)))"
    using assms by (intro sm_C_expired) (simp_all add: sm_begin_def set_timer_F_def run_simps)
  then show ?thesis
    using assms by (simp add: feed_in_C exec_sm_finish Let_def)
qed

lemma feed_pwm_lost_C:
  assumes "cp_state s = CP_C" and "\<not> iec_pwm_running s" and "last_pwm_running s"
  shows "timeout_state_c1 (exec feed_state_machine_no_thread s) =
      async_start (iec_now s) power_off_under_load_in_c1_timeout (timeout_state_c1 s)"
    and "\<not> iec_pwm_running (exec feed_state_machine_no_thread s)"
proof -
  have b: "\<not> iec_pwm_running (exec sm_begin s)" "last_pwm_running (exec sm_begin s)"
    using assms by (simp_all add: sm_begin_def set_timer_F_def run_simps)
  have f: "sm_frame (exec sm_begin s) (exec sm_C (exec sm_begin s))"
    using smf.keepsD [OF sm_frame_case, of _ CP_C] by simp
  have e: "iec_now (exec sm_begin s) = iec_now s"
    "timeout_state_c1 (exec sm_begin s) = timeout_state_c1 s"
    by (simp_all add: sm_begin_def set_timer_F_def run_simps)
  show "timeout_state_c1 (exec feed_state_machine_no_thread s) =
      async_start (iec_now s) power_off_under_load_in_c1_timeout (timeout_state_c1 s)"
    and "\<not> iec_pwm_running (exec feed_state_machine_no_thread s)"
    using assms sm_C_pwm_lost [OF b] f e
    by (simp_all add: feed_in_C exec_sm_finish sm_frame_def Let_def)
qed

section \<open>Properties\<close>

text \<open>C1. In every reachable state, if the last contactor command to the board is "on", the
  charger's permission stands, the machine last ran in CP state C or D, and PWM was running then or
  the timer of 6 seconds is armed; with no feed pending the same holds of the present CP state and
  the present PWM state.\<close>

theorem contactors_on_permitted:
  assumes "iec_reachable lock_b s" and "commanded_on (bsp_calls s)"
  shows "power_on_allowed s \<and> last_cp_state s \<in> {CP_C, CP_D} \<and>
    (last_pwm_running s \<or> running (timeout_state_c1 s)) \<and>
    (feeds s = 0 \<longrightarrow> cp_state s \<in> {CP_C, CP_D} \<and>
       (iec_pwm_running s \<or> running (timeout_state_c1 s)))"
  using iec_reachable_inv [OF assms(1)] assms(2) by (auto simp: iec_inv_def iec_synced_def)

theorem contactors_on_permitted_witness:
  "let s = iec_run charging_run (iec_init True) in power_on_allowed s \<and> cp_state s \<in> {CP_C, CP_D}"
  using contactors_on_permitted [OF iec_run_reachable [OF iec_start [of True], of charging_run]]
    charging_run_state
  by (auto simp: Let_def)



text \<open>PWM switched off in CP state C: the next run of the machine arms the timer; it expires
  when more than 6 seconds have passed, and the run its callback feeds then commands the contactors
  off, whatever happened before.\<close>

theorem pwm_off_opens_contactors:
  assumes "iec_reachable lock_b s" and "feeds s = 0" and "cp_state s = CP_C" and "iec_pwm_running s"
    and "s1 = exec feed_state_machine_no_thread (exec set_pwm_off s)"
    and "iec_now s + milliseconds 6000 < later"
  shows "async_reached later (timeout_state_c1 s1) \<and>
    \<not> commanded_on (bsp_calls (exec feed_state_machine_no_thread (s1\<lparr>iec_now := later\<rparr>)))"
proof -
  define s0 where "s0 = exec set_pwm_off s"
  have "last_pwm_running s"
    using iec_reachable_inv [OF assms(1)] assms(2,4) by (simp add: iec_synced_def)
  then have s0: "cp_state s0 = CP_C" "\<not> iec_pwm_running s0" "last_pwm_running s0"
      "iec_now s0 = iec_now s"
    using assms(3) by (simp_all add: s0_def set_pwm_off_def iec_basic_defs run_simps)
  have s1: "timeout_state_c1 s1 =
      async_start (iec_now s) power_off_under_load_in_c1_timeout (timeout_state_c1 s0)"
    "\<not> iec_pwm_running s1" "cp_state s1 = CP_C"
    using feed_pwm_lost_C [OF s0(1-3)] feed_frame_C [OF s0(1)] s0(4)
    by (simp_all add: assms(5) s0_def [symmetric])
  then have r: "async_reached later (timeout_state_c1 s1)"
    using assms(6)
    by (simp add: async_reached_def async_start_def power_off_under_load_in_c1_timeout_def Let_def)
  with s1 feed_expired_C [of "s1\<lparr>iec_now := later\<rparr>"] show ?thesis by simp
qed

lemma charging_run_pwm: "let s = iec_run charging_run (iec_init True) in
     iec_pwm_running s \<and> iec_now s = 0"
  by (simp add: iec_eval run_simps Let_def)

theorem pwm_off_opens_contactors_witness:
  "let s = iec_run charging_run (iec_init True);
       s1 = exec feed_state_machine_no_thread (exec set_pwm_off s) in
     commanded_on (bsp_calls s) \<and> async_reached (milliseconds 6001) (timeout_state_c1 s1) \<and>
     \<not> commanded_on (bsp_calls (exec feed_state_machine_no_thread
         (s1\<lparr>iec_now := milliseconds 6001\<rparr>)))"
  using pwm_off_opens_contactors [OF iec_run_reachable [OF iec_start [of True], of charging_run] _ _ _ refl]
    charging_run_state charging_run_pwm
  by (simp add: Let_def milliseconds_def ns_per_ms_def)

text \<open>Which events a run of the machine sends to the charger: plugging in, unplugging, the
  request for power and its end, and the changes from and to the error states E and F are reported
  exactly on the transitions of the CP state that mean them; power-on and power-off are never made
  up, they only come from the board.\<close>

theorem events_of_transitions:
  "let ev = set (result state_machine s); cp = cp_state s; last = last_cp_state s;
       serves = cp = CP_C \<or> (cp = CP_D \<and> has_ventilation s);
       plug = last \<in> {CP_A, CP_Disabled} \<or> (last = CP_F \<and> \<not> car_plugged_in s) in
   (CarPluggedIn \<in> ev \<longleftrightarrow> (cp = CP_B \<or> serves) \<and> plug) \<and>
   (CarUnplugged \<in> ev \<longleftrightarrow> cp = CP_A \<and> last \<notin> {CP_A, CP_Disabled}) \<and>
   (CarRequestedPower \<in> ev \<longleftrightarrow> serves \<and>
      (last = CP_B \<or> (iec_pwm_running s \<and> \<not> last_pwm_running s \<and> (ev_simplified_mode s \<or> plug)))) \<and>
   (CarRequestedStopPower \<in> ev \<longleftrightarrow> cp = CP_B \<and> last \<notin> {CP_A, CP_B}) \<and>
   (BCDtoEF \<in> ev \<longleftrightarrow> cp \<in> {CP_E, CP_F} \<and> last \<in> {CP_B, CP_C, CP_D}) \<and>
   (EFtoBCD \<in> ev \<longleftrightarrow> cp = CP_B \<and> last \<in> {CP_E, CP_F}) \<and>
   PowerOn \<notin> ev \<and> PowerOff \<notin> ev"
  unfolding state_machine_events
  by (cases "cp_state s") (auto simp: events_C_def Let_def)

text \<open>A forced unlock with open contactors in CP state B or C opens the connector, and no
  number of further runs of the machine in that state locks it again.\<close>

theorem force_unlock_stays_open:
  assumes "cp_state s = CP_B \<or> cp_state s = CP_C" and "\<not> relais_on s"
  shows "let s' = (exec feed_state_machine_no_thread ^^ n) (exec connector_force_unlock s) in
    \<not> is_locked s' \<and> \<not> commanded_locked (bsp_calls s')"
proof -
  have "forced_open ((exec feed_state_machine_no_thread ^^ n) (exec connector_force_unlock s))"
    by (induction n) (simp_all add: force_unlock_opens [OF assms] forced_open_feed)
  then show ?thesis by (simp add: forced_open_def)
qed

theorem force_unlock_stays_open_witness:
  "let s = (iec_init True)\<lparr>cp_state := CP_B, is_locked := True, should_be_locked := True\<rparr> in
    \<not> is_locked ((exec feed_state_machine_no_thread ^^ 2) (exec connector_force_unlock s))"
  using force_unlock_stays_open [of "(iec_init True)\<lparr>cp_state := CP_B, is_locked := True,
    should_be_locked := True\<rparr>" 2]
  by (simp add: iec_init_def Let_def)

text \<open>A forced unlock with closed contactors never sends the unlock signal.\<close>

theorem force_unlock_keeps_lock_under_load:
  assumes "relais_on s"
  shows "\<exists>cs. bsp_calls (exec connector_force_unlock s) = bsp_calls s @ cs \<and> signal_unlock \<notin> set cs"
  using assms by (simp add: connector_force_unlock_def run_simps Let_def)

theorem force_unlock_keeps_lock_under_load_witness:
  "\<exists>cs. bsp_calls (exec connector_force_unlock ((iec_init True)\<lparr>relais_on := True, cp_state := CP_C\<rparr>))
     = cs \<and> signal_unlock \<notin> set cs"
  using force_unlock_keeps_lock_under_load [of "(iec_init True)\<lparr>relais_on := True, cp_state := CP_C\<rparr>"]
  by (simp add: iec_init_def)

text \<open>When PWM and the permission come back in CP state C after the timer of 6 seconds has
  expired, the run that sees them commands the contactors on and off again at once and withdraws the
  permission: the expired timer still counts as reached although it was told to stop.\<close>

theorem resume_after_expiry_opens_again:
  assumes "cp_state s = CP_C" and "last_cp_state s = CP_C" and "iec_pwm_running s"
    and "\<not> last_pwm_running s" and "power_on_allowed s" and "\<not> ev_simplified_mode s"
    and "async_reached (iec_now s) (timeout_state_c1 s)" and "is_locked s" and "\<not> force_unlocked s"
  shows "let s' = exec feed_state_machine_no_thread s in
    \<not> power_on_allowed s' \<and> \<not> running (timeout_state_c1 s') \<and>
    bsp_calls s' = bsp_calls s @ [call_allow_power_on True (power_on_reason s),
      call_allow_power_on False Reason_PowerOff]"
  using assms
  by (simp add: feed_in_C events_C_def exec_sm_finish sm_C_defs sm_begin_def iec_basic_defs
      run_simps Let_def async_stop_def)

theorem resume_after_expiry_opens_again_witness:
  "let s = (iec_init True)\<lparr>cp_state := CP_C, last_cp_state := CP_C, iec_pwm_running := True,
     power_on_allowed := True, is_locked := True, should_be_locked := True, iec_now := milliseconds 6001,
     timeout_state_c1 := \<lparr>duration = milliseconds 6000, start_time = 0, running = True\<rparr>\<rparr>
   in \<not> power_on_allowed (exec feed_state_machine_no_thread s)"
  using resume_after_expiry_opens_again [of "(iec_init True)\<lparr>cp_state := CP_C,
     last_cp_state := CP_C, iec_pwm_running := True,
     power_on_allowed := True, is_locked := True, should_be_locked := True, iec_now := milliseconds 6001,
     timeout_state_c1 := \<lparr>duration = milliseconds 6000, start_time = 0, running = True\<rparr>\<rparr>"]
  by (simp add: iec_init_def Let_def async_reached_def milliseconds_def ns_per_ms_def)

end
