(* ===== verification/Error_Handling.thy ===== *)
theory Error_Handling
  imports Prelude
begin

text \<open>
  The class \<^verbatim>\<open>ErrorHandling\<close> of \<^verbatim>\<open>modules/EVSE/EvseManager/ErrorHandling.{hpp,cpp}\<close>:
  it decides from the errors active on the EVSE itself and on its requirements whether charging is
  prevented, raises and clears the error \<^verbatim>\<open>evse_manager/Inoperative\<close> accordingly and signals the
  charger.

  The error database of the EVSE implementation (\<^verbatim>\<open>p_evse\<close>) belongs to the framework, which is
  not part of the sources: its operations are the parameter \<open>fw\<close> of every definition, and
  \<open>framework_ok\<close> names what the code relies on.  The errors active on the requirements are
  fields of the state; a requirement that is not connected (\<^verbatim>\<open>size() == 0\<close>) is \<open>None\<close>.
  The signals are recorded in order in \<open>eh_signals\<close>.

  The lemmas show that the Inoperative error is active after every call exactly when an error is
  active that is not on the ignore lists, and that the last signal the charger received agrees
  with it.
\<close>

section \<open>Data\<close>

datatype Severity = Low | Medium | High

record error =
  err_type :: string
  err_sub_type :: string
  err_description :: string
  err_message :: string
  err_severity :: Severity
  err_vendor_id :: string

datatype ErrorHandlingEvents =
    ForceErrorShutdown | ForceEmergencyShutdown | AllErrorsPreventingChargingCleared | AllErrorCleared

datatype ShutdownType = Shutdown_None | ErrorShutdown | EmergencyShutdown

datatype eh_signal = signal_error ErrorHandlingEvents | signal_all_errors_cleared

text \<open>The operations of the framework on the errors of the EVSE implementation.\<close>

record 'd error_framework =
  create_error :: "string \<Rightarrow> string \<Rightarrow> string \<Rightarrow> Severity \<Rightarrow> error"
  raise_error :: "error \<Rightarrow> 'd \<Rightarrow> 'd"
  clear_error :: "string \<Rightarrow> string \<Rightarrow> 'd \<Rightarrow> 'd"
  clear_error_type :: "string \<Rightarrow> 'd \<Rightarrow> 'd"
  is_error_active :: "string \<Rightarrow> string \<Rightarrow> 'd \<Rightarrow> bool"
  get_active_errors :: "'d \<Rightarrow> error list"

record 'd errh =
  p_evse :: 'd
  bsp_errors :: "error list"
  connector_lock_errors :: "error list option"
  ac_rcd_errors :: "error list option"
  imd_errors :: "error list option"
  powersupply_errors :: "error list option"
  powermeter_errors :: "error list option"
  over_voltage_monitor_errors :: "error list option"
  inoperative_error_use_vendor_id :: bool
  eh_signals :: "eh_signal list"

type_synonym ('d, 'a) errM = "('d errh, 'a) state"

section \<open>Descriptions\<close>

text \<open>\<^verbatim>\<open>substr(0, n)\<close> and \<^verbatim>\<open>substr(n + 1)\<close> for the first slash are \<open>takeWhile\<close> and the tail of
  \<open>dropWhile\<close>.\<close>

definition generate_description :: "error \<Rightarrow> string" where
  "generate_description e =
     (case dropWhile (\<lambda>c. c \<noteq> CHR ''/'') (err_type e) of
        [] \<Rightarrow> err_description e
      | _ # rest \<Rightarrow>
          (let r = (if rest = [] then takeWhile (\<lambda>c. c \<noteq> CHR ''/'') (err_type e)
                    else if last rest = CHR ''/'' then butlast rest else rest)
           in if err_sub_type e \<noteq> [] then r @ ''/'' @ err_sub_type e else r))"

section \<open>Ignore lists\<close>

definition ignore_evse :: "string list" where
  "ignore_evse = [''evse_manager/Inoperative'']"

definition ignore_bsp :: "string list" where
  "ignore_bsp = [''evse_board_support/MREC3HighTemperature'',
     ''evse_board_support/MREC18CableOverTempDerate'', ''evse_board_support/VendorWarning'']"

definition ignore_connector_lock :: "string list" where
  "ignore_connector_lock = [''connector_lock/VendorWarning'']"

definition ignore_ac_rcd :: "string list" where
  "ignore_ac_rcd = [''ac_rcd/VendorWarning'']"

definition ignore_imd :: "string list" where
  "ignore_imd = [''isolation_monitor/VendorWarning'']"

definition ignore_powersupply :: "string list" where
  "ignore_powersupply = [''power_supply_DC/VendorWarning'']"

definition ignore_powermeter :: "string list" where
  "ignore_powermeter = []"

definition ignore_over_voltage_monitor :: "string list" where
  "ignore_over_voltage_monitor = [''over_voltage_monitor/VendorWarning'']"

section \<open>Operations\<close>

primrec is_fatal :: "error list \<Rightarrow> string list \<Rightarrow> error option" where
  "is_fatal [] ign = None"
| "is_fatal (e # es) ign =
     (if list_all (\<lambda>i. err_type e \<noteq> i) ign then Some e else is_fatal es ign)"

text \<open>A requirement that is not connected is skipped.\<close>

definition is_fatal_req :: "error list option \<Rightarrow> string list \<Rightarrow> error option" where
  "is_fatal_req r ign = (case r of None \<Rightarrow> None | Some es \<Rightarrow> is_fatal es ign)"

definition errors_prevent_charging :: "'d error_framework \<Rightarrow> 'd errh \<Rightarrow> error option" where
  "errors_prevent_charging fw s =
     (case is_fatal (get_active_errors fw (p_evse s)) ignore_evse of Some e \<Rightarrow> Some e | None \<Rightarrow>
     (case is_fatal (bsp_errors s) ignore_bsp of Some e \<Rightarrow> Some e | None \<Rightarrow>
     (case is_fatal_req (connector_lock_errors s) ignore_connector_lock of Some e \<Rightarrow> Some e | None \<Rightarrow>
     (case is_fatal_req (ac_rcd_errors s) ignore_ac_rcd of Some e \<Rightarrow> Some e | None \<Rightarrow>
     (case is_fatal_req (imd_errors s) ignore_imd of Some e \<Rightarrow> Some e | None \<Rightarrow>
     (case is_fatal_req (powersupply_errors s) ignore_powersupply of Some e \<Rightarrow> Some e | None \<Rightarrow>
     (case is_fatal_req (powermeter_errors s) ignore_powermeter of Some e \<Rightarrow> Some e | None \<Rightarrow>
      is_fatal_req (over_voltage_monitor_errors s) ignore_over_voltage_monitor)))))))"

definition eh_signal_out :: "eh_signal \<Rightarrow> ('d, unit) errM" where
  "eh_signal_out g = modify (\<lambda>s. s\<lparr>eh_signals := eh_signals s @ [g]\<rparr>)"

definition on_p_evse :: "('d \<Rightarrow> 'd) \<Rightarrow> ('d, unit) errM" where
  "on_p_evse f = modify (\<lambda>s. s\<lparr>p_evse := f (p_evse s)\<rparr>)"

definition raise_inoperative_error :: "'d error_framework \<Rightarrow> error \<Rightarrow> ('d, unit) errM" where
  "raise_inoperative_error fw caused_by = do {
     s \<leftarrow> State_Monad.get;
     if is_error_active fw ''evse_manager/Inoperative'' '''' (p_evse s) then skip
     else do {
       let error_object = create_error fw ''evse_manager/Inoperative'' '''' (err_type caused_by) High;
       let error_object = error_object\<lparr>err_description := generate_description caused_by\<rparr>;
       let error_object = error_object\<lparr>err_vendor_id :=
         (if inoperative_error_use_vendor_id s \<and> err_vendor_id caused_by \<noteq> []
          then err_vendor_id caused_by else ''EVerest'')\<rparr>;
       on_p_evse (raise_error fw error_object);
       (if err_severity caused_by = High then eh_signal_out (signal_error ForceEmergencyShutdown)
        else eh_signal_out (signal_error ForceErrorShutdown))
     }
   }"

definition clear_inoperative_error :: "'d error_framework \<Rightarrow> ('d, unit) errM" where
  "clear_inoperative_error fw = do {
     s \<leftarrow> State_Monad.get;
     do_if (is_error_active fw ''evse_manager/Inoperative'' '''' (p_evse s)) (do {
       on_p_evse (clear_error_type fw ''evse_manager/Inoperative'');
       eh_signal_out (signal_error AllErrorsPreventingChargingCleared)
     })
   }"

definition number_of_active_errors :: "error list option \<Rightarrow> nat" where
  "number_of_active_errors r = (case r of Some es \<Rightarrow> length es | None \<Rightarrow> 0)"

definition process_error :: "'d error_framework \<Rightarrow> ('d, unit) errM" where
  "process_error fw = do {
     fatal \<leftarrow> gets (errors_prevent_charging fw);
     (case fatal of
        Some e \<Rightarrow> raise_inoperative_error fw e
      | None \<Rightarrow> clear_inoperative_error fw);
     s \<leftarrow> State_Monad.get;
     let error_count = length (get_active_errors fw (p_evse s)) + length (bsp_errors s) +
       number_of_active_errors (connector_lock_errors s) + number_of_active_errors (ac_rcd_errors s) +
       number_of_active_errors (imd_errors s) + number_of_active_errors (powersupply_errors s) +
       number_of_active_errors (powermeter_errors s);
     do_if (error_count = 0) (eh_signal_out signal_all_errors_cleared)
   }"

definition raise_overcurrent_error :: "'d error_framework \<Rightarrow> string \<Rightarrow> ('d, unit) errM" where
  "raise_overcurrent_error fw description = do {
     let error_object = create_error fw ''evse_manager/MREC4OverCurrentFailure'' '''' description High;
     on_p_evse (raise_error fw error_object);
     process_error fw
   }"

definition clear_overcurrent_error :: "'d error_framework \<Rightarrow> ('d, unit) errM" where
  "clear_overcurrent_error fw = do {
     d \<leftarrow> gets p_evse;
     do_if (is_error_active fw ''evse_manager/MREC4OverCurrentFailure'' '''' d)
       (on_p_evse (clear_error fw ''evse_manager/MREC4OverCurrentFailure'' ''''));
     process_error fw
   }"

definition raise_internal_error :: "'d error_framework \<Rightarrow> string \<Rightarrow> ('d, unit) errM" where
  "raise_internal_error fw description = do {
     let error_object = create_error fw ''evse_manager/Internal'' '''' description High;
     on_p_evse (raise_error fw error_object);
     process_error fw
   }"

definition clear_internal_error :: "'d error_framework \<Rightarrow> ('d, unit) errM" where
  "clear_internal_error fw = do {
     d \<leftarrow> gets p_evse;
     do_if (is_error_active fw ''evse_manager/Internal'' '''' d) (do {
       on_p_evse (clear_error_type fw ''evse_manager/Internal'');
       process_error fw
     })
   }"

definition raise_authorization_timeout_error :: "'d error_framework \<Rightarrow> string \<Rightarrow> ('d, unit) errM" where
  "raise_authorization_timeout_error fw description = do {
     let error_object = create_error fw ''evse_manager/MREC9AuthorizationTimeout'' '''' description Medium;
     on_p_evse (raise_error fw error_object);
     process_error fw
   }"

definition clear_authorization_timeout_error :: "'d error_framework \<Rightarrow> ('d, unit) errM" where
  "clear_authorization_timeout_error fw = do {
     d \<leftarrow> gets p_evse;
     do_if (is_error_active fw ''evse_manager/MREC9AuthorizationTimeout'' '''' d) (do {
       on_p_evse (clear_error_type fw ''evse_manager/MREC9AuthorizationTimeout'');
       process_error fw
     })
   }"

definition raise_powermeter_transaction_start_failed_error ::
  "'d error_framework \<Rightarrow> string \<Rightarrow> ('d, unit) errM" where
  "raise_powermeter_transaction_start_failed_error fw description = do {
     let error_object =
       create_error fw ''evse_manager/PowermeterTransactionStartFailed'' '''' description Medium;
     on_p_evse (raise_error fw error_object);
     process_error fw
   }"

definition clear_powermeter_transaction_start_failed_error ::
  "'d error_framework \<Rightarrow> ('d, unit) errM" where
  "clear_powermeter_transaction_start_failed_error fw = do {
     d \<leftarrow> gets p_evse;
     do_if (is_error_active fw ''evse_manager/PowermeterTransactionStartFailed'' '''' d) (do {
       on_p_evse (clear_error_type fw ''evse_manager/PowermeterTransactionStartFailed'');
       process_error fw
     })
   }"

definition raise_isolation_resistance_fault :: "'d error_framework \<Rightarrow> string \<Rightarrow> ('d, unit) errM" where
  "raise_isolation_resistance_fault fw description = do {
     let error_object = create_error fw ''evse_manager/MREC22ResistanceFault'' '''' description Medium;
     on_p_evse (raise_error fw error_object);
     process_error fw
   }"

definition clear_isolation_resistance_fault :: "'d error_framework \<Rightarrow> ('d, unit) errM" where
  "clear_isolation_resistance_fault fw = do {
     d \<leftarrow> gets p_evse;
     do_if (is_error_active fw ''evse_manager/MREC22ResistanceFault'' '''' d) (do {
       on_p_evse (clear_error fw ''evse_manager/MREC22ResistanceFault'' '''');
       process_error fw
     })
   }"

definition raise_cable_check_fault :: "'d error_framework \<Rightarrow> string \<Rightarrow> ('d, unit) errM" where
  "raise_cable_check_fault fw description = do {
     let error_object =
       create_error fw ''evse_manager/MREC11CableCheckFault'' ''Self test failed'' description Medium;
     on_p_evse (raise_error fw error_object);
     process_error fw
   }"

definition clear_cable_check_fault :: "'d error_framework \<Rightarrow> ('d, unit) errM" where
  "clear_cable_check_fault fw = do {
     d \<leftarrow> gets p_evse;
     do_if (is_error_active fw ''evse_manager/MREC11CableCheckFault'' ''Self test failed'' d) (do {
       on_p_evse (clear_error fw ''evse_manager/MREC11CableCheckFault'' ''Self test failed'');
       process_error fw
     })
   }"

section \<open>Runs\<close>

text \<open>The requirements whose errors the constructor subscribes to, and the handlers.\<close>

datatype requirement =
    Req_bsp | Req_connector_lock | Req_ac_rcd | Req_imd | Req_powersupply | Req_powermeter
  | Req_over_voltage_monitor

fun set_req_errors :: "requirement \<Rightarrow> error list \<Rightarrow> 'd errh \<Rightarrow> 'd errh" where
  "set_req_errors Req_bsp es s = s\<lparr>bsp_errors := es\<rparr>"
| "set_req_errors Req_connector_lock es s = s\<lparr>connector_lock_errors := Some es\<rparr>"
| "set_req_errors Req_ac_rcd es s = s\<lparr>ac_rcd_errors := Some es\<rparr>"
| "set_req_errors Req_imd es s = s\<lparr>imd_errors := Some es\<rparr>"
| "set_req_errors Req_powersupply es s = s\<lparr>powersupply_errors := Some es\<rparr>"
| "set_req_errors Req_powermeter es s = s\<lparr>powermeter_errors := Some es\<rparr>"
| "set_req_errors Req_over_voltage_monitor es s = s\<lparr>over_voltage_monitor_errors := Some es\<rparr>"

fun req_connected :: "requirement \<Rightarrow> 'd errh \<Rightarrow> bool" where
  "req_connected Req_bsp s = True"
| "req_connected Req_connector_lock s = (connector_lock_errors s \<noteq> None)"
| "req_connected Req_ac_rcd s = (ac_rcd_errors s \<noteq> None)"
| "req_connected Req_imd s = (imd_errors s \<noteq> None)"
| "req_connected Req_powersupply s = (powersupply_errors s \<noteq> None)"
| "req_connected Req_powermeter s = (powermeter_errors s \<noteq> None)"
| "req_connected Req_over_voltage_monitor s = (over_voltage_monitor_errors s \<noteq> None)"

text \<open>The framework changes the errors of a connected requirement and calls the subscribed handler.\<close>

definition on_req_errors :: "'d error_framework \<Rightarrow> requirement \<Rightarrow> error list \<Rightarrow> ('d, unit) errM" where
  "on_req_errors fw r es = do {
     s \<leftarrow> State_Monad.get;
     do_if (req_connected r s) (do {
       modify (set_req_errors r es);
       process_error fw
     })
   }"

datatype eh_input =
    In_req requirement "error list"
  | In_raise_overcurrent string | In_clear_overcurrent
  | In_raise_internal string | In_clear_internal
  | In_raise_authorization_timeout string | In_clear_authorization_timeout
  | In_raise_powermeter_start string | In_clear_powermeter_start
  | In_raise_isolation_fault string | In_clear_isolation_fault
  | In_raise_cable_check string | In_clear_cable_check

fun eh_handle :: "'d error_framework \<Rightarrow> eh_input \<Rightarrow> ('d, unit) errM" where
  "eh_handle fw (In_req r es) = on_req_errors fw r es"
| "eh_handle fw (In_raise_overcurrent d) = raise_overcurrent_error fw d"
| "eh_handle fw In_clear_overcurrent = clear_overcurrent_error fw"
| "eh_handle fw (In_raise_internal d) = raise_internal_error fw d"
| "eh_handle fw In_clear_internal = clear_internal_error fw"
| "eh_handle fw (In_raise_authorization_timeout d) = raise_authorization_timeout_error fw d"
| "eh_handle fw In_clear_authorization_timeout = clear_authorization_timeout_error fw"
| "eh_handle fw (In_raise_powermeter_start d) = raise_powermeter_transaction_start_failed_error fw d"
| "eh_handle fw In_clear_powermeter_start = clear_powermeter_transaction_start_failed_error fw"
| "eh_handle fw (In_raise_isolation_fault d) = raise_isolation_resistance_fault fw d"
| "eh_handle fw In_clear_isolation_fault = clear_isolation_resistance_fault fw"
| "eh_handle fw (In_raise_cable_check d) = raise_cable_check_fault fw d"
| "eh_handle fw In_clear_cable_check = clear_cable_check_fault fw"

definition eh_run :: "'d error_framework \<Rightarrow> eh_input list \<Rightarrow> 'd errh \<Rightarrow> 'd errh" where
  "eh_run fw inputs s = exec (for_each inputs (eh_handle fw)) s"

section \<open>The framework\<close>

definition framework_ok :: "'d error_framework \<Rightarrow> bool" where
  "framework_ok fw \<longleftrightarrow>
     (\<forall>t u m v. err_type (create_error fw t u m v) = t \<and> err_sub_type (create_error fw t u m v) = u \<and>
        err_severity (create_error fw t u m v) = v) \<and>
     (\<forall>t u d. is_error_active fw t u d \<longleftrightarrow>
        (\<exists>e\<in>set (get_active_errors fw d). err_type e = t \<and> err_sub_type e = u)) \<and>
     (\<forall>e d. set (get_active_errors fw (raise_error fw e d)) =
        (if is_error_active fw (err_type e) (err_sub_type e) d then set (get_active_errors fw d)
         else insert e (set (get_active_errors fw d)))) \<and>
     (\<forall>t u d. set (get_active_errors fw (clear_error fw t u d)) =
        {e \<in> set (get_active_errors fw d). \<not> (err_type e = t \<and> err_sub_type e = u)}) \<and>
     (\<forall>t d. set (get_active_errors fw (clear_error_type fw t d)) =
        {e \<in> set (get_active_errors fw d). \<not> (err_type e = t \<and> err_sub_type e = '''')})"

text \<open>An error database kept as a list, as an instance.\<close>

definition list_framework :: "error list error_framework" where
  "list_framework =
     \<lparr>create_error = (\<lambda>t u m v. \<lparr>err_type = t, err_sub_type = u, err_description = m, err_message = m,
        err_severity = v, err_vendor_id = ''EVerest''\<rparr>),
      raise_error = (\<lambda>e d. if list_ex (\<lambda>x. err_type x = err_type e \<and> err_sub_type x = err_sub_type e) d
        then d else d @ [e]),
      clear_error = (\<lambda>t u d. filter (\<lambda>x. \<not> (err_type x = t \<and> err_sub_type x = u)) d),
      clear_error_type = (\<lambda>t d. filter (\<lambda>x. \<not> (err_type x = t \<and> err_sub_type x = '''')) d),
      is_error_active = (\<lambda>t u d. list_ex (\<lambda>x. err_type x = t \<and> err_sub_type x = u) d),
      get_active_errors = (\<lambda>d. d)\<rparr>"

lemma list_framework_ok: "framework_ok list_framework"
  by (auto simp: framework_ok_def list_framework_def list_ex_iff)

definition errh_init :: "'d \<Rightarrow> bool \<Rightarrow> 'd errh" where
  "errh_init d use_vendor_id =
     \<lparr>p_evse = d, bsp_errors = [], connector_lock_errors = Some [], ac_rcd_errors = Some [],
      imd_errors = Some [], powersupply_errors = Some [], powermeter_errors = Some [],
      over_voltage_monitor_errors = Some [], inoperative_error_use_vendor_id = use_vendor_id,
      eh_signals = []\<rparr>"

section \<open>Which errors prevent charging\<close>

definition req_errors :: "error list option \<Rightarrow> string list \<Rightarrow> (error \<times> string list) list" where
  "req_errors r ign = (case r of None \<Rightarrow> [] | Some es \<Rightarrow> map (\<lambda>e. (e, ign)) es)"

definition all_errors :: "'d error_framework \<Rightarrow> 'd errh \<Rightarrow> (error \<times> string list) list" where
  "all_errors fw s =
     req_errors (Some (get_active_errors fw (p_evse s))) ignore_evse @
     req_errors (Some (bsp_errors s)) ignore_bsp @
     req_errors (connector_lock_errors s) ignore_connector_lock @
     req_errors (ac_rcd_errors s) ignore_ac_rcd @
     req_errors (imd_errors s) ignore_imd @
     req_errors (powersupply_errors s) ignore_powersupply @
     req_errors (powermeter_errors s) ignore_powermeter @
     req_errors (over_voltage_monitor_errors s) ignore_over_voltage_monitor"

definition prevents :: "error \<times> string list \<Rightarrow> bool" where
  "prevents x = (err_type (fst x) \<notin> set (snd x))"

definition fatal_error_active :: "'d error_framework \<Rightarrow> 'd errh \<Rightarrow> bool" where
  "fatal_error_active fw s = list_ex prevents (all_errors fw s)"

abbreviation inoperative :: "'d error_framework \<Rightarrow> 'd errh \<Rightarrow> bool" where
  "inoperative fw s \<equiv> is_error_active fw ''evse_manager/Inoperative'' '''' (p_evse s)"

lemma is_fatal_find: "is_fatal es ign = map_option fst (find prevents (req_errors (Some es) ign))"
  by (induction es) (auto simp: prevents_def list_all_iff req_errors_def)

lemma is_fatal_req_find: "is_fatal_req r ign = map_option fst (find prevents (req_errors r ign))"
  by (cases r) (simp_all add: is_fatal_req_def is_fatal_find, simp add: req_errors_def)

lemma find_append: "find P (xs @ ys) = (case find P xs of Some x \<Rightarrow> Some x | None \<Rightarrow> find P ys)"
  by (induction xs) simp_all

lemma find_list_ex: "list_ex P xs = (find P xs \<noteq> None)"
  by (induction xs) simp_all

lemma first_fatal:
  "errors_prevent_charging fw s = map_option fst (find prevents (all_errors fw s))"
  unfolding errors_prevent_charging_def all_errors_def is_fatal_find is_fatal_req_find find_append
  by (simp split: option.split)

lemma fatal_error_active_iff: "fatal_error_active fw s \<longleftrightarrow> errors_prevent_charging fw s \<noteq> None"
  by (simp add: fatal_error_active_def first_fatal find_list_ex)

text \<open>Raising and clearing the Inoperative error does not change whether charging is prevented.\<close>

lemma fatal_same_evse:
  assumes "{e \<in> set (get_active_errors fw d). err_type e \<noteq> ''evse_manager/Inoperative''} =
    {e \<in> set (get_active_errors fw (p_evse s)). err_type e \<noteq> ''evse_manager/Inoperative''}"
  shows "fatal_error_active fw (s\<lparr>p_evse := d, eh_signals := g\<rparr>) = fatal_error_active fw s"
proof -
  have "list_ex prevents (req_errors (Some (get_active_errors fw d)) ignore_evse) =
      list_ex prevents (req_errors (Some (get_active_errors fw (p_evse s))) ignore_evse)"
    using assms
    by (simp add: req_errors_def list_ex_iff prevents_def ignore_evse_def) blast
  then show ?thesis
    by (simp add: fatal_error_active_def all_errors_def)
qed

section \<open>Processing the errors\<close>

definition blocked_by :: "bool \<Rightarrow> eh_signal \<Rightarrow> bool" where
  "blocked_by b g = (case g of
     signal_error ForceErrorShutdown \<Rightarrow> True
   | signal_error ForceEmergencyShutdown \<Rightarrow> True
   | signal_error AllErrorsPreventingChargingCleared \<Rightarrow> False
   | _ \<Rightarrow> b)"

text \<open>What a receiver of the signals knows: the last of the signals about charging.\<close>

definition charger_blocked :: "eh_signal list \<Rightarrow> bool" where
  "charger_blocked gs = foldl blocked_by False gs"

definition no_counted_errors :: "'d error_framework \<Rightarrow> 'd errh \<Rightarrow> bool" where
  "no_counted_errors fw s \<longleftrightarrow> get_active_errors fw (p_evse s) = [] \<and> bsp_errors s = [] \<and>
     (\<forall>r\<in>{connector_lock_errors s, ac_rcd_errors s, imd_errors s, powersupply_errors s,
            powermeter_errors s}. r = None \<or> r = Some [])"

definition error_signals :: "'d error_framework \<Rightarrow> 'd errh \<Rightarrow> eh_signal list" where
  "error_signals fw s =
     (case errors_prevent_charging fw s of
        Some e \<Rightarrow> (if inoperative fw s then []
                   else [signal_error (if err_severity e = High then ForceEmergencyShutdown
                                       else ForceErrorShutdown)])
      | None \<Rightarrow> (if inoperative fw s then [signal_error AllErrorsPreventingChargingCleared] else []))"

definition update_inoperative :: "'d error_framework \<Rightarrow> 'd errh \<Rightarrow> 'd errh" where
  "update_inoperative fw s =
     exec (case errors_prevent_charging fw s of
        Some e \<Rightarrow> raise_inoperative_error fw e | None \<Rightarrow> clear_inoperative_error fw) s"

lemmas eh_defs = eh_signal_out_def on_p_evse_def raise_inoperative_error_def
  clear_inoperative_error_def

lemma number_of_active_errors_0: "number_of_active_errors r = 0 \<longleftrightarrow> r = None \<or> r = Some []"
  by (simp add: number_of_active_errors_def split: option.split)

lemma exec_process_error:
  "exec (process_error fw) s =
     (let s' = update_inoperative fw s in
      s'\<lparr>eh_signals := eh_signals s' @
        (if no_counted_errors fw s' then [signal_all_errors_cleared] else [])\<rparr>)"
  by (simp add: process_error_def update_inoperative_def run_simps Let_def eh_signal_out_def
      no_counted_errors_def number_of_active_errors_0)

lemma update_inoperative_signals:
  "eh_signals (update_inoperative fw s) = eh_signals s @ error_signals fw s"
  by (simp add: update_inoperative_def error_signals_def eh_defs run_simps Let_def
      split: option.split)

lemma framework_laws:
  assumes "framework_ok fw"
  shows "err_type (create_error fw t u m v) = t" "err_sub_type (create_error fw t u m v) = u"
    "err_severity (create_error fw t u m v) = v"
    "is_error_active fw t u d \<longleftrightarrow>
      (\<exists>e\<in>set (get_active_errors fw d). err_type e = t \<and> err_sub_type e = u)"
    "set (get_active_errors fw (raise_error fw e d)) =
      (if is_error_active fw (err_type e) (err_sub_type e) d then set (get_active_errors fw d)
       else insert e (set (get_active_errors fw d)))"
    "set (get_active_errors fw (clear_error fw t u d)) =
      {e \<in> set (get_active_errors fw d). \<not> (err_type e = t \<and> err_sub_type e = u)}"
    "set (get_active_errors fw (clear_error_type fw t d)) =
      {e \<in> set (get_active_errors fw d). \<not> (err_type e = t \<and> err_sub_type e = '''')}"
  using assms by (simp_all add: framework_ok_def)

lemma raise_makes_active:
  "framework_ok fw \<Longrightarrow> is_error_active fw (err_type e) (err_sub_type e) (raise_error fw e d)"
  by (auto simp: framework_laws)

lemma clear_makes_inactive:
  "framework_ok fw \<Longrightarrow> \<not> is_error_active fw t '''' (clear_error_type fw t d)"
  by (auto simp: framework_laws)

lemma update_inoperative_active:
  assumes "framework_ok fw"
  shows "inoperative fw (update_inoperative fw s) \<longleftrightarrow> errors_prevent_charging fw s \<noteq> None"
proof (cases "errors_prevent_charging fw s")
  case (Some e)
  define obj where "obj = create_error fw ''evse_manager/Inoperative'' '''' (err_type e) High"
  have "err_type obj = ''evse_manager/Inoperative''" "err_sub_type obj = ''''"
    using assms by (simp_all add: obj_def framework_laws)
  then have "is_error_active fw ''evse_manager/Inoperative'' ''''
      (raise_error fw (obj\<lparr>err_description := x, err_vendor_id := y\<rparr>) d)" for x y d
    using raise_makes_active [OF assms, of "obj\<lparr>err_description := x, err_vendor_id := y\<rparr>" d]
    by simp
  with Some show ?thesis
    by (simp add: update_inoperative_def eh_defs run_simps Let_def obj_def [symmetric])
next
  case None
  with clear_makes_inactive [OF assms] show ?thesis
    by (simp add: update_inoperative_def eh_defs run_simps)
qed

lemma raise_keeps_others:
  assumes "framework_ok fw" and "err_type e = ''evse_manager/Inoperative''"
  shows "{x \<in> set (get_active_errors fw (raise_error fw e d)). err_type x \<noteq> ''evse_manager/Inoperative''}
    = {x \<in> set (get_active_errors fw d). err_type x \<noteq> ''evse_manager/Inoperative''}"
  using assms(2) by (auto simp: framework_laws(5) [OF assms(1)])

lemma clear_keeps_others:
  assumes "framework_ok fw"
  shows "{x \<in> set (get_active_errors fw (clear_error_type fw ''evse_manager/Inoperative'' d)).
      err_type x \<noteq> ''evse_manager/Inoperative''}
    = {x \<in> set (get_active_errors fw d). err_type x \<noteq> ''evse_manager/Inoperative''}"
  by (auto simp: framework_laws(7) [OF assms])

lemmas fatal_after_raise = fatal_same_evse [OF raise_keeps_others]

lemmas fatal_after_clear = fatal_same_evse [OF clear_keeps_others]

lemma update_inoperative_fatal:
  assumes "framework_ok fw"
  shows "fatal_error_active fw (update_inoperative fw s) = fatal_error_active fw s"
proof (cases "errors_prevent_charging fw s")
  case (Some e)
  show ?thesis
  proof (cases "inoperative fw s")
    case True
    with Some show ?thesis by (simp add: update_inoperative_def eh_defs run_simps)
  next
    case False
    with Some show ?thesis
      by (simp add: update_inoperative_def eh_defs run_simps Let_def fatal_after_raise [OF assms]
          framework_laws(1) [OF assms])
  qed
next
  case None
  then show ?thesis
    by (simp add: update_inoperative_def eh_defs run_simps fatal_after_clear [OF assms])
qed

section \<open>The invariant of the runs\<close>

definition eh_inv :: "'d error_framework \<Rightarrow> 'd errh \<Rightarrow> bool" where
  "eh_inv fw s \<longleftrightarrow> (inoperative fw s \<longleftrightarrow> fatal_error_active fw s) \<and>
     (charger_blocked (eh_signals s) \<longleftrightarrow> inoperative fw s)"

definition eh_start :: "'d error_framework \<Rightarrow> 'd errh \<Rightarrow> bool" where
  "eh_start fw s \<longleftrightarrow> get_active_errors fw (p_evse s) = [] \<and> \<not> fatal_error_active fw s \<and>
     eh_signals s = []"

lemma charger_blocked_append [simp]:
  "charger_blocked (gs @ hs) = foldl blocked_by (charger_blocked gs) hs"
  by (simp add: charger_blocked_def)

lemma fatal_ignores_signals [simp]:
  "fatal_error_active fw (s\<lparr>eh_signals := g\<rparr>) = fatal_error_active fw s"
  by (simp add: fatal_error_active_def all_errors_def)

lemma blocked_by_error_signals:
  assumes "b \<longleftrightarrow> inoperative fw s"
  shows "foldl blocked_by b (error_signals fw s) \<longleftrightarrow> errors_prevent_charging fw s \<noteq> None"
  using assms by (auto simp: error_signals_def blocked_by_def split: option.split)

text \<open>Whatever changed the errors before, processing them restores the invariant, provided that the
  signals agree with the Inoperative error, which only this class raises and clears.\<close>

lemma process_error_inv:
  assumes "framework_ok fw" and "charger_blocked (eh_signals s) \<longleftrightarrow> inoperative fw s"
  shows "eh_inv fw (exec (process_error fw) s)"
  using blocked_by_error_signals [OF assms(2)]
  by (simp add: exec_process_error eh_inv_def Let_def update_inoperative_active [OF assms(1)]
      update_inoperative_fatal [OF assms(1)] update_inoperative_signals
      fatal_error_active_iff [symmetric] blocked_by_def del: not_None_eq)

lemma raise_other_inoperative:
  assumes "framework_ok fw" and "t \<noteq> ''evse_manager/Inoperative''"
  shows "is_error_active fw ''evse_manager/Inoperative'' '''' (raise_error fw (create_error fw t u m v) d)
    = is_error_active fw ''evse_manager/Inoperative'' '''' d"
  using assms(2) by (auto simp: framework_laws [OF assms(1)])

lemma clear_other_inoperative:
  assumes "framework_ok fw" and "t \<noteq> ''evse_manager/Inoperative''"
  shows "is_error_active fw ''evse_manager/Inoperative'' '''' (clear_error fw t u d)
      = is_error_active fw ''evse_manager/Inoperative'' '''' d"
    and "is_error_active fw ''evse_manager/Inoperative'' '''' (clear_error_type fw t d)
      = is_error_active fw ''evse_manager/Inoperative'' '''' d"
  using assms(2) by (auto simp: framework_laws [OF assms(1)])

lemmas eh_operation_defs = raise_overcurrent_error_def clear_overcurrent_error_def
  raise_internal_error_def clear_internal_error_def raise_authorization_timeout_error_def
  clear_authorization_timeout_error_def raise_powermeter_transaction_start_failed_error_def
  clear_powermeter_transaction_start_failed_error_def raise_isolation_resistance_fault_def
  clear_isolation_resistance_fault_def raise_cable_check_fault_def clear_cable_check_fault_def

lemma set_req_errors_frame [simp]:
  "p_evse (set_req_errors r es s) = p_evse s" "eh_signals (set_req_errors r es s) = eh_signals s"
  by (cases r; simp)+

lemma eh_handle_inv:
  assumes "framework_ok fw" and "eh_inv fw s"
  shows "eh_inv fw (exec (eh_handle fw i) s)"
proof -
  note ops = raise_other_inoperative [OF assms(1)] clear_other_inoperative [OF assms(1)]
  have agree: "charger_blocked (eh_signals s) \<longleftrightarrow> inoperative fw s"
    using assms(2) by (simp add: eh_inv_def)
  show ?thesis
  proof (cases i)
    case (In_req r es)
    with agree assms show ?thesis
      by (simp add: on_req_errors_def run_simps process_error_inv)
  qed (use agree assms(2) in \<open>simp_all add: eh_operation_defs on_p_evse_def run_simps Let_def ops
      process_error_inv [OF assms(1)]\<close>)
qed

lemma eh_run_inv:
  assumes "framework_ok fw" and "eh_inv fw s"
  shows "eh_inv fw (eh_run fw inputs s)"
  using assms(2) unfolding eh_run_def
  by (induction inputs arbitrary: s) (simp_all add: run_simps eh_handle_inv [OF assms(1)])

lemma eh_start_inv: "framework_ok fw \<Longrightarrow> eh_start fw s \<Longrightarrow> eh_inv fw s"
  by (simp add: eh_start_def eh_inv_def charger_blocked_def framework_laws(4))

lemma errh_init_start: "eh_start list_framework (errh_init [] v)"
  by (simp add: eh_start_def errh_init_def list_framework_def fatal_error_active_def all_errors_def
      req_errors_def)

lemma dropWhile_to_slash:
  "CHR ''/'' \<notin> set ns \<Longrightarrow> dropWhile (\<lambda>c. c \<noteq> CHR ''/'') (ns @ CHR ''/'' # r) = CHR ''/'' # r"
  by (induction ns) auto

section \<open>Properties\<close>

text \<open>C18. After any sequence of raised and cleared errors, of the EVSE itself and of its
  requirements, that starts without errors, the error Inoperative is active exactly when an error
  is active that is not on the ignore list of its source, and the last signal sent to the charger
  tells the same.\<close>

theorem inoperative_iff_fatal:
  assumes "framework_ok fw" and "eh_start fw s" and "s' = eh_run fw inputs s"
  shows "(inoperative fw s' \<longleftrightarrow> (\<exists>x\<in>set (all_errors fw s'). err_type (fst x) \<notin> set (snd x))) \<and>
    (charger_blocked (eh_signals s') \<longleftrightarrow> inoperative fw s')"
  using eh_run_inv [OF assms(1) eh_start_inv [OF assms(1,2)], of inputs] assms(3)
  by (auto simp: eh_inv_def fatal_error_active_def list_ex_iff prevents_def)

theorem inoperative_iff_fatal_witness:
  "let s' = eh_run list_framework [In_raise_internal ''meter''] (errh_init [] False) in
     charger_blocked (eh_signals s') \<longleftrightarrow> inoperative list_framework s'"
  using inoperative_iff_fatal [OF list_framework_ok errh_init_start refl]
  by (simp add: Let_def)

text \<open>The signals of one processing of the errors: a shutdown is signalled only when charging
  was not already prevented, as an emergency exactly when the first error found has severity High;
  the end of the prevention is signalled once; and the OCPP signal "all errors cleared" follows
  exactly when no error of the counted sources is active any more.\<close>

theorem process_error_signals:
  "eh_signals (exec (process_error fw) s) = eh_signals s @
    (case errors_prevent_charging fw s of
       Some e \<Rightarrow> (if inoperative fw s then []
                  else [signal_error (if err_severity e = High then ForceEmergencyShutdown
                                      else ForceErrorShutdown)])
     | None \<Rightarrow> (if inoperative fw s then [signal_error AllErrorsPreventingChargingCleared] else []))
    @ (if no_counted_errors fw (exec (process_error fw) s) then [signal_all_errors_cleared] else [])"
  by (simp add: exec_process_error Let_def update_inoperative_signals error_signals_def
      no_counted_errors_def)

text \<open>The error that is reported as the cause is the first active error, in the order EVSE,
  board, connector lock, RCD, isolation monitor, power supply, power meter, over voltage monitor,
  that is not on the ignore list of its source.\<close>

theorem errors_prevent_charging_first:
  "errors_prevent_charging fw s =
     map_option fst (find (\<lambda>x. err_type (fst x) \<notin> set (snd x)) (all_errors fw s))"
  by (simp add: first_fatal prevents_def [abs_def])

text \<open>While the error Inoperative is active, an over current failure, which the code classifies
  as an emergency, is raised but nothing is signalled: a shutdown that began as an error shutdown is
  not turned into an emergency shutdown.\<close>

theorem overcurrent_not_escalated:
  assumes "framework_ok fw" and "inoperative fw s"
  shows "let s' = exec (raise_overcurrent_error fw description) s in
    eh_signals s' = eh_signals s \<and>
    is_error_active fw ''evse_manager/MREC4OverCurrentFailure'' '''' (p_evse s')"
proof -
  let ?e = "create_error fw ''evse_manager/MREC4OverCurrentFailure'' '''' description High"
  define s1 where "s1 = s\<lparr>p_evse := raise_error fw ?e (p_evse s)\<rparr>"
  have act: "is_error_active fw ''evse_manager/MREC4OverCurrentFailure'' '''' (p_evse s1)"
    using raise_makes_active [OF assms(1), of ?e] by (simp add: s1_def framework_laws [OF assms(1)])
  then obtain x where x: "x \<in> set (get_active_errors fw (p_evse s1))"
      "err_type x = ''evse_manager/MREC4OverCurrentFailure''"
    by (auto simp: framework_laws(4) [OF assms(1)])
  have "(x, ignore_evse) \<in> set (all_errors fw s1)"
    using x(1) by (simp add: all_errors_def req_errors_def)
  moreover have "prevents (x, ignore_evse)"
    using x(2) by (simp add: prevents_def ignore_evse_def)
  ultimately have "fatal_error_active fw s1"
    by (auto simp: fatal_error_active_def list_ex_iff)
  then obtain e where "errors_prevent_charging fw s1 = Some e"
    by (auto simp: fatal_error_active_iff)
  moreover have "inoperative fw s1"
    using assms by (simp add: s1_def raise_other_inoperative)
  ultimately have "update_inoperative fw s1 = s1"
    by (simp add: update_inoperative_def raise_inoperative_error_def run_simps)
  moreover have "\<not> no_counted_errors fw s1"
    using x by (auto simp: no_counted_errors_def)
  ultimately show ?thesis
    using act
    by (simp add: raise_overcurrent_error_def on_p_evse_def run_simps exec_process_error Let_def
        s1_def [symmetric]) (simp add: s1_def)
qed

theorem overcurrent_not_escalated_witness:
  "let s = errh_init [create_error list_framework ''evse_manager/Inoperative'' '''' ''IMD'' High] False in
     eh_signals (exec (raise_overcurrent_error list_framework ''60 A'') s) = []"
  using overcurrent_not_escalated [OF list_framework_ok,
    of "errh_init [create_error list_framework ''evse_manager/Inoperative'' '''' ''IMD'' High] False"
      "''60 A''"]
  by (simp add: Let_def errh_init_def list_framework_def)

text \<open>The signal "all errors cleared" is also sent while a warning of the over voltage monitor
  is still active: that source is not counted.\<close>

theorem all_cleared_with_over_voltage_warning:
  assumes "framework_ok fw" and "get_active_errors fw (p_evse s) = []" and "bsp_errors s = []"
    and "connector_lock_errors s = None" and "ac_rcd_errors s = None" and "imd_errors s = None"
    and "powersupply_errors s = None" and "powermeter_errors s = None"
    and "over_voltage_monitor_errors s = Some [w]"
    and "err_type w = ''over_voltage_monitor/VendorWarning''"
  shows "eh_signals (exec (process_error fw) s) = eh_signals s @ [signal_all_errors_cleared]"
proof -
  have "errors_prevent_charging fw s = None"
    using assms
    by (simp add: errors_prevent_charging_def is_fatal_req_def ignore_over_voltage_monitor_def)
  moreover have "\<not> inoperative fw s"
    using assms by (simp add: framework_laws(4))
  ultimately have "update_inoperative fw s = s"
    by (simp add: update_inoperative_def clear_inoperative_error_def run_simps)
  with assms show ?thesis
    by (simp add: exec_process_error no_counted_errors_def)
qed

theorem all_cleared_with_over_voltage_warning_witness:
  "let w = create_error list_framework ''over_voltage_monitor/VendorWarning'' '''' ''hot'' Low;
       s = \<lparr>p_evse = [], bsp_errors = [], connector_lock_errors = None, ac_rcd_errors = None,
            imd_errors = None, powersupply_errors = None, powermeter_errors = None,
            over_voltage_monitor_errors = Some [w], inoperative_error_use_vendor_id = False,
            eh_signals = []\<rparr> in
     eh_signals (exec (process_error list_framework) s) = [signal_all_errors_cleared]"
  using all_cleared_with_over_voltage_warning [OF list_framework_ok, where s = "\<lparr>p_evse = [],
    bsp_errors = [], connector_lock_errors = None, ac_rcd_errors = None,
    imd_errors = None, powersupply_errors = None, powermeter_errors = None,
    over_voltage_monitor_errors =
      Some [create_error list_framework ''over_voltage_monitor/VendorWarning'' '''' ''hot'' Low],
    inoperative_error_use_vendor_id = False, eh_signals = []\<rparr>"]
  by (simp add: Let_def list_framework_def)

text \<open>The description of an Inoperative error is the type of its cause without the name space
  before the first slash and without a slash at its end, followed by the sub type if there is one.\<close>

theorem generate_description_of_type:
  assumes "err_type e = ns @ ''/'' @ name" and "CHR ''/'' \<notin> set ns" and "name \<noteq> []"
    and "last name \<noteq> CHR ''/''"
  shows "generate_description e =
      name @ (if err_sub_type e = [] then [] else ''/'' @ err_sub_type e) \<and>
    generate_description (e\<lparr>err_type := err_type e @ ''/''\<rparr>) = generate_description e"
  using assms by (simp add: generate_description_def dropWhile_to_slash)

theorem generate_description_of_type_witness:
  "generate_description (create_error list_framework ''evse_manager/Internal'' '''' ''x'' High)
     = ''Internal''"
  using generate_description_of_type [of "create_error list_framework ''evse_manager/Internal'' ''''
    ''x'' High" "''evse_manager''" "''Internal''"]
  by (simp add: list_framework_def)

end
