(* ===== verification/Enable_Table.thy ===== *)
theory Enable_Table
  imports Prelude
begin

text \<open>
  The table of the sources that enable and disable the charger: the type
  \<^verbatim>\<open>EnableDisableSource\<close> and the methods \<^verbatim>\<open>enable_disable_source_table_update\<close> and
  \<^verbatim>\<open>parse_enable_disable_source_table\<close> of \<^verbatim>\<open>modules/EVSE/EvseManager/Charger.cpp\<close>, as
  functions on the table.

  The lemmas give the meaning of the walk through the table: the decision is made by the entries
  with the smallest priority number among those that are not unassigned, and among those
  "disable" wins; it does not depend on the order of the entries.  The table keeps one entry per
  source.
\<close>

section \<open>Data\<close>

datatype Enable_source =
    Unspecified | LocalAPI | LocalKeyLock | ServiceTechnician | RemoteKeyLock | MobileApp
  | FirmwareUpdate | CSMS

datatype Enable_state = Unassigned | Disable | Enable

record EnableDisableSource =
  enable_source :: Enable_source
  enable_state :: Enable_state
  enable_priority :: int

definition default_source :: EnableDisableSource where
  "default_source = \<lparr>enable_source = Unspecified, enable_state = Unassigned, enable_priority = 10000\<rparr>"

section \<open>Operations\<close>

primrec table_update :: "EnableDisableSource \<Rightarrow> EnableDisableSource list \<Rightarrow> EnableDisableSource list" where
  "table_update source [] = [source]"
| "table_update source (entry # table) =
     (if enable_source entry = enable_source source then source # table
      else entry # table_update source table)"

text \<open>One step of the walk: the pair of \<^verbatim>\<open>is_enabled\<close> and \<^verbatim>\<open>winning_source\<close>.\<close>

definition parse_entry ::
  "EnableDisableSource \<Rightarrow> bool \<times> EnableDisableSource \<Rightarrow> bool \<times> EnableDisableSource" where
  "parse_entry entry w = (case w of (is_enabled, winning) \<Rightarrow>
     if enable_state entry = Unassigned then (is_enabled, winning)
     else if enable_state winning = Unassigned then
       (if enable_state entry = Disable then (False, entry) else (True, entry))
     else if enable_priority entry = enable_priority winning then
       (if enable_state entry = Disable then (False, entry) else (is_enabled, winning))
     else if enable_priority entry < enable_priority winning then
       (if enable_state entry = Disable then (False, entry) else (True, entry))
     else (is_enabled, winning))"

definition parse_table :: "EnableDisableSource list \<Rightarrow> bool \<times> EnableDisableSource" where
  "parse_table table = fold parse_entry table (True, default_source)"

section \<open>The decision\<close>

definition assigned :: "EnableDisableSource \<Rightarrow> bool" where
  "assigned e = (enable_state e \<noteq> Unassigned)"

text \<open>\<open>e\<close> beats \<open>f\<close>: a smaller number, or the same number and "disable" against "enable".\<close>

definition beats :: "EnableDisableSource \<Rightarrow> EnableDisableSource \<Rightarrow> bool" where
  "beats e f \<longleftrightarrow> enable_priority e < enable_priority f \<or>
     (enable_priority e = enable_priority f \<and> enable_state e = Disable \<and> enable_state f \<noteq> Disable)"

definition unbeaten :: "EnableDisableSource list \<Rightarrow> EnableDisableSource \<Rightarrow> bool" where
  "unbeaten table w = list_all (\<lambda>e. assigned e \<longrightarrow> \<not> beats e w) table"

definition wins :: "EnableDisableSource list \<Rightarrow> bool \<times> EnableDisableSource \<Rightarrow> bool" where
  "wins table w \<longleftrightarrow>
     (if list_ex assigned table then
        snd w \<in> set table \<and> assigned (snd w) \<and> fst w = (enable_state (snd w) = Enable) \<and>
        unbeaten table (snd w)
      else fst w \<and> snd w = default_source)"

lemma unbeaten_snoc [simp]:
  "unbeaten (table @ [entry]) w \<longleftrightarrow> unbeaten table w \<and> (assigned entry \<longrightarrow> \<not> beats entry w)"
  by (simp add: unbeaten_def)

lemma unbeaten_replace:
  assumes "unbeaten table w" and "enable_priority v \<le> enable_priority w"
    and "enable_priority v = enable_priority w \<longrightarrow> enable_state v = Disable"
  shows "unbeaten table v"
  using assms by (auto simp: unbeaten_def beats_def list_all_iff)

lemma unbeaten_unassigned: "\<not> list_ex assigned table \<Longrightarrow> unbeaten table w"
  by (auto simp: unbeaten_def list_ex_iff list_all_iff)

definition replaces :: "EnableDisableSource \<Rightarrow> EnableDisableSource \<Rightarrow> bool" where
  "replaces e w \<longleftrightarrow> enable_priority e < enable_priority w \<or>
     (enable_priority e = enable_priority w \<and> enable_state e = Disable)"

lemma parse_entry_assigned:
  assumes "assigned entry" and "assigned (snd w)"
  shows "parse_entry entry w = (if replaces entry (snd w) then (enable_state entry = Enable, entry) else w)"
  using assms
  by (cases w; cases "enable_state entry") (simp_all add: parse_entry_def assigned_def replaces_def)

lemma wins_parse_entry:
  assumes "wins table w"
  shows "wins (table @ [entry]) (parse_entry entry w)"
proof (cases "assigned entry")
  case False
  then have "parse_entry entry w = w"
    by (cases w) (simp add: parse_entry_def assigned_def)
  with False assms show ?thesis by (simp add: wins_def)
next
  case True
  show ?thesis
  proof (cases "list_ex assigned table")
    case False
    with assms have "w = (True, default_source)" by (cases w) (simp add: wins_def)
    then have "parse_entry entry w = (enable_state entry = Enable, entry)"
      using True by (cases "enable_state entry")
        (simp_all add: parse_entry_def assigned_def default_source_def)
    with True unbeaten_unassigned [OF False] show ?thesis by (simp add: wins_def beats_def)
  next
    case some: True
    with assms have w: "snd w \<in> set table" "assigned (snd w)" "fst w = (enable_state (snd w) = Enable)"
        "unbeaten table (snd w)"
      by (simp_all add: wins_def)
    show ?thesis
    proof (cases "replaces entry (snd w)")
      case new: True
      have "unbeaten table entry"
        by (rule unbeaten_replace [OF w(4)]) (use new in \<open>auto simp: replaces_def\<close>)
      with new True w(2) show ?thesis
        by (simp add: wins_def beats_def parse_entry_assigned)
    next
      case False
      with True some w show ?thesis
        by (auto simp: wins_def parse_entry_assigned replaces_def beats_def)
    qed
  qed
qed

lemma parse_table_wins: "wins table (parse_table table)"
proof (induction table rule: rev_induct)
  case Nil
  show ?case by (simp add: wins_def parse_table_def)
next
  case (snoc entry table)
  then show ?case
    using wins_parse_entry [of table "parse_table table" entry] by (simp add: parse_table_def)
qed

lemma wins_enabled_iff:
  assumes "wins table (en, win)"
  shows "en \<longleftrightarrow> (\<forall>d\<in>set table. enable_state d = Disable \<longrightarrow>
    (\<exists>e\<in>set table. enable_state e = Enable \<and> enable_priority e < enable_priority d))"
proof (cases "list_ex assigned table")
  case True
  with assms have win: "win \<in> set table" "enable_state win \<noteq> Unassigned"
      "en = (enable_state win = Enable)"
    and unb: "\<And>e. e \<in> set table \<Longrightarrow> enable_state e \<noteq> Unassigned \<Longrightarrow> \<not> beats e win"
    by (auto simp: wins_def assigned_def unbeaten_def list_all_iff)
  show ?thesis
  proof (cases "enable_state win")
    case Disable
    moreover have "\<not> enable_priority e < enable_priority win" if "e \<in> set table" "enable_state e = Enable" for e
      using unb [OF that(1)] that(2) by (simp add: beats_def)
    ultimately show ?thesis using win by auto
  next
    case Enable
    moreover have "enable_priority win < enable_priority d" if "d \<in> set table" "enable_state d = Disable" for d
      using unb [OF that(1)] that(2) Enable by (simp add: beats_def)
    ultimately show ?thesis using win by auto
  qed (use win in simp)
next
  case False
  then show ?thesis
    using assms by (auto simp: wins_def list_ex_iff assigned_def)
qed

lemma parse_table_enabled_iff:
  "fst (parse_table table) \<longleftrightarrow> (\<forall>d\<in>set table. enable_state d = Disable \<longrightarrow>
    (\<exists>e\<in>set table. enable_state e = Enable \<and> enable_priority e < enable_priority d))"
  using wins_enabled_iff [of table "fst (parse_table table)" "snd (parse_table table)"]
    parse_table_wins [of table]
  by simp

section \<open>One entry per source\<close>

definition lookup :: "EnableDisableSource list \<Rightarrow> Enable_source \<Rightarrow> EnableDisableSource option" where
  "lookup table src = find (\<lambda>e. enable_source e = src) table"

definition table_ok :: "EnableDisableSource list \<Rightarrow> bool" where
  "table_ok table = distinct (map enable_source table)"

lemma sources_update:
  "set (map enable_source (table_update source table)) =
     insert (enable_source source) (set (map enable_source table))"
  by (induction table) auto

lemma table_ok_update: "table_ok table \<Longrightarrow> table_ok (table_update source table)"
proof (induction table)
  case (Cons e table)
  then show ?case
    using sources_update [of source table] by (auto simp: table_ok_def)
qed (simp add: table_ok_def)

lemma lookup_update:
  "lookup (table_update source table) src =
     (if src = enable_source source then Some source else lookup table src)"
  by (induction table) (auto simp: lookup_def)

section \<open>Interface of a keyed store\<close>

text \<open>A store with one value per key: what a lookup returns after an update.\<close>

locale keyed_store =
  fixes upd :: "'v \<Rightarrow> 't \<Rightarrow> 't" and look :: "'t \<Rightarrow> 'k \<Rightarrow> 'v option" and key :: "'v \<Rightarrow> 'k"
  assumes look_upd: "look (upd v t) k = (if k = key v then Some v else look t k)"
begin

lemma look_fold:
  "look (fold upd vs t) k =
     (case find (\<lambda>v. key v = k) (rev vs) of Some v \<Rightarrow> Some v | None \<Rightarrow> look t k)"
proof (induction vs rule: rev_induct)
  case (snoc v vs)
  then show ?case by (simp add: look_upd)
qed simp

end

interpretation tab: keyed_store table_update lookup enable_source
  by unfold_locales (rule lookup_update)

definition last_command :: "EnableDisableSource list \<Rightarrow> Enable_source \<Rightarrow> EnableDisableSource option" where
  "last_command cmds src = find (\<lambda>c. enable_source c = src) (rev cmds)"

lemma table_ok_fold: "table_ok table \<Longrightarrow> table_ok (fold table_update cmds table)"
  by (induction cmds arbitrary: table) (simp_all add: table_ok_update)

lemma lookup_Some: "lookup table src = Some e \<Longrightarrow> e \<in> set table \<and> enable_source e = src"
  by (auto simp: lookup_def find_Some_iff)

lemma lookup_Nil [simp]: "lookup [] src = None"
  by (simp add: lookup_def)

lemma lookup_set: "table_ok table \<Longrightarrow> e \<in> set table \<longleftrightarrow> lookup table (enable_source e) = Some e"
proof (induction table)
  case (Cons x table)
  have "lookup (x # table) src = (if enable_source x = src then Some x else lookup table src)" for src
    by (simp add: lookup_def)
  with Cons show ?case
    by (auto simp: table_ok_def)
qed simp

lemma last_command_source: "last_command cmds src = Some c \<Longrightarrow> enable_source c = src"
  by (auto simp: last_command_def find_Some_iff)

lemma set_table_of_commands:
  "set (fold table_update cmds []) = {c. \<exists>src. last_command cmds src = Some c}"
proof -
  have ok: "table_ok (fold table_update cmds [])"
    by (rule table_ok_fold) (simp add: table_ok_def)
  have "e \<in> set (fold table_update cmds []) \<longleftrightarrow> last_command cmds (enable_source e) = Some e" for e
    by (simp add: lookup_set [OF ok] tab.look_fold last_command_def split: option.split)
  then show ?thesis
    using last_command_source by fastforce
qed

section \<open>Properties\<close>

text \<open>C22. After any sequence of commands the table enables the charger exactly when every source
  whose last command is "disable" is overruled by a source whose last command is "enable" with a
  smaller priority number; earlier commands of a source do not count.\<close>

theorem enabled_by_last_commands:
  "fst (parse_table (fold table_update cmds [])) \<longleftrightarrow>
     (\<forall>src d. last_command cmds src = Some d \<and> enable_state d = Disable \<longrightarrow>
        (\<exists>src' e. last_command cmds src' = Some e \<and> enable_state e = Enable \<and>
           enable_priority e < enable_priority d))"
  unfolding parse_table_enabled_iff set_table_of_commands Ball_def Bex_def mem_Collect_eq by blast

theorem enabled_by_last_commands_witness:
  "let d = \<lparr>enable_source = LocalAPI, enable_state = Disable, enable_priority = 42\<rparr>;
       e = \<lparr>enable_source = LocalKeyLock, enable_state = Enable, enable_priority = 0\<rparr> in
   fst (parse_table (fold table_update [d, e] [])) \<longleftrightarrow>
     (\<exists>src' x. last_command [d, e] src' = Some x \<and> enable_state x = Enable \<and> enable_priority x < 42)"
proof -
  let ?d = "\<lparr>enable_source = LocalAPI, enable_state = Disable, enable_priority = 42\<rparr>"
  let ?e = "\<lparr>enable_source = LocalKeyLock, enable_state = Enable, enable_priority = 0\<rparr>"
  have "last_command [?d, ?e] src = Some x \<and> enable_state x = Disable \<longleftrightarrow> src = LocalAPI \<and> x = ?d" for src x
    by (auto simp: last_command_def)
  then show ?thesis
    unfolding Let_def enabled_by_last_commands [of "[?d, ?e]"] by simp
qed

text \<open>The result of the walk does not depend on the order of the entries, and the source it
  names is an entry that no assigned entry beats.\<close>

theorem parse_table_order_independent:
  assumes "set table' = set table"
  shows "fst (parse_table table') = fst (parse_table table) \<and>
    (list_ex assigned table \<longrightarrow> snd (parse_table table) \<in> set table \<and>
       (\<forall>e\<in>set table. assigned e \<longrightarrow> \<not> beats e (snd (parse_table table))))"
proof -
  have "fst (parse_table table') = fst (parse_table table)"
    by (simp only: parse_table_enabled_iff assms)
  then show ?thesis
    using parse_table_wins [of table] by (simp add: wins_def unbeaten_def list_all_iff split: if_splits)
qed

theorem parse_table_order_independent_witness:
  "let d = \<lparr>enable_source = LocalAPI, enable_state = Disable, enable_priority = 42\<rparr>;
       e = \<lparr>enable_source = CSMS, enable_state = Enable, enable_priority = 42\<rparr> in
   fst (parse_table [d, e]) = fst (parse_table [e, d]) \<and> \<not> fst (parse_table [d, e])"
  using parse_table_order_independent [of
    "[\<lparr>enable_source = LocalAPI, enable_state = Disable, enable_priority = 42\<rparr>,
      \<lparr>enable_source = CSMS, enable_state = Enable, enable_priority = 42\<rparr>]"
    "[\<lparr>enable_source = CSMS, enable_state = Enable, enable_priority = 42\<rparr>,
      \<lparr>enable_source = LocalAPI, enable_state = Disable, enable_priority = 42\<rparr>]"]
  by (simp add: Let_def insert_commute parse_table_enabled_iff)

end
