(* ===== verification/Evse_Types.thy ===== *)
theory Evse_Types
  imports Complex_Main
begin

text \<open>
  The types of \<^verbatim>\<open>types/evse_manager.yaml\<close> and \<^verbatim>\<open>types/authorization.yaml\<close> that the modules EvseManager and
  Auth share, and the capabilities of a board of \<^verbatim>\<open>types/evse_board_support.yaml\<close>.  Optional properties that no modelled code reads are left out.
\<close>

section \<open>Sessions and transactions\<close>

datatype SessionEventEnum =
    Ev_Authorized | Ev_Deauthorized | Ev_Enabled | Ev_Disabled | Ev_SessionStarted | Ev_AuthRequired
  | Ev_TransactionStarted | Ev_PrepareCharging | Ev_ChargingStarted | Ev_ChargingPausedEV
  | Ev_ChargingPausedEVSE | Ev_WaitingForEnergy | Ev_ChargingResumed | Ev_StoppingCharging
  | Ev_ChargingFinished | Ev_TransactionFinished | Ev_SessionFinished | Ev_ReservationStart
  | Ev_ReservationEnd | Ev_ReplugStarted | Ev_ReplugFinished | Ev_PluginTimeout | Ev_SwitchingPhases
  | Ev_SessionResumed

datatype StopTransactionReason =
    Stop_EmergencyStop | Stop_EVDisconnected | Stop_HardReset | Stop_Local | Stop_Other
  | Stop_PowerLoss | Stop_Reboot | Stop_Remote | Stop_SoftReset | Stop_UnlockCommand
  | Stop_DeAuthorized | Stop_EnergyLimitReached | Stop_GroundFault | Stop_LocalOutOfCredit
  | Stop_MasterPass | Stop_OvercurrentFault | Stop_PowerQuality | Stop_SOCLimitReached
  | Stop_StoppedByEV | Stop_TimeLimitReached | Stop_Timeout | Stop_ReqEnergyTransferRejected

datatype StartSessionReason = Start_EVConnected | Start_Authorized

record SessionEvent =
  session_event :: SessionEventEnum
  event_connector_id :: "int option"
  session_started_reason :: "StartSessionReason option"

section \<open>Authorisation\<close>

datatype AuthorizationStatus =
    Status_Accepted | Status_Blocked | Status_ConcurrentTx | Status_Expired | Status_Invalid | Status_NoCredit
  | Status_NotAllowedTypeEVSE | Status_NotAtThisLocation | Status_NotAtThisTime | Status_Unknown

datatype TokenValidationStatus =
    Token_Processing | Token_Accepted | Token_Rejected | Token_TimedOut | Token_UsedToStart | Token_UsedToStop
  | Token_Withdrawn

datatype SelectionAlgorithm = Select_UserInput | Select_PlugEvents | Select_FindFirst

datatype AuthorizationType = Auth_OCPP | Auth_RFID | Auth_Autocharge | Auth_PlugAndCharge | Auth_BankCard

datatype IdTokenType =
    Tok_Central | Tok_eMAID | Tok_MacAddress | Tok_ISO14443 | Tok_ISO15693 | Tok_KeyCode | Tok_Local
  | Tok_NoAuthorization

record IdToken =
  token_value :: string
  token_type :: IdTokenType

record ProvidedIdToken =
  provided_id_token :: IdToken
  provided_parent_id_token :: "IdToken option"
  authorization_type :: AuthorizationType
  provided_connectors :: "int list option"
  prevalidated :: "bool option"

record ValidationResult =
  authorization_status :: AuthorizationStatus
  tariff_messages :: "string list"
  validation_expiry_time :: "string option"
  validated_parent_id_token :: "IdToken option"
  validated_evse_ids :: "int list option"
  validated_reservation_id :: "int option"

record ValidationResultUpdate =
  updated_result :: ValidationResult
  updated_connector_id :: int

record WithdrawAuthorizationRequest =
  withdraw_evse_id :: "int option"
  withdraw_id_token :: "IdToken option"

datatype WithdrawAuthorizationResult =
    Withdraw_Accepted | Withdraw_AuthorizationNotFound | Withdraw_EvseNotFound | Withdraw_Rejected

record StopTransactionRequest =
  stop_reason :: StopTransactionReason
  stop_id_tag :: "ProvidedIdToken option"

section \<open>Hardware\<close>

datatype Connector_type = IEC62196Type2Cable | IEC62196Type2Socket

record HardwareCapabilities =
  max_current_A_import :: real
  min_current_A_import :: real
  max_phase_count_import :: int
  min_phase_count_import :: int
  max_current_A_export :: real
  min_current_A_export :: real
  max_phase_count_export :: int
  min_phase_count_export :: int
  supports_changing_phases_during_charging :: bool
  caps_connector_type :: Connector_type

end
