(* ===== verification/Charger_State.thy ===== *)
theory Charger_State
  imports IEC_State_Machine Error_Handling Enable_Table Evse_Types
begin

text \<open>
  The data of the class \<^verbatim>\<open>Charger\<close> of \<^verbatim>\<open>modules/EVSE/EvseManager/Charger.{hpp,cpp}\<close>, the high
  level state machine of the EVSE, of \<^verbatim>\<open>utils.hpp\<close> and of \<^verbatim>\<open>PersistentStore.{hpp,cpp}\<close>.

  \<open>SharedContext\<close>, \<open>ConfigContext\<close> and \<open>InternalContext\<close> are the structs of the
  class; \<open>charger\<close> holds them with the remaining members.  Two further fields stand for what is
  outside the class: \<open>env\<close> holds what the class reads from outside (the clocks, the answers of
  the power meters, of the board, of the key value store and of the generator of session ids),
  \<open>actions\<close> records, in order, the calls and the signals the class sends out.  A call of the
  IEC state machine is recorded as the \<open>iec_input\<close> it is for that machine, a call of the error
  handling as its \<open>eh_input\<close>.

  Logging (\<^verbatim>\<open>session_log\<close>, \<^verbatim>\<open>EVLOG\<close>) and the stop watch are left out.  Members that the
  constructor leaves without a value are whatever they are in the state it is applied to.
\<close>

section \<open>Data\<close>

datatype ChargeMode = AC | DC

datatype EvseState =
    St_Disabled | St_Idle | St_WaitingForAuthentication | St_PrepareCharging | St_WaitingForEnergy
  | St_Charging | St_ChargingPausedEV | St_ChargingPausedEVSE | St_StoppingCharging | St_Finished
  | St_T_step_EF | St_T_step_X1 | St_SwitchPhases | St_Replug

datatype HlcTerminatePause = Htp_Unknown | Htp_Terminate | Htp_Pause

datatype EvseError =
    Error_Contactor | Error_RCD | Error_UtilityInterruptEvent | Error_Malfunction
  | Error_EmergencyShutdown

datatype OCMFIdentificationType =
    OCMF_NONE | OCMF_UNDEFINED | OCMF_ISO14443 | OCMF_ISO15693 | OCMF_EMAID | OCMF_CENTRAL
  | OCMF_LOCAL | OCMF_KEY_CODE

datatype TransactionRequestStatus = Req_OK | Req_NOT_SUPPORTED | Req_UNEXPECTED_ERROR

datatype SessionIdType = Sid_UUID | Sid_UUID_BASE64 | Sid_SHORT_BASE64

record TransactionReq =
  req_evse_id :: string
  req_transaction_id :: string
  req_identification_type :: OCMFIdentificationType
  req_identification_data :: string
  req_tariff_text :: "string option"

record DcEvseMaximumLimits =
  evse_maximum_current_limit :: real
  evse_maximum_power_limit :: real
  evse_maximum_voltage_limit :: real
  evse_maximum_discharge_current_limit :: "real option"
  evse_maximum_discharge_power_limit :: "real option"

record DcEvseMinimumLimits =
  evse_minimum_current_limit :: real
  evse_minimum_power_limit :: real
  evse_minimum_voltage_limit :: real
  evse_minimum_discharge_current_limit :: "real option"
  evse_minimum_discharge_power_limit :: "real option"

type_synonym SignedMeterValue = string

record TransactionStopResponse =
  stop_status :: TransactionRequestStatus
  stop_start_signed_meter_value :: "SignedMeterValue option"
  stop_stop_signed_meter_value :: "SignedMeterValue option"

text \<open>A billing power meter, by its answers.\<close>

record billing_meter =
  start_answer :: "TransactionReq \<Rightarrow> TransactionRequestStatus"
  stop_answer :: "string \<Rightarrow> TransactionStopResponse"

datatype kvs_value = Kvs_string string | Kvs_other

section \<open>The state\<close>

record SharedContext =
  legacy_wakeup_done :: bool
  hlc_allow_close_contactor :: bool
  iec_allow_close_contactor :: bool
  contactor_open :: bool
  hlc_charging_active :: bool
  hlc_charging_terminate_pause :: HlcTerminatePause
  current_evse_max_limits :: DcEvseMaximumLimits
  current_evse_min_limits :: DcEvseMinimumLimits
  pwm_running :: bool
  stop_transaction_id_token :: "ProvidedIdToken option"
  id_token :: ProvidedIdToken
  validation_result :: ValidationResult
  authorized :: bool
  authorized_pnc :: bool
  matching_started :: bool
  max_current :: real
  max_current_valid_until :: time
  max_current_cable :: real
  transaction_active :: bool
  session_active :: bool
  session_uuid :: string
  connector_enabled :: bool
  current_state :: EvseState
  last_stop_transaction_reason :: "StopTransactionReason option"
  last_start_session_reason :: StartSessionReason
  current_drawn_by_vehicle :: "real \<times> real \<times> real"
  shutdown_type :: ShutdownType
  last_shutdown_type :: ShutdownType
  ac_with_soc_timer :: int
  ac_with_soc_timeout :: bool
  switch_3ph1ph_threephase :: bool
  switch_3ph1ph_threephase_ongoing :: bool
  stop_signed_meter_value :: "SignedMeterValue option"
  start_signed_meter_value :: "SignedMeterValue option"

record ConfigContext =
  ac_enforce_hlc :: bool
  ac_hlc_use_5percent :: bool
  ac_hlc_enabled :: bool
  charge_mode :: ChargeMode
  switch_3ph1ph_delay_s :: int
  switch_3ph1ph_cp_state_F :: bool
  soft_over_current_timeout_ms :: int
  state_F_after_fault_ms :: int
  fail_on_powermeter_errors :: bool
  raise_mrec9 :: bool
  sleep_before_enabling_pwm_hlc_mode_ms :: int
  session_id_type :: SessionIdType

record InternalContext =
  hlc_bcb_sequence_started :: bool
  hlc_ev_pause_bcb_count :: int
  hlc_ev_pause_start_of_bcb :: time
  hlc_ev_pause_start_of_bcb_sequence :: time
  update_pwm_last_dc :: real
  last_pwm_update :: time
  t_step_EF_return_state :: EvseState
  t_step_EF_return_pwm :: real
  t_step_EF_return_ampere :: real
  switching_phases_return_state :: EvseState
  t_step_X1_return_state :: EvseState
  t_step_X1_return_pwm :: real
  last_over_current_event :: time
  over_current :: bool
  loop_last_shutdown_type :: ShutdownType
  current_state_started :: time
  last_state_detect_state_change :: EvseState
  last_state :: EvseState
  pp_warning_printed :: bool
  no_energy_warning_printed :: bool
  pwm_set_last_ampere :: real
  t_step_ef_x1_pause :: bool
  pwm_F_active :: bool
  fatal_error_became_active :: time
  fatal_error_timer_running :: bool

record environment =
  steady_now :: time
  system_now :: time
  pp_ampacity :: real
  billing_meters :: "billing_meter list"
  store_answer :: kvs_value
  new_uuid :: string
  new_base64_uuid :: string
  new_base64_id :: string
  overcurrent_text :: "real \<times> real \<times> real \<Rightarrow> real \<Rightarrow> string"

datatype action =
    A_bsp iec_input
  | A_err eh_input
  | A_simple_event SessionEventEnum
  | A_state EvseState
  | A_max_current real
  | A_session_started StartSessionReason "ProvidedIdToken option"
  | A_transaction_started ProvidedIdToken
  | A_transaction_finished StopTransactionReason "ProvidedIdToken option"
  | A_ac_with_soc_timeout
  | A_dc_supply_off
  | A_slac_reset
  | A_slac_start
  | A_hlc_stop_charging
  | A_hlc_pause_charging
  | A_hlc_error EvseError
  | A_hlc_no_energy_available
  | A_meter_start TransactionReq
  | A_meter_stop string
  | A_store string string

record charger =
  shared :: SharedContext
  cfg :: ConfigContext
  internal :: InternalContext
  soft_over_current_tolerance_percent :: real
  soft_over_current_measurement_noise_A :: real
  hlc_use_5percent_current_session :: bool
  ac_hlc_enabled_current_session :: bool
  connector_type :: Connector_type
  evse_id :: string
  store_active :: bool
  session_key :: string
  error_handling_event_queue :: "ErrorHandlingEvents event_queue"
  active_enable_disable_source :: EnableDisableSource
  enable_disable_source_table :: "EnableDisableSource list"
  env :: environment
  actions :: "action list"

type_synonym 'a chargerM = "(charger, 'a) state"

section \<open>Access\<close>

definition on_shared :: "(SharedContext \<Rightarrow> SharedContext) \<Rightarrow> unit chargerM" where
  "on_shared f = modify (\<lambda>c. c\<lparr>shared := f (shared c)\<rparr>)"

definition on_internal :: "(InternalContext \<Rightarrow> InternalContext) \<Rightarrow> unit chargerM" where
  "on_internal f = modify (\<lambda>c. c\<lparr>internal := f (internal c)\<rparr>)"

definition emit :: "action \<Rightarrow> unit chargerM" where
  "emit a = modify (\<lambda>c. c\<lparr>actions := actions c @ [a]\<rparr>)"

definition set_current_state :: "EvseState \<Rightarrow> unit chargerM" where
  "set_current_state st = on_shared (\<lambda>h. h\<lparr>current_state := st\<rparr>)"

abbreviation sh :: "(SharedContext \<Rightarrow> 'a) \<Rightarrow> 'a chargerM" where
  "sh f \<equiv> gets (\<lambda>c. f (shared c))"

abbreviation int_ctx :: "(InternalContext \<Rightarrow> 'a) \<Rightarrow> 'a chargerM" where
  "int_ctx f \<equiv> gets (\<lambda>c. f (internal c))"

abbreviation conf :: "(ConfigContext \<Rightarrow> 'a) \<Rightarrow> 'a chargerM" where
  "conf f \<equiv> gets (\<lambda>c. f (cfg c))"

abbreviation steady_clock_now :: "time chargerM" where
  "steady_clock_now \<equiv> gets (\<lambda>c. steady_now (env c))"

definition sleep_for :: "time \<Rightarrow> unit chargerM" where
  "sleep_for d = modify (\<lambda>c. c\<lparr>env := (env c)\<lparr>steady_now := steady_now (env c) + d,
     system_now := system_now (env c) + d\<rparr>\<rparr>)"

section \<open>Constants\<close>

definition CHARGER_ABSOLUTE_MAX_CURRENT :: real where
  "CHARGER_ABSOLUTE_MAX_CURRENT = 1000"

definition LEGACY_WAKEUP_TIMEOUT :: int where
  "LEGACY_WAKEUP_TIMEOUT = 30000"

definition PREPARING_TIMEOUT_PAUSED_BY_EV :: int where
  "PREPARING_TIMEOUT_PAUSED_BY_EV = 10000"

definition TP_EV_VALD_STATE_DURATION_MIN :: time where
  "TP_EV_VALD_STATE_DURATION_MIN = milliseconds (200 - 50)"

definition TP_EV_VALD_STATE_DURATION_MAX :: time where
  "TP_EV_VALD_STATE_DURATION_MAX = milliseconds (400 + 50)"

definition TT_EVSE_VALD_TOGGLE :: time where
  "TT_EVSE_VALD_TOGGLE = milliseconds (3500 + 200)"

definition MAINLOOP_UPDATE_RATE :: time where
  "MAINLOOP_UPDATE_RATE = milliseconds 100"

definition PWM_5_PERCENT :: real where
  "PWM_5_PERCENT = 0.05"

definition T_REPLUG_MS :: int where
  "T_REPLUG_MS = 4000"

definition T_STEP_X1 :: int where
  "T_STEP_X1 = 3000"

definition T_STEP_EF :: int where
  "T_STEP_EF = 4000"

definition IEC_PWM_MAX_UPDATE_INTERVAL :: int where
  "IEC_PWM_MAX_UPDATE_INTERVAL = 5000"

definition STAY_IN_X1_AFTER_TSTEP_EF_MS :: int where
  "STAY_IN_X1_AFTER_TSTEP_EF_MS = 750"

section \<open>Helpers of utils.hpp\<close>

definition get_session_id_type_from_string :: "string \<Rightarrow> SessionIdType" where
  "get_session_id_type_from_string s =
     (if s = ''UUID_BASE64'' then Sid_UUID_BASE64
      else if s = ''SHORT_BASE64'' then Sid_SHORT_BASE64 else Sid_UUID)"

definition generate_session_id :: "SessionIdType \<Rightarrow> string chargerM" where
  "generate_session_id ty = gets (\<lambda>c.
     if ty = Sid_SHORT_BASE64 then new_base64_id (env c)
     else if ty = Sid_UUID_BASE64 then new_base64_uuid (env c) else new_uuid (env c))"

fun convert_to_ocmf_identification_type :: "IdTokenType \<Rightarrow> OCMFIdentificationType" where
  "convert_to_ocmf_identification_type Tok_Central = OCMF_CENTRAL"
| "convert_to_ocmf_identification_type Tok_eMAID = OCMF_EMAID"
| "convert_to_ocmf_identification_type Tok_ISO14443 = OCMF_ISO14443"
| "convert_to_ocmf_identification_type Tok_ISO15693 = OCMF_ISO15693"
| "convert_to_ocmf_identification_type Tok_KeyCode = OCMF_KEY_CODE"
| "convert_to_ocmf_identification_type Tok_Local = OCMF_LOCAL"
| "convert_to_ocmf_identification_type Tok_NoAuthorization = OCMF_NONE"
| "convert_to_ocmf_identification_type Tok_MacAddress = OCMF_UNDEFINED"

section \<open>Names of the states\<close>

fun evse_state_to_string :: "EvseState \<Rightarrow> string" where
  "evse_state_to_string St_Disabled = ''Disabled''"
| "evse_state_to_string St_Idle = ''Idle''"
| "evse_state_to_string St_WaitingForAuthentication = ''Wait for Auth''"
| "evse_state_to_string St_Charging = ''Charging''"
| "evse_state_to_string St_ChargingPausedEV = ''Car Paused''"
| "evse_state_to_string St_ChargingPausedEVSE = ''EVSE Paused''"
| "evse_state_to_string St_WaitingForEnergy = ''Wait for energy''"
| "evse_state_to_string St_Finished = ''Finished''"
| "evse_state_to_string St_T_step_EF = ''T_step_EF''"
| "evse_state_to_string St_T_step_X1 = ''T_step_X1''"
| "evse_state_to_string St_Replug = ''Replug''"
| "evse_state_to_string St_PrepareCharging = ''PrepareCharging''"
| "evse_state_to_string St_StoppingCharging = ''StoppingCharging''"
| "evse_state_to_string St_SwitchPhases = ''SwitchPhases''"

lemma evse_state_to_string_inject:
  "evse_state_to_string s = evse_state_to_string t \<longleftrightarrow> s = t"
  by (cases s; cases t) simp_all

section \<open>The persistent store\<close>

definition store_session :: "string \<Rightarrow> unit chargerM" where
  "store_session uuid = do {
     act \<leftarrow> gets store_active;
     key \<leftarrow> gets session_key;
     do_if act (emit (A_store key uuid))
   }"

definition clear_session :: "unit chargerM" where
  "clear_session = do {
     act \<leftarrow> gets store_active;
     key \<leftarrow> gets session_key;
     do_if act (emit (A_store key ''''))
   }"

definition get_session :: "string chargerM" where
  "get_session = gets (\<lambda>c.
     if store_active c then (case store_answer (env c) of Kvs_string v \<Rightarrow> v | Kvs_other \<Rightarrow> '''')
     else '''')"

end
