(* ===== verification/Charger_Operations.thy ===== *)
theory Charger_Operations
  imports Charger_State
begin

text \<open>
  The private helper methods of the class \<^verbatim>\<open>Charger\<close>, one definition each: PWM output, current
  limits and the power budget, the detection of BCB toggles, sessions and transactions, the
  reaction to fatal errors and the supervision of the drawn current.
\<close>

section \<open>PWM\<close>

definition ampere_to_duty_cycle :: "real \<Rightarrow> real" where
  "ampere_to_duty_cycle ampere =
     (if ampere < 5.9 then 1
      else if ampere \<le> 6.1 then 0.1
      else if ampere < 52.5 then (let a = (if ampere > 51 then 51 else ampere) in a / 0.6 / 100)
      else if ampere \<le> 80 then ((ampere / 2.5) + 64) / 100
      else if ampere \<le> 80.1 then 0.97
      else 1)"

definition update_pwm_now :: "real \<Rightarrow> unit chargerM" where
  "update_pwm_now dc = do {
     on_internal (\<lambda>i. i\<lparr>update_pwm_last_dc := dc\<rparr>);
     on_shared (\<lambda>h. h\<lparr>pwm_running := True\<rparr>);
     t \<leftarrow> steady_clock_now;
     on_internal (\<lambda>i. i\<lparr>last_pwm_update := t, pwm_F_active := False\<rparr>);
     emit (A_bsp (In_set_pwm dc))
   }"

definition update_pwm_now_if_changed :: "real \<Rightarrow> unit chargerM" where
  "update_pwm_now_if_changed dc = do {
     last_dc \<leftarrow> int_ctx update_pwm_last_dc;
     do_if (last_dc \<noteq> dc) (update_pwm_now dc)
   }"

definition update_pwm_now_if_changed_ampere :: "real \<Rightarrow> unit chargerM" where
  "update_pwm_now_if_changed_ampere ampere = do {
     let dc = ampere_to_duty_cycle ampere;
     last_dc \<leftarrow> int_ctx update_pwm_last_dc;
     do_if (last_dc \<noteq> dc) (do {
       update_pwm_now dc;
       on_internal (\<lambda>i. i\<lparr>pwm_set_last_ampere := ampere\<rparr>)
     })
   }"

definition update_pwm_max_every_5seconds_ampere :: "real \<Rightarrow> unit chargerM" where
  "update_pwm_max_every_5seconds_ampere ampere = do {
     let dc = ampere_to_duty_cycle ampere;
     last_dc \<leftarrow> int_ctx update_pwm_last_dc;
     do_if (dc \<noteq> last_dc) (do {
       now \<leftarrow> steady_clock_now;
       last_update \<leftarrow> int_ctx last_pwm_update;
       do_if (count_ms (now - last_update) \<ge> IEC_PWM_MAX_UPDATE_INTERVAL) (do {
         update_pwm_now dc;
         on_internal (\<lambda>i. i\<lparr>pwm_set_last_ampere := ampere\<rparr>)
       })
     })
   }"

definition pwm_off :: "unit chargerM" where
  "pwm_off = do {
     on_shared (\<lambda>h. h\<lparr>pwm_running := False\<rparr>);
     on_internal (\<lambda>i. i\<lparr>update_pwm_last_dc := 1, pwm_set_last_ampere := 0, pwm_F_active := False\<rparr>);
     emit (A_bsp In_set_pwm_off)
   }"

definition pwm_F :: "unit chargerM" where
  "pwm_F = do {
     on_shared (\<lambda>h. h\<lparr>pwm_running := False\<rparr>);
     on_internal (\<lambda>i. i\<lparr>update_pwm_last_dc := 0, pwm_set_last_ampere := 0, pwm_F_active := True\<rparr>);
     emit (A_bsp In_set_pwm_F)
   }"

section \<open>Current limits\<close>

definition get_max_current_internal :: "real chargerM" where
  "get_max_current_internal = gets (\<lambda>c.
     let maxc = max_current (shared c) in
     if connector_type c = IEC62196Type2Socket \<and> max_current_cable (shared c) < maxc \<and>
        current_state (shared c) \<noteq> St_Idle
     then max_current_cable (shared c) else maxc)"

definition get_max_current_signalled_to_ev_internal :: "real chargerM" where
  "get_max_current_signalled_to_ev_internal = do {
     hlc \<leftarrow> sh hlc_charging_active;
     if \<not> hlc then int_ctx pwm_set_last_ampere else get_max_current_internal
   }"

definition power_available :: "bool chargerM" where
  "power_available = do {
     now \<leftarrow> steady_clock_now;
     valid_until \<leftarrow> sh max_current_valid_until;
     let overrun = count_s (now - valid_until);
     do_if (overrun > 0) (do {
       mc \<leftarrow> sh max_current;
       do_if (mc > 0) (do {
         on_shared (\<lambda>h. h\<lparr>max_current := 0\<rparr>);
         emit (A_max_current 0)
       })
     });
     m \<leftarrow> get_max_current_internal;
     State_Monad.return (m > 5.9)
   }"

definition set_max_current :: "real \<Rightarrow> time \<Rightarrow> bool chargerM" where
  "set_max_current x validUntil = do {
     let c_abs = \<bar>x\<bar>;
     now \<leftarrow> steady_clock_now;
     if c_abs \<le> CHARGER_ABSOLUTE_MAX_CURRENT \<and> validUntil > now then do {
       on_shared (\<lambda>h. h\<lparr>max_current := c_abs, max_current_valid_until := validUntil\<rparr>);
       m \<leftarrow> get_max_current_internal;
       emit (A_bsp (In_set_overcurrent_limit m));
       emit (A_max_current (if x < 0 then - m else m));
       State_Monad.return True
     } else State_Monad.return False
   }"

definition check_soft_over_current :: "unit chargerM" where
  "check_soft_over_current = do {
     signalled \<leftarrow> get_max_current_signalled_to_ev_internal;
     noise \<leftarrow> gets soft_over_current_measurement_noise_A;
     tolerance \<leftarrow> gets soft_over_current_tolerance_percent;
     let limit = (signalled + noise) * (1 + tolerance / 100);
     drawn \<leftarrow> sh current_drawn_by_vehicle;
     oc \<leftarrow> int_ctx over_current;
     now \<leftarrow> steady_clock_now;
     (if \<bar>fst drawn\<bar> > limit \<or> \<bar>fst (snd drawn)\<bar> > limit \<or> \<bar>snd (snd drawn)\<bar> > limit then
        do_if (\<not> oc) (on_internal (\<lambda>i. i\<lparr>over_current := True, last_over_current_event := now\<rparr>))
      else on_internal (\<lambda>i. i\<lparr>over_current := False\<rparr>));
     oc \<leftarrow> int_ctx over_current;
     started \<leftarrow> int_ctx last_over_current_event;
     timeout_ms \<leftarrow> conf soft_over_current_timeout_ms;
     text \<leftarrow> gets (\<lambda>c. overcurrent_text (env c));
     do_if (oc \<and> count_ms (now - started) \<ge> timeout_ms)
       (emit (A_err (In_raise_overcurrent (text drawn limit))))
   }"

section \<open>BCB toggles\<close>

definition bcb_toggle_reset :: "unit chargerM" where
  "bcb_toggle_reset =
     on_internal (\<lambda>i. i\<lparr>hlc_ev_pause_bcb_count := 0, hlc_bcb_sequence_started := False\<rparr>)"

definition bcb_toggle_detect_start_pulse :: "unit chargerM" where
  "bcb_toggle_detect_start_pulse = do {
     now \<leftarrow> steady_clock_now;
     on_internal (\<lambda>i. i\<lparr>hlc_ev_pause_start_of_bcb := now\<rparr>);
     n \<leftarrow> int_ctx hlc_ev_pause_bcb_count;
     do_if (n = 0) (on_internal (\<lambda>i. i\<lparr>hlc_ev_pause_start_of_bcb_sequence := now,
       hlc_bcb_sequence_started := True\<rparr>))
   }"

definition bcb_toggle_detect_stop_pulse :: "unit chargerM" where
  "bcb_toggle_detect_stop_pulse = do {
     started \<leftarrow> int_ctx hlc_bcb_sequence_started;
     do_if started (do {
       now \<leftarrow> steady_clock_now;
       start \<leftarrow> int_ctx hlc_ev_pause_start_of_bcb;
       let pulse_length = now - start;
       (if pulse_length > TP_EV_VALD_STATE_DURATION_MIN \<and> pulse_length < TP_EV_VALD_STATE_DURATION_MAX
        then on_internal (\<lambda>i. i\<lparr>hlc_ev_pause_bcb_count := hlc_ev_pause_bcb_count i + 1\<rparr>)
        else on_internal (\<lambda>i. i\<lparr>hlc_ev_pause_bcb_count := 0\<rparr>))
     })
   }"

definition bcb_toggle_detected :: "bool chargerM" where
  "bcb_toggle_detected = do {
     now \<leftarrow> steady_clock_now;
     i \<leftarrow> gets internal;
     let sequence_length = now - hlc_ev_pause_start_of_bcb_sequence i;
     if hlc_bcb_sequence_started i \<and>
        (sequence_length > TT_EVSE_VALD_TOGGLE \<or> hlc_ev_pause_bcb_count i \<ge> 3)
     then do {
       on_internal (\<lambda>i. i\<lparr>hlc_ev_pause_bcb_count := 0\<rparr>);
       State_Monad.return True
     } else State_Monad.return False
   }"

section \<open>Sessions and transactions\<close>

definition start_session :: "bool \<Rightarrow> unit chargerM" where
  "start_session authfirst = do {
     on_shared (\<lambda>h. h\<lparr>session_active := True, authorized := False\<rparr>);
     ty \<leftarrow> conf session_id_type;
     uuid \<leftarrow> generate_session_id ty;
     on_shared (\<lambda>h. h\<lparr>session_uuid := uuid\<rparr>);
     tok \<leftarrow> sh id_token;
     let provided = (if authfirst then Some tok else None);
     on_shared (\<lambda>h. h\<lparr>last_start_session_reason :=
       (if authfirst then Start_Authorized else Start_EVConnected)\<rparr>);
     reason \<leftarrow> sh last_start_session_reason;
     emit (A_session_started reason provided)
   }"

definition stop_session :: "unit chargerM" where
  "stop_session = do {
     on_shared (\<lambda>h. h\<lparr>session_active := False, authorized := False\<rparr>);
     emit (A_simple_event Ev_SessionFinished);
     on_shared (\<lambda>h. h\<lparr>session_uuid := ''''\<rparr>)
   }"

definition transaction_req :: "charger \<Rightarrow> TransactionReq" where
  "transaction_req c =
     \<lparr>req_evse_id = evse_id c, req_transaction_id = session_uuid (shared c),
      req_identification_type = convert_to_ocmf_identification_type (token_type (provided_id_token (id_token (shared c)))),
      req_identification_data = token_value (provided_id_token (id_token (shared c))),
      req_tariff_text = (case tariff_messages (validation_result (shared c)) of
        [] \<Rightarrow> None | m # _ \<Rightarrow> Some m)\<rparr>"

text \<open>False: a meter failed and the configuration asks to give up.\<close>

primrec start_on_meters :: "billing_meter list \<Rightarrow> TransactionReq \<Rightarrow> bool chargerM" where
  "start_on_meters [] req = State_Monad.return True"
| "start_on_meters (meter # meters) req = do {
     emit (A_meter_start req);
     fail \<leftarrow> conf fail_on_powermeter_errors;
     if start_answer meter req = Req_UNEXPECTED_ERROR \<and> fail then do {
       emit (A_err (In_raise_powermeter_start ''Failed to start transaction on the power meter''));
       State_Monad.return False
     } else start_on_meters meters req
   }"

definition start_transaction :: "bool chargerM" where
  "start_transaction = do {
     on_shared (\<lambda>h. h\<lparr>stop_transaction_id_token := None, last_stop_transaction_reason := None,
       transaction_active := True\<rparr>);
     req \<leftarrow> gets transaction_req;
     meters \<leftarrow> gets (\<lambda>c. billing_meters (env c));
     ok \<leftarrow> start_on_meters meters req;
     if \<not> ok then State_Monad.return False
     else do {
       uuid \<leftarrow> sh session_uuid;
       store_session uuid;
       tok \<leftarrow> sh id_token;
       emit (A_transaction_started tok);
       State_Monad.return True
     }
   }"

text \<open>The loop over the meters ends with the first answer that is not \<^verbatim>\<open>NOT_SUPPORTED\<close>.\<close>

primrec stop_on_meters :: "billing_meter list \<Rightarrow> string \<Rightarrow> unit chargerM" where
  "stop_on_meters [] uuid = skip"
| "stop_on_meters (meter # meters) uuid = do {
     emit (A_meter_stop uuid);
     let response = stop_answer meter uuid;
     (case stop_status response of
        Req_UNEXPECTED_ERROR \<Rightarrow> skip
      | Req_OK \<Rightarrow> on_shared (\<lambda>h. h\<lparr>start_signed_meter_value := stop_start_signed_meter_value response,
          stop_signed_meter_value := stop_stop_signed_meter_value response\<rparr>)
      | Req_NOT_SUPPORTED \<Rightarrow> stop_on_meters meters uuid)
   }"

definition stop_transaction :: "unit chargerM" where
  "stop_transaction = do {
     on_shared (\<lambda>h. h\<lparr>transaction_active := False\<rparr>);
     reason \<leftarrow> sh last_stop_transaction_reason;
     do_if (reason = None)
       (on_shared (\<lambda>h. h\<lparr>last_stop_transaction_reason := Some Stop_EVDisconnected\<rparr>));
     meters \<leftarrow> gets (\<lambda>c. billing_meters (env c));
     uuid \<leftarrow> sh session_uuid;
     stop_on_meters meters uuid;
     clear_session;
     emit (A_simple_event Ev_ChargingFinished);
     reason \<leftarrow> sh (\<lambda>h. the (last_stop_transaction_reason h));
     tok \<leftarrow> sh stop_transaction_id_token;
     emit (A_transaction_finished reason tok)
   }"

definition cleanup_transactions_on_startup :: "unit chargerM" where
  "cleanup_transactions_on_startup = do {
     uuid \<leftarrow> get_session;
     meters \<leftarrow> gets (\<lambda>c. billing_meters (env c));
     do_if (uuid \<noteq> []) (do {
       clear_session;
       stop_on_meters meters uuid;
       emit (A_transaction_finished Stop_PowerLoss None)
     });
     for_each meters (\<lambda>_. emit (A_meter_stop ''''))
   }"

definition get_stop_signed_meter_value :: "SignedMeterValue option chargerM" where
  "get_stop_signed_meter_value = do {
     v \<leftarrow> sh stop_signed_meter_value;
     on_shared (\<lambda>h. h\<lparr>stop_signed_meter_value := None\<rparr>);
     State_Monad.return v
   }"

definition get_start_signed_meter_value :: "SignedMeterValue option chargerM" where
  "get_start_signed_meter_value = do {
     v \<leftarrow> sh start_signed_meter_value;
     on_shared (\<lambda>h. h\<lparr>start_signed_meter_value := None\<rparr>);
     State_Monad.return v
   }"

definition deauthorize_internal :: "bool chargerM" where
  "deauthorize_internal = do {
     h \<leftarrow> gets shared;
     if session_active h then do {
       emit (A_simple_event Ev_Deauthorized);
       let s = current_state h;
       if s = St_Disabled \<or> s = St_Idle \<or> s = St_WaitingForAuthentication then
         if \<not> authorized h then do {
           emit (A_simple_event Ev_PluginTimeout);
           mrec9 \<leftarrow> conf raise_mrec9;
           do_if mrec9 (emit (A_err (In_raise_authorization_timeout
             ''No authorization was provided within timeout.'')));
           State_Monad.return False
         } else do {
           on_shared (\<lambda>h. h\<lparr>authorized := False\<rparr>);
           stop_session;
           State_Monad.return True
         }
       else State_Monad.return False
     } else State_Monad.return False
   }"

section \<open>Fatal errors\<close>

definition emergency_shutdown :: "unit chargerM" where
  "emergency_shutdown = do {
     pwm \<leftarrow> sh pwm_running;
     do_if pwm pwm_off;
     mode \<leftarrow> conf charge_mode;
     do_if (mode = DC) (emit A_dc_supply_off);
     emit (A_bsp (In_allow_power_on False Reason_PowerOff))
   }"

definition error_shutdown :: "unit chargerM" where
  "error_shutdown = do {
     mode \<leftarrow> conf charge_mode;
     do_if (mode = DC) (emit A_dc_supply_off);
     emit (A_bsp (In_allow_power_on False Reason_PowerOff));
     emit (A_hlc_error Error_EmergencyShutdown)
   }"

definition entered_fatal_error_state :: "bool chargerM" where
  "entered_fatal_error_state =
     sh (\<lambda>h. shutdown_type h \<noteq> Shutdown_None \<and> last_shutdown_type h = Shutdown_None)"

definition time_in_fatal_error_state_ms :: "int chargerM" where
  "time_in_fatal_error_state_ms = gets (\<lambda>c.
     if \<not> fatal_error_timer_running (internal c) then 0
     else count_ms (steady_now (env c) - fatal_error_became_active (internal c)))"

definition stop_charging_on_fatal_error_internal :: "bool chargerM" where
  "stop_charging_on_fatal_error_internal = do {
     h \<leftarrow> gets shared;
     now \<leftarrow> steady_clock_now;
     (if shutdown_type h = EmergencyShutdown then
        do_if (last_shutdown_type h \<noteq> EmergencyShutdown) (do {
          on_internal (\<lambda>i. i\<lparr>fatal_error_became_active := now\<rparr>);
          emergency_shutdown
        })
      else if shutdown_type h = ErrorShutdown then
        do_if (last_shutdown_type h \<noteq> ErrorShutdown) (do {
          on_internal (\<lambda>i. i\<lparr>fatal_error_became_active := now\<rparr>);
          error_shutdown
        })
      else skip);
     let err = (shutdown_type h = EmergencyShutdown \<or> shutdown_type h = ErrorShutdown);
     on_internal (\<lambda>i. i\<lparr>fatal_error_timer_running := err\<rparr>);
     on_shared (\<lambda>h. h\<lparr>last_shutdown_type := shutdown_type h\<rparr>);
     State_Monad.return err
   }"

definition clear_errors_on_unplug :: "unit chargerM" where
  "clear_errors_on_unplug = do {
     emit (A_err In_clear_overcurrent);
     emit (A_err In_clear_internal);
     emit (A_err In_clear_powermeter_start);
     emit (A_err In_clear_authorization_timeout);
     emit (A_err In_clear_isolation_fault);
     emit (A_err In_clear_cable_check)
   }"

section \<open>Pausing for power\<close>

definition pause_charging_wait_for_power_internal :: "bool chargerM" where
  "pause_charging_wait_for_power_internal = do {
     s \<leftarrow> sh current_state;
     if s = St_Charging \<or> s = St_ChargingPausedEV then do {
       set_current_state St_WaitingForEnergy;
       State_Monad.return True
     } else State_Monad.return False
   }"

end
