(* ===== verification/Charger_Machine.thy ===== *)
theory Charger_Machine
  imports Charger_Operations
begin

text \<open>
  The state machine of the class \<^verbatim>\<open>Charger\<close>: one definition per case of
  \<^verbatim>\<open>run_state_machine()\<close> (a case that the source leaves with \<^verbatim>\<open>break\<close> in the middle is an
  \<^verbatim>\<open>if\<close>), one pass of its loop, the loop itself, the handlers of the control pilot events and the
  bodies of the two threads.

  The arguments \<open>init\<close>, \<open>now\<close> and \<open>time_in_state\<close> are the local variables
  \<^verbatim>\<open>initialize_state\<close>, \<^verbatim>\<open>now\<close> and \<^verbatim>\<open>time_in_current_state\<close> of the loop.
\<close>

section \<open>The cases\<close>

definition st_Disabled :: "bool \<Rightarrow> unit chargerM" where
  "st_Disabled init = do_if init (do {
     emit (A_simple_event Ev_Disabled);
     pwm_F
   })"

definition st_Replug :: "bool \<Rightarrow> unit chargerM" where
  "st_Replug init = do_if init (do {
     emit (A_simple_event Ev_ReplugStarted);
     t \<leftarrow> sh ac_with_soc_timeout;
     do_if t (on_shared (\<lambda>h. h\<lparr>ac_with_soc_timer := 120000\<rparr>))
   })"

definition st_Idle :: "bool \<Rightarrow> unit chargerM" where
  "st_Idle init = do_if init (do {
     bcb_toggle_reset;
     mode \<leftarrow> conf charge_mode;
     on_shared (\<lambda>h. h\<lparr>iec_allow_close_contactor := False, hlc_charging_active := (mode \<noteq> AC),
       hlc_allow_close_contactor := False, max_current_cable := 0,
       hlc_charging_terminate_pause := Htp_Unknown, legacy_wakeup_done := False\<rparr>);
     pwm_off;
     _ \<leftarrow> deauthorize_internal;
     on_shared (\<lambda>h. h\<lparr>transaction_active := False\<rparr>);
     clear_errors_on_unplug
   })"

definition wfa_session :: "unit chargerM" where
  "wfa_session = do {
     last \<leftarrow> int_ctx last_state;
     active \<leftarrow> sh session_active;
     if last = St_Replug then emit (A_simple_event Ev_ReplugFinished)
     else do {
       do_if (\<not> active) (start_session False);
       emit (A_simple_event Ev_AuthRequired)
     }
   }"

definition wfa_init :: "unit chargerM" where
  "wfa_init = do {
     on_internal (\<lambda>i. i\<lparr>pp_warning_printed := False, no_energy_warning_printed := False\<rparr>);
     emit (A_bsp (In_allow_power_on False Reason_PowerOff));
     wfa_session;
     modify (\<lambda>c. c\<lparr>hlc_use_5percent_current_session := False\<rparr>);
     mode \<leftarrow> conf charge_mode;
     (case mode of
        AC \<Rightarrow> do {
          modify (\<lambda>c. c\<lparr>ac_hlc_enabled_current_session := ac_hlc_enabled (cfg c)\<rparr>);
          hlc \<leftarrow> gets ac_hlc_enabled_current_session;
          do_if hlc
            (modify (\<lambda>c. c\<lparr>hlc_use_5percent_current_session := ac_hlc_use_5percent (cfg c)\<rparr>))
        }
      | DC \<Rightarrow> modify (\<lambda>c. c\<lparr>hlc_use_5percent_current_session := True\<rparr>));
     use_5 \<leftarrow> gets hlc_use_5percent_current_session;
     ms \<leftarrow> conf sleep_before_enabling_pwm_hlc_mode_ms;
     do_if use_5 (do {
       sleep_for (milliseconds ms);
       update_pwm_now PWM_5_PERCENT
     })
   }"

text \<open>True: the cable rating is not known yet and the case is left.\<close>

definition wfa_read_pp :: "bool chargerM" where
  "wfa_read_pp = do {
     ty \<leftarrow> gets connector_type;
     cable \<leftarrow> sh max_current_cable;
     if ty = IEC62196Type2Socket \<and> cable = 0 then do {
       pp \<leftarrow> gets (\<lambda>c. pp_ampacity (env c));
       on_shared (\<lambda>h. h\<lparr>max_current_cable := pp\<rparr>);
       if pp = 0 then do {
         on_internal (\<lambda>i. i\<lparr>pp_warning_printed := True\<rparr>);
         State_Monad.return True
       } else State_Monad.return False
     } else State_Monad.return False
   }"

definition no_hlc_energy :: "charger \<Rightarrow> bool" where
  "no_hlc_energy c \<longleftrightarrow>
     \<not> (evse_maximum_current_limit (current_evse_max_limits (shared c)) > 0 \<and>
        evse_maximum_power_limit (current_evse_max_limits (shared c)) > 0)"

definition wfa_energy_warning :: "unit chargerM" where
  "wfa_energy_warning = do {
     mode \<leftarrow> conf charge_mode;
     none \<leftarrow> gets no_hlc_energy;
     printed \<leftarrow> int_ctx no_energy_warning_printed;
     do_if (mode = DC \<and> none \<and> \<not> printed) (do {
       on_internal (\<lambda>i. i\<lparr>no_energy_warning_printed := True\<rparr>);
       emit A_hlc_no_energy_available
     })
   }"

definition wfa_proceed_eim :: "unit chargerM" where
  "wfa_proceed_eim = do {
     c \<leftarrow> State_Monad.get;
     (case charge_mode (cfg c) of
        AC \<Rightarrow>
          if ac_hlc_enabled_current_session c then
            if ac_enforce_hlc (cfg c) then do {
              modify (\<lambda>c. c\<lparr>hlc_use_5percent_current_session := True\<rparr>);
              set_current_state St_PrepareCharging
            } else if \<not> matching_started (shared c) then do {
              on_internal (\<lambda>i. i\<lparr>t_step_EF_return_state := St_PrepareCharging,
                t_step_EF_return_pwm := 0, t_step_EF_return_ampere := 0\<rparr>);
              modify (\<lambda>c. c\<lparr>hlc_use_5percent_current_session := False\<rparr>);
              set_current_state St_T_step_EF
            } else if hlc_use_5percent_current_session c then do {
              on_internal (\<lambda>i. i\<lparr>t_step_X1_return_state := St_PrepareCharging,
                t_step_X1_return_pwm := 0, t_step_EF_return_ampere := 0\<rparr>);
              modify (\<lambda>c. c\<lparr>hlc_use_5percent_current_session := False\<rparr>);
              set_current_state St_T_step_X1
            } else set_current_state St_PrepareCharging
          else set_current_state St_PrepareCharging
      | DC \<Rightarrow> set_current_state St_PrepareCharging)
   }"

definition wfa_proceed_pnc :: "unit chargerM" where
  "wfa_proceed_pnc = do {
     mode \<leftarrow> conf charge_mode;
     (case mode of
        AC \<Rightarrow> do {
          modify (\<lambda>c. c\<lparr>hlc_use_5percent_current_session := True\<rparr>);
          set_current_state St_PrepareCharging
        }
      | DC \<Rightarrow> set_current_state St_PrepareCharging)
   }"

definition wfa_authorized :: "unit chargerM" where
  "wfa_authorized = do {
     h \<leftarrow> gets shared;
     if authorized h \<and> \<not> authorized_pnc h then do {
       ok \<leftarrow> (if \<not> transaction_active h then start_transaction else State_Monad.return True);
       do_if ok wfa_proceed_eim
     } else if authorized h \<and> authorized_pnc h then do {
       ok \<leftarrow> start_transaction;
       do_if ok wfa_proceed_pnc
     } else skip
   }"

definition st_WaitingForAuthentication :: "bool \<Rightarrow> unit chargerM" where
  "st_WaitingForAuthentication init = do {
     do_if init wfa_init;
     no_pp \<leftarrow> wfa_read_pp;
     do_if (\<not> no_pp) (do {
       wfa_energy_warning;
       wfa_authorized
     })
   }"

definition st_SwitchPhases :: "bool \<Rightarrow> int \<Rightarrow> unit chargerM" where
  "st_SwitchPhases init time_in_state = do {
     use_F \<leftarrow> conf switch_3ph1ph_cp_state_F;
     do_if init (do {
       emit (A_simple_event Ev_SwitchingPhases);
       (if use_F then pwm_F else pwm_off)
     });
     delay \<leftarrow> conf switch_3ph1ph_delay_s;
     do_if (time_in_state \<ge> delay * 1000) (do {
       three \<leftarrow> sh switch_3ph1ph_threephase;
       emit (A_bsp (In_switch_three_phases three));
       on_shared (\<lambda>h. h\<lparr>switch_3ph1ph_threephase_ongoing := False\<rparr>);
       ret \<leftarrow> int_ctx switching_phases_return_state;
       set_current_state ret
     })
   }"

definition st_T_step_EF :: "bool \<Rightarrow> int \<Rightarrow> unit chargerM" where
  "st_T_step_EF init time_in_state = do {
     do_if init (do {
       on_internal (\<lambda>i. i\<lparr>t_step_ef_x1_pause := False\<rparr>);
       pwm_F
     });
     i \<leftarrow> gets internal;
     if time_in_state \<ge> T_STEP_EF + STAY_IN_X1_AFTER_TSTEP_EF_MS then do {
       (if t_step_EF_return_pwm i = 0 then pwm_off
        else do {
          update_pwm_now (t_step_EF_return_pwm i);
          on_internal (\<lambda>i. i\<lparr>pwm_set_last_ampere := t_step_EF_return_ampere i\<rparr>)
        });
       set_current_state (t_step_EF_return_state i)
     } else do_if (time_in_state \<ge> T_STEP_EF \<and> \<not> t_step_ef_x1_pause i) (do {
       on_internal (\<lambda>i. i\<lparr>t_step_ef_x1_pause := True\<rparr>);
       pwm_off
     })
   }"

definition st_T_step_X1 :: "bool \<Rightarrow> int \<Rightarrow> unit chargerM" where
  "st_T_step_X1 init time_in_state = do {
     do_if init pwm_off;
     i \<leftarrow> gets internal;
     do_if (time_in_state \<ge> T_STEP_X1) (do {
       (if t_step_X1_return_pwm i = 0 then pwm_off
        else do {
          update_pwm_now (t_step_X1_return_pwm i);
          on_internal (\<lambda>i. i\<lparr>pwm_set_last_ampere := t_step_EF_return_ampere i\<rparr>)
        });
       set_current_state (t_step_X1_return_state i)
     })
   }"

definition prepare_init :: "unit chargerM" where
  "prepare_init = do {
     emit (A_simple_event Ev_PrepareCharging);
     bcb_toggle_reset;
     mode \<leftarrow> conf charge_mode;
     none \<leftarrow> gets no_hlc_energy;
     do_if (mode = DC \<and> none) (emit A_hlc_no_energy_available)
   }"

definition prepare_dc_contactor :: "unit chargerM" where
  "prepare_dc_contactor = do {
     mode \<leftarrow> conf charge_mode;
     h \<leftarrow> gets shared;
     do_if (mode = DC \<and> hlc_allow_close_contactor h \<and> iec_allow_close_contactor h)
       (emit (A_bsp (In_allow_power_on True Reason_DCCableCheck)))
   }"

definition prepare_pwm :: "unit chargerM" where
  "prepare_pwm = do {
     use_5 \<leftarrow> gets hlc_use_5percent_current_session;
     if \<not> use_5 then do {
       m \<leftarrow> get_max_current_internal;
       update_pwm_now_if_changed_ampere m
     } else update_pwm_now_if_changed PWM_5_PERCENT
   }"

definition prepare_ac :: "int \<Rightarrow> unit chargerM" where
  "prepare_ac time_in_state = do {
     power \<leftarrow> power_available;
     if \<not> power then set_current_state St_WaitingForEnergy
     else do {
       h \<leftarrow> gets shared;
       use_5 \<leftarrow> gets hlc_use_5percent_current_session;
       if (iec_allow_close_contactor h \<and> \<not> use_5) \<or>
          (iec_allow_close_contactor h \<and> hlc_allow_close_contactor h \<and> use_5) then do {
         emit (A_simple_event Ev_ChargingStarted);
         set_current_state St_Charging
       } else if \<not> hlc_charging_active h \<and> \<not> legacy_wakeup_done h \<and>
                 time_in_state > LEGACY_WAKEUP_TIMEOUT then do {
         on_shared (\<lambda>h. h\<lparr>legacy_wakeup_done := True\<rparr>);
         m \<leftarrow> get_max_current_internal;
         on_internal (\<lambda>i. i\<lparr>t_step_EF_return_state := St_PrepareCharging,
           t_step_EF_return_pwm := ampere_to_duty_cycle m, t_step_EF_return_ampere := m\<rparr>);
         set_current_state St_T_step_EF
       } else do_if (\<not> hlc_charging_active h \<and> legacy_wakeup_done h \<and>
                     time_in_state > PREPARING_TIMEOUT_PAUSED_BY_EV)
         (set_current_state St_ChargingPausedEV)
     }
   }"

definition st_PrepareCharging :: "bool \<Rightarrow> time \<Rightarrow> int \<Rightarrow> unit chargerM" where
  "st_PrepareCharging init now time_in_state = do {
     do_if init prepare_init;
     prepare_dc_contactor;
     fatal \<leftarrow> stop_charging_on_fatal_error_internal;
     if fatal then on_internal (\<lambda>i. i\<lparr>current_state_started := now\<rparr>)
     else do {
       prepare_pwm;
       mode \<leftarrow> conf charge_mode;
       do_if (mode = AC) (prepare_ac time_in_state)
     }
   }"

definition charging_state_F :: "unit chargerM" where
  "charging_state_F = do {
     after_ms \<leftarrow> conf state_F_after_fault_ms;
     hlc \<leftarrow> sh hlc_charging_active;
     do_if (after_ms > 0 \<and> \<not> hlc) (do {
       entered \<leftarrow> entered_fatal_error_state;
       do_if entered pwm_F;
       F_active \<leftarrow> int_ctx pwm_F_active;
       ms \<leftarrow> time_in_fatal_error_state_ms;
       ty \<leftarrow> sh shutdown_type;
       do_if (F_active \<and> ms > after_ms \<and> ty = EmergencyShutdown) pwm_off
     })
   }"

definition charging_ac :: "bool \<Rightarrow> unit chargerM" where
  "charging_ac init = do {
     check_soft_over_current;
     power \<leftarrow> power_available;
     if \<not> power then do {
       _ \<leftarrow> pause_charging_wait_for_power_internal;
       skip
     } else do {
       use_5 \<leftarrow> gets hlc_use_5percent_current_session;
       if init then do {
         last \<leftarrow> int_ctx last_state;
         do_if (last \<noteq> St_PrepareCharging) (emit (A_simple_event Ev_ChargingResumed));
         on_shared (\<lambda>h. h\<lparr>legacy_wakeup_done := False\<rparr>);
         emit (A_bsp (In_allow_power_on True Reason_FullPowerCharging));
         if use_5 then update_pwm_now_if_changed PWM_5_PERCENT
         else do {
           m \<leftarrow> get_max_current_internal;
           update_pwm_now_if_changed_ampere m
         }
       } else do_if (\<not> use_5) (do {
         m \<leftarrow> get_max_current_internal;
         update_pwm_max_every_5seconds_ampere m
       })
     }
   }"

definition st_Charging :: "bool \<Rightarrow> unit chargerM" where
  "st_Charging init = do {
     do_if init (on_shared (\<lambda>h. h\<lparr>hlc_charging_terminate_pause := Htp_Unknown\<rparr>));
     charging_state_F;
     fatal \<leftarrow> stop_charging_on_fatal_error_internal;
     do_if (\<not> fatal) (do {
       mode \<leftarrow> conf charge_mode;
       if mode = DC then
         do_if init (emit (A_bsp (In_allow_power_on True Reason_FullPowerCharging)))
       else charging_ac init
     })
   }"

text \<open>What an HLC session does in both pause states once the EV has told its intention.\<close>

definition paused_hlc_intention :: "unit chargerM" where
  "paused_hlc_intention = do {
     h \<leftarrow> gets shared;
     if hlc_charging_terminate_pause h = Htp_Terminate then do {
       set_current_state St_StoppingCharging;
       do_if (pwm_running h) pwm_off
     } else do_if (hlc_charging_terminate_pause h = Htp_Pause \<and> pwm_running h) pwm_off
   }"

definition paused_ev_hlc :: "bool \<Rightarrow> unit chargerM" where
  "paused_ev_hlc init = do {
     mode \<leftarrow> conf charge_mode;
     do_if init (do {
       bcb_toggle_reset;
       emit (A_bsp (In_allow_power_on False Reason_PowerOff));
       do_if (mode = DC) (emit A_dc_supply_off);
       emit (A_simple_event Ev_ChargingPausedEV)
     });
     toggled \<leftarrow> bcb_toggle_detected;
     do_if toggled (set_current_state St_PrepareCharging);
     paused_hlc_intention
   }"

definition paused_ev_basic :: "bool \<Rightarrow> unit chargerM" where
  "paused_ev_basic init = do {
     power \<leftarrow> power_available;
     if \<not> power then do {
       _ \<leftarrow> pause_charging_wait_for_power_internal;
       skip
     } else if init then emit (A_simple_event Ev_ChargingPausedEV)
     else do {
       fatal \<leftarrow> stop_charging_on_fatal_error_internal;
       do_if (\<not> fatal) (do {
         m \<leftarrow> get_max_current_internal;
         update_pwm_max_every_5seconds_ampere m
       })
     }
   }"

definition st_ChargingPausedEV :: "bool \<Rightarrow> unit chargerM" where
  "st_ChargingPausedEV init = do {
     mode \<leftarrow> conf charge_mode;
     do_if (mode = AC) check_soft_over_current;
     hlc \<leftarrow> sh hlc_charging_active;
     if hlc then paused_ev_hlc init else paused_ev_basic init
   }"

definition st_ChargingPausedEVSE :: "bool \<Rightarrow> unit chargerM" where
  "st_ChargingPausedEVSE init = do {
     mode \<leftarrow> conf charge_mode;
     hlc \<leftarrow> sh hlc_charging_active;
     do_if init (do {
       emit (A_simple_event Ev_ChargingPausedEVSE);
       (if hlc then do_if (mode = DC) (emit A_dc_supply_off) else pwm_off)
     });
     do_if hlc paused_hlc_intention
   }"

definition st_WaitingForEnergy :: "bool \<Rightarrow> unit chargerM" where
  "st_WaitingForEnergy init = do_if init (do {
     emit (A_simple_event Ev_WaitingForEnergy);
     use_5 \<leftarrow> gets hlc_use_5percent_current_session;
     do_if (\<not> use_5) pwm_off
   })"

definition st_StoppingCharging :: "bool \<Rightarrow> unit chargerM" where
  "st_StoppingCharging init = do {
     mode \<leftarrow> conf charge_mode;
     h \<leftarrow> gets shared;
     do_if init (do {
       bcb_toggle_reset;
       do_if (transaction_active h) (emit (A_simple_event Ev_StoppingCharging));
       if hlc_charging_active h then do_if (mode = DC) (emit A_dc_supply_off)
       else do {
         pwm_off;
         set_current_state St_Finished
       }
     });
     do_if (hlc_charging_active h) (do {
       toggled \<leftarrow> bcb_toggle_detected;
       do_if (toggled \<and> transaction_active h) (do {
         set_current_state St_PrepareCharging;
         emit A_slac_start
       })
     })
   }"

definition st_Finished :: "bool \<Rightarrow> unit chargerM" where
  "st_Finished init = do {
     mode \<leftarrow> conf charge_mode;
     h \<leftarrow> gets shared;
     do_if init (do {
       do_if (transaction_active h) stop_transaction;
       do_if (session_active h) stop_session;
       do_if (mode = DC) (emit A_dc_supply_off)
     });
     set_current_state St_Idle
   }"

section \<open>One pass and the loop\<close>

fun run_case :: "EvseState \<Rightarrow> bool \<Rightarrow> time \<Rightarrow> int \<Rightarrow> unit chargerM" where
  "run_case St_Disabled init now t = st_Disabled init"
| "run_case St_Replug init now t = st_Replug init"
| "run_case St_Idle init now t = st_Idle init"
| "run_case St_WaitingForAuthentication init now t = st_WaitingForAuthentication init"
| "run_case St_SwitchPhases init now t = st_SwitchPhases init t"
| "run_case St_T_step_EF init now t = st_T_step_EF init t"
| "run_case St_T_step_X1 init now t = st_T_step_X1 init t"
| "run_case St_PrepareCharging init now t = st_PrepareCharging init now t"
| "run_case St_Charging init now t = st_Charging init"
| "run_case St_ChargingPausedEV init now t = st_ChargingPausedEV init"
| "run_case St_ChargingPausedEVSE init now t = st_ChargingPausedEVSE init"
| "run_case St_WaitingForEnergy init now t = st_WaitingForEnergy init"
| "run_case St_StoppingCharging init now t = st_StoppingCharging init"
| "run_case St_Finished init now t = st_Finished init"

definition initialize_state :: "charger \<Rightarrow> bool" where
  "initialize_state c \<longleftrightarrow> last_state_detect_state_change (internal c) \<noteq> current_state (shared c) \<or>
     loop_last_shutdown_type (internal c) \<noteq> shutdown_type (shared c)"

definition loop_enter :: "unit chargerM" where
  "loop_enter = modify (\<lambda>c. c\<lparr>internal := (internal c)\<lparr>
     last_state := last_state_detect_state_change (internal c),
     last_state_detect_state_change := current_state (shared c),
     loop_last_shutdown_type := shutdown_type (shared c)\<rparr>\<rparr>)"

text \<open>True: the timer for the state of charge expired, the method returns.\<close>

definition soc_timer :: "bool chargerM" where
  "soc_timer = do {
     on \<leftarrow> sh ac_with_soc_timeout;
     if on then do {
       on_shared (\<lambda>h. h\<lparr>ac_with_soc_timer := ac_with_soc_timer h - 50\<rparr>);
       t \<leftarrow> sh ac_with_soc_timer;
       if t < 0 then do {
         on_shared (\<lambda>h. h\<lparr>ac_with_soc_timeout := False, ac_with_soc_timer := 3600000\<rparr>);
         emit A_ac_with_soc_timeout;
         State_Monad.return True
       } else State_Monad.return False
     } else State_Monad.return False
   }"

definition finish_phase_switch :: "unit chargerM" where
  "finish_phase_switch = do {
     last \<leftarrow> int_ctx last_state;
     h \<leftarrow> gets shared;
     do_if (last = St_SwitchPhases \<and> current_state h \<noteq> St_SwitchPhases \<and>
            switch_3ph1ph_threephase_ongoing h) (do {
       emit (A_bsp (In_switch_three_phases (switch_3ph1ph_threephase h)));
       on_shared (\<lambda>h. h\<lparr>switch_3ph1ph_threephase_ongoing := False\<rparr>)
     })
   }"

text \<open>One pass; the result tells whether the loop goes on.\<close>

definition loop_pass :: "bool chargerM" where
  "loop_pass = do {
     init \<leftarrow> gets initialize_state;
     loop_enter;
     now \<leftarrow> gets (\<lambda>c. system_now (env c));
     expired \<leftarrow> soc_timer;
     if expired then State_Monad.return False
     else do {
       do_if init (do {
         on_internal (\<lambda>i. i\<lparr>current_state_started := now\<rparr>);
         st \<leftarrow> sh current_state;
         emit (A_state st)
       });
       started \<leftarrow> int_ctx current_state_started;
       finish_phase_switch;
       st \<leftarrow> sh current_state;
       run_case st init now (count_ms (now - started));
       gets (\<lambda>c. last_state_detect_state_change (internal c) \<noteq> current_state (shared c))
     }
   }"

section \<open>Which states a pass can set\<close>

text \<open>
  \<open>moves A\<close>: between two states of the charger the state of the machine is the same or a member
  of \<open>A\<close>, and the state the loop remembers is the same.  This is reflexive and transitive, so
  the frame rules apply.
\<close>

definition moves :: "EvseState set \<Rightarrow> charger \<Rightarrow> charger \<Rightarrow> bool" where
  "moves A c c' \<longleftrightarrow>
     (current_state (shared c') = current_state (shared c) \<or> current_state (shared c') \<in> A) \<and>
     last_state_detect_state_change (internal c') = last_state_detect_state_change (internal c)"

interpretation mv: frame_rel "moves A" for A :: "EvseState set"
  by unfold_locales (auto simp: moves_def)

lemma mv_on_shared: "(\<And>h. current_state (f h) = current_state h) \<Longrightarrow> mv.keeps A (on_shared f)"
  by (simp add: on_shared_def mv.keeps_modify moves_def)

lemma mv_on_internal:
  "(\<And>i. last_state_detect_state_change (f i) = last_state_detect_state_change i) \<Longrightarrow>
     mv.keeps A (on_internal f)"
  by (simp add: on_internal_def mv.keeps_modify moves_def)

lemma mv_modify:
  "(\<And>c. shared (f c) = shared c) \<Longrightarrow> (\<And>c. internal (f c) = internal c) \<Longrightarrow> mv.keeps A (modify f)"
  by (simp add: mv.keeps_modify moves_def)

lemma mv_emit: "mv.keeps A (emit a)"
  by (simp add: emit_def mv_modify)

lemma mv_set_current_state: "st \<in> A \<Longrightarrow> mv.keeps A (set_current_state st)"
  by (simp add: set_current_state_def on_shared_def mv.keeps_modify moves_def)

lemmas mv_rules = mv.keeps_rules mv_on_shared mv_on_internal mv_modify mv_emit mv_set_current_state

lemma mv_pwm:
  "mv.keeps A (update_pwm_now d)" "mv.keeps A (update_pwm_now_if_changed d)"
  "mv.keeps A (update_pwm_now_if_changed_ampere d)"
  "mv.keeps A (update_pwm_max_every_5seconds_ampere d)" "mv.keeps A pwm_off" "mv.keeps A pwm_F"
  by (simp_all add: update_pwm_now_def update_pwm_now_if_changed_def
      update_pwm_now_if_changed_ampere_def update_pwm_max_every_5seconds_ampere_def
      pwm_off_def pwm_F_def mv_rules Let_def)

lemma mv_limits:
  "mv.keeps A get_max_current_internal" "mv.keeps A power_available" "mv.keeps A check_soft_over_current"
  "mv.keeps A get_max_current_signalled_to_ev_internal"
  by (simp_all add: get_max_current_internal_def power_available_def check_soft_over_current_def
      get_max_current_signalled_to_ev_internal_def mv_rules Let_def)

lemma mv_bcb: "mv.keeps A bcb_toggle_reset" "mv.keeps A bcb_toggle_detected"
  by (simp_all add: bcb_toggle_reset_def bcb_toggle_detected_def mv_rules Let_def)

lemma mv_start_on_meters: "mv.keeps A (start_on_meters ms req)"
  by (induction ms) (simp_all add: mv_rules)

lemma mv_stop_on_meters: "mv.keeps A (stop_on_meters ms uuid)"
  by (induction ms) (auto simp: mv_rules Let_def split: TransactionRequestStatus.split)

lemma mv_session:
  "mv.keeps A (start_session b)" "mv.keeps A stop_session" "mv.keeps A start_transaction"
  "mv.keeps A stop_transaction" "mv.keeps A deauthorize_internal"
  by (simp_all add: start_session_def stop_session_def start_transaction_def stop_transaction_def
      deauthorize_internal_def generate_session_id_def store_session_def clear_session_def
      mv_start_on_meters mv_stop_on_meters mv_rules Let_def)

lemma mv_fatal: "mv.keeps A stop_charging_on_fatal_error_internal" "mv.keeps A clear_errors_on_unplug"
  by (simp_all add: stop_charging_on_fatal_error_internal_def emergency_shutdown_def error_shutdown_def
      clear_errors_on_unplug_def mv_pwm mv_rules Let_def)

lemma mv_pause: "St_WaitingForEnergy \<in> A \<Longrightarrow> mv.keeps A pause_charging_wait_for_power_internal"
  by (simp add: pause_charging_wait_for_power_internal_def mv_rules)

lemmas mv_ops = mv_rules mv_pwm mv_limits mv_bcb mv_session mv_fatal mv_pause

lemma mv_st_quiet:
  "mv.keeps A (st_Disabled init)" "mv.keeps A (st_Replug init)" "mv.keeps A (st_Idle init)"
  "mv.keeps A (st_WaitingForEnergy init)"
  by (simp_all add: st_Disabled_def st_Replug_def st_Idle_def st_WaitingForEnergy_def mv_ops)

lemma mv_wfa_init: "mv.keeps A wfa_init"
  by (auto simp: wfa_init_def wfa_session_def sleep_for_def mv_ops split: ChargeMode.split)

lemma mv_st_WaitingForAuthentication:
  "mv.keeps {St_PrepareCharging, St_T_step_EF, St_T_step_X1} (st_WaitingForAuthentication init)"
  by (auto simp: st_WaitingForAuthentication_def wfa_read_pp_def wfa_energy_warning_def
      wfa_authorized_def wfa_proceed_eim_def wfa_proceed_pnc_def mv_wfa_init mv_ops
      split: ChargeMode.split)

lemma mv_st_T_step_EF_begin: "mv.keeps A (st_T_step_EF True 0)"
  by (simp add: st_T_step_EF_def T_STEP_EF_def STAY_IN_X1_AFTER_TSTEP_EF_MS_def mv_ops)

lemma mv_st_T_step_X1_begin: "mv.keeps A (st_T_step_X1 True 0)"
  by (simp add: st_T_step_X1_def T_STEP_X1_def mv_ops)

lemma mv_st_PrepareCharging_begin:
  "mv.keeps {St_WaitingForEnergy, St_Charging} (st_PrepareCharging True now 0)"
  by (simp add: st_PrepareCharging_def prepare_init_def prepare_dc_contactor_def prepare_pwm_def
      prepare_ac_def LEGACY_WAKEUP_TIMEOUT_def PREPARING_TIMEOUT_PAUSED_BY_EV_def mv_ops)

lemma mv_st_Charging: "mv.keeps {St_WaitingForEnergy} (st_Charging init)"
  by (simp add: st_Charging_def charging_state_F_def charging_ac_def entered_fatal_error_state_def
      time_in_fatal_error_state_ms_def mv_ops)

lemma mv_paused:
  "mv.keeps {St_WaitingForEnergy, St_PrepareCharging, St_StoppingCharging} (st_ChargingPausedEV init)"
  "mv.keeps {St_StoppingCharging} (st_ChargingPausedEVSE init)"
  by (simp_all add: st_ChargingPausedEV_def paused_ev_hlc_def paused_ev_basic_def
      paused_hlc_intention_def st_ChargingPausedEVSE_def mv_ops)

lemma mv_stopping:
  "mv.keeps {St_Finished, St_PrepareCharging} (st_StoppingCharging init)"
  "mv.keeps {St_Idle} (st_Finished init)"
  by (simp_all add: st_StoppingCharging_def st_Finished_def mv_ops)

section \<open>The loop ends\<close>

text \<open>A state that is entered in a pass (\<open>init\<close>, no time spent in it) moves only downwards.\<close>

fun state_rank :: "EvseState \<Rightarrow> nat" where
  "state_rank St_SwitchPhases = 5"
| "state_rank St_ChargingPausedEV = 4"
| "state_rank St_ChargingPausedEVSE = 4"
| "state_rank St_StoppingCharging = 3"
| "state_rank St_WaitingForAuthentication = 3"
| "state_rank St_PrepareCharging = 2"
| "state_rank St_Charging = 1"
| "state_rank St_Finished = 1"
| "state_rank _ = 0"

definition loop_rank :: "charger \<Rightarrow> nat" where
  "loop_rank c = (if initialize_state c then state_rank (current_state (shared c)) else 6)"

lemma state_rank_le: "state_rank st \<le> 5"
  by (cases st) simp_all

lemma mv_st_SwitchPhases: "mv.keeps UNIV (st_SwitchPhases init t)"
  by (simp add: st_SwitchPhases_def mv_ops)

lemma run_case_begin:
  assumes "current_state (shared c) = st"
    and "current_state (shared (exec (run_case st True now 0) c)) = st'" and "st' \<noteq> st"
  shows "state_rank st' < state_rank st"
proof -
  have "moves A c (exec (run_case st True now 0) c) \<Longrightarrow> st' \<in> A" for A
    using assms by (auto simp: moves_def)
  note in_A = this [OF mv.keepsD]
  show ?thesis
  proof (cases st)
    case St_SwitchPhases
    with assms(3) show ?thesis by (cases st') simp_all
  qed (use assms(3) in_A [of "{}"] in_A [of "{St_PrepareCharging, St_T_step_EF, St_T_step_X1}"]
      in_A [of "{St_WaitingForEnergy, St_Charging}"] in_A [of "{St_WaitingForEnergy}"]
      in_A [of "{St_WaitingForEnergy, St_PrepareCharging, St_StoppingCharging}"]
      in_A [of "{St_StoppingCharging}"] in_A [of "{St_Finished, St_PrepareCharging}"]
      in_A [of "{St_Idle}"]
    in \<open>auto simp: mv_st_quiet mv_st_WaitingForAuthentication mv_st_T_step_EF_begin
      mv_st_T_step_X1_begin mv_st_PrepareCharging_begin mv_st_Charging mv_paused mv_stopping\<close>)
qed

lemma mv_loop_ops: "mv.keeps {} soc_timer" "mv.keeps {} finish_phase_switch"
  by (simp_all add: soc_timer_def finish_phase_switch_def mv_ops)

lemma mv_run_case: "mv.keeps UNIV (run_case st init now t)"
  by (cases st)
    (auto simp: mv_st_quiet mv_st_SwitchPhases st_T_step_EF_def st_T_step_X1_def
      st_WaitingForAuthentication_def wfa_read_pp_def wfa_energy_warning_def wfa_authorized_def
      wfa_proceed_eim_def wfa_proceed_pnc_def mv_wfa_init st_PrepareCharging_def prepare_init_def
      prepare_dc_contactor_def prepare_pwm_def prepare_ac_def st_Charging_def charging_state_F_def
      charging_ac_def entered_fatal_error_state_def time_in_fatal_error_state_ms_def
      st_ChargingPausedEV_def paused_ev_hlc_def paused_ev_basic_def paused_hlc_intention_def
      st_ChargingPausedEVSE_def st_StoppingCharging_def st_Finished_def mv_ops
      split: ChargeMode.split)

text \<open>The state of the charger in which the case of a pass runs.\<close>

definition case_entry :: "charger \<Rightarrow> charger" where
  "case_entry c = exec (do {
     init \<leftarrow> gets initialize_state;
     loop_enter;
     now \<leftarrow> gets (\<lambda>c. system_now (env c));
     expired \<leftarrow> soc_timer;
     do_if init (do {
       on_internal (\<lambda>i. i\<lparr>current_state_started := now\<rparr>);
       st \<leftarrow> sh current_state;
       emit (A_state st)
     });
     finish_phase_switch
   }) c"

definition time_in_state :: "charger \<Rightarrow> int" where
  "time_in_state c = (if initialize_state c then 0
     else count_ms (system_now (env c) - current_state_started (internal c)))"

definition soc_expires :: "charger \<Rightarrow> bool" where
  "soc_expires c \<longleftrightarrow> ac_with_soc_timeout (shared c) \<and> ac_with_soc_timer (shared c) < 50"

lemma result_soc_timer: "result soc_timer (exec loop_enter c) = soc_expires c"
  by (auto simp: soc_timer_def loop_enter_def on_shared_def emit_def run_simps soc_expires_def)

lemma soc_timer_internal: "internal (exec soc_timer c) = internal c"
  by (simp add: soc_timer_def on_shared_def emit_def run_simps)

lemma exec_loop_pass:
  "exec loop_pass c =
     (if soc_expires c then exec soc_timer (exec loop_enter c)
      else exec (run_case (current_state (shared (case_entry c))) (initialize_state c)
        (system_now (env c)) (time_in_state c)) (case_entry c))"
  by (auto simp: loop_pass_def case_entry_def time_in_state_def run_simps result_soc_timer
      soc_timer_internal on_internal_def emit_def)
    (simp_all add: loop_enter_def run_simps)

lemma result_loop_pass:
  "result loop_pass c \<longleftrightarrow> \<not> soc_expires c \<and>
     last_state_detect_state_change (internal (exec loop_pass c)) \<noteq> current_state (shared (exec loop_pass c))"
  by (simp add: exec_loop_pass)
    (auto simp: loop_pass_def case_entry_def time_in_state_def run_simps result_soc_timer
      soc_timer_internal on_internal_def emit_def, simp_all add: loop_enter_def run_simps)

lemma case_entry_state:
  "current_state (shared (case_entry c)) = current_state (shared c)"
  "last_state_detect_state_change (internal (case_entry c)) = current_state (shared c)"
proof -
  define m where "m = (do {
     expired \<leftarrow> soc_timer;
     do_if (initialize_state c) (do {
       on_internal (\<lambda>i. i\<lparr>current_state_started := system_now (env c)\<rparr>);
       st \<leftarrow> sh current_state;
       emit (A_state st)
     });
     finish_phase_switch
   })"
  have "moves {} (exec loop_enter c) (exec m (exec loop_enter c))"
    unfolding m_def by (rule mv.keepsD) (simp add: mv_loop_ops mv_ops)
  moreover have "case_entry c = exec m (exec loop_enter c)"
    by (simp add: case_entry_def m_def run_simps) (simp add: loop_enter_def run_simps)
  moreover have "current_state (shared (exec loop_enter c)) = current_state (shared c)"
    "last_state_detect_state_change (internal (exec loop_enter c)) = current_state (shared c)"
    by (simp_all add: loop_enter_def run_simps)
  ultimately show "current_state (shared (case_entry c)) = current_state (shared c)"
    "last_state_detect_state_change (internal (case_entry c)) = current_state (shared c)"
    by (simp_all add: moves_def)
qed

lemma loop_pass_remembers:
  assumes "\<not> soc_expires c"
  shows "last_state_detect_state_change (internal (exec loop_pass c)) = current_state (shared c)"
  using mv.keepsD [OF mv_run_case] assms by (simp add: exec_loop_pass moves_def case_entry_state)

lemma loop_rank_decreases:
  assumes "result loop_pass c"
  shows "loop_rank (exec loop_pass c) < loop_rank c"
proof -
  define c' where "c' = exec loop_pass c"
  have soc: "\<not> soc_expires c" and "current_state (shared c') \<noteq> current_state (shared c)"
    using assms loop_pass_remembers [of c] by (auto simp: result_loop_pass c'_def)
  moreover from this have "initialize_state c'"
    using loop_pass_remembers [of c] by (auto simp: initialize_state_def c'_def)
  moreover have "state_rank (current_state (shared c')) < state_rank (current_state (shared c))"
    if "initialize_state c"
    by (rule run_case_begin [where c = "case_entry c" and now = "system_now (env c)"])
      (use that soc \<open>current_state (shared c') \<noteq> _\<close> in
        \<open>simp_all add: case_entry_state c'_def exec_loop_pass time_in_state_def\<close>)
  ultimately show ?thesis
    using state_rank_le [of "current_state (shared c')"]
    by (auto simp: loop_rank_def c'_def [symmetric])
qed

text \<open>The loop of \<^verbatim>\<open>run_state_machine()\<close> with its counter \<^verbatim>\<open>mainloop_runs\<close>.\<close>

function run_loop :: "nat \<Rightarrow> charger \<Rightarrow> nat \<times> charger" where
  "run_loop mainloop_runs c =
     (let c' = exec loop_pass c in
      if result loop_pass c then run_loop (mainloop_runs + 1) c' else (mainloop_runs + 1, c'))"
  by pat_completeness auto
termination
  by (relation "measure (\<lambda>(n, c). loop_rank c)") (auto intro: loop_rank_decreases)

declare run_loop.simps [simp del]

definition run_state_machine :: "unit chargerM" where
  "run_state_machine = modify (\<lambda>c. snd (run_loop 0 c))"

lemma run_loop_bound: "fst (run_loop n c) \<le> n + 1 + loop_rank c"
proof (induction n c rule: run_loop.induct)
  case (1 n c)
  then show ?case
    using loop_rank_decreases [of c] by (subst run_loop.simps) (auto simp: Let_def)
qed

lemma run_loop_invariant:
  assumes "\<And>c. P c \<Longrightarrow> P (exec loop_pass c)" and "P c"
  shows "P (snd (run_loop n c))"
  using assms(2)
proof (induction n c rule: run_loop.induct)
  case (1 n c)
  then show ?case
    using assms(1) by (subst run_loop.simps) (auto simp: Let_def)
qed

lemma run_loop_settled:
  "last_state_detect_state_change (internal (snd (run_loop n c))) = current_state (shared (snd (run_loop n c)))"
proof (induction n c rule: run_loop.induct)
  case (1 n c)
  show ?case
  proof (cases "result loop_pass c")
    case True
    with 1 show ?thesis by (subst (1 2) run_loop.simps) (simp add: Let_def)
  next
    case False
    have "last_state_detect_state_change (internal (exec loop_pass c)) =
        current_state (shared (exec loop_pass c))"
    proof (cases "soc_expires c")
      case soc: True
      have "moves {} (exec loop_enter c) (exec soc_timer (exec loop_enter c))"
        by (rule mv.keepsD [OF mv_loop_ops(1)])
      with soc show ?thesis
        by (simp add: exec_loop_pass moves_def) (simp add: loop_enter_def run_simps)
    next
      case soc: False
      with False show ?thesis by (simp add: result_loop_pass)
    qed
    with False show ?thesis by (subst (1 2) run_loop.simps) (simp add: Let_def)
  qed
qed

text \<open>C27. A run of the state machine ends, from every state of the charger: after at most seven
  passes, so that the warning for more than ten is never logged, and in a state in which the loop
  has nothing left to do.\<close>

theorem run_state_machine_terminates:
  "fst (run_loop 0 c) \<le> 7 \<and>
   last_state_detect_state_change (internal (exec run_state_machine c)) =
     current_state (shared (exec run_state_machine c))"
  using run_loop_bound [of 0 c] state_rank_le [of "current_state (shared c)"] run_loop_settled [of 0 c]
  by (simp add: run_state_machine_def run_simps loop_rank_def split: if_splits)

end
