(* ===== verification/Charger_Interface.thy ===== *)
theory Charger_Interface
  imports Charger_Machine
begin

text \<open>
  The public methods of the class \<^verbatim>\<open>Charger\<close>: the handling of control pilot events, the bodies of
  the main thread and of the error thread, authorisation, pausing and resuming, cancelling, the
  requests of the high level communication, phase switching, enabling and disabling, the setup and
  the constructor.

  Every method takes the mutex of the class, so each is one step; \<open>charger_input\<close> lists them,
  \<open>charger_handle\<close> dispatches them and \<open>charger_run\<close> runs a sequence.
\<close>

section \<open>Control pilot events\<close>

definition process_cp_events_independent :: "CPEvent \<Rightarrow> unit chargerM" where
  "process_cp_events_independent e = do {
     h \<leftarrow> gets shared;
     (case e of
        EvseReplugStarted \<Rightarrow> set_current_state St_Replug
      | EvseReplugFinished \<Rightarrow> set_current_state St_WaitingForAuthentication
      | CarRequestedStopPower \<Rightarrow> on_shared (\<lambda>h. h\<lparr>iec_allow_close_contactor := False\<rparr>)
      | CarUnplugged \<Rightarrow>
          if \<not> hlc_charging_active h then set_current_state St_StoppingCharging else set_current_state St_Finished
      | PowerOff \<Rightarrow> do {
          on_shared (\<lambda>h. h\<lparr>contactor_open := True\<rparr>);
          do_if (transaction_active h \<and> \<not> authorized_pnc h \<and> \<not> authorized h) stop_transaction
        }
      | PowerOn \<Rightarrow> on_shared (\<lambda>h. h\<lparr>contactor_open := False\<rparr>)
      | _ \<Rightarrow> skip)
   }"

definition cp_waiting :: "CPEvent \<Rightarrow> unit chargerM" where
  "cp_waiting e =
     (if e = CarRequestedPower then on_shared (\<lambda>h. h\<lparr>iec_allow_close_contactor := True\<rparr>)
      else do_if (e = CarRequestedStopPower) (on_shared (\<lambda>h. h\<lparr>iec_allow_close_contactor := False\<rparr>)))"

definition cp_prepare :: "CPEvent \<Rightarrow> unit chargerM" where
  "cp_prepare e =
     (if e = CarRequestedPower then on_shared (\<lambda>h. h\<lparr>iec_allow_close_contactor := True\<rparr>)
      else do_if (e = CarRequestedStopPower) (do {
        on_shared (\<lambda>h. h\<lparr>iec_allow_close_contactor := False\<rparr>);
        emit A_dc_supply_off;
        set_current_state St_ChargingPausedEVSE
      }))"

definition cp_charging :: "CPEvent \<Rightarrow> unit chargerM" where
  "cp_charging e = do {
     hlc \<leftarrow> sh hlc_charging_active;
     if e = CarRequestedStopPower then do {
       on_shared (\<lambda>h. h\<lparr>iec_allow_close_contactor := False\<rparr>);
       set_current_state St_ChargingPausedEV;
       do_if hlc (emit A_hlc_stop_charging)
     } else do_if (e = BCDtoE) (do {
       on_shared (\<lambda>h. h\<lparr>iec_allow_close_contactor := False\<rparr>);
       set_current_state St_StoppingCharging;
       do_if hlc (emit A_hlc_stop_charging)
     })
   }"

definition cp_paused_ev :: "CPEvent \<Rightarrow> unit chargerM" where
  "cp_paused_ev e = do {
     mode \<leftarrow> conf charge_mode;
     h \<leftarrow> gets shared;
     do_if (e = CarRequestedPower) (do {
       on_shared (\<lambda>h. h\<lparr>iec_allow_close_contactor := True\<rparr>);
       if mode = AC \<and> \<not> hlc_charging_active h then set_current_state St_Charging
       else do_if (\<not> pwm_running h) bcb_toggle_detect_start_pulse
     });
     do_if (e = CarRequestedStopPower \<and> \<not> pwm_running h \<and> hlc_charging_active h)
       bcb_toggle_detect_stop_pulse
   }"

definition cp_stopping :: "CPEvent \<Rightarrow> unit chargerM" where
  "cp_stopping e = do {
     h \<leftarrow> gets shared;
     do_if (hlc_charging_active h \<and> \<not> pwm_running h)
       (if e = CarRequestedPower then bcb_toggle_detect_start_pulse
        else do_if (e = CarRequestedStopPower) bcb_toggle_detect_stop_pulse)
   }"

definition process_cp_events_state :: "CPEvent \<Rightarrow> unit chargerM" where
  "process_cp_events_state e = do {
     st \<leftarrow> sh current_state;
     (case st of
        St_Idle \<Rightarrow> do_if (e = CarPluggedIn) (set_current_state St_WaitingForAuthentication)
      | St_WaitingForEnergy \<Rightarrow> cp_waiting e
      | St_WaitingForAuthentication \<Rightarrow> cp_waiting e
      | St_PrepareCharging \<Rightarrow> cp_prepare e
      | St_Charging \<Rightarrow> cp_charging e
      | St_ChargingPausedEV \<Rightarrow> cp_paused_ev e
      | St_StoppingCharging \<Rightarrow> cp_stopping e
      | _ \<Rightarrow> skip)
   }"

definition process_event :: "CPEvent \<Rightarrow> unit chargerM" where
  "process_event e = do {
     run_state_machine;
     process_cp_events_independent e;
     run_state_machine;
     process_cp_events_state e;
     run_state_machine
   }"

section \<open>The threads\<close>

definition main_thread_start :: "unit chargerM" where
  "main_thread_start = do {
     emit (A_bsp (In_enable True));
     m \<leftarrow> get_max_current_internal;
     emit (A_max_current m);
     st \<leftarrow> sh current_state;
     emit (A_state st)
   }"

text \<open>One round of the main thread, after its sleep.\<close>

definition main_thread_round :: "unit chargerM" where
  "main_thread_round = do {
     sleep_for MAINLOOP_UPDATE_RATE;
     _ \<leftarrow> power_available;
     run_state_machine
   }"

fun shutdown_of_event :: "ErrorHandlingEvents \<Rightarrow> ShutdownType" where
  "shutdown_of_event ForceErrorShutdown = ErrorShutdown"
| "shutdown_of_event ForceEmergencyShutdown = EmergencyShutdown"
| "shutdown_of_event AllErrorsPreventingChargingCleared = Shutdown_None"
| "shutdown_of_event AllErrorCleared = Shutdown_None"

text \<open>One round of the error thread: it takes all queued events, or stays blocked.\<close>

definition error_thread_round :: "unit chargerM" where
  "error_thread_round = do {
     q \<leftarrow> gets error_handling_event_queue;
     (case eq_wait q of
        None \<Rightarrow> skip
      | Some (events, rest) \<Rightarrow> do {
          modify (\<lambda>c. c\<lparr>error_handling_event_queue := rest\<rparr>);
          for_each events (\<lambda>e. on_shared (\<lambda>h. h\<lparr>shutdown_type := shutdown_of_event e\<rparr>))
        })
   }"

text \<open>The callbacks the constructor connects to the signals of the error handling.\<close>

fun event_of_signal :: "eh_signal \<Rightarrow> ErrorHandlingEvents" where
  "event_of_signal (signal_error e) = e"
| "event_of_signal signal_all_errors_cleared = AllErrorCleared"

definition on_error_signal :: "eh_signal \<Rightarrow> unit chargerM" where
  "on_error_signal g = modify (\<lambda>c. c\<lparr>error_handling_event_queue :=
     eq_push (event_of_signal g) (error_handling_event_queue c)\<rparr>)"

section \<open>Pausing, resuming, cancelling\<close>

definition pause_charging :: "bool chargerM" where
  "pause_charging = do {
     h \<leftarrow> gets shared;
     if current_state h = St_Charging then do {
       do_if (hlc_charging_active h \<and> transaction_active h) (emit A_hlc_pause_charging);
       on_shared (\<lambda>h. h\<lparr>legacy_wakeup_done := False\<rparr>);
       set_current_state St_ChargingPausedEVSE;
       State_Monad.return True
     } else State_Monad.return False
   }"

definition resume_charging :: "bool chargerM" where
  "resume_charging = do {
     h \<leftarrow> gets shared;
     if hlc_charging_active h \<and> transaction_active h \<and> current_state h = St_ChargingPausedEVSE then do {
       set_current_state St_PrepareCharging;
       do_if (hlc_charging_terminate_pause h = Htp_Terminate) (emit A_slac_start);
       State_Monad.return True
     } else if transaction_active h \<and> current_state h = St_ChargingPausedEVSE then do {
       set_current_state St_WaitingForEnergy;
       State_Monad.return True
     } else State_Monad.return False
   }"

definition pause_charging_wait_for_power :: "bool chargerM" where
  "pause_charging_wait_for_power = pause_charging_wait_for_power_internal"

definition resume_charging_power_available :: "bool chargerM" where
  "resume_charging_power_available = do {
     h \<leftarrow> gets shared;
     if transaction_active h \<and> current_state h = St_WaitingForEnergy then do {
       power \<leftarrow> power_available;
       if power then do {
         set_current_state St_PrepareCharging;
         State_Monad.return True
       } else State_Monad.return False
     } else State_Monad.return False
   }"

definition charger_evse_replug :: "bool chargerM" where
  "charger_evse_replug = do {
     emit (A_bsp (In_evse_replug T_REPLUG_MS));
     State_Monad.return True
   }"

definition cancel_transaction :: "StopTransactionRequest \<Rightarrow> bool chargerM" where
  "cancel_transaction request = do {
     h \<leftarrow> gets shared;
     if transaction_active h then do {
       (if hlc_charging_active h then do {
          (if stop_reason request = Stop_EmergencyStop then emit (A_hlc_error Error_EmergencyShutdown)
           else do_if (stop_reason request = Stop_PowerLoss)
             (emit (A_hlc_error Error_UtilityInterruptEvent)));
          set_current_state St_StoppingCharging;
          emit A_hlc_stop_charging
        } else do {
          set_current_state St_ChargingPausedEVSE;
          pwm_off
        });
       on_shared (\<lambda>h. h\<lparr>authorized := False, authorized_pnc := False,
         last_stop_transaction_reason := Some (stop_reason request),
         stop_transaction_id_token := stop_id_tag request\<rparr>);
       do_if (contactor_open h) stop_transaction;
       State_Monad.return True
     } else State_Monad.return False
   }"

definition charger_switch_three_phases :: "bool \<Rightarrow> bool chargerM" where
  "charger_switch_three_phases n = do {
     h \<leftarrow> gets shared;
     if hlc_charging_active h then State_Monad.return False
     else do {
       (if current_state h = St_Charging then do {
          on_shared (\<lambda>h. h\<lparr>switch_3ph1ph_threephase := n, switch_3ph1ph_threephase_ongoing := True\<rparr>);
          on_internal (\<lambda>i. i\<lparr>switching_phases_return_state := St_PrepareCharging\<rparr>);
          set_current_state St_SwitchPhases
        } else if current_state h = St_SwitchPhases then
          on_shared (\<lambda>h. h\<lparr>switch_3ph1ph_threephase := n\<rparr>)
        else if current_state h = St_WaitingForEnergy then do {
          on_shared (\<lambda>h. h\<lparr>switch_3ph1ph_threephase := n, switch_3ph1ph_threephase_ongoing := True\<rparr>);
          on_internal (\<lambda>i. i\<lparr>switching_phases_return_state := St_WaitingForEnergy\<rparr>);
          set_current_state St_SwitchPhases
        } else emit (A_bsp (In_switch_three_phases n)));
       State_Monad.return True
     }
   }"

section \<open>Authorisation\<close>

definition authorize :: "bool \<Rightarrow> ProvidedIdToken \<Rightarrow> ValidationResult \<Rightarrow> unit chargerM" where
  "authorize a token res =
     (if a then do {
        on_shared (\<lambda>h. h\<lparr>id_token := token, validation_result := res\<rparr>);
        active \<leftarrow> sh session_active;
        do_if (\<not> active) (start_session True);
        emit (A_simple_event Ev_Authorized);
        on_shared (\<lambda>h. h\<lparr>authorized := True,
          authorized_pnc := (authorization_type token = Auth_PlugAndCharge)\<rparr>)
      } else do {
        active \<leftarrow> sh session_active;
        do_if active stop_session;
        on_shared (\<lambda>h. h\<lparr>authorized := False\<rparr>)
      })"

definition deauthorize :: "bool chargerM" where
  "deauthorize = deauthorize_internal"

definition get_current_state :: "EvseState chargerM" where
  "get_current_state = sh current_state"

definition get_authorized_pnc :: "bool chargerM" where
  "get_authorized_pnc = sh (\<lambda>h. authorized h \<and> authorized_pnc h)"

definition get_authorized_eim :: "bool chargerM" where
  "get_authorized_eim = sh (\<lambda>h. authorized h \<and> \<not> authorized_pnc h)"

definition ready_for_hlc :: "EvseState \<Rightarrow> bool" where
  "ready_for_hlc st \<longleftrightarrow> st = St_ChargingPausedEV \<or> st = St_ChargingPausedEVSE \<or> st = St_Charging \<or>
     st = St_WaitingForEnergy"

definition get_authorized_pnc_ready_for_hlc :: "bool chargerM" where
  "get_authorized_pnc_ready_for_hlc =
     sh (\<lambda>h. authorized h \<and> authorized_pnc h \<and> ready_for_hlc (current_state h))"

definition get_authorized_eim_ready_for_hlc :: "bool chargerM" where
  "get_authorized_eim_ready_for_hlc =
     sh (\<lambda>h. authorized h \<and> \<not> authorized_pnc h \<and> ready_for_hlc (current_state h))"

definition get_session_id :: "string chargerM" where
  "get_session_id = sh session_uuid"

section \<open>Enabling and disabling\<close>

definition parse_enable_disable_source_table :: "bool chargerM" where
  "parse_enable_disable_source_table = do {
     table \<leftarrow> gets enable_disable_source_table;
     modify (\<lambda>c. c\<lparr>active_enable_disable_source := snd (parse_table table)\<rparr>);
     State_Monad.return (fst (parse_table table))
   }"

definition enable_disable_source_table_update :: "EnableDisableSource \<Rightarrow> unit chargerM" where
  "enable_disable_source_table_update source = modify (\<lambda>c. c\<lparr>enable_disable_source_table :=
     table_update source (enable_disable_source_table c)\<rparr>)"

definition enable_disable_initial_state_publish :: "unit chargerM" where
  "enable_disable_initial_state_publish = do {
     st \<leftarrow> sh current_state;
     emit (A_simple_event (if st = St_Disabled then Ev_Disabled else Ev_Enabled));
     let source = \<lparr>enable_source = Unspecified,
       enable_state = (if st = St_Disabled then Disable else Enable), enable_priority = 10000\<rparr>;
     enable_disable_source_table_update source;
     modify (\<lambda>c. c\<lparr>active_enable_disable_source := source\<rparr>)
   }"

definition enable_disable :: "int \<Rightarrow> EnableDisableSource \<Rightarrow> bool chargerM" where
  "enable_disable connector_id source = do {
     last \<leftarrow> gets active_enable_disable_source;
     enable_disable_source_table_update source;
     is_enabled \<leftarrow> parse_enable_disable_source_table;
     do_if (connector_id \<noteq> 0) (on_shared (\<lambda>h. h\<lparr>connector_enabled := is_enabled\<rparr>));
     h \<leftarrow> gets shared;
     do_if (current_state h = St_Disabled \<and> connector_enabled h) (set_current_state St_Idle);
     active \<leftarrow> gets active_enable_disable_source;
     do_if ((enable_state active = Disable \<or> enable_state last = Disable) \<and>
            enable_state active \<noteq> enable_state last)
       (if is_enabled then emit (A_simple_event Ev_Enabled)
        else do {
          set_current_state St_Disabled;
          emit (A_simple_event Ev_Disabled)
        });
     emit (A_bsp (In_enable is_enabled));
     State_Monad.return is_enabled
   }"

section \<open>High level communication and remaining setters\<close>

definition set_current_drawn_by_vehicle :: "real \<Rightarrow> real \<Rightarrow> real \<Rightarrow> unit chargerM" where
  "set_current_drawn_by_vehicle l1 l2 l3 =
     on_shared (\<lambda>h. h\<lparr>current_drawn_by_vehicle := (l1, l2, l3)\<rparr>)"

definition request_error_sequence :: "unit chargerM" where
  "request_error_sequence = do {
     st \<leftarrow> sh current_state;
     use_5 \<leftarrow> gets hlc_use_5percent_current_session;
     do_if (st = St_WaitingForAuthentication \<or> st = St_PrepareCharging) (do {
       on_internal (\<lambda>i. i\<lparr>t_step_EF_return_state := st, t_step_EF_return_ampere := 0\<rparr>);
       set_current_state St_T_step_EF;
       emit A_slac_reset;
       on_internal (\<lambda>i. i\<lparr>t_step_EF_return_pwm := (if use_5 then PWM_5_PERCENT else 0)\<rparr>)
     })
   }"

definition set_matching_started :: "bool \<Rightarrow> unit chargerM" where
  "set_matching_started m = on_shared (\<lambda>h. h\<lparr>matching_started := m\<rparr>)"

definition notify_currentdemand_started :: "unit chargerM" where
  "notify_currentdemand_started = do {
     st \<leftarrow> sh current_state;
     do_if (st = St_PrepareCharging) (do {
       emit (A_simple_event Ev_ChargingStarted);
       set_current_state St_Charging
     })
   }"

definition inform_new_evse_max_hlc_limits :: "DcEvseMaximumLimits \<Rightarrow> unit chargerM" where
  "inform_new_evse_max_hlc_limits l = on_shared (\<lambda>h. h\<lparr>current_evse_max_limits := l\<rparr>)"

definition inform_new_evse_min_hlc_limits :: "DcEvseMinimumLimits \<Rightarrow> unit chargerM" where
  "inform_new_evse_min_hlc_limits l = on_shared (\<lambda>h. h\<lparr>current_evse_min_limits := l\<rparr>)"

definition dlink_pause :: "unit chargerM" where
  "dlink_pause = do {
     on_shared (\<lambda>h. h\<lparr>hlc_allow_close_contactor := False\<rparr>);
     pwm_off;
     on_shared (\<lambda>h. h\<lparr>hlc_charging_terminate_pause := Htp_Pause\<rparr>)
   }"

definition dlink_terminate :: "unit chargerM" where
  "dlink_terminate = do {
     on_shared (\<lambda>h. h\<lparr>hlc_allow_close_contactor := False\<rparr>);
     pwm_off;
     on_shared (\<lambda>h. h\<lparr>hlc_charging_terminate_pause := Htp_Terminate\<rparr>)
   }"

definition dlink_error :: "unit chargerM" where
  "dlink_error = do {
     on_shared (\<lambda>h. h\<lparr>hlc_allow_close_contactor := False\<rparr>);
     pwm \<leftarrow> sh pwm_running;
     use_5 \<leftarrow> gets hlc_use_5percent_current_session;
     do_if (pwm \<and> use_5) (do {
       on_internal (\<lambda>i. i\<lparr>t_step_X1_return_state := St_T_step_EF, t_step_X1_return_pwm := 0,
         t_step_EF_return_ampere := 0\<rparr>);
       set_current_state St_T_step_X1;
       on_internal (\<lambda>i. i\<lparr>t_step_EF_return_state := St_WaitingForAuthentication,
         t_step_EF_return_pwm := 0, t_step_EF_return_ampere := 0\<rparr>)
     })
   }"

definition set_hlc_charging_active :: "unit chargerM" where
  "set_hlc_charging_active = on_shared (\<lambda>h. h\<lparr>hlc_charging_active := True\<rparr>)"

definition set_hlc_allow_close_contactor :: "bool \<Rightarrow> unit chargerM" where
  "set_hlc_allow_close_contactor on = on_shared (\<lambda>h. h\<lparr>hlc_allow_close_contactor := on\<rparr>)"

definition stop_charging_on_fatal_error :: "bool chargerM" where
  "stop_charging_on_fatal_error = stop_charging_on_fatal_error_internal"

section \<open>Setup\<close>

text \<open>The arguments of \<^verbatim>\<open>setup\<close>; all but four of them are stored in the configuration as they are.\<close>

record charger_config =
  conf_has_ventilation :: bool
  conf_context :: ConfigContext
  conf_switch_3ph1ph_cp_state :: string
  conf_ac_with_soc_timeout :: bool
  conf_tolerance_percent :: real
  conf_measurement_noise_A :: real

definition charger_setup :: "charger_config \<Rightarrow> unit chargerM" where
  "charger_setup g = do {
     emit (A_bsp (In_setup (conf_has_ventilation g)));
     modify (\<lambda>c. c\<lparr>cfg := (conf_context g)\<lparr>switch_3ph1ph_cp_state_F :=
         (conf_switch_3ph1ph_cp_state g = ''F'')\<rparr>,
       ac_hlc_enabled_current_session := ac_hlc_enabled (conf_context g),
       soft_over_current_tolerance_percent := conf_tolerance_percent g,
       soft_over_current_measurement_noise_A := conf_measurement_noise_A g\<rparr>);
     on_shared (\<lambda>h. h\<lparr>ac_with_soc_timeout := conf_ac_with_soc_timeout g, ac_with_soc_timer := 3600000\<rparr>)
   }"

text \<open>The constructor, applied to the members with their initialisers.\<close>

definition charger_construct :: "unit chargerM" where
  "charger_construct = do {
     on_shared (\<lambda>h. h\<lparr>connector_enabled := True, max_current := 6\<rparr>);
     ty \<leftarrow> gets connector_type;
     pp \<leftarrow> gets (\<lambda>c. pp_ampacity (env c));
     do_if (ty = IEC62196Type2Socket) (on_shared (\<lambda>h. h\<lparr>max_current_cable := pp\<rparr>));
     on_shared (\<lambda>h. h\<lparr>authorized := False, current_state := St_Idle,
       current_drawn_by_vehicle := (0, 0, 0), matching_started := False,
       transaction_active := False, session_active := False\<rparr>);
     on_internal (\<lambda>i. i\<lparr>update_pwm_last_dc := 0, last_state := St_Disabled,
       t_step_EF_return_state := St_Idle, t_step_X1_return_state := St_Idle\<rparr>);
     modify (\<lambda>c. c\<lparr>hlc_use_5percent_current_session := False\<rparr>)
   }"

section \<open>Runs\<close>

datatype charger_input =
    C_run
  | C_event CPEvent
  | C_round
  | C_error_signal eh_signal
  | C_error_thread
  | C_set_max_current real time
  | C_pause | C_resume | C_pause_wait_for_power | C_resume_power_available
  | C_evse_replug
  | C_cancel StopTransactionRequest
  | C_switch_three_phases bool
  | C_authorize bool ProvidedIdToken ValidationResult
  | C_deauthorize
  | C_publish_initial
  | C_enable_disable int EnableDisableSource
  | C_current_drawn real real real
  | C_request_error_sequence
  | C_matching_started bool
  | C_currentdemand_started
  | C_max_hlc_limits DcEvseMaximumLimits
  | C_min_hlc_limits DcEvseMinimumLimits
  | C_dlink_pause | C_dlink_terminate | C_dlink_error
  | C_hlc_active
  | C_hlc_allow_close_contactor bool
  | C_stop_on_fatal_error
  | C_take_meter_values
  | C_cleanup
  | C_setup charger_config
  | C_environment environment

text \<open>\<open>C_environment\<close>: the world outside changes (clocks, answers of the other modules).\<close>

definition void :: "'a chargerM \<Rightarrow> unit chargerM" where
  "void m = do { _ \<leftarrow> m; skip }"

fun charger_handle :: "charger_input \<Rightarrow> unit chargerM" where
  "charger_handle C_run = main_thread_start"
| "charger_handle (C_event e) = process_event e"
| "charger_handle C_round = main_thread_round"
| "charger_handle (C_error_signal g) = on_error_signal g"
| "charger_handle C_error_thread = error_thread_round"
| "charger_handle (C_set_max_current x t) = void (set_max_current x t)"
| "charger_handle C_pause = void pause_charging"
| "charger_handle C_resume = void resume_charging"
| "charger_handle C_pause_wait_for_power = void pause_charging_wait_for_power"
| "charger_handle C_resume_power_available = void resume_charging_power_available"
| "charger_handle C_evse_replug = void charger_evse_replug"
| "charger_handle (C_cancel r) = void (cancel_transaction r)"
| "charger_handle (C_switch_three_phases n) = void (charger_switch_three_phases n)"
| "charger_handle (C_authorize a tok r) = authorize a tok r"
| "charger_handle C_deauthorize = void deauthorize"
| "charger_handle C_publish_initial = enable_disable_initial_state_publish"
| "charger_handle (C_enable_disable n src) = void (enable_disable n src)"
| "charger_handle (C_current_drawn l1 l2 l3) = set_current_drawn_by_vehicle l1 l2 l3"
| "charger_handle C_request_error_sequence = request_error_sequence"
| "charger_handle (C_matching_started m) = set_matching_started m"
| "charger_handle C_currentdemand_started = notify_currentdemand_started"
| "charger_handle (C_max_hlc_limits l) = inform_new_evse_max_hlc_limits l"
| "charger_handle (C_min_hlc_limits l) = inform_new_evse_min_hlc_limits l"
| "charger_handle C_dlink_pause = dlink_pause"
| "charger_handle C_dlink_terminate = dlink_terminate"
| "charger_handle C_dlink_error = dlink_error"
| "charger_handle C_hlc_active = set_hlc_charging_active"
| "charger_handle (C_hlc_allow_close_contactor b) = set_hlc_allow_close_contactor b"
| "charger_handle C_stop_on_fatal_error = void stop_charging_on_fatal_error"
| "charger_handle C_take_meter_values =
     void (do { _ \<leftarrow> get_start_signed_meter_value; get_stop_signed_meter_value })"
| "charger_handle C_cleanup = cleanup_transactions_on_startup"
| "charger_handle (C_setup g) = charger_setup g"
| "charger_handle (C_environment en) = modify (\<lambda>c. c\<lparr>env := en\<rparr>)"

definition charger_run :: "charger_input list \<Rightarrow> charger \<Rightarrow> charger" where
  "charger_run inputs c = exec (for_each inputs charger_handle) c"

section \<open>An instance\<close>

text \<open>A charger for AC with a tethered cable and no power meter, in front of its constructor.\<close>

definition example_shared :: SharedContext where
  "example_shared =
     \<lparr>legacy_wakeup_done = False, hlc_allow_close_contactor = False, iec_allow_close_contactor = False,
      contactor_open = True, hlc_charging_active = False, hlc_charging_terminate_pause = Htp_Unknown,
      current_evse_max_limits = \<lparr>evse_maximum_current_limit = 0, evse_maximum_power_limit = 0,
        evse_maximum_voltage_limit = 0, evse_maximum_discharge_current_limit = None,
        evse_maximum_discharge_power_limit = None\<rparr>,
      current_evse_min_limits = \<lparr>evse_minimum_current_limit = 0, evse_minimum_power_limit = 0,
        evse_minimum_voltage_limit = 0, evse_minimum_discharge_current_limit = None,
        evse_minimum_discharge_power_limit = None\<rparr>,
      pwm_running = False, stop_transaction_id_token = None,
      id_token = \<lparr>provided_id_token = \<lparr>token_value = '''', token_type = Tok_Local\<rparr>, provided_parent_id_token = None,
        authorization_type = Auth_RFID, provided_connectors = None, prevalidated = None\<rparr>,
      validation_result = \<lparr>authorization_status = Status_Unknown, tariff_messages = [], validation_expiry_time = None,
        validated_parent_id_token = None, validated_evse_ids = None, validated_reservation_id = None\<rparr>,
      authorized = False, authorized_pnc = False,
      matching_started = False, max_current = 6, max_current_valid_until = 0, max_current_cable = 0,
      transaction_active = False, session_active = False, session_uuid = '''',
      connector_enabled = True, current_state = St_Idle, last_stop_transaction_reason = None,
      last_start_session_reason = Start_EVConnected, current_drawn_by_vehicle = (0, 0, 0),
      shutdown_type = Shutdown_None, last_shutdown_type = Shutdown_None, ac_with_soc_timer = 3600000,
      ac_with_soc_timeout = False, switch_3ph1ph_threephase = False,
      switch_3ph1ph_threephase_ongoing = False, stop_signed_meter_value = None,
      start_signed_meter_value = None\<rparr>"

definition example_config :: ConfigContext where
  "example_config =
     \<lparr>ac_enforce_hlc = False, ac_hlc_use_5percent = False, ac_hlc_enabled = False, charge_mode = AC,
      switch_3ph1ph_delay_s = 10, switch_3ph1ph_cp_state_F = False, soft_over_current_timeout_ms = 7000,
      state_F_after_fault_ms = 300, fail_on_powermeter_errors = True, raise_mrec9 = False,
      sleep_before_enabling_pwm_hlc_mode_ms = 1000, session_id_type = Sid_UUID\<rparr>"

definition example_internal :: InternalContext where
  "example_internal =
     \<lparr>hlc_bcb_sequence_started = False, hlc_ev_pause_bcb_count = 0, hlc_ev_pause_start_of_bcb = 0,
      hlc_ev_pause_start_of_bcb_sequence = 0, update_pwm_last_dc = 0, last_pwm_update = 0,
      t_step_EF_return_state = St_Idle, t_step_EF_return_pwm = 0, t_step_EF_return_ampere = 0,
      switching_phases_return_state = St_Disabled, t_step_X1_return_state = St_Idle,
      t_step_X1_return_pwm = 0, last_over_current_event = 0, over_current = False,
      loop_last_shutdown_type = Shutdown_None, current_state_started = 0,
      last_state_detect_state_change = St_Disabled, last_state = St_Disabled,
      pp_warning_printed = False, no_energy_warning_printed = False, pwm_set_last_ampere = 0,
      t_step_ef_x1_pause = False, pwm_F_active = False, fatal_error_became_active = 0,
      fatal_error_timer_running = False\<rparr>"

definition example_env :: environment where
  "example_env =
     \<lparr>steady_now = 0, system_now = 0, pp_ampacity = 32, billing_meters = [], store_answer = Kvs_other,
      new_uuid = ''u1'', new_base64_uuid = ''b1'', new_base64_id = ''s1'',
      overcurrent_text = (\<lambda>_ _. ''overcurrent'')\<rparr>"

definition example_charger :: charger where
  "example_charger =
     \<lparr>shared = example_shared, cfg = example_config, internal = example_internal,
      soft_over_current_tolerance_percent = 10, soft_over_current_measurement_noise_A = 1/2,
      hlc_use_5percent_current_session = False, ac_hlc_enabled_current_session = False,
      connector_type = IEC62196Type2Cable, evse_id = ''E1'', store_active = False,
      session_key = ''k'', error_handling_event_queue = [],
      active_enable_disable_source = default_source, enable_disable_source_table = [],
      env = example_env, actions = []\<rparr>"

lemmas example_defs = example_charger_def example_shared_def example_config_def example_internal_def
  example_env_def

end
