(* ===== verification/Charger_Effects.thy ===== *)
theory Charger_Effects
  imports Charger_Interface
begin

text \<open>
  A frame for the effects of the charger's methods: which actions they send out and which part of
  the state they leave alone.  \<open>eff P K\<close> relates two states when the actions in between all
  satisfy \<open>P\<close> and the projection \<open>K\<close> of the state is the same.  It is reflexive and
  transitive for every \<open>P\<close> and \<open>K\<close>, so the frame rules carry it through the programs.
\<close>

definition eff :: "(action \<Rightarrow> bool) \<Rightarrow> (charger \<Rightarrow> 'k) \<Rightarrow> charger \<Rightarrow> charger \<Rightarrow> bool" where
  "eff P K c c' \<longleftrightarrow> K c' = K c \<and> (\<exists>as. actions c' = actions c @ as \<and> list_all P as)"

interpretation ef: frame_rel "eff P K" for P :: "action \<Rightarrow> bool" and K :: "charger \<Rightarrow> 'k"
proof
  show "eff P K c c" for c
    by (simp add: eff_def)
  show "eff P K a c" if "eff P K a b" "eff P K b c" for a b c
    using that by (auto simp: eff_def)
qed

abbreviation ekeeps :: "(action \<Rightarrow> bool) \<Rightarrow> (charger \<Rightarrow> 'k) \<Rightarrow> 'a chargerM \<Rightarrow> bool" where
  "ekeeps P K \<equiv> frame_rel.keeps (eff P K)"

lemma ef_modify:
  "(\<And>c. K (f c) = K c) \<Longrightarrow> (\<And>c. actions (f c) = actions c) \<Longrightarrow> ekeeps P K (modify f)"
  by (rule ef.keeps_modify) (simp add: eff_def)

lemma ef_on_shared: "(\<And>c. K (c\<lparr>shared := f (shared c)\<rparr>) = K c) \<Longrightarrow> ekeeps P K (on_shared f)"
  by (simp add: on_shared_def ef_modify)

lemma ef_on_internal: "(\<And>c. K (c\<lparr>internal := f (internal c)\<rparr>) = K c) \<Longrightarrow> ekeeps P K (on_internal f)"
  by (simp add: on_internal_def ef_modify)

lemma ef_emit: "P a \<Longrightarrow> (\<And>c g. K (c\<lparr>actions := g\<rparr>) = K c) \<Longrightarrow> ekeeps P K (emit a)"
  by (simp add: emit_def ef.keeps_modify eff_def)

lemma ef_set_current_state:
  "(\<And>c. K (c\<lparr>shared := (shared c)\<lparr>current_state := st\<rparr>\<rparr>) = K c) \<Longrightarrow> ekeeps P K (set_current_state st)"
  by (simp add: set_current_state_def ef_on_shared)

lemma ef_sleep_for: "(\<And>c e. K (c\<lparr>env := e\<rparr>) = K c) \<Longrightarrow> ekeeps P K (sleep_for d)"
  by (simp add: sleep_for_def ef_modify)

lemmas ef_rules = ef.keeps_rules ef_modify ef_on_shared ef_on_internal ef_emit ef_set_current_state ef_sleep_for

lemma ef_void: "ekeeps P K m \<Longrightarrow> ekeeps P K (void m)"
  by (simp add: void_def ef.keeps_rules)

lemmas pwm_defs = update_pwm_now_def update_pwm_now_if_changed_def update_pwm_now_if_changed_ampere_def
  update_pwm_max_every_5seconds_ampere_def pwm_off_def pwm_F_def

lemmas limit_defs = get_max_current_internal_def power_available_def check_soft_over_current_def
  get_max_current_signalled_to_ev_internal_def

lemmas bcb_defs = bcb_toggle_reset_def bcb_toggle_detected_def bcb_toggle_detect_start_pulse_def
  bcb_toggle_detect_stop_pulse_def

lemmas fatal_defs = stop_charging_on_fatal_error_internal_def emergency_shutdown_def error_shutdown_def
  entered_fatal_error_state_def time_in_fatal_error_state_ms_def clear_errors_on_unplug_def

lemmas wfa_defs = wfa_read_pp_def wfa_energy_warning_def wfa_authorized_def wfa_proceed_eim_def
  wfa_proceed_pnc_def

lemmas prepare_defs = prepare_init_def prepare_dc_contactor_def prepare_pwm_def prepare_ac_def

lemmas cp_defs = process_cp_events_state_def cp_waiting_def cp_prepare_def cp_charging_def
  cp_paused_ev_def cp_stopping_def

text \<open>A pass of the loop is its preparation and its case.\<close>

lemma ef_loop_parts:
  assumes "ekeeps P K loop_enter" and "ekeeps P K soc_timer" and "ekeeps P K finish_phase_switch"
    and "\<And>st. ekeeps P K (emit (A_state st))"
    and "\<And>t. ekeeps P K (on_internal (\<lambda>i. i\<lparr>current_state_started := t\<rparr>))"
  shows "eff P K c (case_entry c)" and "eff P K c (exec soc_timer (exec loop_enter c))"
proof -
  show "eff P K c (exec soc_timer (exec loop_enter c))"
    by (rule ef.R_trans [OF ef.keepsD [OF assms(1)] ef.keepsD [OF assms(2)]])
  show "eff P K c (case_entry c)"
    unfolding case_entry_def by (rule ef.keepsD) (simp add: ef.keeps_rules assms)
qed

lemmas loop_defs = loop_enter_def soc_timer_def finish_phase_switch_def

definition new_actions :: "charger \<Rightarrow> charger \<Rightarrow> action list" where
  "new_actions c c' = drop (length (actions c)) (actions c')"

lemma eff_new_actions: "eff P K c c' \<Longrightarrow> a \<in> set (new_actions c c') \<Longrightarrow> P a"
  by (auto simp: eff_def new_actions_def list_all_iff)

lemma new_actions_later:
  assumes "\<exists>as. actions b = actions a @ as" and "x \<in> set (new_actions b c)"
  shows "x \<in> set (new_actions a c)"
  using assms set_drop_subset_set_drop [of "length (actions a)" "length (actions b)" "actions c"]
  by (auto simp: new_actions_def)

section \<open>Runs of one and of two passes\<close>

lemma run_single_pass:
  "\<not> result loop_pass c \<Longrightarrow> exec run_state_machine c = exec loop_pass c"
  by (simp add: run_state_machine_def run_simps run_loop.simps [of 0 c])

lemma run_next_pass:
  "result loop_pass c \<Longrightarrow> \<not> result loop_pass (exec loop_pass c) \<Longrightarrow>
     exec run_state_machine c = exec loop_pass (exec loop_pass c)"
  by (simp add: run_state_machine_def run_simps run_loop.simps [of 0 c]
      run_loop.simps [of "Suc 0" "exec loop_pass c"])

end
