(* ===== verification/Charger_Sessions.thy ===== *)
theory Charger_Sessions
  imports Charger_Effects
begin

text \<open>
  Sessions of the charger: the start and the end of a session are signalled strictly in turn, over
  every sequence of calls, and the flag \<^verbatim>\<open>session_active\<close> tells which of the two came last.
\<close>

section \<open>The monitor\<close>

fun session_step :: "bool option \<Rightarrow> action \<Rightarrow> bool option" where
  "session_step (Some b) (A_session_started r t) = (if b then None else Some True)"
| "session_step (Some b) (A_simple_event Ev_SessionFinished) = (if b then Some False else None)"
| "session_step m _ = m"

text \<open>\<open>Some b\<close>: the signals alternate so far, and \<open>b\<close> tells whether a session is open.\<close>

definition sessions :: "action list \<Rightarrow> bool option" where
  "sessions as = foldl session_step (Some False) as"

fun session_event :: "action \<Rightarrow> bool" where
  "session_event (A_session_started r t) = True"
| "session_event (A_simple_event e) = (e = Ev_SessionFinished)"
| "session_event _ = False"

definition session_ok :: "charger \<Rightarrow> bool" where
  "session_ok c \<longleftrightarrow> sessions (actions c) = Some (session_active (shared c))"

abbreviation no_session :: "action \<Rightarrow> bool" where
  "no_session a \<equiv> \<not> session_event a"

abbreviation active_flag :: "charger \<Rightarrow> bool" where
  "active_flag c \<equiv> session_active (shared c)"

lemma session_step_neutral: "\<not> session_event a \<Longrightarrow> session_step m a = m"
  by (cases "(m, a)" rule: session_step.cases) auto

lemma sessions_append [simp]: "sessions (xs @ ys) = foldl session_step (sessions xs) ys"
  by (simp add: sessions_def)

lemma foldl_neutral: "list_all no_session as \<Longrightarrow> foldl session_step m as = m"
  by (induction as arbitrary: m) (simp_all add: session_step_neutral)

lemma quiet_session_ok: "eff no_session active_flag c c' \<Longrightarrow> session_ok c \<Longrightarrow> session_ok c'"
  by (auto simp: eff_def session_ok_def foldl_neutral)

definition ses_rel :: "charger \<Rightarrow> charger \<Rightarrow> bool" where
  "ses_rel c c' \<longleftrightarrow> (session_ok c \<longrightarrow> session_ok c')"

interpretation ses: frame_rel ses_rel
  by unfold_locales (simp_all add: ses_rel_def)

lemma ses_quiet: "ekeeps no_session active_flag m \<Longrightarrow> ses.keeps m"
  by (rule ses.keepsI) (auto simp: ses_rel_def dest: ef.keepsD intro: quiet_session_ok)

section \<open>Quiet operations\<close>

lemmas q_rules = ef_rules

lemma q_pwm:
  "ekeeps no_session active_flag (update_pwm_now d)"
  "ekeeps no_session active_flag (update_pwm_now_if_changed d)"
  "ekeeps no_session active_flag (update_pwm_now_if_changed_ampere d)"
  "ekeeps no_session active_flag (update_pwm_max_every_5seconds_ampere d)"
  "ekeeps no_session active_flag pwm_off" "ekeeps no_session active_flag pwm_F"
  by (simp_all add: pwm_defs q_rules Let_def)

lemma q_limits:
  "ekeeps no_session active_flag get_max_current_internal"
  "ekeeps no_session active_flag power_available"
  "ekeeps no_session active_flag check_soft_over_current"
  by (simp_all add: limit_defs q_rules Let_def)

lemma q_bcb:
  "ekeeps no_session active_flag bcb_toggle_reset" "ekeeps no_session active_flag bcb_toggle_detected"
  "ekeeps no_session active_flag bcb_toggle_detect_start_pulse"
  "ekeeps no_session active_flag bcb_toggle_detect_stop_pulse"
  by (simp_all add: bcb_defs q_rules Let_def)

lemma q_fatal:
  "ekeeps no_session active_flag stop_charging_on_fatal_error_internal"
  "ekeeps no_session active_flag entered_fatal_error_state"
  "ekeeps no_session active_flag time_in_fatal_error_state_ms"
  "ekeeps no_session active_flag clear_errors_on_unplug"
  by (simp_all add: fatal_defs q_pwm q_rules Let_def)

lemma q_start_on_meters: "ekeeps no_session active_flag (start_on_meters ms req)"
  by (induction ms) (simp_all add: q_rules)

lemma q_stop_on_meters: "ekeeps no_session active_flag (stop_on_meters ms uuid)"
  by (induction ms) (auto simp: q_rules Let_def split: TransactionRequestStatus.split)

lemma q_transaction:
  "ekeeps no_session active_flag start_transaction" "ekeeps no_session active_flag stop_transaction"
  by (simp_all add: start_transaction_def stop_transaction_def store_session_def clear_session_def
      q_start_on_meters q_stop_on_meters q_rules)

lemma q_pause: "ekeeps no_session active_flag pause_charging_wait_for_power_internal"
  by (simp add: pause_charging_wait_for_power_internal_def q_rules)

lemmas q_ops = q_rules q_pwm q_limits q_bcb q_fatal q_transaction q_pause

lemma q_states:
  "ekeeps no_session active_flag (st_Disabled init)" "ekeeps no_session active_flag (st_Replug init)"
  "ekeeps no_session active_flag (st_SwitchPhases init t)"
  "ekeeps no_session active_flag (st_T_step_EF init t)"
  "ekeeps no_session active_flag (st_T_step_X1 init t)"
  "ekeeps no_session active_flag (st_WaitingForEnergy init)"
  "ekeeps no_session active_flag (st_StoppingCharging init)"
  "ekeeps no_session active_flag (st_ChargingPausedEVSE init)"
  by (simp_all add: st_Disabled_def st_Replug_def st_SwitchPhases_def st_T_step_EF_def st_T_step_X1_def
      st_WaitingForEnergy_def st_StoppingCharging_def st_ChargingPausedEVSE_def
      paused_hlc_intention_def q_ops)

lemma q_charging:
  "ekeeps no_session active_flag (st_PrepareCharging init now t)"
  "ekeeps no_session active_flag (st_Charging init)"
  "ekeeps no_session active_flag (st_ChargingPausedEV init)"
  by (simp_all add: st_PrepareCharging_def prepare_defs st_Charging_def charging_state_F_def
      charging_ac_def st_ChargingPausedEV_def paused_ev_hlc_def paused_ev_basic_def
      paused_hlc_intention_def q_ops)

lemma q_wfa:
  "ekeeps no_session active_flag wfa_read_pp" "ekeeps no_session active_flag wfa_energy_warning"
  "ekeeps no_session active_flag wfa_authorized"
  by (auto simp: wfa_defs q_ops split: ChargeMode.split)

section \<open>Operations that start or end a session\<close>

lemma start_session_ok:
  "session_ok c \<Longrightarrow> \<not> session_active (shared c) \<Longrightarrow> session_ok (exec (start_session b) c)"
  by (simp add: session_ok_def start_session_def generate_session_id_def on_shared_def emit_def
      run_simps Let_def)

lemma stop_session_ok:
  "session_ok c \<Longrightarrow> session_active (shared c) \<Longrightarrow> session_ok (exec stop_session c)"
  by (simp add: session_ok_def stop_session_def on_shared_def emit_def run_simps)

lemma emit_ok: "session_ok c \<Longrightarrow> \<not> session_event a \<Longrightarrow> session_ok (exec (emit a) c)"
  by (simp add: session_ok_def emit_def run_simps session_step_neutral)

lemma on_shared_ok:
  "session_ok c \<Longrightarrow> (\<And>h. session_active (f h) = session_active h) \<Longrightarrow> session_ok (exec (on_shared f) c)"
  by (simp add: session_ok_def on_shared_def run_simps)

lemma ses_wfa_session: "ses.keeps wfa_session"
  by (rule ses.keepsI)
    (simp add: ses_rel_def wfa_session_def run_simps emit_ok start_session_ok)

lemma ses_deauthorize: "ses.keeps deauthorize_internal"
proof (rule ses.keepsI, unfold ses_rel_def, rule impI)
  fix c
  assume ok: "session_ok c"
  have act: "session_active (shared (exec (emit a) c)) = session_active (shared c)"
    "session_active (shared (exec (on_shared (authorized_update f)) c)) = session_active (shared c)"
    for a f c
    by (simp_all add: emit_def on_shared_def run_simps)
  show "session_ok (exec deauthorize_internal c)"
    using ok
    by (simp add: deauthorize_internal_def run_simps Let_def emit_ok
        stop_session_ok on_shared_ok act)
qed

lemma ses_st_Finished: "ses.keeps (st_Finished init)"
proof (rule ses.keepsI, unfold ses_rel_def, rule impI)
  fix c
  assume ok: "session_ok c"
  define c1 where "c1 = (if transaction_active (shared c) then exec stop_transaction c else c)"
  have e: "eff no_session active_flag c c1"
    using ef.keepsD [OF q_transaction(2)] by (simp add: c1_def ef.R_refl)
  have "session_ok c1" "session_active (shared c1) = session_active (shared c)"
    using quiet_session_ok [OF e ok] e by (simp_all add: eff_def)
  then have "session_ok (exec (do {
      do_if (session_active (shared c)) stop_session;
      do_if (charge_mode (cfg c) = DC) (emit A_dc_supply_off) }) c1)"
    by (simp add: run_simps stop_session_ok emit_ok)
  then show "session_ok (exec (st_Finished init) c)"
    using ok by (auto simp: st_Finished_def set_current_state_def run_simps on_shared_ok c1_def split: if_splits)
qed

lemmas ses_ops = ses.keeps_rules ses_wfa_session ses_deauthorize ses_quiet

lemma ses_st_Idle: "ses.keeps (st_Idle init)"
  by (simp add: st_Idle_def ses_ops q_ops)

lemma ses_st_WaitingForAuthentication: "ses.keeps (st_WaitingForAuthentication init)"
  by (auto simp: st_WaitingForAuthentication_def wfa_init_def ses_ops q_wfa q_ops split: ChargeMode.split)

lemma ses_run_case: "ses.keeps (run_case st init now t)"
  by (cases st) (simp_all add: ses_quiet q_states q_charging ses_st_Finished ses_st_Idle
      ses_st_WaitingForAuthentication)

section \<open>All methods\<close>

lemma q_loop: "eff no_session active_flag c (case_entry c)"
  "eff no_session active_flag c (exec soc_timer (exec loop_enter c))"
  by (rule ef_loop_parts; simp add: loop_defs q_rules)+

lemma loop_pass_session_ok: "session_ok c \<Longrightarrow> session_ok (exec loop_pass c)"
  using q_loop [of c] ses.keepsD [OF ses_run_case]
  by (auto simp: exec_loop_pass ses_rel_def dest: quiet_session_ok)

lemma ses_run_state_machine: "ses.keeps run_state_machine"
  by (rule ses.keepsI) (simp add: ses_rel_def run_state_machine_def run_simps
      run_loop_invariant [where P = session_ok] loop_pass_session_ok)

lemma q_events:
  "ekeeps no_session active_flag (process_cp_events_independent e)"
  "ekeeps no_session active_flag (process_cp_events_state e)"
  by (auto simp: process_cp_events_independent_def cp_defs q_ops split: CPEvent.split EvseState.split)

lemma q_threads:
  "ekeeps no_session active_flag error_thread_round" "ekeeps no_session active_flag (on_error_signal g)"
  by (auto simp: error_thread_round_def on_error_signal_def q_rules split: option.split)

lemma q_interface:
  "ekeeps no_session active_flag (set_max_current x t)" "ekeeps no_session active_flag pause_charging"
  "ekeeps no_session active_flag resume_charging"
  "ekeeps no_session active_flag pause_charging_wait_for_power"
  "ekeeps no_session active_flag resume_charging_power_available"
  "ekeeps no_session active_flag charger_evse_replug"
  "ekeeps no_session active_flag (charger_switch_three_phases n)"
  "ekeeps no_session active_flag enable_disable_initial_state_publish"
  "ekeeps no_session active_flag (enable_disable conn src)"
  by (simp_all add: set_max_current_def pause_charging_def resume_charging_def
      pause_charging_wait_for_power_def resume_charging_power_available_def charger_evse_replug_def
      charger_switch_three_phases_def enable_disable_initial_state_publish_def enable_disable_def
      enable_disable_source_table_update_def parse_enable_disable_source_table_def q_ops Let_def)

lemma q_cancel: "ekeeps no_session active_flag (cancel_transaction r)"
  by (simp add: cancel_transaction_def q_ops)

lemma q_hlc:
  "ekeeps no_session active_flag (set_current_drawn_by_vehicle l1 l2 l3)"
  "ekeeps no_session active_flag request_error_sequence"
  "ekeeps no_session active_flag (set_matching_started b)"
  "ekeeps no_session active_flag notify_currentdemand_started"
  "ekeeps no_session active_flag (inform_new_evse_max_hlc_limits l)"
  "ekeeps no_session active_flag (inform_new_evse_min_hlc_limits k)"
  "ekeeps no_session active_flag dlink_pause" "ekeeps no_session active_flag dlink_terminate"
  "ekeeps no_session active_flag dlink_error" "ekeeps no_session active_flag set_hlc_charging_active"
  "ekeeps no_session active_flag (set_hlc_allow_close_contactor b)"
  "ekeeps no_session active_flag stop_charging_on_fatal_error"
  "ekeeps no_session active_flag get_start_signed_meter_value"
  "ekeeps no_session active_flag get_stop_signed_meter_value"
  "ekeeps no_session active_flag (charger_setup g)"
  "ekeeps no_session active_flag cleanup_transactions_on_startup"
  by (simp_all add: set_current_drawn_by_vehicle_def request_error_sequence_def
      set_matching_started_def notify_currentdemand_started_def inform_new_evse_max_hlc_limits_def
      inform_new_evse_min_hlc_limits_def dlink_pause_def dlink_terminate_def dlink_error_def
      set_hlc_charging_active_def set_hlc_allow_close_contactor_def stop_charging_on_fatal_error_def
      get_start_signed_meter_value_def get_stop_signed_meter_value_def charger_setup_def
      cleanup_transactions_on_startup_def get_session_def clear_session_def q_stop_on_meters q_ops)

lemma ses_authorize: "ses.keeps (authorize a tok r)"
proof (rule ses.keepsI, unfold ses_rel_def, rule impI)
  fix c
  assume ok: "session_ok c"
  have act: "session_active (shared (exec (on_shared (\<lambda>h. h\<lparr>id_token := tok, validation_result := r\<rparr>)) c)) =
    session_active (shared c)"
    by (simp add: on_shared_def run_simps)
  show "session_ok (exec (authorize a tok r) c)"
    using ok
    by (auto simp: authorize_def run_simps act intro!: on_shared_ok emit_ok start_session_ok stop_session_ok)
qed

lemma ses_void: "ses.keeps m \<Longrightarrow> ses.keeps (void m)"
  by (simp add: void_def ses.keeps_rules)

lemma ses_charger_handle: "ses.keeps (charger_handle i)"
proof (cases i)
  case (C_environment en)
  show ?thesis
    unfolding C_environment charger_handle.simps by (rule ses_quiet) (simp add: q_rules)
qed (simp_all add: process_event_def main_thread_round_def main_thread_start_def deauthorize_def ses_void ses.keeps_rules
    ses_run_state_machine ses_deauthorize ses_authorize ses_quiet q_events q_threads q_interface
    q_cancel q_hlc q_limits q_rules)

lemma charger_run_session_ok: "session_ok c \<Longrightarrow> session_ok (charger_run inputs c)"
proof -
  have "ses.keeps (for_each inputs charger_handle)"
    by (simp add: ses.keeps_for_each ses_charger_handle)
  then show "session_ok c \<Longrightarrow> session_ok (charger_run inputs c)"
    by (auto simp: charger_run_def ses_rel_def dest: ses.keepsD)
qed

section \<open>Properties\<close>

text \<open>C26. From construction on, over every sequence of calls, events and rounds of the threads,
  the signals "session started" and "session finished" alternate, beginning with a start, and
  \<^verbatim>\<open>session_active\<close> is true exactly between a start and the next finish.\<close>

theorem sessions_alternate:
  assumes "actions c0 = []" and "c = charger_run inputs (exec charger_construct c0)"
  shows "sessions (actions c) = Some (session_active (shared c))"
proof -
  have "session_ok (exec charger_construct c0)"
    using assms(1)
    by (simp add: session_ok_def charger_construct_def on_shared_def on_internal_def run_simps
        sessions_def)
  with charger_run_session_ok [of "exec charger_construct c0" inputs] assms(2) show ?thesis
    by (simp add: session_ok_def)
qed

theorem sessions_alternate_witness:
  "sessions (actions (charger_run [C_event CarPluggedIn, C_event CarUnplugged]
     (exec charger_construct example_charger))) \<noteq> None"
  using sessions_alternate [of example_charger _ "[C_event CarPluggedIn, C_event CarUnplugged]"]
  by (simp add: example_charger_def)

end
