(* ===== verification/Charger_Limits.thy ===== *)
theory Charger_Limits
  imports Charger_Effects
begin

text \<open>
  Current limits of the charger: the duty cycle that signals a current and how an EV reads it back
  (\<^verbatim>\<open>duty_cycle_to_amps\<close> of \<^verbatim>\<open>modules/Simulation/YetiSimulator/YetiSimulator.cpp\<close>), the limit of
  the cable, the expiry of the power budget, the supervision of the drawn current and the detection
  of BCB toggles.
\<close>

section \<open>Duty cycles\<close>

definition duty_cycle_to_amps :: "real \<Rightarrow> real" where
  "duty_cycle_to_amps dc =
     (if dc < 8 / 100 then 0
      else if dc < 85 / 100 then dc * 100 * 0.6
      else if dc < 96 / 100 then (dc * 100 - 64) * 2.5
      else if dc < 97 / 100 then 80
      else 0)"

lemma duty_cycle_regions:
  "5.9 \<le> a \<Longrightarrow> a \<le> 6.1 \<Longrightarrow> ampere_to_duty_cycle a = 0.1"
  "6.1 < a \<Longrightarrow> a < 52.5 \<Longrightarrow> ampere_to_duty_cycle a = min a 51 / 60"
  "52.5 \<le> a \<Longrightarrow> a \<le> 80 \<Longrightarrow> ampere_to_duty_cycle a = a / 250 + 0.64"
  "80 < a \<Longrightarrow> a \<le> 80.1 \<Longrightarrow> ampere_to_duty_cycle a = 0.97"
  by (simp_all add: ampere_to_duty_cycle_def min_def Let_def)

lemma duty_cycle_invalid: "\<not> (5.9 \<le> a \<and> a \<le> 80.1) \<Longrightarrow> ampere_to_duty_cycle a = 1"
  by (auto simp: ampere_to_duty_cycle_def Let_def)

lemma region_cases:
  fixes a :: real
  assumes "5.9 \<le> a" and "a \<le> 80.1"
  obtains "5.9 \<le> a" "a \<le> 6.1" | "6.1 < a" "a < 52.5" | "52.5 \<le> a" "a \<le> 80" | "80 < a" "a \<le> 80.1"
  using assms by linarith

lemma duty_cycle_bounds:
  assumes "5.9 \<le> a" and "a \<le> 80.1"
  shows "0.1 \<le> ampere_to_duty_cycle a" and "ampere_to_duty_cycle a \<le> 0.97"
  by (cases rule: region_cases [OF assms]; simp add: duty_cycle_regions min_def)+

lemma duty_cycle_mono:
  assumes "5.9 \<le> a" and "a \<le> b" and "b \<le> 80.1"
  shows "ampere_to_duty_cycle a \<le> ampere_to_duty_cycle b"
proof -
  have a: "5.9 \<le> a" "a \<le> 80.1" and b: "5.9 \<le> b" "b \<le> 80.1"
    using assms by linarith+
  show ?thesis
  proof (cases rule: region_cases [OF a])
    case 1
    with duty_cycle_bounds(1) [OF b] show ?thesis by (simp add: duty_cycle_regions)
  next
    case 2
    with assms(2) show ?thesis
      by (cases rule: region_cases [OF b]) (simp_all add: duty_cycle_regions min_def)
  next
    case 3
    with assms(2) show ?thesis
      by (cases rule: region_cases [OF b]) (simp_all add: duty_cycle_regions)
  next
    case 4
    with assms(2) show ?thesis
      by (cases rule: region_cases [OF b]) (simp_all add: duty_cycle_regions)
  qed
qed

text \<open>The duty cycle signals a current between 10 and 97 percent exactly for currents from 5.9 to
  80.1 ampere, and the constant level (100 percent) otherwise; more current never gives a smaller
  duty cycle in that range.\<close>

theorem duty_cycle_range:
  "(if 5.9 \<le> a \<and> a \<le> 80.1 then 0.1 \<le> ampere_to_duty_cycle a \<and> ampere_to_duty_cycle a \<le> 0.97
    else ampere_to_duty_cycle a = 1) \<and>
   (5.9 \<le> a \<and> a \<le> b \<and> b \<le> 80.1 \<longrightarrow> ampere_to_duty_cycle a \<le> ampere_to_duty_cycle b)"
  using duty_cycle_bounds [of a] duty_cycle_invalid [of a] duty_cycle_mono [of a b] by argo

theorem duty_cycle_range_witness: "ampere_to_duty_cycle 6 \<le> ampere_to_duty_cycle 32"
  using duty_cycle_range [of 6 32] by simp

text \<open>An EV that decodes the duty cycle reads the current that was set, from 6.1 to 51 ampere and
  from 52.5 to 80 ampere; the constant level and the levels for 5.9 to 6.1 ampere are read as no
  current and as 6 ampere.\<close>

theorem duty_cycle_round_trip:
  assumes "6.1 < a \<and> a < 51 \<or> 52.5 \<le> a \<and> a \<le> 80"
  shows "duty_cycle_to_amps (ampere_to_duty_cycle a) = a \<and>
    (\<forall>x. x < 5.9 \<longrightarrow> duty_cycle_to_amps (ampere_to_duty_cycle x) = 0) \<and>
    (\<forall>x. 5.9 \<le> x \<and> x \<le> 6.1 \<longrightarrow> duty_cycle_to_amps (ampere_to_duty_cycle x) = 6)"
proof -
  have "duty_cycle_to_amps (ampere_to_duty_cycle a) = a"
    using assms by (auto simp: duty_cycle_regions duty_cycle_to_amps_def min_def)
  then show ?thesis
    by (simp add: duty_cycle_regions duty_cycle_invalid duty_cycle_to_amps_def)
qed

theorem duty_cycle_round_trip_witness: "duty_cycle_to_amps (ampere_to_duty_cycle 32) = 32"
  using duty_cycle_round_trip [of 32] by simp

section \<open>The limit in force\<close>

lemma result_max_current:
  "result get_max_current_internal c =
     (if connector_type c = IEC62196Type2Socket \<and> current_state (shared c) \<noteq> St_Idle
      then min (max_current (shared c)) (max_current_cable (shared c)) else max_current (shared c))"
  by (auto simp: get_max_current_internal_def run_simps Let_def)

lemma exec_max_current [simp]: "exec get_max_current_internal c = c"
  by (simp add: get_max_current_internal_def run_simps)

lemma exec_power_available:
  "exec power_available c =
     (if 0 < count_s (steady_now (env c) - max_current_valid_until (shared c)) \<and> 0 < max_current (shared c)
      then c\<lparr>shared := (shared c)\<lparr>max_current := 0\<rparr>, actions := actions c @ [A_max_current 0]\<rparr> else c)"
  by (simp add: power_available_def on_shared_def emit_def run_simps Let_def)

lemma result_power_available:
  "result power_available c \<longleftrightarrow> 5.9 < result get_max_current_internal (exec power_available c)"
  unfolding exec_power_available
  by (simp add: power_available_def on_shared_def emit_def run_simps Let_def)

lemma budget_expired:
  assumes "max_current_valid_until (shared c) + milliseconds 1000 \<le> steady_now (env c)"
  shows "max_current (shared (exec power_available c)) \<le> 0"
    and "\<not> result power_available c"
proof -
  have "0 < count_s (steady_now (env c) - max_current_valid_until (shared c))"
    using assms by (simp add: count_s_pos_iff)
  then show m: "max_current (shared (exec power_available c)) \<le> 0"
    by (simp add: exec_power_available)
  then show "\<not> result power_available c"
    by (auto simp: result_power_available result_max_current min_def)
qed

text \<open>A budget is accepted only for the future and up to 1000 ampere; from then on and until it
  expires the limit is its absolute value, or the rating of the cable if that is smaller and the
  charger has a socket and is not idle; the over current limit of the board and the published value
  follow it.\<close>

theorem set_max_current_effect:
  assumes "c' = exec (set_max_current x until) c" and "m = result get_max_current_internal c'"
  shows "(result (set_max_current x until) c \<longleftrightarrow> \<bar>x\<bar> \<le> 1000 \<and> steady_now (env c) < until) \<and>
    (if \<bar>x\<bar> \<le> 1000 \<and> steady_now (env c) < until then
       m \<le> \<bar>x\<bar> \<and> max_current_valid_until (shared c') = until \<and>
       (connector_type c = IEC62196Type2Socket \<and> current_state (shared c) \<noteq> St_Idle \<longrightarrow>
          m \<le> max_current_cable (shared c)) \<and>
       actions c' = actions c @ [A_bsp (In_set_overcurrent_limit m), A_max_current (if x < 0 then - m else m)]
     else c' = c)"
  unfolding assms
  by (simp add: set_max_current_def CHARGER_ABSOLUTE_MAX_CURRENT_def on_shared_def emit_def run_simps
      result_max_current Let_def)

theorem set_max_current_effect_witness:
  "result (set_max_current 16 1) example_charger"
  using set_max_current_effect [OF refl refl, of 16 1 example_charger]
  by (simp add: example_defs)

section \<open>A pass of an AC charger that charges\<close>

definition loop_action :: "action \<Rightarrow> bool" where
  "loop_action a = (case a of A_state _ \<Rightarrow> True | A_ac_with_soc_timeout \<Rightarrow> True
     | A_bsp (In_switch_three_phases _) \<Rightarrow> True | _ \<Rightarrow> False)"

definition charging_view :: "charger \<Rightarrow> EvseState \<times> bool \<times> time \<times> ConfigContext \<times> bool \<times> environment \<times> time \<times> real" where
  "charging_view c = (current_state (shared c), ac_with_soc_timeout (shared c),
     max_current_valid_until (shared c), cfg c, hlc_use_5percent_current_session c, env c,
     last_pwm_update (internal c), update_pwm_last_dc (internal c))"

definition shutdown_view :: "charger \<Rightarrow> ShutdownType" where
  "shutdown_view c = shutdown_type (shared c)"

lemma charging_state_F_idle: "shutdown_type (shared c) = Shutdown_None \<Longrightarrow> exec charging_state_F c = c"
  by (simp add: charging_state_F_def entered_fatal_error_state_def time_in_fatal_error_state_ms_def
      run_simps)

lemma fatal_idle:
  "shutdown_type (shared c) = Shutdown_None \<Longrightarrow>
   exec stop_charging_on_fatal_error_internal c =
     c\<lparr>internal := (internal c)\<lparr>fatal_error_timer_running := False\<rparr>,
       shared := (shared c)\<lparr>last_shutdown_type := Shutdown_None\<rparr>\<rparr> \<and>
   \<not> result stop_charging_on_fatal_error_internal c"
  by (simp add: stop_charging_on_fatal_error_internal_def on_shared_def on_internal_def run_simps Let_def)

lemma v_loop:
  assumes "\<not> ac_with_soc_timeout (shared c)"
  shows "eff loop_action charging_view c (case_entry c)" and "shutdown_view (case_entry c) = shutdown_view c"
proof -
  have enter: "eff loop_action (\<lambda>c. (charging_view c, shutdown_view c)) c (exec loop_enter c)"
    by (simp add: loop_enter_def run_simps eff_def charging_view_def shutdown_view_def)
  have soc: "exec soc_timer (exec loop_enter c) = exec loop_enter c"
    using assms by (simp add: soc_timer_def loop_enter_def run_simps)
  have "ekeeps loop_action (\<lambda>c. (charging_view c, shutdown_view c)) (do {
      do_if b (do {
        on_internal (\<lambda>i. i\<lparr>current_state_started := t\<rparr>);
        st \<leftarrow> sh current_state;
        emit (A_state st)
      });
      finish_phase_switch })" for b t
    by (simp add: finish_phase_switch_def ef_rules loop_action_def charging_view_def shutdown_view_def)
  from ef.R_trans [OF enter ef.keepsD [OF this]]
  have "eff loop_action (\<lambda>c. (charging_view c, shutdown_view c)) c (case_entry c)"
    by (simp add: case_entry_def run_simps soc)
  then show "eff loop_action charging_view c (case_entry c)"
    and "shutdown_view (case_entry c) = shutdown_view c"
    by (simp_all add: eff_def)
qed

lemma charging_ac_pass:
  assumes "current_state (shared c) = St_Charging" and "charge_mode (cfg c) = AC"
    and "shutdown_type (shared c) = Shutdown_None" and "\<not> ac_with_soc_timeout (shared c)"
  obtains c1 where "eff loop_action charging_view c c1"
    and "exec loop_pass c = exec (charging_ac (initialize_state c)) c1"
    and "last_state_detect_state_change (internal c1) = St_Charging"
proof -
  define c0 where "c0 = exec (do_if (initialize_state c)
    (on_shared (\<lambda>h. h\<lparr>hlc_charging_terminate_pause := Htp_Unknown\<rparr>))) (case_entry c)"
  define c1 where "c1 = exec stop_charging_on_fatal_error_internal c0"
  have sd: "shutdown_type (shared (case_entry c)) = Shutdown_None"
    and md: "charge_mode (cfg (case_entry c)) = AC"
    and st: "current_state (shared (case_entry c)) = St_Charging"
      "last_state_detect_state_change (internal (case_entry c)) = St_Charging"
    using v_loop [OF assms(4)] assms case_entry_state
    by (simp_all add: eff_def charging_view_def shutdown_view_def)
  then have sd0: "shutdown_type (shared c0) = Shutdown_None" and md0: "charge_mode (cfg c0) = AC"
    by (simp_all add: c0_def on_shared_def run_simps)
  have "eff loop_action charging_view (case_entry c) c0"
    by (simp add: c0_def on_shared_def run_simps eff_def charging_view_def)
  moreover have "eff loop_action charging_view c0 c1"
    using fatal_idle [OF sd0] by (simp add: c1_def eff_def charging_view_def)
  ultimately have e: "eff loop_action charging_view c c1"
    using v_loop(1) [OF assms(4)] ef.R_trans by blast
  have x: "exec loop_pass c = exec (charging_ac (initialize_state c)) c1"
  proof -
    have "exec (st_Charging (initialize_state c)) (case_entry c) =
        exec (do {
          fatal \<leftarrow> stop_charging_on_fatal_error_internal;
          do_if (\<not> fatal) (do {
            mode \<leftarrow> conf charge_mode;
            if mode = DC then do_if (initialize_state c)
              (emit (A_bsp (In_allow_power_on True Reason_FullPowerCharging)))
            else charging_ac (initialize_state c)
          }) }) (exec charging_state_F c0)"
      by (simp only: st_Charging_def exec_bind c0_def)
    then show ?thesis
      using assms st fatal_idle [OF sd0] md0
      by (simp add: exec_loop_pass soc_expires_def run_simps charging_state_F_idle [OF sd0] c1_def)
  qed
  have r: "last_state_detect_state_change (internal c1) = St_Charging"
    using st fatal_idle [OF sd0] by (simp add: c1_def c0_def on_shared_def run_simps)
  show thesis
    by (rule that [OF e x r])
qed

definition quiet_action :: "action \<Rightarrow> bool" where
  "quiet_action a = (case a of A_err _ \<Rightarrow> True | A_max_current _ \<Rightarrow> True | _ \<Rightarrow> loop_action a)"

lemma v_ops: "ekeeps quiet_action charging_view check_soft_over_current"
  "ekeeps quiet_action charging_view power_available"
  by (simp_all add: limit_defs ef_rules charging_view_def quiet_action_def Let_def)

lemma eff_weaken: "eff P K c c' \<Longrightarrow> (\<And>a. P a \<Longrightarrow> Q a) \<Longrightarrow> eff Q K c c'"
  by (auto simp: eff_def list_all_iff)

lemma loop_action_quiet: "loop_action a \<Longrightarrow> quiet_action a"
  by (simp add: quiet_action_def loop_action_def split: action.splits)

text \<open>Up to the decision about the power, a pass only reports.\<close>

lemma charging_ac_decision:
  assumes "current_state (shared c) = St_Charging" and "charge_mode (cfg c) = AC"
    and "shutdown_type (shared c) = Shutdown_None" and "\<not> ac_with_soc_timeout (shared c)"
  obtains c1 c2 where "eff quiet_action charging_view c c1" and "c2 = exec power_available c1"
    and "eff quiet_action charging_view c c2"
    and "\<not> result power_available c1 \<longrightarrow>
      exec loop_pass c = exec (set_current_state St_WaitingForEnergy) c2"
    and "result power_available c1 \<and> \<not> initialize_state c \<longrightarrow> exec loop_pass c =
      exec (do_if (\<not> hlc_use_5percent_current_session c) (do {
        m \<leftarrow> get_max_current_internal; update_pwm_max_every_5seconds_ampere m })) c2"
proof -
  obtain c0 where c0: "eff loop_action charging_view c c0"
      "exec loop_pass c = exec (charging_ac (initialize_state c)) c0"
    using charging_ac_pass [OF assms] .
  define c1 where "c1 = exec check_soft_over_current c0"
  define c2 where "c2 = exec power_available c1"
  have e1: "eff quiet_action charging_view c c1"
    unfolding c1_def
    by (rule ef.R_trans [OF eff_weaken [OF c0(1)] ef.keepsD [OF v_ops(1)]]) (rule loop_action_quiet)
  then have e2: "eff quiet_action charging_view c c2"
    unfolding c2_def by (rule ef.R_trans [OF _ ef.keepsD [OF v_ops(2)]])
  have same: "current_state (shared c2) = St_Charging"
      "hlc_use_5percent_current_session c2 = hlc_use_5percent_current_session c"
    using e2 assms(1) by (simp_all add: eff_def charging_view_def)
  have no: "exec loop_pass c = exec (set_current_state St_WaitingForEnergy) c2" if "\<not> result power_available c1"
    using that same by (simp add: c0(2) charging_ac_def run_simps c1_def [symmetric]
        c2_def [symmetric] pause_charging_wait_for_power_internal_def)
  have yes: "exec loop_pass c = exec (do_if (\<not> hlc_use_5percent_current_session c) (do {
        m \<leftarrow> get_max_current_internal; update_pwm_max_every_5seconds_ampere m })) c2"
    if "result power_available c1" "\<not> initialize_state c"
    using that same by (simp add: c0(2) charging_ac_def run_simps c1_def [symmetric] c2_def [symmetric])
  show thesis
    by (rule that [OF e1 c2_def e2]) (use no yes in blast)+
qed

lemma energy_pass:
  assumes "current_state (shared c) = St_WaitingForEnergy" and "\<not> ac_with_soc_timeout (shared c)"
    and "initialize_state c"
  shows "\<not> result loop_pass c" and "current_state (shared (exec loop_pass c)) = St_WaitingForEnergy"
    and "\<not> hlc_use_5percent_current_session c \<Longrightarrow> \<not> pwm_running (shared (exec loop_pass c)) \<and>
      A_bsp In_set_pwm_off \<in> set (new_actions c (exec loop_pass c))"
proof -
  have soc: "\<not> soc_expires c"
    using assms(2) by (simp add: soc_expires_def)
  have x: "exec loop_pass c = exec (st_WaitingForEnergy True) (case_entry c)"
    using assms soc by (simp add: exec_loop_pass case_entry_state)
  have "moves {} (case_entry c) (exec loop_pass c)"
    unfolding x by (rule mv.keepsD [OF mv_st_quiet(4)])
  then show st: "current_state (shared (exec loop_pass c)) = St_WaitingForEnergy"
    using assms(1) by (simp add: moves_def case_entry_state)
  with assms(1) soc show "\<not> result loop_pass c"
    by (simp add: result_loop_pass loop_pass_remembers)
  have "hlc_use_5percent_current_session (case_entry c) = hlc_use_5percent_current_session c"
    and "\<exists>as. actions (case_entry c) = actions c @ as"
    using v_loop(1) [OF assms(2)] by (auto simp: eff_def charging_view_def)
  then show "\<not> hlc_use_5percent_current_session c \<Longrightarrow> \<not> pwm_running (shared (exec loop_pass c)) \<and>
      A_bsp In_set_pwm_off \<in> set (new_actions c (exec loop_pass c))"
    by (auto simp: x st_WaitingForEnergy_def pwm_off_def on_shared_def on_internal_def emit_def run_simps
        new_actions_def)
qed

section \<open>The power budget\<close>

text \<open>C30. A round of the main thread of an AC charger that charges without a shutdown, one second or
  more after its power budget ran out: the charger goes to WaitingForEnergy and, unless the session
  uses 5 percent signalling, switches the PWM off.\<close>

theorem expired_budget_stops_charging:
  assumes "current_state (shared c) = St_Charging" and "charge_mode (cfg c) = AC"
    and "shutdown_type (shared c) = Shutdown_None" and "\<not> ac_with_soc_timeout (shared c)"
    and "max_current_valid_until (shared c) + milliseconds 1000 \<le> steady_now (env c)"
    and "c' = exec main_thread_round c"
  shows "current_state (shared c') = St_WaitingForEnergy \<and>
    (\<not> hlc_use_5percent_current_session c \<longrightarrow>
       \<not> pwm_running (shared c') \<and> A_bsp In_set_pwm_off \<in> set (new_actions c c'))"
proof -
  define c2 where "c2 = exec power_available (exec (sleep_for MAINLOOP_UPDATE_RATE) c)"
  have c2: "current_state (shared c2) = St_Charging" "charge_mode (cfg c2) = AC"
      "shutdown_type (shared c2) = Shutdown_None" "\<not> ac_with_soc_timeout (shared c2)"
      "max_current_valid_until (shared c2) + milliseconds 1000 \<le> steady_now (env c2)"
      "hlc_use_5percent_current_session c2 = hlc_use_5percent_current_session c"
      "\<exists>as. actions c2 = actions c @ as"
    using assms
    by (simp_all add: c2_def exec_power_available sleep_for_def run_simps MAINLOOP_UPDATE_RATE_def
        milliseconds_def ns_per_ms_def)
  obtain c3 c4 where d: "eff quiet_action charging_view c2 c3" "c4 = exec power_available c3"
      "eff quiet_action charging_view c2 c4"
      "\<not> result power_available c3 \<longrightarrow>
        exec loop_pass c2 = exec (set_current_state St_WaitingForEnergy) c4"
    using charging_ac_decision [OF c2(1-4)] by metis
  have "\<not> result power_available c3"
    using d(1) c2(5) by (intro budget_expired(2)) (simp add: eff_def charging_view_def)
  then have p1: "exec loop_pass c2 = exec (set_current_state St_WaitingForEnergy) c4"
    using d(4) by blast
  define c5 where "c5 = exec loop_pass c2"
  have soc2: "\<not> soc_expires c2"
    using c2(4) by (simp add: soc_expires_def)
  have st5: "current_state (shared c5) = St_WaitingForEnergy" "\<not> ac_with_soc_timeout (shared c5)"
      "hlc_use_5percent_current_session c5 = hlc_use_5percent_current_session c"
      "\<exists>as. actions c5 = actions c2 @ as"
    using d(3) c2 by (auto simp: c5_def p1 set_current_state_def on_shared_def run_simps eff_def charging_view_def)
  have r2: "result loop_pass c2" and i5: "initialize_state c5"
    using st5(1) c2(1) soc2 loop_pass_remembers [OF soc2]
    by (auto simp: result_loop_pass c5_def initialize_state_def)
  note e5 = energy_pass [OF st5(1,2) i5]
  have "exec run_state_machine c2 = exec loop_pass c5"
    using run_next_pass [OF r2] e5(1) by (simp add: c5_def)
  then have "c' = exec loop_pass c5"
    by (simp add: assms(6) main_thread_round_def run_simps c2_def)
  then show ?thesis
    using e5(2,3) st5(3) new_actions_later [OF c2(7) new_actions_later [OF st5(4)]] by auto
qed

theorem expired_budget_stops_charging_witness:
  "let c = example_charger\<lparr>shared := example_shared\<lparr>current_state := St_Charging\<rparr>,
     env := example_env\<lparr>steady_now := milliseconds 2000\<rparr>\<rparr> in
   current_state (shared (exec main_thread_round c)) = St_WaitingForEnergy"
  using expired_budget_stops_charging [of "example_charger\<lparr>shared := example_shared\<lparr>current_state :=
    St_Charging\<rparr>, env := example_env\<lparr>steady_now := milliseconds 2000\<rparr>\<rparr>", OF _ _ _ _ _ refl]
  by (simp add: example_defs milliseconds_def ns_per_ms_def)

section \<open>Changes of the PWM while charging\<close>

lemma pwm_not_quiet: "\<not> quiet_action (A_bsp (In_set_pwm d))"
  by (simp add: quiet_action_def loop_action_def)

text \<open>While an AC charger keeps charging, a pass of the state machine changes the duty cycle only
  if at least 5 seconds have passed since the last change, only to the duty cycle of the limit in
  force, and it remembers the time of the change.\<close>

theorem pwm_changes_every_5_seconds:
  assumes "current_state (shared c) = St_Charging" and "charge_mode (cfg c) = AC"
    and "shutdown_type (shared c) = Shutdown_None" and "\<not> ac_with_soc_timeout (shared c)"
    and "\<not> initialize_state c"
    and "A_bsp (In_set_pwm d) \<in> set (new_actions c (exec loop_pass c))"
  shows "5000 \<le> count_ms (steady_now (env c) - last_pwm_update (internal c)) \<and>
    d = ampere_to_duty_cycle (result get_max_current_internal (exec loop_pass c)) \<and>
    last_pwm_update (internal (exec loop_pass c)) = steady_now (env c)"
proof -
  obtain c1 c2 where x: "eff quiet_action charging_view c c1" "c2 = exec power_available c1"
      "eff quiet_action charging_view c c2"
      "\<not> result power_available c1 \<longrightarrow> exec loop_pass c = exec (set_current_state St_WaitingForEnergy) c2"
      "result power_available c1 \<and> \<not> initialize_state c \<longrightarrow> exec loop_pass c =
        exec (do_if (\<not> hlc_use_5percent_current_session c) (do {
          m \<leftarrow> get_max_current_internal; update_pwm_max_every_5seconds_ampere m })) c2"
    using charging_ac_decision [OF assms(1-4)] by metis
  obtain as where as: "actions c2 = actions c @ as" "A_bsp (In_set_pwm d) \<notin> set as"
    using x(3) pwm_not_quiet by (auto simp: eff_def list_all_iff)
  have same: "env c2 = env c" "last_pwm_update (internal c2) = last_pwm_update (internal c)"
      "current_state (shared c2) = St_Charging"
    using x(3) assms(1) by (simp_all add: eff_def charging_view_def)
  show ?thesis
  proof (cases "result power_available c1")
    case False
    with x(4) as assms(6) show ?thesis
      by (simp add: set_current_state_def on_shared_def run_simps new_actions_def)
  next
    case True
    with x(5) assms(5) as assms(6) same show ?thesis
      by (auto simp: update_pwm_max_every_5seconds_ampere_def update_pwm_now_def on_shared_def
          on_internal_def emit_def run_simps new_actions_def IEC_PWM_MAX_UPDATE_INTERVAL_def Let_def
          result_max_current split: if_splits)
  qed
qed

definition example_charging :: charger where
  "example_charging = example_charger\<lparr>
     shared := example_shared\<lparr>current_state := St_Charging, max_current := 16,
       max_current_valid_until := milliseconds 10000\<rparr>,
     internal := example_internal\<lparr>last_state_detect_state_change := St_Charging\<rparr>,
     env := example_env\<lparr>steady_now := milliseconds 6000\<rparr>\<rparr>"

lemma example_charging_pass:
  "A_bsp (In_set_pwm (16/60)) \<in> set (new_actions example_charging (exec loop_pass example_charging))"
  by (simp add: example_charging_def example_defs loop_pass_def loop_defs initialize_state_def
      st_Charging_def charging_state_F_def charging_ac_def fatal_defs limit_defs pwm_defs run_simps
      on_shared_def on_internal_def emit_def new_actions_def Let_def milliseconds_def ns_per_ms_def
      count_s_def trunc_div_def count_ms_def IEC_PWM_MAX_UPDATE_INTERVAL_def ampere_to_duty_cycle_def)

theorem pwm_changes_every_5_seconds_witness:
  "A_bsp (In_set_pwm (16/60)) \<in> set (new_actions example_charging (exec loop_pass example_charging)) \<and>
   5000 \<le> count_ms (steady_now (env example_charging) - last_pwm_update (internal example_charging))"
  using pwm_changes_every_5_seconds [OF _ _ _ _ _ example_charging_pass] example_charging_pass
  by (simp add: example_charging_def example_defs initialize_state_def)

section \<open>Drawn current\<close>

text \<open>One sample: the time and the currents of the three phases.\<close>

type_synonym sample = "time \<times> real \<times> real \<times> real"

definition sample_step :: "sample \<Rightarrow> unit chargerM" where
  "sample_step x = do {
     modify (\<lambda>c. c\<lparr>env := (env c)\<lparr>steady_now := fst x\<rparr>\<rparr>);
     set_current_drawn_by_vehicle (fst (snd x)) (fst (snd (snd x))) (snd (snd (snd x)));
     check_soft_over_current
   }"

definition over_limit :: "charger \<Rightarrow> sample \<Rightarrow> bool" where
  "over_limit c x \<longleftrightarrow>
     (let signalled = (if \<not> hlc_charging_active (shared c) then pwm_set_last_ampere (internal c)
                       else result get_max_current_internal c);
          limit = (signalled + soft_over_current_measurement_noise_A c) *
            (1 + soft_over_current_tolerance_percent c / 100)
      in \<bar>fst (snd x)\<bar> > limit \<or> \<bar>fst (snd (snd x))\<bar> > limit \<or> \<bar>snd (snd (snd x))\<bar> > limit)"

fun overcurrent_raised :: "action \<Rightarrow> bool" where
  "overcurrent_raised (A_err (In_raise_overcurrent t)) = True"
| "overcurrent_raised _ = False"

text \<open>What the limit depends on does not change between samples.\<close>

definition limit_view :: "charger \<Rightarrow> bool \<times> real \<times> real \<times> real \<times> Connector_type \<times> EvseState \<times> real \<times> real \<times> int" where
  "limit_view c = (hlc_charging_active (shared c), pwm_set_last_ampere (internal c),
     soft_over_current_measurement_noise_A c, soft_over_current_tolerance_percent c,
     connector_type c, current_state (shared c), max_current (shared c), max_current_cable (shared c),
     soft_over_current_timeout_ms (cfg c))"

lemma over_limit_view: "limit_view c = limit_view c' \<Longrightarrow> over_limit c x = over_limit c' x"
  by (simp add: over_limit_def limit_view_def result_max_current)

lemma sample_step_effect:
  fixes c x
  defines "c' \<equiv> exec (sample_step x) c" and "ov \<equiv> over_limit c x"
    and "since \<equiv> (if over_current (internal c) then last_over_current_event (internal c) else fst x)"
  shows "limit_view c' = limit_view c" and "over_current (internal c') = ov"
    and "ov \<Longrightarrow> last_over_current_event (internal c') = since"
    and "list_ex overcurrent_raised (new_actions c c') \<longleftrightarrow>
      ov \<and> soft_over_current_timeout_ms (cfg c) \<le> count_ms (fst x - since)"
  unfolding assms sample_step_def set_current_drawn_by_vehicle_def check_soft_over_current_def
    get_max_current_signalled_to_ev_internal_def
  by (auto simp: on_shared_def on_internal_def emit_def run_simps Let_def over_limit_def limit_view_def
      result_max_current new_actions_def)

lemma samples_state:
  fixes c ss
  defines "c' \<equiv> exec (for_each ss sample_step) c"
  assumes "\<not> over_current (internal c)"
  shows "limit_view c' = limit_view c"
    and "over_current (internal c') \<longleftrightarrow> trailing (over_limit c) ss \<noteq> []"
    and "trailing (over_limit c) ss \<noteq> [] \<Longrightarrow>
      last_over_current_event (internal c') = fst (hd (trailing (over_limit c) ss))"
  unfolding c'_def
proof (induction ss rule: rev_induct)
  case Nil
  { case 1 show ?case by (simp add: run_simps) }
  { case 2 show ?case using assms(2) by (simp add: run_simps) }
  { case 3 then show ?case by simp }
next
  case (snoc x ss)
  let ?c1 = "exec (for_each ss sample_step) c"
  note step = sample_step_effect [where c = ?c1 and x = x]
  have same: "over_limit ?c1 x = over_limit c x"
    by (rule over_limit_view) (rule snoc(1))
  { case 1 show ?case using step(1) snoc(1) by (simp add: exec_for_each_append run_simps) }
  { case 2 show ?case using step(2) same by (simp add: exec_for_each_append run_simps trailing_snoc) }
  { case 3 then show ?case
      using step(3) same snoc(2,3) by (auto simp: exec_for_each_append run_simps trailing_snoc) }
qed

text \<open>C29. Sample after sample, starting with no over-current being timed and with the clock not
  going backwards: the last sample raises the over-current error exactly if some run of consecutive
  samples ending with it is over the limit throughout and spans at least the configured time. The
  limit is the signalled current plus the measurement noise, with the tolerance on top; a single
  sample below it restarts the time.\<close>

theorem overcurrent_after_timeout:
  assumes "\<not> over_current (internal c)" and "sorted (map fst (ss @ [x]))"
    and "c1 = exec (for_each ss sample_step) c"
  shows "list_ex overcurrent_raised (new_actions c1 (exec (sample_step x) c1)) \<longleftrightarrow>
    (\<exists>pre run. ss @ [x] = pre @ run \<and> run \<noteq> [] \<and> list_all (over_limit c) run \<and>
       soft_over_current_timeout_ms (cfg c) \<le> count_ms (fst x - fst (hd run)))"
    (is "?raised = ?run")
proof -
  let ?T = "trailing (over_limit c) (ss @ [x])"
  note st = samples_state [OF assms(1), of ss, folded assms(3)]
  have same: "over_limit c1 x = over_limit c x"
    using st(1) by (rule over_limit_view)
  have tmo: "soft_over_current_timeout_ms (cfg c1) = soft_over_current_timeout_ms (cfg c)"
    using st(1) by (simp add: limit_view_def)
  have raised: "?raised \<longleftrightarrow> ?T \<noteq> [] \<and> soft_over_current_timeout_ms (cfg c) \<le> count_ms (fst x - fst (hd ?T))"
    using sample_step_effect(4) [where c = c1 and x = x] st(2,3) same tmo
    by (auto simp: trailing_snoc)
  show ?thesis
  proof
    assume ?raised
    then show ?run
      using raised trailing_all trailing_suffix by metis
  next
    assume ?run
    then obtain pre run where r: "ss @ [x] = pre @ run" "run \<noteq> []" "list_all (over_limit c) run"
      "soft_over_current_timeout_ms (cfg c) \<le> count_ms (fst x - fst (hd run))" by blast
    obtain mid where mid: "?T = mid @ run"
      using trailing_longest [OF r(3), of pre] r(1) by auto
    obtain pre' where "ss @ [x] = pre' @ ?T"
      using trailing_suffix by blast
    then have "sorted (map fst (mid @ run))"
      using assms(2) mid by (metis map_append sorted_append)
    then have "fst (hd ?T) \<le> fst (hd run)"
      using mid r(2) by (cases mid; cases run) (auto simp: sorted_append)
    then have "count_ms (fst x - fst (hd run)) \<le> count_ms (fst x - fst (hd ?T))"
      by (intro count_ms_mono) simp
    then show ?raised
      using raised mid r(2,4) by simp
  qed
qed

definition example_samples :: "sample list" where
  "example_samples = [(milliseconds 1000, 20, 0, 0), (milliseconds 5000, 21, 0, 0)]"

theorem overcurrent_after_timeout_witness:
  "list_ex overcurrent_raised (new_actions (exec (for_each example_samples sample_step) example_charger)
     (exec (sample_step (milliseconds 8000, 22, 0, 0)) (exec (for_each example_samples sample_step) example_charger)))"
proof -
  have run: "example_samples @ [(milliseconds 8000, 22, 0, 0)] =
      [] @ [(milliseconds 1000, 20, 0, 0), (milliseconds 5000, 21, 0, 0), (milliseconds 8000, 22, 0, 0)]"
    by (simp add: example_samples_def)
  have sorted: "sorted (map fst (example_samples @ [(milliseconds 8000, 22, 0, 0)]))"
    by (simp add: example_samples_def milliseconds_def ns_per_ms_def)
  have over: "list_all (over_limit example_charger)
      [(milliseconds 1000, 20, 0, 0), (milliseconds 5000, 21, 0, 0), (milliseconds 8000, 22, 0, 0)]"
    by (simp add: over_limit_def example_defs)
  have span: "soft_over_current_timeout_ms (cfg example_charger) \<le> count_ms (milliseconds 8000 - milliseconds 1000)"
    by (simp add: example_defs milliseconds_def count_ms_def trunc_div_def ns_per_ms_def)
  have idle: "\<not> over_current (internal example_charger)"
    by (simp add: example_defs)
  show ?thesis
    using overcurrent_after_timeout [OF idle sorted refl] run over span
    by (metis fst_conv list.sel(1) list.distinct(1))
qed

section \<open>BCB toggles\<close>

text \<open>One toggle of the EV: from B to C at the first time, back to B at the second.\<close>

definition bcb_pulse :: "time \<times> time \<Rightarrow> unit chargerM" where
  "bcb_pulse p = do {
     modify (\<lambda>c. c\<lparr>env := (env c)\<lparr>steady_now := fst p\<rparr>\<rparr>);
     bcb_toggle_detect_start_pulse;
     modify (\<lambda>c. c\<lparr>env := (env c)\<lparr>steady_now := snd p\<rparr>\<rparr>);
     bcb_toggle_detect_stop_pulse
   }"

definition valid_pulse :: "time \<times> time \<Rightarrow> bool" where
  "valid_pulse p \<longleftrightarrow> milliseconds 150 < snd p - fst p \<and> snd p - fst p < milliseconds 450"

text \<open>The pulse that starts the sequence the last pulse belongs to: the one after the last invalid pulse,
  or the last pulse itself when nothing is counted in front of it.\<close>

definition sequence_start :: "(time \<times> time) list \<Rightarrow> time \<times> time" where
  "sequence_start ps = hd (trailing valid_pulse (butlast ps) @ [last ps])"

lemma bcb_pulse_effect:
  fixes c p
  defines "c' \<equiv> exec (bcb_pulse p) c"
  assumes "0 < hlc_ev_pause_bcb_count (internal c) \<Longrightarrow> hlc_bcb_sequence_started (internal c)"
    and "0 \<le> hlc_ev_pause_bcb_count (internal c)"
  shows "hlc_bcb_sequence_started (internal c')"
    and "hlc_ev_pause_bcb_count (internal c') =
      (if valid_pulse p then hlc_ev_pause_bcb_count (internal c) + 1 else 0)"
    and "hlc_ev_pause_start_of_bcb_sequence (internal c') =
      (if hlc_ev_pause_bcb_count (internal c) = 0 then fst p
       else hlc_ev_pause_start_of_bcb_sequence (internal c))"
    and "steady_now (env c') = snd p"
  using assms(2,3) unfolding c'_def bcb_pulse_def bcb_toggle_detect_start_pulse_def
    bcb_toggle_detect_stop_pulse_def valid_pulse_def
  by (auto simp: run_simps on_internal_def Let_def TP_EV_VALD_STATE_DURATION_MIN_def
      TP_EV_VALD_STATE_DURATION_MAX_def)

lemma bcb_pulses_state:
  fixes c ps
  assumes "ps \<noteq> []"
  defines "c' \<equiv> exec (do { bcb_toggle_reset; for_each ps bcb_pulse }) c"
  shows "hlc_bcb_sequence_started (internal c') \<and>
    hlc_ev_pause_bcb_count (internal c') = int (length (trailing valid_pulse ps)) \<and>
    hlc_ev_pause_start_of_bcb_sequence (internal c') = fst (sequence_start ps)"
  using assms(1) unfolding c'_def
proof (induction ps rule: rev_nonempty_induct)
  case (single p)
  let ?r = "exec bcb_toggle_reset c"
  have "hlc_ev_pause_bcb_count (internal ?r) = 0"
    by (simp add: bcb_toggle_reset_def on_internal_def run_simps)
  with bcb_pulse_effect [of ?r p] show ?case
    by (simp add: run_simps sequence_start_def trailing_def)
next
  case (snoc p ps)
  let ?c1 = "exec (for_each ps bcb_pulse) (exec bcb_toggle_reset c)"
  have IH: "hlc_bcb_sequence_started (internal ?c1)"
    "hlc_ev_pause_bcb_count (internal ?c1) = int (length (trailing valid_pulse ps))"
    "hlc_ev_pause_start_of_bcb_sequence (internal ?c1) = fst (sequence_start ps)"
    using snoc.IH by (simp_all add: run_simps)
  have "sequence_start ps = hd (trailing valid_pulse ps)" if "trailing valid_pulse ps \<noteq> []"
    using that snoc.hyps trailing_snoc [of valid_pulse "butlast ps" "last ps"]
    by (simp add: sequence_start_def split: if_splits)
  with IH bcb_pulse_effect [of ?c1 p] show ?case
    by (auto simp: run_simps exec_for_each_append trailing_snoc sequence_start_def)
qed

text \<open>After a reset and one or more toggles of the EV, the wake-up is detected exactly if the
  last three toggles, or more, were all longer than 150 and shorter than 450 milliseconds, or if
  more than 3.7 seconds have passed since the sequence began: then also when no toggle of it was valid.
  The detection starts the count anew.\<close>

theorem bcb_wake_up:
  assumes "ps \<noteq> []" and "c1 = exec (do { bcb_toggle_reset; for_each ps bcb_pulse }) c"
    and "c2 = c1\<lparr>env := (env c1)\<lparr>steady_now := t\<rparr>\<rparr>"
  shows "(result bcb_toggle_detected c2 \<longleftrightarrow>
      3 \<le> length (trailing valid_pulse ps) \<or> milliseconds 3700 < t - fst (sequence_start ps)) \<and>
    (result bcb_toggle_detected c2 \<longrightarrow>
      hlc_ev_pause_bcb_count (internal (exec bcb_toggle_detected c2)) = 0)"
  using bcb_pulses_state [OF assms(1), of c, folded assms(2)] unfolding assms(3)
  by (auto simp: bcb_toggle_detected_def run_simps on_internal_def Let_def TT_EVSE_VALD_TOGGLE_def)

definition example_toggled :: charger where
  "example_toggled =
     exec (do { bcb_toggle_reset; for_each [(0, milliseconds 1000)] bcb_pulse }) example_charger"

theorem bcb_wake_up_witness:
  "\<not> valid_pulse (0, milliseconds 1000) \<and>
   result bcb_toggle_detected
     (example_toggled\<lparr>env := (env example_toggled)\<lparr>steady_now := milliseconds 3701\<rparr>\<rparr>)"
  using bcb_wake_up [OF _ example_toggled_def refl, of "milliseconds 3701"]
  by (simp add: sequence_start_def valid_pulse_def milliseconds_def ns_per_ms_def)

end
