(* ===== verification/Charger_Safety.thy ===== *)
theory Charger_Safety
  imports Charger_Effects
begin

text \<open>
  When the charger lets the contactors be closed: which passes of the state machine give the
  permission, what a fatal error and an expired power budget do, and how often the PWM changes.
\<close>

section \<open>The permission\<close>

fun power_on :: "action \<Rightarrow> bool" where
  "power_on (A_bsp (In_allow_power_on True r)) = True"
| "power_on _ = False"

abbreviation no_power :: "action \<Rightarrow> bool" where
  "no_power a \<equiv> \<not> power_on a"

abbreviation no_proj :: "charger \<Rightarrow> unit" where
  "no_proj c \<equiv> ()"

lemma p_pwm:
  "ekeeps no_power no_proj (update_pwm_now d)" "ekeeps no_power no_proj (update_pwm_now_if_changed d)"
  "ekeeps no_power no_proj (update_pwm_now_if_changed_ampere d)"
  "ekeeps no_power no_proj (update_pwm_max_every_5seconds_ampere d)"
  "ekeeps no_power no_proj pwm_off" "ekeeps no_power no_proj pwm_F"
  by (simp_all add: pwm_defs ef_rules Let_def)

lemma p_limits:
  "ekeeps no_power no_proj get_max_current_internal" "ekeeps no_power no_proj power_available"
  "ekeeps no_power no_proj check_soft_over_current"
  by (simp_all add: limit_defs ef_rules Let_def)

lemma p_bcb:
  "ekeeps no_power no_proj bcb_toggle_reset" "ekeeps no_power no_proj bcb_toggle_detected"
  by (simp_all add: bcb_defs ef_rules Let_def)

lemma p_fatal:
  "ekeeps no_power no_proj stop_charging_on_fatal_error_internal"
  "ekeeps no_power no_proj clear_errors_on_unplug"
  by (simp_all add: fatal_defs p_pwm ef_rules Let_def)

lemma p_start_on_meters: "ekeeps no_power no_proj (start_on_meters ms req)"
  by (induction ms) (simp_all add: ef_rules)

lemma p_stop_on_meters: "ekeeps no_power no_proj (stop_on_meters ms uuid)"
  by (induction ms) (auto simp: ef_rules Let_def split: TransactionRequestStatus.split)

lemma p_session:
  "ekeeps no_power no_proj (start_session b)" "ekeeps no_power no_proj stop_session"
  "ekeeps no_power no_proj start_transaction" "ekeeps no_power no_proj stop_transaction"
  "ekeeps no_power no_proj deauthorize_internal"
  by (simp_all add: start_session_def stop_session_def start_transaction_def stop_transaction_def
      deauthorize_internal_def generate_session_id_def store_session_def clear_session_def
      p_start_on_meters p_stop_on_meters ef_rules Let_def)

lemma p_pause: "ekeeps no_power no_proj pause_charging_wait_for_power_internal"
  by (simp add: pause_charging_wait_for_power_internal_def ef_rules)

lemmas p_ops = ef_rules p_pwm p_limits p_bcb p_fatal p_session p_pause

lemma p_wfa: "ekeeps no_power no_proj (st_WaitingForAuthentication init)"
  by (auto simp: st_WaitingForAuthentication_def wfa_init_def wfa_session_def wfa_defs p_ops
      split: ChargeMode.split)

lemma p_states:
  "ekeeps no_power no_proj (st_Disabled init)" "ekeeps no_power no_proj (st_Replug init)"
  "ekeeps no_power no_proj (st_Idle init)" "ekeeps no_power no_proj (st_SwitchPhases init t)"
  "ekeeps no_power no_proj (st_T_step_EF init t)" "ekeeps no_power no_proj (st_T_step_X1 init t)"
  "ekeeps no_power no_proj (st_WaitingForEnergy init)"
  "ekeeps no_power no_proj (st_StoppingCharging init)" "ekeeps no_power no_proj (st_Finished init)"
  "ekeeps no_power no_proj (st_ChargingPausedEVSE init)"
  "ekeeps no_power no_proj (st_ChargingPausedEV init)"
  by (simp_all add: st_Disabled_def st_Replug_def st_Idle_def st_SwitchPhases_def st_T_step_EF_def
      st_T_step_X1_def st_WaitingForEnergy_def st_StoppingCharging_def st_Finished_def
      st_ChargingPausedEVSE_def st_ChargingPausedEV_def paused_ev_hlc_def paused_ev_basic_def
      paused_hlc_intention_def p_ops)

text \<open>The preparation of a pass neither gives the permission nor touches what it depends on.\<close>

definition power_inputs :: "charger \<Rightarrow> EvseState \<times> ShutdownType \<times> ShutdownType \<times> bool \<times> bool \<times> ConfigContext" where
  "power_inputs c = (current_state (shared c), shutdown_type (shared c), last_shutdown_type (shared c),
     hlc_allow_close_contactor (shared c), iec_allow_close_contactor (shared c), cfg c)"

lemma p_loop: "eff no_power power_inputs c (case_entry c)"
  "eff no_power power_inputs c (exec soc_timer (exec loop_enter c))"
  by (rule ef_loop_parts; simp add: loop_defs ef_rules power_inputs_def)+

lemma eff_proj: "eff P K c c' \<Longrightarrow> eff P no_proj c c'"
  by (simp add: eff_def)

section \<open>Fatal errors\<close>

lemma result_fatal:
  "result stop_charging_on_fatal_error_internal c \<longleftrightarrow> shutdown_type (shared c) \<noteq> Shutdown_None"
  by (cases "shutdown_type (shared c)")
    (simp_all add: stop_charging_on_fatal_error_internal_def run_simps Let_def)

definition shutdown_types :: "charger \<Rightarrow> ShutdownType \<times> ShutdownType" where
  "shutdown_types c = (shutdown_type (shared c), last_shutdown_type (shared c))"

lemma s_charging_state_F: "ekeeps no_power shutdown_types charging_state_F"
  by (simp add: charging_state_F_def entered_fatal_error_state_def time_in_fatal_error_state_ms_def
      pwm_F_def pwm_off_def ef_rules shutdown_types_def)

lemma s_prepare_init: "ekeeps no_power shutdown_types prepare_init"
  by (simp add: prepare_init_def bcb_toggle_reset_def ef_rules shutdown_types_def)

lemma p_charging_under_shutdown:
  assumes "shutdown_type (shared c) \<noteq> Shutdown_None"
  shows "eff no_power no_proj c (exec (st_Charging init) c)"
proof -
  define c1 where "c1 = exec charging_state_F
    (exec (do_if init (on_shared (\<lambda>h. h\<lparr>hlc_charging_terminate_pause := Htp_Unknown\<rparr>))) c)"
  have e: "eff no_power shutdown_types c c1"
    unfolding c1_def
    by (rule ef.R_trans [OF ef.keepsD ef.keepsD [OF s_charging_state_F]])
      (simp add: ef_rules shutdown_types_def)
  then have "shutdown_type (shared c1) \<noteq> Shutdown_None"
    using assms by (simp add: eff_def shutdown_types_def)
  then have "exec (st_Charging init) c = exec stop_charging_on_fatal_error_internal c1"
    by (simp add: st_Charging_def c1_def run_simps result_fatal)
  then show ?thesis
    using ef.R_trans [OF eff_proj [OF e] ef.keepsD [OF p_fatal(1)]] by simp
qed

lemma p_prepare_without_dc:
  assumes "\<not> (charge_mode (cfg c) = DC \<and> hlc_allow_close_contactor (shared c) \<and>
    iec_allow_close_contactor (shared c))"
  shows "eff no_power no_proj c (exec (st_PrepareCharging init now t) c)"
proof -
  define c1 where "c1 = exec (do_if init prepare_init) c"
  have e: "eff no_power (\<lambda>c. (charge_mode (cfg c), hlc_allow_close_contactor (shared c),
      iec_allow_close_contactor (shared c))) c c1"
    unfolding c1_def
    by (rule ef.keepsD) (simp add: prepare_init_def bcb_toggle_reset_def ef_rules)
  then have "exec (st_PrepareCharging init now t) c = exec (do {
      fatal \<leftarrow> stop_charging_on_fatal_error_internal;
      if fatal then on_internal (\<lambda>i. i\<lparr>current_state_started := now\<rparr>)
      else do {
        prepare_pwm;
        mode \<leftarrow> conf charge_mode;
        do_if (mode = AC) (prepare_ac t)
      } }) c1"
    using assms
    by (auto simp: st_PrepareCharging_def prepare_dc_contactor_def run_simps eff_def c1_def)
  moreover have "eff no_power no_proj c1 \<dots>"
    by (rule ef.keepsD) (simp add: prepare_pwm_def prepare_ac_def p_ops)
  ultimately show ?thesis
    using ef.R_trans [OF eff_proj [OF e]] by simp
qed

lemma eff_quiet_pass:
  assumes "\<not> (current_state (shared c) = St_Charging \<and> shutdown_type (shared c) = Shutdown_None)"
    and "\<not> (current_state (shared c) = St_PrepareCharging \<and> charge_mode (cfg c) = DC \<and>
      hlc_allow_close_contactor (shared c) \<and> iec_allow_close_contactor (shared c))"
  shows "eff no_power no_proj c (exec loop_pass c)"
proof (cases "soc_expires c")
  case True
  with p_loop(2) [of c] show ?thesis by (simp add: exec_loop_pass eff_proj)
next
  case False
  have same: "power_inputs (case_entry c) = power_inputs c"
    using p_loop(1) [of c] by (simp add: eff_def)
  have "eff no_power no_proj (case_entry c)
      (exec (run_case (current_state (shared c)) init now t) (case_entry c))" for init now t
    using assms same
    by (cases "current_state (shared c)")
      (simp_all add: power_inputs_def p_charging_under_shutdown p_prepare_without_dc
        ef.keepsD [OF p_wfa] p_states [THEN ef.keepsD])
  from ef.R_trans [OF eff_proj [OF p_loop(1)] this] False show ?thesis
    by (simp add: exec_loop_pass case_entry_state)
qed

section \<open>No permission under a shutdown\<close>

text \<open>The shutdown type and the configuration are inputs of the machine: no pass changes them.\<close>

definition loop_inputs :: "charger \<Rightarrow> ShutdownType \<times> ConfigContext" where
  "loop_inputs c = (shutdown_type (shared c), cfg c)"

abbreviation any :: "action \<Rightarrow> bool" where
  "any a \<equiv> True"

lemma i_ops:
  "ekeeps any loop_inputs (update_pwm_now d)" "ekeeps any loop_inputs (update_pwm_now_if_changed d)"
  "ekeeps any loop_inputs (update_pwm_now_if_changed_ampere d)"
  "ekeeps any loop_inputs (update_pwm_max_every_5seconds_ampere d)"
  "ekeeps any loop_inputs pwm_off" "ekeeps any loop_inputs pwm_F"
  "ekeeps any loop_inputs get_max_current_internal" "ekeeps any loop_inputs power_available"
  "ekeeps any loop_inputs check_soft_over_current"
  "ekeeps any loop_inputs bcb_toggle_reset" "ekeeps any loop_inputs bcb_toggle_detected"
  "ekeeps any loop_inputs stop_charging_on_fatal_error_internal"
  "ekeeps any loop_inputs clear_errors_on_unplug"
  "ekeeps any loop_inputs pause_charging_wait_for_power_internal"
  by (simp_all add: pwm_defs limit_defs bcb_defs fatal_defs pause_charging_wait_for_power_internal_def
      ef_rules loop_inputs_def Let_def)

lemma i_start_on_meters: "ekeeps any loop_inputs (start_on_meters ms req)"
  by (induction ms) (simp_all add: ef_rules loop_inputs_def)

lemma i_stop_on_meters: "ekeeps any loop_inputs (stop_on_meters ms uuid)"
  by (induction ms) (auto simp: ef_rules loop_inputs_def Let_def split: TransactionRequestStatus.split)

lemma i_session:
  "ekeeps any loop_inputs (start_session b)" "ekeeps any loop_inputs stop_session"
  "ekeeps any loop_inputs start_transaction" "ekeeps any loop_inputs stop_transaction"
  "ekeeps any loop_inputs deauthorize_internal"
  by (simp_all add: start_session_def stop_session_def start_transaction_def stop_transaction_def
      deauthorize_internal_def generate_session_id_def store_session_def clear_session_def
      i_start_on_meters i_stop_on_meters ef_rules loop_inputs_def Let_def)

lemmas i_rules = ef_rules loop_inputs_def i_ops i_session

lemma i_run_case: "ekeeps any loop_inputs (run_case st init now t)"
  by (cases st)
    (auto simp: i_rules st_Disabled_def st_Replug_def st_Idle_def st_SwitchPhases_def st_T_step_EF_def
      st_T_step_X1_def st_WaitingForEnergy_def st_StoppingCharging_def st_Finished_def
      st_ChargingPausedEVSE_def st_ChargingPausedEV_def paused_ev_hlc_def paused_ev_basic_def
      paused_hlc_intention_def st_WaitingForAuthentication_def wfa_init_def wfa_session_def wfa_defs
      st_PrepareCharging_def prepare_defs st_Charging_def charging_state_F_def charging_ac_def
      entered_fatal_error_state_def time_in_fatal_error_state_ms_def split: ChargeMode.split)

lemma i_loop: "eff any loop_inputs c (case_entry c)"
  "eff any loop_inputs c (exec soc_timer (exec loop_enter c))"
  by (rule ef_loop_parts; simp add: loop_defs ef_rules loop_inputs_def)+

lemma i_loop_pass: "eff any loop_inputs c (exec loop_pass c)"
  using i_loop [of c] ef.R_trans [OF i_loop(1) ef.keepsD [OF i_run_case]]
  by (simp add: exec_loop_pass)

definition sd_rel :: "charger \<Rightarrow> charger \<Rightarrow> bool" where
  "sd_rel c c' \<longleftrightarrow> (shutdown_type (shared c) \<noteq> Shutdown_None \<and> charge_mode (cfg c) = AC \<longrightarrow>
     eff no_power loop_inputs c c')"

interpretation sd: frame_rel sd_rel
proof
  show "sd_rel c c" for c
    by (simp add: sd_rel_def ef.R_refl)
  show "sd_rel a c" if "sd_rel a b" "sd_rel b c" for a b c
    using that ef.R_trans [of no_power loop_inputs a b c]
    by (auto simp: sd_rel_def eff_def loop_inputs_def)
qed

lemma eff_join: "eff P K c c' \<Longrightarrow> eff any L c c' \<Longrightarrow> eff P L c c'"
  by (auto simp: eff_def)

lemma sd_loop_pass: "sd_rel c (exec loop_pass c)"
  unfolding sd_rel_def by (auto intro: eff_join [OF eff_quiet_pass i_loop_pass])

lemma sd_quiet: "ekeeps no_power loop_inputs m \<Longrightarrow> sd.keeps m"
  by (rule sd.keepsI) (simp add: sd_rel_def ef.keepsD)

lemma sd_run_loop: "sd_rel c (snd (run_loop n c))"
  using run_loop_invariant [of "sd_rel c" c n] sd_loop_pass sd.R_refl sd.R_trans by blast

lemma sd_run_state_machine: "sd.keeps run_state_machine"
  by (rule sd.keepsI) (simp add: run_state_machine_def run_simps sd_run_loop)

section \<open>Entering a shutdown\<close>

lemma appends_loop_pass: "\<exists>as. actions (exec loop_pass c) = actions c @ as"
  using i_loop_pass [of c] by (auto simp: eff_def)

lemma fatal_opens:
  assumes "shutdown_type (shared c) \<noteq> Shutdown_None"
    and "last_shutdown_type (shared c) \<noteq> shutdown_type (shared c)"
  shows "\<exists>as. actions (exec stop_charging_on_fatal_error_internal c) = actions c @ as \<and>
    A_bsp (In_allow_power_on False Reason_PowerOff) \<in> set as"
    and "shutdown_type (shared c) = EmergencyShutdown \<Longrightarrow>
      \<not> pwm_running (shared (exec stop_charging_on_fatal_error_internal c))"
  using assms
  by (cases "shutdown_type (shared c)";
      simp add: fatal_defs pwm_off_def on_shared_def on_internal_def emit_def run_simps Let_def)+

lemma charging_fatal_pass:
  assumes "current_state (shared c) = St_Charging" and "\<not> soc_expires c"
    and "shutdown_type (shared c) \<noteq> Shutdown_None"
  obtains c1 where "eff no_power shutdown_types c c1"
    and "exec loop_pass c = exec stop_charging_on_fatal_error_internal c1"
    and "current_state (shared c1) = St_Charging"
proof -
  define c1 where "c1 = exec charging_state_F (exec (do_if (initialize_state c)
    (on_shared (\<lambda>h. h\<lparr>hlc_charging_terminate_pause := Htp_Unknown\<rparr>))) (case_entry c))"
  have "eff no_power shutdown_types c (case_entry c)"
    using p_loop(1) [of c] by (auto simp: eff_def power_inputs_def shutdown_types_def)
  moreover have "eff no_power shutdown_types (case_entry c) c1"
    unfolding c1_def
    by (rule ef.R_trans [OF ef.keepsD ef.keepsD [OF s_charging_state_F]])
      (simp add: ef_rules shutdown_types_def)
  ultimately have e: "eff no_power shutdown_types c c1"
    by (rule ef.R_trans)
  then have "shutdown_type (shared c1) \<noteq> Shutdown_None"
    using assms(3) by (simp add: eff_def shutdown_types_def)
  then have x: "exec loop_pass c = exec stop_charging_on_fatal_error_internal c1"
    using assms(1,2)
    by (simp add: exec_loop_pass case_entry_state st_Charging_def run_simps result_fatal c1_def)
  have "moves {} (case_entry c) c1"
    unfolding c1_def
    by (rule mv.R_trans [OF mv.keepsD mv.keepsD])
      (simp_all add: charging_state_F_def entered_fatal_error_state_def
        time_in_fatal_error_state_ms_def mv_ops)
  then have "current_state (shared c1) = St_Charging"
    using assms(1) by (simp add: moves_def case_entry_state)
  with that e x show thesis by blast
qed

lemma charging_fatal_run:
  assumes "current_state (shared c) = St_Charging" and "\<not> soc_expires c"
    and "shutdown_type (shared c) \<noteq> Shutdown_None"
    and "last_shutdown_type (shared c) \<noteq> shutdown_type (shared c)"
  shows "exec run_state_machine c = exec loop_pass c"
    and "current_state (shared (exec loop_pass c)) = St_Charging"
    and "A_bsp (In_allow_power_on False Reason_PowerOff) \<in> set (new_actions c (exec loop_pass c))"
    and "shutdown_type (shared c) = EmergencyShutdown \<Longrightarrow> \<not> pwm_running (shared (exec loop_pass c))"
proof -
  obtain c1 where c1: "eff no_power shutdown_types c c1"
      "exec loop_pass c = exec stop_charging_on_fatal_error_internal c1"
      "current_state (shared c1) = St_Charging"
    using charging_fatal_pass [OF assms(1-3)] .
  have sh: "shutdown_type (shared c1) = shutdown_type (shared c)"
      "last_shutdown_type (shared c1) = last_shutdown_type (shared c)"
    using c1(1) by (simp_all add: eff_def shutdown_types_def)
  have "moves {} c1 (exec loop_pass c)"
    unfolding c1(2) by (rule mv.keepsD [OF mv_fatal(1)])
  then show st: "current_state (shared (exec loop_pass c)) = St_Charging"
    using c1(3) by (simp add: moves_def)
  with assms(1,2) have "\<not> result loop_pass c"
    by (simp add: result_loop_pass loop_pass_remembers)
  then show "exec run_state_machine c = exec loop_pass c"
    by (rule run_single_pass)
  show "A_bsp (In_allow_power_on False Reason_PowerOff) \<in> set (new_actions c (exec loop_pass c))"
    using fatal_opens(1) [of c1] c1 sh assms(3,4) by (auto simp: new_actions_def eff_def)
  show "\<not> pwm_running (shared (exec loop_pass c))" if "shutdown_type (shared c) = EmergencyShutdown"
    using fatal_opens(2) [of c1] c1(2) sh assms(3,4) that by simp
qed

section \<open>All methods\<close>

lemma pi_ops:
  "ekeeps no_power loop_inputs power_available" "ekeeps no_power loop_inputs stop_transaction"
  "ekeeps no_power loop_inputs bcb_toggle_detect_start_pulse"
  "ekeeps no_power loop_inputs bcb_toggle_detect_stop_pulse"
proof -
  have "ekeeps no_power loop_inputs (stop_on_meters ms uuid)" for ms uuid
    by (induction ms) (auto simp: ef_rules loop_inputs_def Let_def split: TransactionRequestStatus.split)
  then show "ekeeps no_power loop_inputs power_available" "ekeeps no_power loop_inputs stop_transaction"
    "ekeeps no_power loop_inputs bcb_toggle_detect_start_pulse"
    "ekeeps no_power loop_inputs bcb_toggle_detect_stop_pulse"
    by (simp_all add: limit_defs bcb_defs stop_transaction_def clear_session_def ef_rules
        loop_inputs_def Let_def)
qed

lemma pi_events:
  "ekeeps no_power loop_inputs (process_cp_events_independent e)"
  "ekeeps no_power loop_inputs (process_cp_events_state e)"
  by (auto simp: process_cp_events_independent_def cp_defs pi_ops ef_rules loop_inputs_def
      split: CPEvent.split EvseState.split)

lemma sd_threads: "sd.keeps (process_event e)" "sd.keeps main_thread_round"
  by (simp_all add: process_event_def main_thread_round_def sd.keeps_rules sd_run_state_machine
      sd_quiet pi_events pi_ops ef_rules loop_inputs_def)

lemma p_interface:
  "ekeeps no_power no_proj (set_max_current x t)" "ekeeps no_power no_proj pause_charging"
  "ekeeps no_power no_proj resume_charging" "ekeeps no_power no_proj pause_charging_wait_for_power"
  "ekeeps no_power no_proj resume_charging_power_available" "ekeeps no_power no_proj charger_evse_replug"
  "ekeeps no_power no_proj (charger_switch_three_phases b)"
  "ekeeps no_power no_proj enable_disable_initial_state_publish"
  "ekeeps no_power no_proj (enable_disable n src)" "ekeeps no_power no_proj (cancel_transaction r)"
  "ekeeps no_power no_proj (authorize a tok v)" "ekeeps no_power no_proj error_thread_round"
  "ekeeps no_power no_proj (on_error_signal g)"
  by (auto simp: set_max_current_def pause_charging_def resume_charging_def authorize_def
      pause_charging_wait_for_power_def resume_charging_power_available_def charger_evse_replug_def
      charger_switch_three_phases_def enable_disable_initial_state_publish_def enable_disable_def
      enable_disable_source_table_update_def parse_enable_disable_source_table_def
      cancel_transaction_def error_thread_round_def on_error_signal_def p_ops Let_def
      split: option.split)

lemma p_hlc:
  "ekeeps no_power no_proj (set_current_drawn_by_vehicle l1 l2 l3)"
  "ekeeps no_power no_proj request_error_sequence" "ekeeps no_power no_proj (set_matching_started b)"
  "ekeeps no_power no_proj notify_currentdemand_started"
  "ekeeps no_power no_proj (inform_new_evse_max_hlc_limits l)"
  "ekeeps no_power no_proj (inform_new_evse_min_hlc_limits k)"
  "ekeeps no_power no_proj dlink_pause" "ekeeps no_power no_proj dlink_terminate"
  "ekeeps no_power no_proj dlink_error" "ekeeps no_power no_proj set_hlc_charging_active"
  "ekeeps no_power no_proj (set_hlc_allow_close_contactor b)"
  "ekeeps no_power no_proj stop_charging_on_fatal_error"
  "ekeeps no_power no_proj get_start_signed_meter_value"
  "ekeeps no_power no_proj get_stop_signed_meter_value" "ekeeps no_power no_proj (charger_setup g)"
  "ekeeps no_power no_proj cleanup_transactions_on_startup"
  by (simp_all add: set_current_drawn_by_vehicle_def request_error_sequence_def
      set_matching_started_def notify_currentdemand_started_def inform_new_evse_max_hlc_limits_def
      inform_new_evse_min_hlc_limits_def dlink_pause_def dlink_terminate_def dlink_error_def
      set_hlc_charging_active_def set_hlc_allow_close_contactor_def stop_charging_on_fatal_error_def
      get_start_signed_meter_value_def get_stop_signed_meter_value_def charger_setup_def
      cleanup_transactions_on_startup_def get_session_def clear_session_def p_stop_on_meters p_ops)

lemma handle_under_shutdown:
  assumes "shutdown_type (shared c) \<noteq> Shutdown_None" and "charge_mode (cfg c) = AC"
  shows "eff no_power no_proj c (exec (charger_handle i) c)"
proof -
  have "eff no_power no_proj c (exec (process_event e) c)" "eff no_power no_proj c (exec main_thread_round c)"
    for e
    using sd_threads [THEN sd.keepsD] assms by (auto simp: sd_rel_def intro: eff_proj)
  moreover have "ekeeps no_power no_proj (modify (\<lambda>c. c\<lparr>env := en\<rparr>))" for en
    by (simp add: ef_rules)
  ultimately show ?thesis
    by (cases i) (simp_all add: ef.keepsD ef_void p_interface p_hlc p_session p_limits deauthorize_def
        main_thread_start_def ef.keeps_rules ef_emit)
qed

lemma dc_prepare_pass:
  assumes "current_state (shared c) = St_PrepareCharging" and "charge_mode (cfg c) = DC"
    and "hlc_allow_close_contactor (shared c)" and "iec_allow_close_contactor (shared c)"
    and "shutdown_type (shared c) \<noteq> Shutdown_None"
    and "last_shutdown_type (shared c) = shutdown_type (shared c)"
    and "\<not> initialize_state c" and "\<not> ac_with_soc_timeout (shared c)"
  shows "actions (exec loop_pass c) = actions c @ [A_bsp (In_allow_power_on True Reason_DCCableCheck)]"
    and "\<not> result loop_pass c"
proof -
  have soc: "\<not> soc_expires c"
    using assms(8) by (simp add: soc_expires_def)
  have entry: "case_entry c = exec loop_enter c"
    using assms by (simp add: case_entry_def soc_timer_def finish_phase_switch_def loop_enter_def
        run_simps initialize_state_def)
  have pass: "exec loop_pass c =
      exec (st_PrepareCharging False (system_now (env c)) (time_in_state c)) (exec loop_enter c)"
    using assms soc by (simp add: exec_loop_pass case_entry_state) (simp add: entry)
  show "actions (exec loop_pass c) = actions c @ [A_bsp (In_allow_power_on True Reason_DCCableCheck)]"
    using assms unfolding pass
    by (cases "shutdown_type (shared c)"; simp add: st_PrepareCharging_def prepare_dc_contactor_def
        loop_enter_def stop_charging_on_fatal_error_internal_def on_shared_def on_internal_def
        emit_def run_simps Let_def)
  have "current_state (shared (exec loop_pass c)) = St_PrepareCharging"
    using assms unfolding pass
    by (cases "shutdown_type (shared c)"; simp add: st_PrepareCharging_def prepare_dc_contactor_def
        loop_enter_def stop_charging_on_fatal_error_internal_def on_shared_def on_internal_def
        emit_def run_simps Let_def)
  then show "\<not> result loop_pass c"
    using assms(1) soc by (simp add: result_loop_pass loop_pass_remembers)
qed

text \<open>A DC charger that waits in PrepareCharging for the end of an error, as an instance.\<close>

definition example_dc :: charger where
  "example_dc = example_charger\<lparr>cfg := example_config\<lparr>charge_mode := DC\<rparr>,
     internal := example_internal\<lparr>last_state_detect_state_change := St_PrepareCharging,
       loop_last_shutdown_type := ErrorShutdown\<rparr>,
     shared := example_shared\<lparr>current_state := St_PrepareCharging, shutdown_type := ErrorShutdown,
       last_shutdown_type := ErrorShutdown, hlc_allow_close_contactor := True,
       iec_allow_close_contactor := True\<rparr>\<rparr>"

lemma example_dc_pass:
  "actions (exec loop_pass example_dc) = [A_bsp (In_allow_power_on True Reason_DCCableCheck)]"
  using dc_prepare_pass(1) [of example_dc]
  by (simp add: example_dc_def example_defs initialize_state_def)

section \<open>Properties\<close>

text \<open>A pass of the state machine lets the contactors be closed only in the state Charging
  with no shutdown in force, or in the state PrepareCharging of a DC charger when both the control
  pilot and the high level communication ask for it.\<close>

theorem permission_only_when_charging:
  assumes "a \<in> set (new_actions c (exec loop_pass c))" and "power_on a"
  shows "(current_state (shared c) = St_Charging \<and> shutdown_type (shared c) = Shutdown_None) \<or>
    (current_state (shared c) = St_PrepareCharging \<and> charge_mode (cfg c) = DC \<and>
     hlc_allow_close_contactor (shared c) \<and> iec_allow_close_contactor (shared c))"
  using eff_quiet_pass [of c] eff_new_actions [of no_power _ c "exec loop_pass c" a] assms by blast

theorem permission_only_when_charging_witness:
  "charge_mode (cfg example_dc) = DC \<and> current_state (shared example_dc) = St_PrepareCharging"
  using permission_only_when_charging [of "A_bsp (In_allow_power_on True Reason_DCCableCheck)" example_dc]
    example_dc_pass
  by (simp add: new_actions_def) (simp add: example_dc_def example_defs)

text \<open>While a shutdown is in force, no method of an AC charger lets the contactors be closed:
  no control pilot event, no round of the main thread, no call.\<close>

theorem no_permission_under_shutdown:
  assumes "shutdown_type (shared c) \<noteq> Shutdown_None" and "charge_mode (cfg c) = AC"
  shows "\<forall>a\<in>set (new_actions c (exec (charger_handle i) c)). \<not> power_on a"
  using eff_new_actions [OF handle_under_shutdown [OF assms]] by blast

theorem no_permission_under_shutdown_witness:
  "let c = example_charger\<lparr>shared := example_shared\<lparr>current_state := St_Charging,
     shutdown_type := ErrorShutdown\<rparr>\<rparr> in
   \<forall>a\<in>set (new_actions c (exec (charger_handle (C_event CarRequestedPower)) c)). \<not> power_on a"
  using no_permission_under_shutdown [of "example_charger\<lparr>shared := example_shared\<lparr>current_state :=
    St_Charging, shutdown_type := ErrorShutdown\<rparr>\<rparr>" "C_event CarRequestedPower"]
  by (simp add: example_defs)

text \<open>When a shutdown comes into force while charging, the next run of the state machine
  withdraws the permission, gives none, stays in the state Charging, and for an emergency leaves the
  PWM off.\<close>

theorem shutdown_withdraws_permission:
  assumes "current_state (shared c) = St_Charging" and "\<not> soc_expires c"
    and "shutdown_type (shared c) \<noteq> Shutdown_None"
    and "last_shutdown_type (shared c) \<noteq> shutdown_type (shared c)"
    and "c' = exec run_state_machine c"
  shows "A_bsp (In_allow_power_on False Reason_PowerOff) \<in> set (new_actions c c') \<and>
    list_all no_power (new_actions c c') \<and> current_state (shared c') = St_Charging \<and>
    (shutdown_type (shared c) = EmergencyShutdown \<longrightarrow> \<not> pwm_running (shared c'))"
  using charging_fatal_run [OF assms(1-4)] eff_quiet_pass [of c] eff_new_actions assms(1,3,5)
  by (fastforce simp: list_all_iff)

theorem shutdown_withdraws_permission_witness:
  "let c = example_charger\<lparr>shared := example_shared\<lparr>current_state := St_Charging,
     shutdown_type := EmergencyShutdown, pwm_running := True\<rparr>\<rparr> in
   \<not> pwm_running (shared (exec run_state_machine c))"
  using shutdown_withdraws_permission [of "example_charger\<lparr>shared := example_shared\<lparr>current_state :=
    St_Charging, shutdown_type := EmergencyShutdown, pwm_running := True\<rparr>\<rparr>", OF _ _ _ _ refl]
  by (simp add: example_defs soc_expires_def)



end
