(* ===== verification/Evse_System.thy ===== *)
theory Evse_System
  imports Charger_Safety
begin

text \<open>
  The charger, the IEC 61851 state machine and the error handling together, connected as
  \<^verbatim>\<open>modules/EVSE/EvseManager/EvseManager.cpp\<close> and the constructor of \<^verbatim>\<open>Charger\<close> connect them.

  The charger's calls of the IEC machine and of the error handling are synchronous.  They return
  nothing that the charger uses, and what they do to the charger is to put events into the queue of
  the error thread, which no other method reads; so they are carried out after the method that made
  them, in their order.  The IEC machine moves on its own too: events of the board, the feed
  threads, the timers.  Besides the charger only \<^verbatim>\<open>EvseManager.cpp\<close> calls it, with the operations of
  \<open>external_iec\<close>.

  Shown here: the contactors are on only with the charger's last word being the permission, the
  charger's shutdown follows the errors, and a fatal error opens the contactors.
\<close>

section \<open>The system\<close>

record 'd evse =
  ev_charger :: charger
  ev_iec :: iec
  ev_err :: "'d errh"

definition bsp_inputs :: "action list \<Rightarrow> iec_input list" where
  "bsp_inputs as = concat (map (\<lambda>a. case a of A_bsp i \<Rightarrow> [i] | _ \<Rightarrow> []) as)"

definition err_inputs :: "action list \<Rightarrow> eh_input list" where
  "err_inputs as = concat (map (\<lambda>a. case a of A_err i \<Rightarrow> [i] | _ \<Rightarrow> []) as)"

text \<open>Calls of the error handling; its signals go to the queue of the charger.\<close>

definition call_errors :: "'d error_framework \<Rightarrow> eh_input list \<Rightarrow> 'd evse \<Rightarrow> 'd evse" where
  "call_errors fw inputs s =
     (let e = eh_run fw inputs (ev_err s);
          signals = drop (length (eh_signals (ev_err s))) (eh_signals e)
      in s\<lparr>ev_err := e, ev_charger := exec (for_each signals on_error_signal) (ev_charger s)\<rparr>)"

definition charger_step :: "'d error_framework \<Rightarrow> charger_input \<Rightarrow> 'd evse \<Rightarrow> 'd evse" where
  "charger_step fw i s =
     (let c = exec (charger_handle i) (ev_charger s);
          as = new_actions (ev_charger s) c
      in call_errors fw (err_inputs as)
           (s\<lparr>ev_charger := c, ev_iec := exec (for_each (bsp_inputs as) iec_handle) (ev_iec s)\<rparr>))"

fun external_iec :: "iec_input \<Rightarrow> bool" where
  "external_iec (In_bsp_event e) = True"
| "external_iec (In_set_three_phases b) = True"
| "external_iec (In_set_ev_simplified_mode_evse_limit b) = True"
| "external_iec In_connector_force_unlock = True"
| "external_iec _ = False"

text \<open>The signals of the error handling reach the charger only from the error handling.\<close>

fun external_input :: "charger_input \<Rightarrow> bool" where
  "external_input (C_error_signal g) = False"
| "external_input _ = True"

inductive evse_step :: "'d error_framework \<Rightarrow> 'd evse \<Rightarrow> 'd evse \<Rightarrow> bool" for fw where
  by_charger: "external_input i \<Longrightarrow> evse_step fw s (charger_step fw i s)"
| by_errors: "evse_step fw s (call_errors fw [j] s)"
| by_iec_call: "external_iec i \<Longrightarrow> evse_step fw s (s\<lparr>ev_iec := exec (iec_handle i) (ev_iec s)\<rparr>)"
| by_iec_feed: "0 < feeds (ev_iec s) \<Longrightarrow> evse_step fw s
    (s\<lparr>ev_iec := exec feed_state_machine_no_thread ((ev_iec s)\<lparr>feeds := feeds (ev_iec s) - 1\<rparr>)\<rparr>)"
| by_iec_timer: "async_reached (iec_now (ev_iec s)) (timeout_state_c1 (ev_iec s)) \<or>
    async_reached (iec_now (ev_iec s)) (timeout_unlock_state_F (ev_iec s)) \<Longrightarrow>
    evse_step fw s (s\<lparr>ev_iec := exec feed_state_machine_no_thread (ev_iec s)\<rparr>)"
| by_clock: "iec_now (ev_iec s) \<le> later \<Longrightarrow> evse_step fw s (s\<lparr>ev_iec := (ev_iec s)\<lparr>iec_now := later\<rparr>\<rparr>)"

definition evse_start :: "'d error_framework \<Rightarrow> 'd evse \<Rightarrow> bool" where
  "evse_start fw s \<longleftrightarrow>
     (\<exists>c0. actions c0 = [] \<and> error_handling_event_queue c0 = [] \<and>
        shutdown_type (shared c0) = Shutdown_None \<and> ev_charger s = exec charger_construct c0) \<and>
     (\<exists>lock_b. ev_iec s = iec_init lock_b) \<and> eh_start fw (ev_err s)"

inductive evse_reachable :: "'d error_framework \<Rightarrow> 'd evse \<Rightarrow> bool" for fw where
  evse_init: "evse_start fw s \<Longrightarrow> evse_reachable fw s"
| evse_next: "evse_reachable fw s \<Longrightarrow> evse_step fw s s' \<Longrightarrow> evse_reachable fw s'"

section \<open>The permission\<close>

fun permission_step :: "bool \<Rightarrow> action \<Rightarrow> bool" where
  "permission_step b (A_bsp (In_allow_power_on v r)) = v"
| "permission_step b _ = b"

definition permitted :: "action list \<Rightarrow> bool" where
  "permitted as = foldl permission_step False as"

text \<open>The IEC machine can lose the permission by itself and never gains it: whatever it does besides
  the charger's calls, \<^verbatim>\<open>power_on_allowed\<close> does not become true.\<close>

definition no_gain :: "iec \<Rightarrow> iec \<Rightarrow> bool" where
  "no_gain s t \<longleftrightarrow> (power_on_allowed t \<longrightarrow> power_on_allowed s)"

interpretation ng: frame_rel no_gain
  by unfold_locales (auto simp: no_gain_def)

lemma ng_modify: "(\<And>s. power_on_allowed (f s) \<longrightarrow> power_on_allowed s) \<Longrightarrow> ng.keeps (modify f)"
  by (rule ng.keeps_modify) (simp add: no_gain_def)

lemma ng_ops:
  "ng.keeps (bsp b)" "ng.keeps (push_event e)" "ng.keeps (set_timer_C1 t)" "ng.keeps (set_timer_F t)"
  "ng.keeps (set_pwm_running p)" "ng.keeps feed_state_machine" "ng.keeps connector_lock"
  "ng.keeps connector_unlock" "ng.keeps check_connector_lock" "ng.keeps run_timers"
  "ng.keeps (call_allow_power_on_bsp v)"
  by (simp_all add: iec_basic_defs feed_state_machine_def connector_lock_def connector_unlock_def
      check_connector_lock_def run_timers_def call_allow_power_on_bsp_def ng.keeps_rules ng_modify Let_def)

lemma ng_sm_case: "ng.keeps (sm_case cp)"
  by (cases cp) (simp_all add: sm_defs ng.keeps_rules ng_ops ng_modify)

lemma ng_feed: "ng.keeps feed_state_machine_no_thread"
  by (simp add: feed_state_machine_no_thread_def state_machine_def sm_begin_def sm_finish_def
      ng.keeps_rules ng_ops ng_sm_case ng_modify)

lemma exec_allow_power_on: "power_on_allowed (exec (allow_power_on v r) s) = v"
  by (cases v) (simp_all add: allow_power_on_def call_allow_power_on_bsp_def bsp_def feed_state_machine_def
      run_simps)

lemma ng_iec_handle:
  assumes "\<And>r. i \<noteq> In_allow_power_on True r"
  shows "ng.keeps (iec_handle i)"
proof (cases i)
  case (In_allow_power_on v r)
  with assms [of r] show ?thesis
    by (auto intro!: ng.keepsI simp: no_gain_def exec_allow_power_on)
qed (auto simp: on_bsp_event_def process_bsp_event_def set_pwm_def set_pwm_off_def
      set_pwm_F_def enable_def iec_setup_def evse_replug_def switch_three_phases_while_charging_def
      set_overcurrent_limit_def set_three_phases_def set_ev_simplified_mode_evse_limit_def
      connector_force_unlock_def ng.keeps_rules ng_ops ng_modify Let_def split: sum.split)

lemma call_order:
  assumes "power_on_allowed s \<longrightarrow> b"
  shows "power_on_allowed (exec (for_each (bsp_inputs as) iec_handle) s) \<longrightarrow> foldl permission_step b as"
  using assms
proof (induction as arbitrary: s b)
  case Nil
  then show ?case by (simp add: bsp_inputs_def run_simps)
next
  case (Cons a as)
  have split: "bsp_inputs (a # as) = bsp_inputs [a] @ bsp_inputs as"
    by (simp add: bsp_inputs_def)
  have "power_on_allowed (exec (for_each (bsp_inputs [a]) iec_handle) s) \<longrightarrow> permission_step b a"
  proof (cases "\<exists>v r. a = A_bsp (In_allow_power_on v r)")
    case True
    then show ?thesis
      by (auto simp: bsp_inputs_def run_simps exec_allow_power_on)
  next
    case False
    then have "ng.keeps (for_each (bsp_inputs [a]) iec_handle)"
      by (intro ng.keeps_for_each ng_iec_handle) (auto simp: bsp_inputs_def split: action.splits)
    moreover have "permission_step b a = b"
      using False by (cases "(b, a)" rule: permission_step.cases) auto
    ultimately show ?thesis
      using Cons.prems ng.keepsD [of "for_each (bsp_inputs [a]) iec_handle" s] by (auto simp: no_gain_def)
  qed
  from Cons.IH [OF this] show ?case
    by (simp add: split exec_for_each_append)
qed

section \<open>Signals of the error handling\<close>

text \<open>What the charger makes of the signals, once it has taken them from the queue: the last one
  decides.\<close>

definition shutdown_after :: "ErrorHandlingEvents list \<Rightarrow> ShutdownType \<Rightarrow> ShutdownType" where
  "shutdown_after es ty = foldl (\<lambda>_. shutdown_of_event) ty es"

definition sig_rel :: "'d error_framework \<Rightarrow> 'd errh \<Rightarrow> 'd errh \<Rightarrow> bool" where
  "sig_rel fw s t \<longleftrightarrow> (\<exists>gs. eh_signals t = eh_signals s @ gs \<and>
     (\<forall>ty. (ty \<noteq> Shutdown_None \<longleftrightarrow> inoperative fw s) \<longrightarrow>
        (shutdown_after (map event_of_signal gs) ty \<noteq> Shutdown_None \<longleftrightarrow> inoperative fw t)))"

lemma shutdown_after_append [simp]:
  "shutdown_after (es @ fs) ty = shutdown_after fs (shutdown_after es ty)"
  by (simp add: shutdown_after_def)

interpretation sig: frame_rel "sig_rel fw" for fw :: "'d error_framework"
proof
  show "sig_rel fw s s" for s
    by (simp add: sig_rel_def shutdown_after_def)
  show "sig_rel fw s u" if st: "sig_rel fw s t" and tu: "sig_rel fw t u" for s t u
  proof -
    obtain gs where gs: "eh_signals t = eh_signals s @ gs"
      "\<And>ty. (ty \<noteq> Shutdown_None \<longleftrightarrow> inoperative fw s) \<Longrightarrow>
        (shutdown_after (map event_of_signal gs) ty \<noteq> Shutdown_None \<longleftrightarrow> inoperative fw t)"
      using st unfolding sig_rel_def by blast
    obtain hs where hs: "eh_signals u = eh_signals t @ hs"
      "\<And>ty. (ty \<noteq> Shutdown_None \<longleftrightarrow> inoperative fw t) \<Longrightarrow>
        (shutdown_after (map event_of_signal hs) ty \<noteq> Shutdown_None \<longleftrightarrow> inoperative fw u)"
      using tu unfolding sig_rel_def by blast
    show ?thesis
      unfolding sig_rel_def
      by (rule exI [of _ "gs @ hs"]) (use gs hs in auto)
  qed
qed

lemma sig_process_error:
  assumes "framework_ok fw"
  shows "sig_rel fw s (exec (process_error fw) s)"
proof -
  let ?t = "update_inoperative fw s"
  have cleared: "\<not> inoperative fw ?t" if "no_counted_errors fw ?t"
    using that framework_laws(4) [OF assms] by (simp add: no_counted_errors_def)
  have "shutdown_after (map event_of_signal (error_signals fw s)) ty \<noteq> Shutdown_None \<longleftrightarrow> inoperative fw ?t"
    if "ty \<noteq> Shutdown_None \<longleftrightarrow> inoperative fw s" for ty
    using that update_inoperative_active [OF assms, of s]
    by (auto simp: error_signals_def shutdown_after_def split: option.split)
  with cleared show ?thesis
    by (auto simp: sig_rel_def exec_process_error Let_def update_inoperative_signals shutdown_after_def
        no_counted_errors_def)
qed

lemma sig_eh_handle:
  assumes "framework_ok fw"
  shows "frame_rel.keeps (sig_rel fw) (eh_handle fw i)"
proof -
  have quiet: "frame_rel.keeps (sig_rel fw) (on_p_evse f)"
    if "\<And>d. is_error_active fw ''evse_manager/Inoperative'' '''' (f d) =
      is_error_active fw ''evse_manager/Inoperative'' '''' d" for f
    using that by (intro sig.keepsI) (simp add: on_p_evse_def run_simps sig_rel_def shutdown_after_def)
  have req: "frame_rel.keeps (sig_rel fw) (modify (set_req_errors r es))" for r es
    by (rule sig.keepsI) (simp add: run_simps sig_rel_def shutdown_after_def)
  have processed: "frame_rel.keeps (sig_rel fw) (process_error fw)"
    by (rule sig.keepsI) (rule sig_process_error [OF assms])
  note ops = raise_other_inoperative [OF assms] clear_other_inoperative [OF assms]
  show ?thesis
    by (cases i) (simp_all add: eh_operation_defs on_req_errors_def sig.keeps_rules quiet req processed
        ops Let_def)
qed

lemma sig_eh_run:
  assumes "framework_ok fw"
  shows "sig_rel fw s (eh_run fw inputs s)"
  unfolding eh_run_def
  by (rule sig.keepsD) (simp add: sig.keeps_rules sig_eh_handle [OF assms])

section \<open>The queue of the error thread\<close>

definition error_view :: "charger \<Rightarrow> ShutdownType \<times> ErrorHandlingEvents list" where
  "error_view c = (shutdown_type (shared c), error_handling_event_queue c)"

definition pending_shutdown :: "charger \<Rightarrow> ShutdownType" where
  "pending_shutdown c = shutdown_after (error_handling_event_queue c) (shutdown_type (shared c))"

lemma e_ops:
  "ekeeps any error_view (update_pwm_now d)" "ekeeps any error_view (update_pwm_now_if_changed d)"
  "ekeeps any error_view (update_pwm_now_if_changed_ampere d)"
  "ekeeps any error_view (update_pwm_max_every_5seconds_ampere d)"
  "ekeeps any error_view pwm_off" "ekeeps any error_view pwm_F"
  "ekeeps any error_view get_max_current_internal" "ekeeps any error_view power_available"
  "ekeeps any error_view check_soft_over_current"
  "ekeeps any error_view bcb_toggle_reset" "ekeeps any error_view bcb_toggle_detected"
  "ekeeps any error_view bcb_toggle_detect_start_pulse"
  "ekeeps any error_view bcb_toggle_detect_stop_pulse"
  "ekeeps any error_view stop_charging_on_fatal_error_internal"
  "ekeeps any error_view clear_errors_on_unplug"
  "ekeeps any error_view pause_charging_wait_for_power_internal"
  by (simp_all add: pwm_defs limit_defs bcb_defs fatal_defs pause_charging_wait_for_power_internal_def
      ef_rules error_view_def Let_def)

lemma e_start_on_meters: "ekeeps any error_view (start_on_meters ms req)"
  by (induction ms) (simp_all add: ef_rules error_view_def)

lemma e_stop_on_meters: "ekeeps any error_view (stop_on_meters ms uuid)"
  by (induction ms) (auto simp: ef_rules error_view_def Let_def split: TransactionRequestStatus.split)

lemma e_session:
  "ekeeps any error_view (start_session b)" "ekeeps any error_view stop_session"
  "ekeeps any error_view start_transaction" "ekeeps any error_view stop_transaction"
  "ekeeps any error_view deauthorize_internal"
  by (simp_all add: start_session_def stop_session_def start_transaction_def stop_transaction_def
      deauthorize_internal_def generate_session_id_def store_session_def clear_session_def
      e_start_on_meters e_stop_on_meters ef_rules error_view_def Let_def)

lemmas e_rules = ef_rules error_view_def e_ops e_session

lemma e_run_case: "ekeeps any error_view (run_case st init now t)"
  by (cases st)
    (auto simp: e_rules st_Disabled_def st_Replug_def st_Idle_def st_SwitchPhases_def st_T_step_EF_def
      st_T_step_X1_def st_WaitingForEnergy_def st_StoppingCharging_def st_Finished_def
      st_ChargingPausedEVSE_def st_ChargingPausedEV_def paused_ev_hlc_def paused_ev_basic_def
      paused_hlc_intention_def st_WaitingForAuthentication_def wfa_init_def wfa_session_def wfa_defs
      st_PrepareCharging_def prepare_defs st_Charging_def charging_state_F_def charging_ac_def
      entered_fatal_error_state_def time_in_fatal_error_state_ms_def split: ChargeMode.split)

lemma e_loop_pass: "eff any error_view c (exec loop_pass c)"
proof -
  have "eff any error_view c (case_entry c)" "eff any error_view c (exec soc_timer (exec loop_enter c))"
    by (rule ef_loop_parts; simp add: loop_defs ef_rules error_view_def)+
  then show ?thesis
    using ef.R_trans [OF _ ef.keepsD [OF e_run_case]] by (simp add: exec_loop_pass)
qed

lemma e_run_state_machine: "ekeeps any error_view run_state_machine"
proof (rule ef.keepsI)
  fix c
  have "eff any error_view c (snd (run_loop 0 c))"
    by (rule run_loop_invariant) (auto intro: ef.R_trans [OF _ e_loop_pass] ef.R_refl)
  then show "eff any error_view c (exec run_state_machine c)"
    by (simp add: run_state_machine_def run_simps)
qed

lemma e_events:
  "ekeeps any error_view (process_cp_events_independent e)"
  "ekeeps any error_view (process_cp_events_state e)"
  by (auto simp: process_cp_events_independent_def cp_defs e_rules split: CPEvent.split EvseState.split)

lemma e_interface:
  "ekeeps any error_view (set_max_current x t)" "ekeeps any error_view pause_charging"
  "ekeeps any error_view resume_charging" "ekeeps any error_view pause_charging_wait_for_power"
  "ekeeps any error_view resume_charging_power_available" "ekeeps any error_view charger_evse_replug"
  "ekeeps any error_view (charger_switch_three_phases b)"
  "ekeeps any error_view enable_disable_initial_state_publish"
  "ekeeps any error_view (enable_disable n src)" "ekeeps any error_view (cancel_transaction r)"
  "ekeeps any error_view (authorize a tok v)"
  by (simp_all add: set_max_current_def pause_charging_def resume_charging_def authorize_def
      pause_charging_wait_for_power_def resume_charging_power_available_def charger_evse_replug_def
      charger_switch_three_phases_def enable_disable_initial_state_publish_def enable_disable_def
      enable_disable_source_table_update_def parse_enable_disable_source_table_def
      cancel_transaction_def e_rules Let_def)

lemma e_hlc:
  "ekeeps any error_view (set_current_drawn_by_vehicle l1 l2 l3)"
  "ekeeps any error_view request_error_sequence" "ekeeps any error_view (set_matching_started b)"
  "ekeeps any error_view notify_currentdemand_started"
  "ekeeps any error_view (inform_new_evse_max_hlc_limits l)"
  "ekeeps any error_view (inform_new_evse_min_hlc_limits k)"
  "ekeeps any error_view dlink_pause" "ekeeps any error_view dlink_terminate"
  "ekeeps any error_view dlink_error" "ekeeps any error_view set_hlc_charging_active"
  "ekeeps any error_view (set_hlc_allow_close_contactor b)"
  "ekeeps any error_view stop_charging_on_fatal_error"
  "ekeeps any error_view get_start_signed_meter_value"
  "ekeeps any error_view get_stop_signed_meter_value" "ekeeps any error_view (charger_setup g)"
  "ekeeps any error_view cleanup_transactions_on_startup"
  by (simp_all add: set_current_drawn_by_vehicle_def request_error_sequence_def
      set_matching_started_def notify_currentdemand_started_def inform_new_evse_max_hlc_limits_def
      inform_new_evse_min_hlc_limits_def dlink_pause_def dlink_terminate_def dlink_error_def
      set_hlc_charging_active_def set_hlc_allow_close_contactor_def stop_charging_on_fatal_error_def
      get_start_signed_meter_value_def get_stop_signed_meter_value_def charger_setup_def
      cleanup_transactions_on_startup_def get_session_def clear_session_def e_stop_on_meters e_rules)

lemma e_charger_handle:
  assumes "external_input i" and "i \<noteq> C_error_thread"
  shows "ekeeps any error_view (charger_handle i)"
proof (cases i)
  case (C_environment en)
  show ?thesis
    unfolding C_environment charger_handle.simps by (simp add: ef_rules error_view_def)
qed (use assms in \<open>simp_all add: process_event_def main_thread_round_def main_thread_start_def
    deauthorize_def ef_void ef.keeps_rules ef_sleep_for ef_emit e_run_state_machine e_events e_interface e_hlc e_ops e_session error_view_def\<close>)

lemma error_thread_result:
  "shutdown_type (shared (exec error_thread_round c)) = pending_shutdown c"
  "error_handling_event_queue (exec error_thread_round c) = []"
  "actions (exec error_thread_round c) = actions c"
proof -
  have loop: "shutdown_type (shared (exec (for_each es
        (\<lambda>e. on_shared (\<lambda>h. h\<lparr>shutdown_type := shutdown_of_event e\<rparr>))) c)) =
        shutdown_after es (shutdown_type (shared c))"
    "error_handling_event_queue (exec (for_each es
        (\<lambda>e. on_shared (\<lambda>h. h\<lparr>shutdown_type := shutdown_of_event e\<rparr>))) c) = error_handling_event_queue c"
    "actions (exec (for_each es
        (\<lambda>e. on_shared (\<lambda>h. h\<lparr>shutdown_type := shutdown_of_event e\<rparr>))) c) = actions c" for es c
    by (induction es arbitrary: c) (simp_all add: run_simps on_shared_def shutdown_after_def)
  show "shutdown_type (shared (exec error_thread_round c)) = pending_shutdown c"
    "error_handling_event_queue (exec error_thread_round c) = []"
    "actions (exec error_thread_round c) = actions c"
    by (simp_all add: error_thread_round_def run_simps eq_wait_def pending_shutdown_def loop
        shutdown_after_def split: option.split)
qed

lemma pending_charger_handle:
  assumes "external_input i"
  shows "pending_shutdown (exec (charger_handle i) c) = pending_shutdown c"
proof (cases "i = C_error_thread")
  case True
  then show ?thesis
    using error_thread_result(1,2) [of c] by (simp add: pending_shutdown_def shutdown_after_def)
next
  case False
  then show ?thesis
    using ef.keepsD [OF e_charger_handle [OF assms], of c]
    by (simp add: eff_def error_view_def pending_shutdown_def)
qed

lemma appends_charger_handle:
  assumes "external_input i"
  obtains as where "actions (exec (charger_handle i) c) = actions c @ as"
  using ef.keepsD [OF e_charger_handle [OF assms], of c] error_thread_result(3) [of c]
  by (cases "i = C_error_thread") (auto simp: eff_def)

lemma push_signals:
  "pending_shutdown (exec (for_each gs on_error_signal) c) =
     shutdown_after (map event_of_signal gs) (pending_shutdown c)"
  "actions (exec (for_each gs on_error_signal) c) = actions c"
  by (induction gs arbitrary: c)
    (simp_all add: run_simps on_error_signal_def pending_shutdown_def eq_push_def shutdown_after_def)

section \<open>The invariant\<close>

definition evse_inv :: "'d error_framework \<Rightarrow> 'd evse \<Rightarrow> bool" where
  "evse_inv fw s \<longleftrightarrow> (\<exists>lock_b. iec_reachable lock_b (ev_iec s)) \<and> eh_inv fw (ev_err s) \<and>
     (pending_shutdown (ev_charger s) \<noteq> Shutdown_None \<longleftrightarrow> inoperative fw (ev_err s)) \<and>
     (power_on_allowed (ev_iec s) \<longrightarrow> permitted (actions (ev_charger s)))"

lemma call_errors_inv:
  assumes "framework_ok fw" and "evse_inv fw s"
  shows "evse_inv fw (call_errors fw inputs s)"
proof -
  let ?e = "eh_run fw inputs (ev_err s)"
  obtain gs where gs: "eh_signals ?e = eh_signals (ev_err s) @ gs"
    "\<And>ty. (ty \<noteq> Shutdown_None \<longleftrightarrow> inoperative fw (ev_err s)) \<Longrightarrow>
      (shutdown_after (map event_of_signal gs) ty \<noteq> Shutdown_None \<longleftrightarrow> inoperative fw ?e)"
    using sig_eh_run [OF assms(1), of "ev_err s" inputs] unfolding sig_rel_def by blast
  have "call_errors fw inputs s =
      s\<lparr>ev_err := ?e, ev_charger := exec (for_each gs on_error_signal) (ev_charger s)\<rparr>"
    by (simp add: call_errors_def Let_def gs(1))
  then show ?thesis
    using assms(2) eh_run_inv [OF assms(1), of "ev_err s" inputs] gs(2) [of "pending_shutdown (ev_charger s)"]
    by (simp add: evse_inv_def push_signals)
qed

lemma iec_calls_reachable:
  "iec_reachable lock_b s \<Longrightarrow> iec_reachable lock_b (exec (for_each is iec_handle) s)"
  by (induction "is" arbitrary: s) (auto simp: run_simps intro: iec_next iec_step.input)

lemma charger_step_inv:
  assumes "framework_ok fw" and "external_input i" and "evse_inv fw s"
  shows "evse_inv fw (charger_step fw i s)"
proof -
  let ?c = "exec (charger_handle i) (ev_charger s)"
  obtain as where as: "actions ?c = actions (ev_charger s) @ as"
    using appends_charger_handle [OF assms(2)] .
  let ?s = "s\<lparr>ev_charger := ?c, ev_iec := exec (for_each (bsp_inputs as) iec_handle) (ev_iec s)\<rparr>"
  have "power_on_allowed (ev_iec ?s) \<longrightarrow> permitted (actions ?c)"
    using call_order [of "ev_iec s" "permitted (actions (ev_charger s))" as] assms(3)
    by (simp add: evse_inv_def as permitted_def)
  moreover have "pending_shutdown ?c = pending_shutdown (ev_charger s)"
    by (rule pending_charger_handle [OF assms(2)])
  ultimately have "evse_inv fw ?s"
    using assms(3) iec_calls_reachable by (auto simp: evse_inv_def)
  moreover have "charger_step fw i s = call_errors fw (err_inputs as) ?s"
    by (simp add: charger_step_def Let_def new_actions_def as)
  ultimately show ?thesis
    using call_errors_inv [OF assms(1)] by simp
qed

lemma iec_part_inv:
  assumes "evse_inv fw s" and "iec_step (ev_iec s) t" and "no_gain (ev_iec s) t"
  shows "evse_inv fw (s\<lparr>ev_iec := t\<rparr>)"
  using assms by (auto simp: evse_inv_def no_gain_def intro: iec_next)

lemma evse_step_inv:
  assumes "framework_ok fw" and "evse_step fw s s'" and "evse_inv fw s"
  shows "evse_inv fw s'"
  using assms(2)
proof cases
  case (by_charger i)
  then show ?thesis using charger_step_inv assms(1,3) by blast
next
  case (by_errors j)
  then show ?thesis using call_errors_inv assms(1,3) by blast
next
  case (by_iec_call i)
  moreover have "ng.keeps (iec_handle i)"
    using by_iec_call by (intro ng_iec_handle) auto
  ultimately show ?thesis
    using iec_part_inv [OF assms(3) iec_step.input] ng.keepsD by blast
next
  case by_iec_feed
  then show ?thesis
    using iec_part_inv [OF assms(3) iec_step.feed]
      ng.keepsD [OF ng_feed, of "(ev_iec s)\<lparr>feeds := feeds (ev_iec s) - 1\<rparr>"]
    by (simp add: no_gain_def)
next
  case by_iec_timer
  then show ?thesis
    using iec_part_inv [OF assms(3) iec_step.timer_c1] iec_part_inv [OF assms(3) iec_step.timer_F]
      ng.keepsD [OF ng_feed, of "ev_iec s"]
    by blast
next
  case (by_clock later)
  then show ?thesis
    using iec_part_inv [OF assms(3) iec_step.tick] by (simp add: no_gain_def)
qed

lemma evse_start_inv:
  assumes "framework_ok fw" and "evse_start fw s"
  shows "evse_inv fw s"
proof -
  obtain c0 lock_b where c0: "actions c0 = []" "error_handling_event_queue c0 = []"
      "shutdown_type (shared c0) = Shutdown_None" "ev_charger s = exec charger_construct c0"
    and iec: "ev_iec s = iec_init lock_b" and err: "eh_start fw (ev_err s)"
    using assms(2) by (auto simp: evse_start_def)
  have "pending_shutdown (ev_charger s) = Shutdown_None"
    using c0 by (simp add: pending_shutdown_def charger_construct_def on_shared_def on_internal_def run_simps
        shutdown_after_def)
  moreover have "\<not> inoperative fw (ev_err s)"
    using err by (simp add: eh_start_def framework_laws(4) [OF assms(1)])
  ultimately show ?thesis
    using eh_start_inv [OF assms(1) err] iec_start [of lock_b] iec
    by (auto simp: evse_inv_def) (simp add: iec_init_def)
qed

lemma evse_reachable_inv:
  assumes "framework_ok fw" and "evse_reachable fw s"
  shows "evse_inv fw s"
  using assms(2)
  by (induction rule: evse_reachable.induct)
    (auto intro: evse_start_inv [OF assms(1)] evse_step_inv [OF assms(1)])

lemma charger_step_reachable:
  "evse_reachable fw s \<Longrightarrow> external_input i \<Longrightarrow> evse_reachable fw (charger_step fw i s)"
  by (rule evse_next) (auto intro: by_charger)

lemma inv_commanded_on:
  assumes "evse_inv fw s" and "commanded_on (bsp_calls (ev_iec s))"
  shows "permitted (actions (ev_charger s))" and "last_cp_state (ev_iec s) \<in> {CP_C, CP_D}"
  using assms iec_reachable_inv by (fastforce simp: evse_inv_def iec_inv_def)+

lemmas commanded_on_permitted = inv_commanded_on [OF evse_reachable_inv]

lemma quiet_keeps_off: "list_all no_power as \<Longrightarrow> \<not> b \<Longrightarrow> \<not> foldl permission_step b as"
proof (induction as arbitrary: b)
  case (Cons a as)
  then have "\<not> permission_step b a"
    by (cases "(b, a)" rule: permission_step.cases) (auto elim: power_on.elims)
  with Cons show ?case by simp
qed simp

lemma withdrawn:
  assumes "A_bsp (In_allow_power_on False r) \<in> set as" and "list_all no_power as"
  shows "\<not> foldl permission_step b as"
proof -
  obtain xs ys where "as = xs @ A_bsp (In_allow_power_on False r) # ys"
    using split_list [OF assms(1)] by blast
  then show ?thesis
    using assms(2) quiet_keeps_off [of ys False] by simp
qed

definition round_view :: "charger \<Rightarrow> EvseState \<times> bool \<times> int \<times> ShutdownType" where
  "round_view c = (current_state (shared c), ac_with_soc_timeout (shared c), ac_with_soc_timer (shared c),
     last_shutdown_type (shared c))"

lemma r_error_thread: "ekeeps any round_view error_thread_round"
  by (auto simp: error_thread_round_def ef_rules round_view_def split: option.split)

lemma r_round_start:
  "ekeeps no_power (\<lambda>c. (round_view c, shutdown_type (shared c)))
     (do { sleep_for MAINLOOP_UPDATE_RATE; power_available })"
  by (simp add: limit_defs ef_rules round_view_def)

lemma soc_view: "round_view c = round_view c' \<Longrightarrow> soc_expires c = soc_expires c'"
  by (simp add: round_view_def soc_expires_def)

lemma round_withdraws:
  assumes "current_state (shared c) = St_Charging" and "\<not> soc_expires c"
    and "shutdown_type (shared c) \<noteq> Shutdown_None"
    and "last_shutdown_type (shared c) \<noteq> shutdown_type (shared c)"
  shows "\<exists>as. actions (exec main_thread_round c) = actions c @ as \<and> list_all no_power as \<and>
    A_bsp (In_allow_power_on False Reason_PowerOff) \<in> set as"
proof -
  define c1 where "c1 = exec (do { sleep_for MAINLOOP_UPDATE_RATE; power_available }) c"
  have e: "eff no_power (\<lambda>c. (round_view c, shutdown_type (shared c))) c c1"
    unfolding c1_def by (rule ef.keepsD [OF r_round_start])
  then have view: "round_view c1 = round_view c" "shutdown_type (shared c1) = shutdown_type (shared c)"
    by (simp_all add: eff_def)
  then have c1: "current_state (shared c1) = St_Charging" "\<not> soc_expires c1"
      "shutdown_type (shared c1) \<noteq> Shutdown_None"
      "last_shutdown_type (shared c1) \<noteq> shutdown_type (shared c1)"
    using assms soc_view [OF view(1)] by (simp_all add: round_view_def)
  have run: "exec main_thread_round c = exec loop_pass c1"
    using charging_fatal_run(1) [OF c1] by (simp add: main_thread_round_def c1_def run_simps)
  have "eff no_power no_proj c1 (exec loop_pass c1)"
    using c1 by (intro eff_quiet_pass) auto
  then obtain bs where bs: "actions (exec loop_pass c1) = actions c1 @ bs" "list_all no_power bs"
    by (auto simp: eff_def)
  obtain as where "actions c1 = actions c @ as" "list_all no_power as"
    using e by (auto simp: eff_def)
  with bs charging_fatal_run(3) [OF c1] show ?thesis
    by (simp add: run new_actions_def)
qed

lemma error_thread_step:
  "charger_step fw C_error_thread s = s\<lparr>ev_charger := exec error_thread_round (ev_charger s)\<rparr>"
  by (simp add: charger_step_def Let_def new_actions_def error_thread_result(3) call_errors_def
      err_inputs_def bsp_inputs_def eh_run_def run_simps)

lemma step_actions: "actions (ev_charger (charger_step fw i s)) = actions (exec (charger_handle i) (ev_charger s))"
  by (simp add: charger_step_def Let_def call_errors_def push_signals)

lemma inv_fatal_iff_shutdown:
  "evse_inv fw s \<Longrightarrow>
     pending_shutdown (ev_charger s) \<noteq> Shutdown_None \<longleftrightarrow> fatal_error_active fw (ev_err s)"
  by (auto simp: evse_inv_def eh_inv_def)

lemmas fatal_iff_shutdown = inv_fatal_iff_shutdown [OF evse_reachable_inv]

section \<open>An instance\<close>

text \<open>A run of the system as a list of labels; a label that is not enabled does nothing.\<close>

datatype evse_label = By_charger charger_input | By_errors eh_input | By_iec iec_input | By_feed

fun evse_run1 :: "'d error_framework \<Rightarrow> evse_label \<Rightarrow> 'd evse \<Rightarrow> 'd evse" where
  "evse_run1 fw (By_charger i) s = (if external_input i then charger_step fw i s else s)"
| "evse_run1 fw (By_errors j) s = call_errors fw [j] s"
| "evse_run1 fw (By_iec i) s =
     (if external_iec i then s\<lparr>ev_iec := exec (iec_handle i) (ev_iec s)\<rparr> else s)"
| "evse_run1 fw By_feed s = (if 0 < feeds (ev_iec s)
     then s\<lparr>ev_iec := exec feed_state_machine_no_thread ((ev_iec s)\<lparr>feeds := feeds (ev_iec s) - 1\<rparr>)\<rparr> else s)"

definition evse_run :: "'d error_framework \<Rightarrow> evse_label list \<Rightarrow> 'd evse \<Rightarrow> 'd evse" where
  "evse_run fw ls s = fold (evse_run1 fw) ls s"

lemma evse_run_reachable:
  assumes "evse_reachable fw s"
  shows "evse_reachable fw (evse_run fw ls s)"
proof -
  have "evse_reachable fw (evse_run1 fw l s)" if "evse_reachable fw s" for l s
    using that
    by (cases l) (auto intro: charger_step_reachable evse_next [OF _ by_errors]
        evse_next [OF _ by_iec_call] evse_next [OF _ by_iec_feed] simp del: One_nat_def)
  then show ?thesis
    using assms unfolding evse_run_def by (induction ls arbitrary: s) simp_all
qed

definition example_evse :: "error list evse" where
  "example_evse = \<lparr>ev_charger = exec charger_construct example_charger, ev_iec = iec_init True,
     ev_err = errh_init [] False\<rparr>"

lemma example_evse_start: "evse_start list_framework example_evse"
proof -
  have "actions example_charger = [] \<and> error_handling_event_queue example_charger = [] \<and>
      shutdown_type (shared example_charger) = Shutdown_None \<and>
      ev_charger example_evse = exec charger_construct example_charger"
    by (simp add: example_evse_def) (simp add: example_defs)
  moreover have "ev_iec example_evse = iec_init True" "eh_start list_framework (ev_err example_evse)"
    by (simp_all add: example_evse_def errh_init_start)
  ultimately show ?thesis
    unfolding evse_start_def by blast
qed

lemmas example_evse_reachable = evse_init [OF example_evse_start]

section \<open>Properties\<close>

text \<open>C2. In every state the connected system can reach, as long as the last word of the charger
  about power is not the permission, the last contactor command to the board is not "on": nothing
  else in the system can close the contactors.  Otherwise they are on only after the IEC machine ran
  in CP state C or D.\<close>

theorem contactors_need_charger:
  assumes "framework_ok fw" and "evse_reachable fw s"
    and "\<not> permitted (actions (ev_charger s)) \<or> last_cp_state (ev_iec s) \<notin> {CP_C, CP_D}"
  shows "\<not> commanded_on (bsp_calls (ev_iec s))"
  using commanded_on_permitted [OF assms(1,2)] assms(3) by blast

text \<open>C5. The charger's shutdown refines the state of the errors: in every reachable state in which the
  error thread has emptied its queue, a shutdown is in force exactly if an error is active, of the EVSE
  or of one of its requirements, that is not on the ignore list of its source.\<close>

theorem shutdown_follows_errors:
  assumes "framework_ok fw" and "evse_reachable fw s"
    and "error_handling_event_queue (ev_charger s) = []"
  shows "shutdown_type (shared (ev_charger s)) \<noteq> Shutdown_None \<longleftrightarrow>
    (\<exists>x\<in>set (all_errors fw (ev_err s)). err_type (fst x) \<notin> set (snd x))"
  using fatal_iff_shutdown [OF assms(1,2)] assms(3)
  by (simp add: pending_shutdown_def shutdown_after_def fatal_error_active_def list_ex_iff prevents_def)

text \<open>C3. A fatal error opens the contactors: from a state of the system that satisfies the invariant
  (every reachable state does) in which the charger charges and an error that prevents charging is
  active and not yet handled, one round of the error thread and one of the main thread withdraw the
  charger's permission, and the board has been told to open the contactors.\<close>

theorem fatal_error_opens_contactors:
  assumes "framework_ok fw" and "evse_inv fw s" and "fatal_error_active fw (ev_err s)"
    and "current_state (shared (ev_charger s)) = St_Charging" and "\<not> soc_expires (ev_charger s)"
    and "last_shutdown_type (shared (ev_charger s)) \<noteq> pending_shutdown (ev_charger s)"
    and "s' = charger_step fw C_round (charger_step fw C_error_thread s)"
  shows "\<not> permitted (actions (ev_charger s')) \<and> \<not> commanded_on (bsp_calls (ev_iec s'))"
proof -
  let ?c = "exec error_thread_round (ev_charger s)"
  have view: "round_view ?c = round_view (ev_charger s)"
    using ef.keepsD [OF r_error_thread, of "ev_charger s"] by (simp add: eff_def)
  have "\<exists>as. actions (exec main_thread_round ?c) = actions ?c @ as \<and> list_all no_power as \<and>
      A_bsp (In_allow_power_on False Reason_PowerOff) \<in> set as"
    using view soc_view [OF view] assms(3-6) inv_fatal_iff_shutdown [OF assms(2)]
    by (intro round_withdraws) (simp_all add: round_view_def error_thread_result)
  then have off: "\<not> permitted (actions (ev_charger s'))"
    using withdrawn by (auto simp: assms(7) error_thread_step step_actions permitted_def)
  have "evse_inv fw s'"
    unfolding assms(7) using assms(2) by (simp add: charger_step_inv [OF assms(1)])
  with off show ?thesis
    using inv_commanded_on(1) by blast
qed


text \<open>Witnesses: the contactors stay open for a car in state C without the permission; an internal error
  is raised while the charger charges.\<close>

theorem contactors_need_charger_witness:
  "\<not> commanded_on (bsp_calls (ev_iec (evse_run list_framework
     [By_charger C_run, By_iec (In_bsp_event Bsp_A), By_feed, By_iec (In_bsp_event Bsp_C), By_feed] example_evse)))"
  (is "\<not> commanded_on (bsp_calls (ev_iec ?s))")
proof -
  have "actions (ev_charger ?s) = actions (exec main_thread_start (ev_charger example_evse))"
    by (simp add: evse_run_def step_actions)
  then have "\<not> permitted (actions (ev_charger ?s))"
    by (simp add: example_evse_def charger_construct_def main_thread_start_def get_max_current_internal_def
        emit_def on_shared_def on_internal_def run_simps permitted_def) (simp add: example_charger_def)
  then show ?thesis
    using contactors_need_charger [OF list_framework_ok evse_run_reachable [OF example_evse_reachable]] by blast
qed

theorem shutdown_follows_errors_witness:
  "let s = evse_run list_framework [By_errors (In_raise_internal ''meter''), By_charger C_error_thread] example_evse
   in shutdown_type (shared (ev_charger s)) \<noteq> Shutdown_None \<longleftrightarrow>
     (\<exists>x\<in>set (all_errors list_framework (ev_err s)). err_type (fst x) \<notin> set (snd x))"
  using shutdown_follows_errors [OF list_framework_ok evse_run_reachable [OF example_evse_reachable],
      of "[By_errors (In_raise_internal ''meter''), By_charger C_error_thread]"]
  by (simp add: Let_def evse_run_def error_thread_step error_thread_result(2))

definition example_errors :: "error list errh" where
  "example_errors = eh_run list_framework [In_raise_internal ''meter''] (errh_init [] False)"

lemma example_errors_fatal:
  "eh_inv list_framework example_errors" "inoperative list_framework example_errors"
proof -
  show inv: "eh_inv list_framework example_errors"
    unfolding example_errors_def
    by (rule eh_run_inv [OF list_framework_ok eh_start_inv [OF list_framework_ok errh_init_start]])
  show "inoperative list_framework example_errors"
    unfolding example_errors_def eh_run_def
    by (simp add: run_simps raise_internal_error_def on_p_evse_def process_error_def Let_def
        errors_prevent_charging_def raise_inoperative_error_def eh_signal_out_def number_of_active_errors_def
        list_framework_def errh_init_def ignore_evse_def)
qed

definition example_fault :: "error list evse" where
  "example_fault = \<lparr>ev_charger = example_charger\<lparr>shared := example_shared\<lparr>current_state := St_Charging\<rparr>,
     error_handling_event_queue := [ForceEmergencyShutdown]\<rparr>,
     ev_iec = iec_init True, ev_err = example_errors\<rparr>"

lemma example_fault_inv: "evse_inv list_framework example_fault"
  using example_errors_fatal iec_start [of True]
  by (auto simp: evse_inv_def example_fault_def pending_shutdown_def shutdown_after_def iec_init_def)

theorem fatal_error_opens_contactors_witness:
  "\<not> permitted (actions (ev_charger (charger_step list_framework C_round
     (charger_step list_framework C_error_thread example_fault))))"
proof -
  have "fatal_error_active list_framework (ev_err example_fault)"
    using example_errors_fatal by (simp add: eh_inv_def example_fault_def)
  moreover have "current_state (shared (ev_charger example_fault)) = St_Charging"
      "\<not> soc_expires (ev_charger example_fault)"
      "last_shutdown_type (shared (ev_charger example_fault)) \<noteq> pending_shutdown (ev_charger example_fault)"
    by (simp_all add: example_fault_def soc_expires_def pending_shutdown_def shutdown_after_def example_defs)
  ultimately show ?thesis
    using fatal_error_opens_contactors [OF list_framework_ok example_fault_inv _ _ _ _ refl] by blast
qed


end
