(* ===== verification/Auth_Connector.thy ===== *)
theory Auth_Connector
  imports Prelude Evse_Types
begin

text \<open>
  The connectors of the module Auth: \<^verbatim>\<open>modules/EVSE/Auth/lib/ConnectorStateMachine.cpp\<close>,
  \<^verbatim>\<open>Connector.cpp\<close> and their headers, with the enumerations of connector types
  (\<^verbatim>\<open>types/evse_manager.yaml\<close>) and the comparison of tokens of \<^verbatim>\<open>lib/everest/helpers\<close>.

  The timer of an EVSE is represented by the task that it will run, and by the task that runs and waits
  for the mutex of the handler while \<^verbatim>\<open>timeout_in_progress\<close> is set.
\<close>

section \<open>Data\<close>

datatype ConnectorEvent =
    E_ENABLE | E_DISABLE | E_ERROR_CLEARED | E_FAULTED | E_TRANSACTION_STARTED | E_SESSION_FINISHED

datatype ConnectorState =
    CS_AVAILABLE | CS_UNAVAILABLE | CS_FAULTED | CS_OCCUPIED | CS_UNAVAILABLE_FAULTED
  | CS_FAULTED_OCCUPIED

text \<open>The reservation handler compares states by the order of the enumeration.\<close>

fun state_index :: "ConnectorState \<Rightarrow> nat" where
  "state_index CS_AVAILABLE = 0"
| "state_index CS_UNAVAILABLE = 1"
| "state_index CS_FAULTED = 2"
| "state_index CS_OCCUPIED = 3"
| "state_index CS_UNAVAILABLE_FAULTED = 4"
| "state_index CS_FAULTED_OCCUPIED = 5"

lemma state_index_inject: "state_index s = state_index t \<longleftrightarrow> s = t"
  by (cases s; cases t) simp_all

instantiation ConnectorState :: linorder
begin

definition less_eq_ConnectorState :: "ConnectorState \<Rightarrow> ConnectorState \<Rightarrow> bool" where
  "less_eq_ConnectorState s t \<longleftrightarrow> state_index s \<le> state_index t"

definition less_ConnectorState :: "ConnectorState \<Rightarrow> ConnectorState \<Rightarrow> bool" where
  "less_ConnectorState s t \<longleftrightarrow> state_index s < state_index t"

instance
  by standard (auto simp: less_eq_ConnectorState_def less_ConnectorState_def state_index_inject)

end

datatype ConnectorTypeEnum =
    T_cCCS1 | T_cCCS2 | T_cG105 | T_cTesla | T_cType1 | T_cType2 | T_s309_1P_16A | T_s309_1P_32A
  | T_s309_3P_16A | T_s309_3P_32A | T_sBS1361 | T_sCEE_7_7 | T_sType2 | T_sType3
  | T_Other1PhMax16A | T_Other1PhOver16A | T_Other3Ph | T_Pan | T_wInductive | T_wResonant
  | T_Undetermined | T_Unknown

definition connector_types :: "ConnectorTypeEnum list" where
  "connector_types =
     [T_cCCS1, T_cCCS2, T_cG105, T_cTesla, T_cType1, T_cType2, T_s309_1P_16A, T_s309_1P_32A,
      T_s309_3P_16A, T_s309_3P_32A, T_sBS1361, T_sCEE_7_7, T_sType2, T_sType3, T_Other1PhMax16A,
      T_Other1PhOver16A, T_Other3Ph, T_Pan, T_wInductive, T_wResonant, T_Undetermined, T_Unknown]"

text \<open>The numerical value of an enumerator.\<close>

definition type_index :: "ConnectorTypeEnum \<Rightarrow> nat" where
  "type_index t = length (takeWhile (\<lambda>x. x \<noteq> t) connector_types)"

lemma type_index_inject: "type_index s = type_index t \<longleftrightarrow> s = t"
proof -
  have "connector_types ! type_index u = u" for u
    by (cases u) (simp_all add: type_index_def connector_types_def)
  then show ?thesis by metis
qed

instantiation ConnectorTypeEnum :: linorder
begin

definition less_eq_ConnectorTypeEnum :: "ConnectorTypeEnum \<Rightarrow> ConnectorTypeEnum \<Rightarrow> bool" where
  "less_eq_ConnectorTypeEnum s t \<longleftrightarrow> type_index s \<le> type_index t"

definition less_ConnectorTypeEnum :: "ConnectorTypeEnum \<Rightarrow> ConnectorTypeEnum \<Rightarrow> bool" where
  "less_ConnectorTypeEnum s t \<longleftrightarrow> type_index s < type_index t"

instance
  by standard (auto simp: less_eq_ConnectorTypeEnum_def less_ConnectorTypeEnum_def type_index_inject)

end

record Connector =
  con_id :: int
  con_transaction_active :: bool
  con_state :: ConnectorState
  con_type :: ConnectorTypeEnum

record Identifier =
  ident_id_token :: IdToken
  ident_type :: AuthorizationType
  ident_authorization_status :: "AuthorizationStatus option"
  ident_expiry_time :: "string option"
  ident_parent_id_token :: "IdToken option"

datatype timer_task =
    Task_plug_in
  | Task_authorization ProvidedIdToken

record EVSEContext =
  evse_evse_id :: int
  evse_index :: int
  evse_transaction_active :: bool
  evse_identifier :: "Identifier option"
  connectors :: "Connector list"
  timeout_timer :: "timer_task option"
  timeout_in_progress :: "timer_task option"
  plugged_in :: bool
  plug_in_timeout :: bool

section \<open>The state machine of a connector\<close>

fun handle_event :: "ConnectorState \<Rightarrow> ConnectorEvent \<Rightarrow> bool \<times> ConnectorState" where
  "handle_event CS_AVAILABLE E_TRANSACTION_STARTED = (True, CS_OCCUPIED)"
| "handle_event CS_AVAILABLE E_DISABLE = (True, CS_UNAVAILABLE)"
| "handle_event CS_AVAILABLE E_FAULTED = (True, CS_FAULTED)"
| "handle_event CS_UNAVAILABLE E_ENABLE = (True, CS_AVAILABLE)"
| "handle_event CS_UNAVAILABLE E_FAULTED = (True, CS_UNAVAILABLE_FAULTED)"
| "handle_event CS_FAULTED E_ERROR_CLEARED = (True, CS_AVAILABLE)"
| "handle_event CS_FAULTED E_DISABLE = (True, CS_UNAVAILABLE_FAULTED)"
| "handle_event CS_OCCUPIED E_SESSION_FINISHED = (True, CS_AVAILABLE)"
| "handle_event CS_OCCUPIED E_FAULTED = (True, CS_FAULTED_OCCUPIED)"
| "handle_event CS_FAULTED_OCCUPIED E_ERROR_CLEARED = (True, CS_OCCUPIED)"
| "handle_event CS_FAULTED_OCCUPIED E_SESSION_FINISHED = (True, CS_FAULTED)"
| "handle_event CS_UNAVAILABLE_FAULTED E_ENABLE = (True, CS_FAULTED)"
| "handle_event CS_UNAVAILABLE_FAULTED E_ERROR_CLEARED = (True, CS_UNAVAILABLE)"
| "handle_event s _ = (False, s)"

definition submit_event :: "ConnectorEvent \<Rightarrow> Connector \<Rightarrow> Connector" where
  "submit_event e c = c\<lparr>con_state := snd (handle_event (con_state c) e)\<rparr>"

definition connector_is_unavailable :: "Connector \<Rightarrow> bool" where
  "connector_is_unavailable c \<longleftrightarrow> con_state c = CS_UNAVAILABLE \<or> con_state c = CS_UNAVAILABLE_FAULTED"

fun connector_state_to_string :: "ConnectorState \<Rightarrow> string" where
  "connector_state_to_string CS_AVAILABLE = ''AVAILABLE''"
| "connector_state_to_string CS_OCCUPIED = ''OCCUPIED''"
| "connector_state_to_string CS_UNAVAILABLE = ''UNAVAILABLE''"
| "connector_state_to_string CS_FAULTED = ''FAULTED''"
| "connector_state_to_string CS_FAULTED_OCCUPIED = ''FAULTED_OCCUPIED''"
| "connector_state_to_string CS_UNAVAILABLE_FAULTED = ''UNAVAILABLE_FAULTED''"

definition evse_is_available :: "EVSEContext \<Rightarrow> bool" where
  "evse_is_available e =
     (if plug_in_timeout e then False
      else if evse_identifier e \<noteq> None then False
      else let occupied = list_ex (\<lambda>c. con_state c = CS_OCCUPIED \<or> con_state c = CS_FAULTED_OCCUPIED)
                 (connectors e);
               available = list_ex (\<lambda>c. con_state c \<noteq> CS_UNAVAILABLE \<and> con_state c \<noteq> CS_FAULTED)
                 (connectors e)
           in if occupied then False else available)"

definition evse_is_unavailable :: "EVSEContext \<Rightarrow> bool" where
  "evse_is_unavailable e = list_all connector_is_unavailable (connectors e)"

section \<open>Tokens\<close>

definition tolower :: "char \<Rightarrow> char" where
  "tolower c = (if 65 \<le> (of_char c :: nat) \<and> (of_char c :: nat) \<le> 90
     then char_of ((of_char c :: nat) + 32) else c)"

definition is_equal_case_insensitive :: "string \<Rightarrow> string \<Rightarrow> bool" where
  "is_equal_case_insensitive s t \<longleftrightarrow> length s = length t \<and> list_all2 (\<lambda>a b. tolower a = tolower b) s t"

definition is_equal_id_token :: "IdToken \<Rightarrow> IdToken \<Rightarrow> bool" where
  "is_equal_id_token s t \<longleftrightarrow>
     is_equal_case_insensitive (token_value s) (token_value t) \<and> token_type s = token_type t"

end
