(* ===== verification/Permutations.thy ===== *)
theory Permutations
  imports "HOL-Library.Multiset"
begin

text \<open>
  \<^verbatim>\<open>std::next_permutation\<close> and \<^verbatim>\<open>std::prev_permutation\<close>, which the reservation handler uses to go
  through all orders of arrival.  The algorithm is the one of the standard library: find the last
  position whose element is smaller than its successor, exchange it with the last element greater
  than it, reverse what follows.  It is written over the order it uses, since the second function is
  the first one over the reversed order.  Shown here: the two loops together give every rearrangement
  of a list, each once.
\<close>

section \<open>The algorithm\<close>

text \<open>The exchange and the reversal, for a position \<open>x\<close> in front of a non-increasing rest.\<close>

definition swap_in :: "('a \<Rightarrow> 'a \<Rightarrow> bool) \<Rightarrow> 'a \<Rightarrow> 'a list \<Rightarrow> 'a list option" where
  "swap_in lt x xs =
     (let front = rev (dropWhile (\<lambda>z. \<not> lt x z) (rev xs));
          back = rev (takeWhile (\<lambda>z. \<not> lt x z) (rev xs))
      in if front = [] then None else Some (last front # rev (butlast front @ x # back)))"

text \<open>None is the return value \<^verbatim>\<open>false\<close>.\<close>

fun next_perm :: "('a \<Rightarrow> 'a \<Rightarrow> bool) \<Rightarrow> 'a list \<Rightarrow> 'a list option" where
  "next_perm lt [] = None"
| "next_perm lt (x # xs) =
     (case next_perm lt xs of Some ys \<Rightarrow> Some (x # ys) | None \<Rightarrow> swap_in lt x xs)"

fun lexlt :: "('a \<Rightarrow> 'a \<Rightarrow> bool) \<Rightarrow> 'a list \<Rightarrow> 'a list \<Rightarrow> bool" where
  "lexlt lt (x # xs) (y # ys) \<longleftrightarrow> lt x y \<or> (x = y \<and> lexlt lt xs ys)"
| "lexlt lt _ _ \<longleftrightarrow> False"

section \<open>The next rearrangement\<close>

locale strict_order =
  fixes lt :: "'a \<Rightarrow> 'a \<Rightarrow> bool"
  assumes lt_irrefl: "\<not> lt x x"
    and lt_trans: "lt x y \<Longrightarrow> lt y z \<Longrightarrow> lt x z"
    and lt_total: "x \<noteq> y \<Longrightarrow> lt x y \<or> lt y x"
begin

abbreviation non_increasing :: "'a list \<Rightarrow> bool" where
  "non_increasing \<equiv> sorted_wrt (\<lambda>a b. \<not> lt a b)"

abbreviation non_decreasing :: "'a list \<Rightarrow> bool" where
  "non_decreasing \<equiv> sorted_wrt (\<lambda>a b. \<not> lt b a)"

lemma lexlt_irrefl: "\<not> lexlt lt xs xs"
  by (induction xs) (simp_all add: lt_irrefl)

lemma lexlt_trans: "lexlt lt xs ys \<Longrightarrow> lexlt lt ys zs \<Longrightarrow> lexlt lt xs zs"
proof (induction xs arbitrary: ys zs)
  case (Cons x xs)
  then obtain y ys' z zs' where "ys = y # ys'" "zs = z # zs'"
    by (cases ys; cases zs) auto
  with Cons show ?case
    using lt_trans [of x y z] by auto
qed simp

lemma lexlt_total: "length xs = length ys \<Longrightarrow> xs = ys \<or> lexlt lt xs ys \<or> lexlt lt ys xs"
proof (induction xs ys rule: list_induct2)
  case (Cons x xs y ys)
  then show ?case using lt_total [of x y] by auto
qed simp

lemma swap_in_None: "swap_in lt x xs = None \<longleftrightarrow> (\<forall>z\<in>set xs. \<not> lt x z)"
  by (auto simp: swap_in_def Let_def)

lemma swap_in_Some:
  assumes "swap_in lt x xs = Some ys"
  obtains as y bs where "xs = as @ y # bs" and "lt x y" and "\<forall>b\<in>set bs. \<not> lt x b"
    and "ys = y # rev (as @ x # bs)"
proof -
  let ?P = "\<lambda>z. \<not> lt x z"
  have ne: "dropWhile ?P (rev xs) \<noteq> []"
    and ys: "ys = last (rev (dropWhile ?P (rev xs))) #
      rev (butlast (rev (dropWhile ?P (rev xs))) @ x # rev (takeWhile ?P (rev xs)))"
    using assms by (auto simp: swap_in_def Let_def split: if_splits)
  then obtain y as where d: "dropWhile ?P (rev xs) = y # as"
    by (cases "dropWhile ?P (rev xs)") auto
  define bs where "bs = takeWhile ?P (rev xs)"
  have "rev xs = bs @ y # as"
    using takeWhile_dropWhile_id [of ?P "rev xs"] d by (simp add: bs_def)
  then have xs: "xs = rev as @ y # rev bs"
    using rev_rev_ident [of xs] by simp
  have "lt x y"
    using hd_dropWhile [OF ne] d by simp
  moreover have "\<forall>b\<in>set (rev bs). \<not> lt x b"
    by (auto simp: bs_def dest: set_takeWhileD)
  ultimately show thesis
    using that [of "rev as" y "rev bs"] xs ys d by (simp add: bs_def [symmetric])
qed

lemma next_perm_None: "next_perm lt xs = None \<Longrightarrow> non_increasing xs"
  by (induction xs) (auto simp: swap_in_None split: option.splits)

lemma non_increasing_greatest: "non_increasing xs \<Longrightarrow> mset ys = mset xs \<Longrightarrow> \<not> lexlt lt xs ys"
proof (induction xs arbitrary: ys)
  case (Cons x xs)
  show ?case
  proof (cases ys)
    case (Cons y ys')
    have "y \<in> set (x # xs)"
      using Cons.prems(2) Cons by (metis list.set_intros(1) set_mset_mset)
    then have "\<not> lt x y"
      using Cons.prems(1) lt_irrefl by auto
    then show ?thesis
      using Cons.IH [of ys'] Cons.prems Cons by auto
  qed simp
qed simp

lemma non_decreasing_least: "non_decreasing xs \<Longrightarrow> mset ys = mset xs \<Longrightarrow> ys = xs \<or> lexlt lt xs ys"
proof (induction xs arbitrary: ys)
  case (Cons x xs)
  obtain y ys' where ys: "ys = y # ys'"
    using Cons.prems(2) by (cases ys) auto
  have "y \<in> set (x # xs)"
    using Cons.prems(2) ys by (metis list.set_intros(1) set_mset_mset)
  then have "\<not> lt y x"
    using Cons.prems(1) lt_irrefl by auto
  then have "y = x \<or> lt x y"
    using lt_total by blast
  then show ?case
    using Cons.IH [of ys'] Cons.prems ys by auto
qed simp

lemma swap_in_next:
  assumes "swap_in lt x xs = Some ys"
  shows "mset ys = mset (x # xs)" and "lexlt lt (x # xs) ys"
proof -
  obtain as y bs where "xs = as @ y # bs" "lt x y" "ys = y # rev (as @ x # bs)"
    using swap_in_Some [OF assms] by metis
  then show "mset ys = mset (x # xs)" "lexlt lt (x # xs) ys"
    by simp_all
qed

lemma next_perm_mset: "next_perm lt xs = Some ys \<Longrightarrow> mset ys = mset xs"
  by (induction xs arbitrary: ys) (auto split: option.splits dest: swap_in_next(1))

lemma next_perm_greater: "next_perm lt xs = Some ys \<Longrightarrow> lexlt lt xs ys"
  by (induction xs arbitrary: ys) (auto split: option.splits dest: swap_in_next(2))

lemma swap_in_least:
  assumes "non_increasing xs" and "swap_in lt x xs = Some ys" and "mset zs = mset (x # xs)"
    and "lexlt lt (x # xs) zs"
  shows "zs = ys \<or> lexlt lt ys zs"
proof -
  obtain as y bs where xs: "xs = as @ y # bs" and y: "lt x y" and bs: "\<forall>b\<in>set bs. \<not> lt x b"
    and ys: "ys = y # rev (as @ x # bs)"
    using swap_in_Some [OF assms(2)] .
  obtain z zs' where zs: "zs = z # zs'"
    using assms(4) by (cases zs) auto
  have z: "lt x z"
    using assms(4) non_increasing_greatest [OF assms(1), of zs'] assms(3) zs by auto
  have "z \<in> set (x # xs)"
    using assms(3) zs by (metis list.set_intros(1) set_mset_mset)
  then have "z \<in> set as \<or> z = y"
    using z bs xs lt_irrefl by auto
  then have "\<not> lt z y"
    using assms(1) xs lt_irrefl by (auto simp: sorted_wrt_append)
  then consider "z = y" | "lt y z"
    using lt_total by blast
  then show ?thesis
  proof cases
    case 1
    have "\<not> lt a x" if "a \<in> set as" for a
    proof -
      have "\<not> lt a y"
        using assms(1) xs that by (auto simp: sorted_wrt_append)
      then show ?thesis
        using y lt_trans [of a x y] by blast
    qed
    then have "non_increasing (as @ x # bs)"
      using assms(1) xs bs by (auto simp: sorted_wrt_append)
    then have "non_decreasing (rev (as @ x # bs))"
      by (simp only: sorted_wrt_rev)
    moreover have "mset zs' = mset (rev (as @ x # bs))"
      using assms(3) xs zs 1 by simp
    ultimately have "zs' = rev (as @ x # bs) \<or> lexlt lt (rev (as @ x # bs)) zs'"
      by (rule non_decreasing_least)
    then show ?thesis
      using 1 ys zs by auto
  next
    case 2
    then show ?thesis using ys zs by simp
  qed
qed

lemma next_perm_least:
  "next_perm lt xs = Some ys \<Longrightarrow> mset zs = mset xs \<Longrightarrow> lexlt lt xs zs \<Longrightarrow> zs = ys \<or> lexlt lt ys zs"
proof (induction xs arbitrary: ys zs)
  case (Cons x xs)
  show ?case
  proof (cases "next_perm lt xs")
    case None
    then show ?thesis
      using swap_in_least [OF next_perm_None [OF None]] Cons.prems by simp
  next
    case (Some ys')
    with Cons.prems obtain z zs' where "zs = z # zs'"
      by (cases zs) auto
    with Cons.prems Some show ?thesis
      using Cons.IH [OF Some, of zs'] by auto
  qed
qed simp

end

section \<open>All rearrangements\<close>

text \<open>True: the order of the type, as \<^verbatim>\<open>next_permutation\<close>; False: the reversed one.\<close>

definition lt_dir :: "bool \<Rightarrow> 'a::linorder \<Rightarrow> 'a \<Rightarrow> bool" where
  "lt_dir up x y = (if up then x < y else y < x)"

interpretation dir: strict_order "lt_dir up :: 'a::linorder \<Rightarrow> 'a \<Rightarrow> bool" for up
  by unfold_locales (auto simp: lt_dir_def)

definition greater_perms :: "bool \<Rightarrow> 'a::linorder list \<Rightarrow> 'a list set" where
  "greater_perms up xs = {zs. mset zs = mset xs \<and> lexlt (lt_dir up) xs zs}"

lemma finite_perms: "finite {zs. mset zs = mset xs}"
proof (rule finite_subset)
  show "{zs. mset zs = mset xs} \<subseteq> {zs. set zs \<subseteq> set xs \<and> length zs = length xs}"
    by (auto dest: mset_eq_setD mset_eq_length)
qed (simp add: finite_lists_length_eq)

lemma greater_perms_next:
  assumes "next_perm (lt_dir up) xs = Some ys"
  shows "greater_perms up xs = insert ys (greater_perms up ys)"
proof (rule set_eqI)
  fix zs
  show "zs \<in> greater_perms up xs \<longleftrightarrow> zs \<in> insert ys (greater_perms up ys)"
    using dir.next_perm_mset [OF assms] dir.next_perm_greater [OF assms] dir.next_perm_least [OF assms, of zs]
      dir.lexlt_trans [of up xs ys zs]
    by (auto simp: greater_perms_def)
qed

lemma greater_perms_last: "next_perm (lt_dir up) xs = None \<Longrightarrow> greater_perms up xs = {}"
  using dir.non_increasing_greatest [OF dir.next_perm_None] by (auto simp: greater_perms_def)

lemma greater_perms_decrease:
  assumes "next_perm (lt_dir up) xs = Some ys"
  shows "card (greater_perms up ys) < card (greater_perms up xs)"
proof -
  have "finite (greater_perms up ys)"
    by (rule finite_subset [OF _ finite_perms [of ys]]) (auto simp: greater_perms_def)
  moreover have "ys \<notin> greater_perms up ys"
    by (simp add: greater_perms_def dir.lexlt_irrefl)
  ultimately show ?thesis
    by (simp add: greater_perms_next [OF assms])
qed

text \<open>The vectors a loop visits whose condition moves the vector to the next rearrangement.\<close>

function visit_perms :: "bool \<Rightarrow> 'a::linorder list \<Rightarrow> 'a list list" where
  "visit_perms up xs =
     (case next_perm (lt_dir up) xs of None \<Rightarrow> [] | Some ys \<Rightarrow> ys # visit_perms up ys)"
  by pat_completeness auto
termination
  by (relation "measure (\<lambda>(up, xs). card (greater_perms up xs))") (auto intro: greater_perms_decrease)

declare visit_perms.simps [simp del]

lemma visit_perms_set: "set (visit_perms up xs) = greater_perms up xs"
proof (induction up xs rule: visit_perms.induct)
  case (1 up xs)
  show ?case
  proof (cases "next_perm (lt_dir up) xs")
    case None
    then show ?thesis
      by (simp add: visit_perms.simps [of up xs] greater_perms_last)
  next
    case (Some ys)
    then show ?thesis
      using 1 [OF Some] by (simp add: visit_perms.simps [of up xs] greater_perms_next)
  qed
qed

lemma visit_perms_distinct: "distinct (visit_perms up xs)"
proof (induction up xs rule: visit_perms.induct)
  case (1 up xs)
  have "ys \<notin> greater_perms up ys" for ys :: "'a list"
    by (simp add: greater_perms_def dir.lexlt_irrefl)
  with 1 show ?case
    by (simp add: visit_perms.simps [of up xs] visit_perms_set split: option.split)
qed

lemma lexlt_reversed: "lexlt (lt_dir False) xs ys = lexlt (lt_dir True) ys xs"
  by (induction "lt_dir False :: 'a \<Rightarrow> 'a \<Rightarrow> bool" xs ys rule: lexlt.induct) (auto simp: lt_dir_def)

lemma both_directions:
  "{zs. mset zs = mset xs} = insert xs (greater_perms True xs \<union> greater_perms False xs)"
proof (rule set_eqI)
  fix zs
  show "zs \<in> {zs. mset zs = mset xs} \<longleftrightarrow> zs \<in> insert xs (greater_perms True xs \<union> greater_perms False xs)"
    using dir.lexlt_total [of xs zs True] mset_eq_length [of zs xs]
    by (auto simp: greater_perms_def lexlt_reversed)
qed

end
