(* ===== verification/Reservation.thy ===== *)
theory Reservation
  imports Auth_Connector Permutations
begin

text \<open>
  The reservation handler of the module Auth (\<^verbatim>\<open>modules/EVSE/Auth/lib/ReservationHandler.cpp\<close>).

  A \<^verbatim>\<open>std::map\<close> is an association list that is ordered by its keys; ids are integers, without the
  conversions between \<^verbatim>\<open>int\<close> and \<^verbatim>\<open>uint32_t\<close>.  The map of the timers is the set of the ids that have
  one; a timer that fires is the input \<open>R_expired\<close>.  The clock and the parser of RFC 3339 times of
  the framework are the fields \<open>utc_now\<close> and \<open>from_rfc3339\<close>.  What the handler stores and the
  calls of its callback are recorded in \<open>stored\<close> and \<open>cancelled\<close>.  The callback, which \<^verbatim>\<open>AuthHandler\<close> provides,
  is run with each call.  Logging is left out.

  A reservation without an EVSE is possible only if its holder can be served whenever they come: the
  handler lets the holders arrive in every order and park at every suitable EVSE, and asks that none
  of them ever stands without a place.
\<close>

section \<open>Data\<close>

datatype ReservationResult = Accepted | Faulted | Occupied | Rejected | Unavailable

datatype ReservationEndReason =
    End_Expired | End_Cancelled | End_UsedToStartCharging | End_GlobalReservationRequirementDropped

record Reservation =
  reservation_id :: int
  res_id_token :: string
  res_expiry_time :: string
  res_parent_id_token :: "string option"
  res_connector_type :: "ConnectorTypeEnum option"

type_synonym reservation_map = "(int \<times> Reservation) list"

datatype notification =
    N_cancelled "int option" int ReservationEndReason bool
  | N_reserved "int option" int

record rh =
  evses :: "(int \<times> EVSEContext) list"
  has_store :: bool
  evse_reservations :: reservation_map
  global_reservations :: "Reservation list"
  timers :: "int set"
  has_callback :: bool
  last_reserved_status :: "int set"
  utc_now :: time
  from_rfc3339 :: "string \<Rightarrow> time"
  stored :: "(int option \<times> Reservation) list option"
  cancelled :: "(int option \<times> int \<times> ReservationEndReason \<times> bool) list"
  notifications :: "notification list"

type_synonym 'a rhM = "(rh, 'a) state"

text \<open>Ordered association lists.\<close>

fun map_put :: "int \<Rightarrow> 'v \<Rightarrow> (int \<times> 'v) list \<Rightarrow> (int \<times> 'v) list" where
  "map_put k v [] = [(k, v)]"
| "map_put k v ((l, w) # m) =
     (if k < l then (k, v) # (l, w) # m else if k = l then (k, v) # m else (l, w) # map_put k v m)"

definition map_erase :: "int \<Rightarrow> (int \<times> 'v) list \<Rightarrow> (int \<times> 'v) list" where
  "map_erase k m = filter (\<lambda>(l, w). l \<noteq> k) m"

definition keys :: "(int \<times> 'v) list \<Rightarrow> int list" where
  "keys m = map fst m"

definition connector_type_of :: "Reservation \<Rightarrow> ConnectorTypeEnum" where
  "connector_type_of r = (case res_connector_type r of Some t \<Rightarrow> t | None \<Rightarrow> T_Unknown)"

section \<open>States of EVSEs and connectors\<close>

fun connector_state_to_reservation_result :: "ConnectorState \<Rightarrow> ReservationResult" where
  "connector_state_to_reservation_result CS_AVAILABLE = Accepted"
| "connector_state_to_reservation_result CS_UNAVAILABLE = Unavailable"
| "connector_state_to_reservation_result CS_FAULTED = Faulted"
| "connector_state_to_reservation_result CS_UNAVAILABLE_FAULTED = Faulted"
| "connector_state_to_reservation_result CS_FAULTED_OCCUPIED = Faulted"
| "connector_state_to_reservation_result CS_OCCUPIED = Occupied"

definition has_evse_connector_type :: "Connector list \<Rightarrow> ConnectorTypeEnum \<Rightarrow> bool" where
  "has_evse_connector_type cs t \<longleftrightarrow>
     (if t = T_Unknown then True else list_ex (\<lambda>c. con_type c = T_Unknown \<or> con_type c = t) cs)"

definition does_evse_connector_type_exist :: "rh \<Rightarrow> ConnectorTypeEnum \<Rightarrow> bool" where
  "does_evse_connector_type_exist h t = list_ex (\<lambda>(i, e). has_evse_connector_type (connectors e) t) (evses h)"

definition get_evse_connector_state_reservation_result :: "rh \<Rightarrow> int \<Rightarrow> reservation_map \<Rightarrow> ReservationResult" where
  "get_evse_connector_state_reservation_result h evse_id evse_specific =
     (case map_of (evses h) evse_id of
        None \<Rightarrow> Rejected
      | Some e \<Rightarrow>
          if plugged_in e then connector_state_to_reservation_result CS_OCCUPIED
          else case find (\<lambda>c. con_state c = CS_OCCUPIED \<or> con_state c = CS_FAULTED_OCCUPIED) (connectors e) of
            Some c \<Rightarrow> connector_state_to_reservation_result (con_state c)
          | None \<Rightarrow> if map_of evse_specific evse_id \<noteq> None then Occupied else Accepted)"

definition get_new_connector_state :: "ConnectorState \<Rightarrow> ConnectorState \<Rightarrow> ConnectorState" where
  "get_new_connector_state current new =
     (if new = CS_OCCUPIED then CS_OCCUPIED
      else if new > current then
        (if new > CS_OCCUPIED then
           (if new = CS_FAULTED_OCCUPIED then CS_OCCUPIED
            else if new = CS_UNAVAILABLE_FAULTED \<and> current \<noteq> CS_OCCUPIED then CS_FAULTED
            else current)
         else new)
      else current)"

abbreviation fits :: "Connector \<Rightarrow> ConnectorTypeEnum \<Rightarrow> bool" where
  "fits c t \<equiv> con_type c = t \<or> con_type c = T_Unknown \<or> t = T_Unknown"

fun availability_loop :: "ConnectorTypeEnum \<Rightarrow> Connector list \<Rightarrow> ConnectorState \<Rightarrow> ReservationResult" where
  "availability_loop t [] state = connector_state_to_reservation_result state"
| "availability_loop t (c # cs) state =
     (if fits c t then
        (if con_state c = CS_AVAILABLE then Accepted
         else availability_loop t cs (get_new_connector_state state (con_state c)))
      else availability_loop t cs state)"

definition get_connector_availability_reservation_result :: "rh \<Rightarrow> int \<Rightarrow> ConnectorTypeEnum \<Rightarrow> ReservationResult" where
  "get_connector_availability_reservation_result h evse_id t =
     (case map_of (evses h) evse_id of
        None \<Rightarrow> Rejected
      | Some e \<Rightarrow> availability_loop t (connectors e) CS_UNAVAILABLE)"

definition get_all_evses_with_connector_type :: "rh \<Rightarrow> ConnectorTypeEnum \<Rightarrow> EVSEContext list" where
  "get_all_evses_with_connector_type h t =
     filter (\<lambda>e. has_evse_connector_type (connectors e) t) (map snd (evses h))"

definition get_reservation_evse_connector_state :: "rh \<Rightarrow> ConnectorTypeEnum \<Rightarrow> ReservationResult" where
  "get_reservation_evse_connector_state h t =
     (if global_reservations h \<noteq> [] \<or> evse_reservations h \<noteq> [] then Occupied
      else if list_ex (\<lambda>(i, e). plugged_in e) (evses h) then
        connector_state_to_reservation_result
          (fold (\<lambda>(i, e) state. if plugged_in e then get_new_connector_state state CS_OCCUPIED else state)
             (evses h) CS_UNAVAILABLE)
      else let es = get_all_evses_with_connector_type h t in
        if es = [] then Rejected
        else connector_state_to_reservation_result
          (fold (\<lambda>c state. if \<not> fits c t then state
               else if con_state c \<noteq> CS_AVAILABLE then get_new_connector_state state (con_state c) else state)
             (concat (map connectors es)) CS_UNAVAILABLE))"

section \<open>Whether reservations are possible\<close>

definition get_all_possible_orders :: "'t::linorder list \<Rightarrow> 't list list" where
  "get_all_possible_orders ts =
     (if ts = [] then [] else (ts # visit_perms True ts) @ visit_perms False ts)"

text \<open>The loop over the EVSEs for one car; \<open>next\<close> is the recursive call for the cars after it.\<close>

fun arrive_loop :: "rh \<Rightarrow> reservation_map \<Rightarrow> (int list \<Rightarrow> bool option) \<Rightarrow> bool \<Rightarrow> ConnectorTypeEnum \<Rightarrow>
    int list \<Rightarrow> (int \<times> EVSEContext) list \<Rightarrow> bool \<Rightarrow> bool option" where
  "arrive_loop h er next_car is_last t used [] is_possible = Some is_possible"
| "arrive_loop h er next_car is_last t used ((evse_id, e) # es) is_possible =
     (if evse_id \<in> set used then arrive_loop h er next_car is_last t used es is_possible
      else if get_evse_connector_state_reservation_result h evse_id er = Accepted \<and>
              has_evse_connector_type (connectors e) t \<and>
              get_connector_availability_reservation_result h evse_id t = Accepted
      then (if is_last then Some True
            else case next_car (used @ [evse_id]) of
              None \<Rightarrow> None
            | Some False \<Rightarrow> Some False
            | Some True \<Rightarrow> arrive_loop h er next_car is_last t used es True)
      else arrive_loop h er next_car is_last t used es is_possible)"

text \<open>None: \<^verbatim>\<open>next_car_arrival_order.at(0)\<close> throws.\<close>

primrec can_virtual_car_arrive :: "rh \<Rightarrow> reservation_map \<Rightarrow> ConnectorTypeEnum list \<Rightarrow> int list \<Rightarrow> bool option" where
  "can_virtual_car_arrive h er [] used =
     (if list_ex (\<lambda>(i, e). i \<notin> set used \<and> get_evse_connector_state_reservation_result h i er = Accepted) (evses h)
      then None else Some False)"
| "can_virtual_car_arrive h er (t # ts) used =
     arrive_loop h er (can_virtual_car_arrive h er ts) (ts = []) t used (evses h) False"

definition reserved_types :: "ConnectorTypeEnum option \<Rightarrow> Reservation list \<Rightarrow> ConnectorTypeEnum list" where
  "reserved_types t rs = map connector_type_of rs @ (case t of Some t \<Rightarrow> [t] | None \<Rightarrow> [])"

text \<open>The orders are not empty, so no call below throws (\<open>arrive_iff\<close>).\<close>

definition is_reservation_possible :: "rh \<Rightarrow> ConnectorTypeEnum option \<Rightarrow> Reservation list \<Rightarrow> reservation_map \<Rightarrow> bool" where
  "is_reservation_possible h t rs er =
     (let types = reserved_types t rs in
      if length types + length er > length (evses h) then False
      else list_all (\<lambda>order. can_virtual_car_arrive h er order [] = Some True)
        (get_all_possible_orders types))"

section \<open>Operations\<close>

definition set_reservation_timer :: "Reservation \<Rightarrow> unit rhM" where
  "set_reservation_timer r = modify (\<lambda>h. h\<lparr>timers := insert (reservation_id r) (timers h)\<rparr>)"

definition store_reservations :: "unit rhM" where
  "store_reservations = do {
     h \<leftarrow> State_Monad.get;
     do_if (has_store h) (do {
       let reservations = map (\<lambda>(i, r). (Some i, r)) (evse_reservations h) @
         map (\<lambda>r. (None, r)) (global_reservations h);
       do_if (reservations \<noteq> []) (modify (\<lambda>h. h\<lparr>stored := Some reservations\<rparr>))
     })
   }"

fun remove_first :: "('a \<Rightarrow> bool) \<Rightarrow> 'a list \<Rightarrow> 'a list" where
  "remove_first P [] = []"
| "remove_first P (x # xs) = (if P x then xs else x # remove_first P xs)"

record ReservationEvseStatus =
  status_reserved :: "int set"
  status_available :: "int set"

definition get_evse_global_reserved_status_and_set_new_status :: "int set \<Rightarrow> int set \<Rightarrow> ReservationEvseStatus rhM" where
  "get_evse_global_reserved_status_and_set_new_status currently_available reserved = do {
     last \<leftarrow> gets last_reserved_status;
     modify (\<lambda>h. h\<lparr>last_reserved_status := reserved\<rparr>);
     State_Monad.return \<lparr>status_reserved = {i \<in> reserved. i \<notin> last},
       status_available = {i \<in> currently_available. i \<notin> reserved \<and> i \<in> last}\<rparr>
   }"

definition available_evses :: "rh \<Rightarrow> int list" where
  "available_evses h = filter (\<lambda>i.
     get_evse_connector_state_reservation_result h i (evse_reservations h) = Accepted \<and>
     get_connector_availability_reservation_result h i T_Unknown = Accepted) (keys (evses h))"

definition check_number_global_reservations_match_number_available_evses :: "ReservationEvseStatus rhM" where
  "check_number_global_reservations_match_number_available_evses = do {
     h \<leftarrow> State_Monad.get;
     let available = set (available_evses h);
     if card available = length (global_reservations h)
     then get_evse_global_reserved_status_and_set_new_status available available
     else do {
       let blocked = filter (\<lambda>r. \<not> is_reservation_possible h (res_connector_type r)
         (global_reservations h) (evse_reservations h)) (global_reservations h);
       let reserved = {i \<in> available. list_ex (\<lambda>r. case map_of (evses h) i of
           Some e \<Rightarrow> has_evse_connector_type (connectors e) (connector_type_of r) | None \<Rightarrow> False) blocked};
       get_evse_global_reserved_status_and_set_new_status available reserved
     }
   }"

text \<open>The callback of the handler is a lambda that \<^verbatim>\<open>AuthHandler\<close> registers: the calls of its own callbacks
  to the EVSEs are recorded in \<open>notifications\<close>.\<close>

definition notify :: "notification \<Rightarrow> unit rhM" where
  "notify n = modify (\<lambda>h. h\<lparr>notifications := notifications h @ [n]\<rparr>)"

definition check_evse_reserved_and_send_updates :: "unit rhM" where
  "check_evse_reserved_and_send_updates = do {
     status \<leftarrow> check_number_global_reservations_match_number_available_evses;
     for_each (sorted_list_of_set (status_available status))
       (\<lambda>i. notify (N_cancelled (Some i) (- 1) End_GlobalReservationRequirementDropped False));
     for_each (sorted_list_of_set (status_reserved status)) (\<lambda>i. notify (N_reserved (Some i) (- 1)))
   }"

definition call_reservation_cancelled :: "int \<Rightarrow> ReservationEndReason \<Rightarrow> int option \<Rightarrow> bool \<Rightarrow> unit rhM" where
  "call_reservation_cancelled i reason evse_id send_update = do {
     notify (N_cancelled evse_id i reason send_update);
     check_evse_reserved_and_send_updates
   }"

text \<open>A call of the callback of the handler.\<close>

definition reservation_cancelled_callback :: "int option \<Rightarrow> int \<Rightarrow> ReservationEndReason \<Rightarrow> bool \<Rightarrow> unit rhM" where
  "reservation_cancelled_callback evse_id i reason send_update = do {
     modify (\<lambda>h. h\<lparr>cancelled := cancelled h @ [(evse_id, i, reason, send_update)]\<rparr>);
     do_if (\<not> (\<exists>e \<in> set_option evse_id. e < 0)) (call_reservation_cancelled i reason evse_id send_update)
   }"

text \<open>The EVSE the loop of \<^verbatim>\<open>cancel_reservation\<close> finds: the last one with this id.\<close>

definition evse_of_reservation :: "int \<Rightarrow> reservation_map \<Rightarrow> int option" where
  "evse_of_reservation i m =
     fold (\<lambda>(k, r) found. if reservation_id r = i then Some k else found) m None"

definition cancel_reservation :: "int \<Rightarrow> bool \<Rightarrow> ReservationEndReason \<Rightarrow> (bool \<times> int option) rhM" where
  "cancel_reservation i execute_callback reason = do {
     h \<leftarrow> State_Monad.get;
     if i \<notin> timers h then State_Monad.return (False, None)
     else do {
       modify (\<lambda>h. h\<lparr>timers := timers h - {i}\<rparr>);
       let evse_id = evse_of_reservation i (evse_reservations h);
       (case evse_id of
          Some k \<Rightarrow> modify (\<lambda>h. h\<lparr>evse_reservations := map_erase k (evse_reservations h)\<rparr>)
        | None \<Rightarrow> modify (\<lambda>h. h\<lparr>global_reservations :=
            remove_first (\<lambda>r. reservation_id r = i) (global_reservations h)\<rparr>));
       store_reservations;
       do_if (execute_callback \<and> has_callback h)
         (reservation_cancelled_callback evse_id i reason execute_callback);
       State_Monad.return (True, evse_id)
     }
   }"

definition cancel_reservation_of_evse :: "int \<Rightarrow> bool \<Rightarrow> bool rhM" where
  "cancel_reservation_of_evse evse_id execute_callback = do {
     h \<leftarrow> State_Monad.get;
     (case map_of (evse_reservations h) evse_id of
        Some r \<Rightarrow> do {
          p \<leftarrow> cancel_reservation (reservation_id r) execute_callback End_Cancelled;
          State_Monad.return (fst p)
        }
      | None \<Rightarrow> State_Monad.return False)
   }"

definition reserve_evse :: "int \<Rightarrow> Reservation \<Rightarrow> ReservationResult rhM" where
  "reserve_evse i r = do {
     h \<leftarrow> State_Monad.get;
     (case map_of (evses h) i of
        None \<Rightarrow> State_Monad.return (if map_of (evse_reservations h) i \<noteq> None then Occupied else Rejected)
      | Some e \<Rightarrow>
          if map_of (evse_reservations h) i \<noteq> None then State_Monad.return Occupied
          else do {
            let t = connector_type_of r;
            let evse_state = get_evse_connector_state_reservation_result h i (evse_reservations h);
            let connector_state = get_connector_availability_reservation_result h i t;
            if \<not> has_evse_connector_type (connectors e) t then State_Monad.return Rejected
            else if evse_state \<noteq> Accepted then State_Monad.return evse_state
            else if connector_state \<noteq> Accepted then State_Monad.return connector_state
            else if global_reservations h = [] then do {
              set_reservation_timer r;
              modify (\<lambda>h. h\<lparr>evse_reservations := map_put i r (evse_reservations h)\<rparr>);
              State_Monad.return Accepted
            } else if \<not> is_reservation_possible h None (global_reservations h)
                (map_put i r (evse_reservations h))
            then State_Monad.return (get_reservation_evse_connector_state h t)
            else do {
              modify (\<lambda>h. h\<lparr>evse_reservations := map_put i r (evse_reservations h)\<rparr>);
              set_reservation_timer r;
              State_Monad.return Accepted
            }
          })
   }"

definition reserve_any :: "Reservation \<Rightarrow> ReservationResult rhM" where
  "reserve_any r = do {
     h \<leftarrow> State_Monad.get;
     let t = connector_type_of r;
     if (case res_connector_type r of Some u \<Rightarrow> \<not> does_evse_connector_type_exist h u | None \<Rightarrow> False)
     then State_Monad.return Rejected
     else if \<not> is_reservation_possible h (Some t) (global_reservations h) (evse_reservations h)
     then State_Monad.return (get_reservation_evse_connector_state h t)
     else do {
       modify (\<lambda>h. h\<lparr>global_reservations := global_reservations h @ [r]\<rparr>);
       store_reservations;
       set_reservation_timer r;
       State_Monad.return Accepted
     }
   }"

definition make_reservation :: "int option \<Rightarrow> Reservation \<Rightarrow> ReservationResult rhM" where
  "make_reservation evse_id r = do {
     h \<leftarrow> State_Monad.get;
     if utc_now h > from_rfc3339 h (res_expiry_time r) then State_Monad.return Rejected
     else do {
       _ \<leftarrow> cancel_reservation (reservation_id r) False End_Cancelled;
       (case evse_id of Some i \<Rightarrow> reserve_evse i r | None \<Rightarrow> reserve_any r)
     }
   }"

text \<open>The two passes of \<^verbatim>\<open>check_reservations_and_cancel_if_not_possible\<close> that collect the ids.\<close>

fun check_evse_reservations :: "rh \<Rightarrow> reservation_map \<Rightarrow> int list \<times> reservation_map \<Rightarrow> int list \<times> reservation_map" where
  "check_evse_reservations h [] acc = acc"
| "check_evse_reservations h ((i, r) # m) (ids, er) =
     (let er' = map_put i r er in
      if \<not> is_reservation_possible h None [] er'
      then check_evse_reservations h m (ids @ [reservation_id r], map_erase i er')
      else check_evse_reservations h m (ids, er'))"

fun check_global_reservations :: "rh \<Rightarrow> reservation_map \<Rightarrow> Reservation list \<Rightarrow> int list \<times> Reservation list \<Rightarrow> int list \<times> Reservation list" where
  "check_global_reservations h er [] acc = acc"
| "check_global_reservations h er (r # rs) (ids, gs) =
     (if is_reservation_possible h (res_connector_type r) gs er
      then check_global_reservations h er rs (ids, gs @ [r])
      else check_global_reservations h er rs (ids @ [reservation_id r], gs))"

definition check_reservations_and_cancel_if_not_possible :: "unit rhM" where
  "check_reservations_and_cancel_if_not_possible = do {
     h \<leftarrow> State_Monad.get;
     let (ids, er) = check_evse_reservations h (evse_reservations h) ([], []);
     let (ids', gs) = check_global_reservations h er (global_reservations h) (ids, []);
     for_each ids' (\<lambda>i. do { _ \<leftarrow> cancel_reservation i True End_Cancelled; skip })
   }"

definition on_connector_state_changed :: "ConnectorState \<Rightarrow> int \<Rightarrow> int \<Rightarrow> unit rhM" where
  "on_connector_state_changed state evse_id connector_id = do {
     h \<leftarrow> State_Monad.get;
     if state = CS_AVAILABLE then skip
     else (case map_of (evses h) evse_id of
        None \<Rightarrow> skip
      | Some e \<Rightarrow> (case find (\<lambda>c. con_id c = connector_id) (connectors e) of
          None \<Rightarrow> skip
        | Some c \<Rightarrow> (case map_of (evse_reservations h) evse_id of
            Some r \<Rightarrow>
              if (case res_connector_type r of Some t \<Rightarrow> fits c t | None \<Rightarrow> False)
              then do { _ \<leftarrow> cancel_reservation (reservation_id r) True End_Cancelled; skip }
              else check_reservations_and_cancel_if_not_possible
          | None \<Rightarrow> check_reservations_and_cancel_if_not_possible)))
   }"

text \<open>The reservation that \<^verbatim>\<open>is_charging_possible\<close> makes up; only its place in the map matters.\<close>

definition dummy_reservation :: Reservation where
  "dummy_reservation = \<lparr>reservation_id = 0, res_id_token = '''', res_expiry_time = '''',
     res_parent_id_token = None, res_connector_type = None\<rparr>"

definition is_charging_possible :: "int \<Rightarrow> bool rhM" where
  "is_charging_possible evse_id = gets (\<lambda>h.
     if map_of (evse_reservations h) evse_id \<noteq> None then False
     else if map_of (evses h) evse_id = None then False
     else is_reservation_possible h None (global_reservations h)
       (map_put evse_id dummy_reservation (evse_reservations h)))"

definition is_evse_reserved :: "int \<Rightarrow> bool rhM" where
  "is_evse_reserved evse_id = gets (\<lambda>h. map_of (evse_reservations h) evse_id \<noteq> None)"

definition register_reservation_cancelled_callback :: "unit rhM" where
  "register_reservation_cancelled_callback = modify (\<lambda>h. h\<lparr>has_callback := True\<rparr>)"

definition on_reservation_used :: "int \<Rightarrow> unit rhM" where
  "on_reservation_used i = do { _ \<leftarrow> cancel_reservation i False End_UsedToStartCharging; skip }"

definition token_matches :: "string \<Rightarrow> string option \<Rightarrow> Reservation \<Rightarrow> bool" where
  "token_matches id_token parent r \<longleftrightarrow> is_equal_case_insensitive (res_id_token r) id_token \<or>
     (case (parent, res_parent_id_token r) of
        (Some p, Some q) \<Rightarrow> is_equal_case_insensitive p q | _ \<Rightarrow> False)"

definition matches_reserved_identifier :: "string \<Rightarrow> int option \<Rightarrow> string option \<Rightarrow> int option rhM" where
  "matches_reserved_identifier id_token evse_id parent = gets (\<lambda>h.
     case (case evse_id of Some i \<Rightarrow> map_of (evse_reservations h) i | None \<Rightarrow> None) of
       Some r \<Rightarrow> (if token_matches id_token parent r then Some (reservation_id r) else None)
     | None \<Rightarrow> map_option reservation_id (find (token_matches id_token parent) (global_reservations h)))"

definition has_reservation_parent_id :: "int option \<Rightarrow> bool rhM" where
  "has_reservation_parent_id evse_id = gets (\<lambda>h.
     let globally = list_ex (\<lambda>r. res_parent_id_token r \<noteq> None) (global_reservations h) in
     case evse_id of
       None \<Rightarrow> globally
     | Some i \<Rightarrow> (if map_of (evses h) i = None then False
         else case map_of (evse_reservations h) i of
           Some r \<Rightarrow> res_parent_id_token r \<noteq> None
         | None \<Rightarrow> globally))"

text \<open>An entry of the stored array: None if it has no valid reservation.  False: the callback, which is
  called without a check, is empty and the call throws.\<close>

fun load_entries :: "(int option \<times> Reservation) option list \<Rightarrow> bool rhM" where
  "load_entries [] = State_Monad.return True"
| "load_entries (None # xs) = load_entries xs"
| "load_entries (Some (evse_id, r) # xs) = do {
     res \<leftarrow> make_reservation evse_id r;
     cb \<leftarrow> gets has_callback;
     if res \<noteq> Accepted \<and> \<not> cb then State_Monad.return False
     else do {
       do_if (res \<noteq> Accepted) (reservation_cancelled_callback evse_id (reservation_id r) End_Cancelled True);
       load_entries xs
     }
   }"

text \<open>\<open>answer\<close>: what the key value store returns; None if it is not an array.\<close>

definition load_reservations :: "(int option \<times> Reservation) option list option \<Rightarrow> bool rhM" where
  "load_reservations answer = do {
     has \<leftarrow> gets has_store;
     (if \<not> has then State_Monad.return True
      else case answer of None \<Rightarrow> State_Monad.return True | Some xs \<Rightarrow> load_entries xs)
   }"

section \<open>Runs\<close>

datatype rh_input =
    R_make "int option" Reservation
  | R_cancel int bool ReservationEndReason
  | R_cancel_evse int bool
  | R_register
  | R_used int
  | R_expired int
  | R_connector_changed ConnectorState int int
  | R_check_number
  | R_load "(int option \<times> Reservation) option list option"
  | R_evses "(int \<times> EVSEContext) list"
  | R_clock time

text \<open>\<open>R_evses\<close>: the authorisation handler, which owns the EVSEs, changes their state; the set of
  EVSEs stays the same.\<close>

fun rh_handle :: "rh_input \<Rightarrow> unit rhM" where
  "rh_handle (R_make i r) = do { _ \<leftarrow> make_reservation i r; skip }"
| "rh_handle (R_cancel i b reason) = do { _ \<leftarrow> cancel_reservation i b reason; skip }"
| "rh_handle (R_cancel_evse i b) = do { _ \<leftarrow> cancel_reservation_of_evse i b; skip }"
| "rh_handle R_register = register_reservation_cancelled_callback"
| "rh_handle (R_used i) = on_reservation_used i"
| "rh_handle (R_expired i) = do { _ \<leftarrow> cancel_reservation i True End_Expired; skip }"
| "rh_handle (R_connector_changed s i c) = on_connector_state_changed s i c"
| "rh_handle R_check_number = do { _ \<leftarrow> check_number_global_reservations_match_number_available_evses; skip }"
| "rh_handle (R_load answer) = do { _ \<leftarrow> load_reservations answer; skip }"
| "rh_handle (R_evses es) = modify (\<lambda>h. if keys es = keys (evses h) then h\<lparr>evses := es\<rparr> else h)"
| "rh_handle (R_clock t) = modify (\<lambda>h. h\<lparr>utc_now := t\<rparr>)"

definition rh_run :: "rh_input list \<Rightarrow> rh \<Rightarrow> rh" where
  "rh_run inputs h = exec (for_each inputs rh_handle) h"

definition rh_init :: "(int \<times> EVSEContext) list \<Rightarrow> bool \<Rightarrow> (string \<Rightarrow> time) \<Rightarrow> rh" where
  "rh_init es store parse =
     \<lparr>evses = es, has_store = store, evse_reservations = [], global_reservations = [], timers = {},
      has_callback = False, last_reserved_status = {}, utc_now = 0, from_rfc3339 = parse, stored = None,
      cancelled = [], notifications = []\<rparr>"

end
