(* ===== verification/Reservation_Laws.thy ===== *)
theory Reservation_Laws
  imports Reservation
begin

text \<open>
  What the reservation handler promises: which reservations it takes for possible, that the
  reservations it holds stay possible under its own operations, that every reservation it holds has a
  timer and an id of its own, and what it stores.
\<close>

section \<open>Orders of arrival\<close>

lemma orders_set: "ts \<noteq> [] \<Longrightarrow> set (get_all_possible_orders ts) = {zs. mset zs = mset ts}"
  by (simp add: get_all_possible_orders_def visit_perms_set both_directions)

lemma orders_distinct: "distinct (get_all_possible_orders ts)"
proof -
  have irr: "ts \<notin> greater_perms up ts" for up
    by (simp add: greater_perms_def dir.lexlt_irrefl)
  have disj: "greater_perms True ts \<inter> greater_perms False ts = {}"
  proof -
    have "\<not> (lexlt (lt_dir True) ts zs \<and> lexlt (lt_dir True) zs ts)" for zs
      using dir.lexlt_trans [of True ts zs ts] dir.lexlt_irrefl [of True ts] by blast
    then show ?thesis
      by (auto simp: greater_perms_def lexlt_reversed)
  qed
  show ?thesis
    using irr disj by (simp add: get_all_possible_orders_def visit_perms_set visit_perms_distinct)
qed

section \<open>The search\<close>

definition can_park :: "rh \<Rightarrow> reservation_map \<Rightarrow> int \<Rightarrow> ConnectorTypeEnum \<Rightarrow> bool" where
  "can_park h er i t \<longleftrightarrow> (\<exists>e. (i, e) \<in> set (evses h) \<and>
     get_evse_connector_state_reservation_result h i er = Accepted \<and>
     has_evse_connector_type (connectors e) t \<and>
     get_connector_availability_reservation_result h i t = Accepted)"

text \<open>Nobody stands without a place: wherever some of the holders have parked, each of the others still
  finds an EVSE.\<close>

definition served :: "rh \<Rightarrow> reservation_map \<Rightarrow> ConnectorTypeEnum list \<Rightarrow> bool" where
  "served h er types \<longleftrightarrow> (\<forall>parked ids t.
     list_all2 (can_park h er) ids parked \<and> distinct ids \<and> mset (parked @ [t]) \<subseteq># mset types \<longrightarrow>
     (\<exists>i. i \<notin> set ids \<and> can_park h er i t))"

definition candidate :: "rh \<Rightarrow> reservation_map \<Rightarrow> ConnectorTypeEnum \<Rightarrow> int list \<Rightarrow> int \<times> EVSEContext \<Rightarrow> bool" where
  "candidate h er t used x \<longleftrightarrow> fst x \<notin> set used \<and>
     get_evse_connector_state_reservation_result h (fst x) er = Accepted \<and>
     has_evse_connector_type (connectors (snd x)) t \<and>
     get_connector_availability_reservation_result h (fst x) t = Accepted"

lemma arrive_loop_last:
  "arrive_loop h er next_car True t used es p = Some (p \<or> list_ex (candidate h er t used) es)"
  by (induction es arbitrary: p) (auto simp: candidate_def)

lemma arrive_loop_more:
  assumes "\<And>u. next_car u \<noteq> None"
  shows "arrive_loop h er next_car False t used es p = Some True \<longleftrightarrow>
    (p \<or> list_ex (candidate h er t used) es) \<and>
    list_all (\<lambda>x. candidate h er t used x \<longrightarrow> next_car (used @ [fst x]) = Some True) es"
    and "arrive_loop h er next_car False t used es p \<noteq> None"
proof (induction es arbitrary: p)
  case (Cons x es)
  obtain i e where x: "x = (i, e)" by (cases x)
  have step: "arrive_loop h er next_car False t used (x # es) p =
      (if candidate h er t used x then
         (case next_car (used @ [i]) of None \<Rightarrow> None | Some False \<Rightarrow> Some False
          | Some True \<Rightarrow> arrive_loop h er next_car False t used es True)
       else arrive_loop h er next_car False t used es p)" for p
    by (simp add: x candidate_def)
  obtain b where b: "next_car (used @ [i]) = Some b"
    using assms [of "used @ [i]"] by blast
  { case 1 show ?case unfolding step by (cases b) (simp_all add: x b Cons.IH del: arrive_loop.simps not_None_eq) }
  { case 2 show ?case unfolding step by (cases b) (simp_all add: x b Cons.IH del: arrive_loop.simps not_None_eq) }
qed simp_all

lemma candidate_iff:
  "list_ex (candidate h er t used) (evses h) \<longleftrightarrow> (\<exists>i. i \<notin> set used \<and> can_park h er i t)"
  by (auto simp: list_ex_iff candidate_def can_park_def Bex_def)

lemma arrive_total: "order \<noteq> [] \<Longrightarrow> can_virtual_car_arrive h er order used \<noteq> None"
proof (induction order arbitrary: used)
  case (Cons t ts)
  then show ?case
    by (cases "ts = []") (simp_all add: arrive_loop_last arrive_loop_more(2))
qed simp

lemma arrive_step:
  "can_virtual_car_arrive h er (t # ts) used = Some True \<longleftrightarrow>
     (\<exists>i. i \<notin> set used \<and> can_park h er i t) \<and>
     (ts \<noteq> [] \<longrightarrow> (\<forall>i. i \<notin> set used \<and> can_park h er i t \<longrightarrow>
        can_virtual_car_arrive h er ts (used @ [i]) = Some True))"
proof (cases "ts = []")
  case True
  then show ?thesis
    by (simp add: arrive_loop_last candidate_iff)
next
  case False
  then have "can_virtual_car_arrive h er ts u \<noteq> None" for u
    by (rule arrive_total)
  then have "can_virtual_car_arrive h er (t # ts) used = Some True \<longleftrightarrow>
      list_ex (candidate h er t used) (evses h) \<and>
      list_all (\<lambda>x. candidate h er t used x \<longrightarrow>
        can_virtual_car_arrive h er ts (used @ [fst x]) = Some True) (evses h)"
    using False arrive_loop_more(1) by simp
  with False show ?thesis
    unfolding candidate_iff by (fastforce simp: list_all_iff candidate_def can_park_def)
qed

primrec order_ok :: "rh \<Rightarrow> reservation_map \<Rightarrow> ConnectorTypeEnum list \<Rightarrow> int list \<Rightarrow> bool" where
  "order_ok h er [] used = True"
| "order_ok h er (t # ts) used \<longleftrightarrow> (\<exists>i. i \<notin> set used \<and> can_park h er i t) \<and>
     (\<forall>i. i \<notin> set used \<and> can_park h er i t \<longrightarrow> order_ok h er ts (used @ [i]))"

lemma arrive_iff:
  "order \<noteq> [] \<Longrightarrow> can_virtual_car_arrive h er order used = Some True \<longleftrightarrow> order_ok h er order used"
proof (induction order arbitrary: used)
  case (Cons t ts)
  then show ?case
    unfolding arrive_step order_ok.simps by (cases "ts = []") simp_all
qed simp

text \<open>A car is the next one, after those in front of it have parked anywhere.\<close>

definition next_served :: "rh \<Rightarrow> reservation_map \<Rightarrow> ConnectorTypeEnum list \<Rightarrow> ConnectorTypeEnum \<Rightarrow> int list \<Rightarrow> bool" where
  "next_served h er pre t used \<longleftrightarrow> (\<forall>ids. list_all2 (can_park h er) ids pre \<and> distinct ids \<and>
     set ids \<inter> set used = {} \<longrightarrow> (\<exists>i. i \<notin> set used \<union> set ids \<and> can_park h er i t))"

lemma next_served_Cons:
  "next_served h er (u # pre) t used \<longleftrightarrow>
     (\<forall>i. i \<notin> set used \<and> can_park h er i u \<longrightarrow> next_served h er pre t (used @ [i]))" (is "?l \<longleftrightarrow> ?r")
proof
  assume l: ?l
  show ?r
  proof (intro allI impI, elim conjE)
    fix i
    assume i: "i \<notin> set used" "can_park h er i u"
    show "next_served h er pre t (used @ [i])"
      unfolding next_served_def
    proof (intro allI impI)
      fix ids
      assume "list_all2 (can_park h er) ids pre \<and> distinct ids \<and> set ids \<inter> set (used @ [i]) = {}"
      with i l [unfolded next_served_def, rule_format, of "i # ids"]
      show "\<exists>j. j \<notin> set (used @ [i]) \<union> set ids \<and> can_park h er j t"
        by auto
    qed
  qed
next
  assume r: ?r
  show ?l
    unfolding next_served_def
  proof (intro allI impI, elim conjE)
    fix ids
    assume ids: "list_all2 (can_park h er) ids (u # pre)" "distinct ids" "set ids \<inter> set used = {}"
    then obtain i js where "ids = i # js" "can_park h er i u" "list_all2 (can_park h er) js pre"
      by (auto simp: list_all2_Cons2)
    with ids r [rule_format, of i, unfolded next_served_def, rule_format, of js]
    show "\<exists>j. j \<notin> set used \<union> set ids \<and> can_park h er j t"
      by auto
  qed
qed

lemma order_ok_iff:
  "order_ok h er order used \<longleftrightarrow> (\<forall>pre t post. order = pre @ t # post \<longrightarrow> next_served h er pre t used)"
proof (induction order arbitrary: used)
  case (Cons u ts)
  have first: "next_served h er [] t used \<longleftrightarrow> (\<exists>i. i \<notin> set used \<and> can_park h er i t)" for t
    by (simp add: next_served_def)
  have "(\<forall>pre t post. u # ts = pre @ t # post \<longrightarrow> next_served h er pre t used) \<longleftrightarrow>
      next_served h er [] u used \<and>
      (\<forall>pre t post. ts = pre @ t # post \<longrightarrow> next_served h er (u # pre) t used)"
    by (force simp: Cons_eq_append_conv)
  then show ?case
    unfolding order_ok.simps Cons.IH first next_served_Cons by blast
qed simp

lemma served_iff:
  "served h er types \<longleftrightarrow> (\<forall>order. mset order = mset types \<longrightarrow> order_ok h er order [])"
proof -
  have split: "mset (pre @ [t]) \<subseteq># mset types \<longleftrightarrow> (\<exists>post. mset (pre @ t # post) = mset types)" for pre t
  proof
    assume "mset (pre @ [t]) \<subseteq># mset types"
    then obtain M where "mset types = mset (pre @ [t]) + M"
      by (metis subset_mset.le_iff_add)
    moreover obtain post where "mset post = M"
      using ex_mset by blast
    ultimately show "\<exists>post. mset (pre @ t # post) = mset types"
      by (intro exI [of _ post]) simp
  next
    assume "\<exists>post. mset (pre @ t # post) = mset types"
    then obtain post where "mset (pre @ t # post) = mset types" ..
    then have "mset types = mset (pre @ [t]) + mset post"
      by simp
    then show "mset (pre @ [t]) \<subseteq># mset types"
      by simp
  qed
  have "served h er types \<longleftrightarrow>
      (\<forall>pre t. mset (pre @ [t]) \<subseteq># mset types \<longrightarrow> next_served h er pre t [])"
    by (auto simp: served_def next_served_def)
  also have "\<dots> \<longleftrightarrow> (\<forall>order. mset order = mset types \<longrightarrow> order_ok h er order [])"
    unfolding split order_ok_iff by blast
  finally show ?thesis .
qed

lemma possible_iff:
  "is_reservation_possible h t rs er \<longleftrightarrow>
     length (reserved_types t rs) + length er \<le> length (evses h) \<and> served h er (reserved_types t rs)"
proof (cases "reserved_types t rs = []")
  case True
  then show ?thesis
    by (simp add: is_reservation_possible_def Let_def get_all_possible_orders_def served_def)
next
  case False
  have "list_all (\<lambda>order. can_virtual_car_arrive h er order [] = Some True)
        (get_all_possible_orders (reserved_types t rs)) \<longleftrightarrow> served h er (reserved_types t rs)"
  proof -
    have "order \<noteq> []" if "mset order = mset (reserved_types t rs)" for order
      using that False by auto
    then show ?thesis
      unfolding served_iff list_all_iff orders_set [OF False] using arrive_iff by auto
  qed
  then show ?thesis
    by (auto simp: is_reservation_possible_def Let_def)
qed

end
