(* ===== verification/Reservation_Promise.thy ===== *)
theory Reservation_Promise
  imports Reservation_Laws
begin

text \<open>
  Runs of the reservation handler: every reservation it holds has an id and a timer of its own, the
  holders of the reservations without an EVSE can be served, and what it stores can be loaded.
\<close>

section \<open>The reservations that are held\<close>

definition held_ids :: "rh \<Rightarrow> int list" where
  "held_ids h = map (\<lambda>(k, r). reservation_id r) (evse_reservations h) @
     map reservation_id (global_reservations h)"

definition rh_inv :: "rh \<Rightarrow> bool" where
  "rh_inv h \<longleftrightarrow> distinct (keys (evses h)) \<and> sorted_wrt (<) (keys (evse_reservations h)) \<and>
     set (keys (evse_reservations h)) \<subseteq> set (keys (evses h)) \<and>
     distinct (held_ids h) \<and> timers h = set (held_ids h)"

text \<open>All reservations are possible together, in the declarative form of \<open>possible_iff\<close>.\<close>

definition promise :: "rh \<Rightarrow> bool" where
  "promise h \<longleftrightarrow> length (global_reservations h) + length (evse_reservations h) \<le> length (evses h) \<and>
     served h (evse_reservations h) (map connector_type_of (global_reservations h))"

definition held :: "rh \<Rightarrow> (int \<times> EVSEContext) list \<times> reservation_map \<times> Reservation list \<times> int set" where
  "held h = (evses h, evse_reservations h, global_reservations h, timers h)"

lemma can_park_cong: "evses h' = evses h \<Longrightarrow> can_park h' = can_park h"
  by (intro ext) (simp add: can_park_def get_evse_connector_state_reservation_result_def
      get_connector_availability_reservation_result_def)

lemma served_cong: "evses h' = evses h \<Longrightarrow> served h' er ts = served h er ts"
  using can_park_cong [of h' h] by (simp add: served_def)

lemma held_rh_inv: "held h' = held h \<Longrightarrow> rh_inv h' = rh_inv h"
  by (simp add: held_def rh_inv_def held_ids_def)

lemma held_promise: "held h' = held h \<Longrightarrow> promise h' = promise h"
  using served_cong [of h' h] by (simp add: held_def promise_def)

lemma promise_iff: "promise h \<longleftrightarrow> is_reservation_possible h None (global_reservations h) (evse_reservations h)"
  by (simp add: promise_def possible_iff reserved_types_def)

lemma exec_store:
  "exec store_reservations h = (if has_store h \<and> held_ids h \<noteq> [] then
     h\<lparr>stored := Some (map (\<lambda>(i, r). (Some i, r)) (evse_reservations h) @
       map (\<lambda>r. (None, r)) (global_reservations h))\<rparr> else h)"
  by (auto simp: store_reservations_def run_simps Let_def held_ids_def)

lemma held_store: "held (exec store_reservations h) = held h"
  by (simp add: exec_store held_def)

section \<open>The callback\<close>

text \<open>The callback changes the EVSEs that were reported as reserved, and nothing else of the handler.\<close>

definition book :: "rh \<Rightarrow> _" where
  "book h = (held h, has_store h, has_callback h, utc_now h, from_rfc3339 h, stored h)"

interpretation book_frame: frame_rel "\<lambda>h h'. book h' = book h"
  by unfold_locales auto

lemma book_check_number: "book_frame.keeps check_number_global_reservations_match_number_available_evses"
  unfolding check_number_global_reservations_match_number_available_evses_def
    get_evse_global_reserved_status_and_set_new_status_def Let_def
  by (intro book_frame.keeps_rules book_frame.keeps_modify) (simp_all add: book_def held_def)

lemma book_callback: "book_frame.keeps (reservation_cancelled_callback e i reason b)"
  unfolding reservation_cancelled_callback_def call_reservation_cancelled_def notify_def
    check_evse_reserved_and_send_updates_def
  by (intro book_frame.keeps_rules book_frame.keeps_modify book_check_number) (simp_all add: book_def held_def)

lemma exec_callback:
  "held (exec (reservation_cancelled_callback e i reason b) h) = held h"
  "has_store (exec (reservation_cancelled_callback e i reason b) h) = has_store h"
  "stored (exec (reservation_cancelled_callback e i reason b) h) = stored h"
  "evse_reservations (exec (reservation_cancelled_callback e i reason b) h) = evse_reservations h"
  "global_reservations (exec (reservation_cancelled_callback e i reason b) h) = global_reservations h"
  using book_frame.keepsD [OF book_callback] by (simp_all add: book_def held_def)

section \<open>Cancelling\<close>

lemma remove_first_filter: "distinct (map f xs) \<Longrightarrow> remove_first (\<lambda>x. f x = i) xs = filter (\<lambda>x. f x \<noteq> i) xs"
  by (induction xs) (auto simp: image_iff intro!: filter_True [symmetric])

lemma evse_of_reservation_snoc:
  "evse_of_reservation i (m @ [(k, r)]) = (if reservation_id r = i then Some k else evse_of_reservation i m)"
  by (simp add: evse_of_reservation_def)

lemma evse_of_reservation_Some:
  "evse_of_reservation i m = Some k \<Longrightarrow> \<exists>r. (k, r) \<in> set m \<and> reservation_id r = i"
proof (induction m rule: rev_induct)
  case (snoc x m)
  then show ?case
    by (cases x) (auto simp: evse_of_reservation_snoc split: if_splits)
qed (simp add: evse_of_reservation_def)

lemma evse_of_reservation_None:
  "evse_of_reservation i m = None \<Longrightarrow> (k, r) \<in> set m \<Longrightarrow> reservation_id r \<noteq> i"
proof (induction m rule: rev_induct)
  case (snoc x m)
  then show ?case
    by (cases x) (auto simp: evse_of_reservation_snoc split: if_splits)
qed simp

lemma erase_reservation:
  assumes "distinct (map fst m)" and "distinct (map (\<lambda>(k, r). reservation_id r) m)"
    and "(k, r) \<in> set m"
  shows "map_erase k m = filter (\<lambda>(l, w). reservation_id w \<noteq> reservation_id r) m"
proof -
  have "l = k \<longleftrightarrow> reservation_id w = reservation_id r" if "(l, w) \<in> set m" for l w
    using assms that eq_key_imp_eq_value [OF assms(1), of k r w]
      inj_onD [OF assms(2) [unfolded distinct_map, THEN conjunct2], of "(l, w)" "(k, r)"] by auto
  then show ?thesis
    unfolding map_erase_def by (intro filter_cong) auto
qed

definition without :: "int \<Rightarrow> rh \<Rightarrow> rh" where
  "without i h = h\<lparr>timers := timers h - {i},
     evse_reservations := filter (\<lambda>(k, r). reservation_id r \<noteq> i) (evse_reservations h),
     global_reservations := filter (\<lambda>r. reservation_id r \<noteq> i) (global_reservations h)\<rparr>"

lemma strict_distinct: "sorted_wrt (<) (xs :: int list) \<Longrightarrow> distinct xs"
  by (induction xs) auto

lemma cancel_held:
  assumes inv: "rh_inv h"
  shows "held (exec (cancel_reservation i b reason) h) = held (without i h)"
proof (cases "i \<in> timers h")
  case False
  then have "i \<notin> set (held_ids h)"
    using inv by (simp add: rh_inv_def)
  then have "filter (\<lambda>(k, r). reservation_id r \<noteq> i) (evse_reservations h) = evse_reservations h"
      "filter (\<lambda>r. reservation_id r \<noteq> i) (global_reservations h) = global_reservations h"
    by (auto simp: held_ids_def filter_id_conv image_iff)
  with False show ?thesis
    by (simp add: cancel_reservation_def run_simps without_def held_def)
next
  case True
  have d: "distinct (map fst (evse_reservations h))"
      "distinct (map (\<lambda>(k, r). reservation_id r) (evse_reservations h))"
      "distinct (map reservation_id (global_reservations h))"
    using inv strict_distinct by (auto simp: rh_inv_def held_ids_def keys_def)
  have core: "held (exec (cancel_reservation i b reason) h) =
      held (case evse_of_reservation i (evse_reservations h) of
        Some k \<Rightarrow> h\<lparr>timers := timers h - {i}, evse_reservations := map_erase k (evse_reservations h)\<rparr>
      | None \<Rightarrow> h\<lparr>timers := timers h - {i}, global_reservations :=
          remove_first (\<lambda>r. reservation_id r = i) (global_reservations h)\<rparr>)"
    using True exec_callback(1) by (simp add: cancel_reservation_def run_simps Let_def held_def exec_store
        split: option.splits)
  show ?thesis
  proof (cases "evse_of_reservation i (evse_reservations h)")
    case None
    then have "filter (\<lambda>(k, r). reservation_id r \<noteq> i) (evse_reservations h) = evse_reservations h"
      using evse_of_reservation_None by (auto simp: filter_id_conv)
    with None core d(3) show ?thesis
      by (simp add: without_def held_def remove_first_filter)
  next
    case (Some k)
    then obtain r where r: "(k, r) \<in> set (evse_reservations h)" "reservation_id r = i"
      using evse_of_reservation_Some by blast
    then have "i \<notin> set (map reservation_id (global_reservations h))"
      using inv by (auto simp: rh_inv_def held_ids_def image_iff)
    then have "filter (\<lambda>r. reservation_id r \<noteq> i) (global_reservations h) = global_reservations h"
      by (auto simp: filter_id_conv)
    with Some core erase_reservation [OF d(1,2) r(1)] r(2) show ?thesis
      by (simp add: without_def held_def)
  qed
qed

lemma held_ids_without: "held_ids (without i h) = filter (\<lambda>j. j \<noteq> i) (held_ids h)"
  by (simp add: held_ids_def without_def filter_map comp_def split_def)

lemma without_inv:
  assumes "rh_inv h"
  shows "rh_inv (without i h)"
proof -
  have "sorted_wrt (<) (map fst (filter P m))" if "sorted_wrt (<) (map fst m)" for P and m :: reservation_map
    using that by (induction m) auto
  with assms show ?thesis
    unfolding rh_inv_def held_ids_without by (auto simp: without_def keys_def)
qed

lemma cancel_inv: "rh_inv h \<Longrightarrow> rh_inv (exec (cancel_reservation i b reason) h)"
  using cancel_held held_rh_inv without_inv by metis

lemma cancel_gone: "rh_inv h \<Longrightarrow> i \<notin> set (held_ids (exec (cancel_reservation i b reason) h))"
  using cancel_held [of h i b reason]
  by (auto simp: held_def held_ids_def without_def)

section \<open>The promise under fewer reservations\<close>

lemma not_reserved_iff:
  "get_evse_connector_state_reservation_result h i er = Accepted \<longleftrightarrow>
     i \<notin> set (keys er) \<and> get_evse_connector_state_reservation_result h i [] = Accepted"
proof -
  have "map_of er i = None \<longleftrightarrow> i \<notin> set (keys er)"
    by (simp add: map_of_eq_None_iff keys_def)
  moreover have "connector_state_to_reservation_result (con_state c) \<noteq> Accepted"
    if "find (\<lambda>c. con_state c = CS_OCCUPIED \<or> con_state c = CS_FAULTED_OCCUPIED) cs = Some c" for c cs
    using that by (auto simp: find_Some_iff)
  ultimately show ?thesis
    by (auto simp: get_evse_connector_state_reservation_result_def split: option.splits)
qed

lemma can_park_free: "can_park h er i t \<longleftrightarrow> i \<notin> set (keys er) \<and> can_park h [] i t"
  unfolding can_park_def not_reserved_iff [of h i er] by auto

lemma list_all2_filter:
  assumes "list_all2 p ids ts" and "\<And>i t. p i t \<Longrightarrow> P i \<Longrightarrow> q i t"
  shows "\<exists>us. list_all2 q (filter P ids) us \<and> mset us \<subseteq># mset ts"
  using assms(1)
proof (induction rule: list_all2_induct)
  case (Cons i ids t ts)
  then obtain us where us: "list_all2 q (filter P ids) us" "mset us \<subseteq># mset ts"
    by blast
  show ?case
  proof (cases "P i")
    case True
    with us Cons.hyps(1) assms(2) show ?thesis
      by (intro exI [of _ "t # us"]) simp
  next
    case False
    with us show ?thesis
      by (intro exI [of _ us]) (simp add: subset_mset.order_trans [OF us(2)])
  qed
qed simp

lemma served_fewer:
  assumes served: "served h er ts" and er: "set (keys er') \<subseteq> set (keys er)"
    and ts: "mset ts' \<subseteq># mset ts"
  shows "served h er' ts'"
  unfolding served_def
proof (intro allI impI, elim conjE)
  fix parked ids t
  assume p: "list_all2 (can_park h er') ids parked" "distinct ids" "mset (parked @ [t]) \<subseteq># mset ts'"
  define free where "free i \<longleftrightarrow> i \<notin> set (keys er)" for i
  have "can_park h er i u" if "can_park h er' i u" "free i" for i u
    using that can_park_free [of h er i u] can_park_free [of h er' i u] by (auto simp: free_def)
  then obtain qs where q: "list_all2 (can_park h er) (filter free ids) qs" "mset qs \<subseteq># mset parked"
    using list_all2_filter [OF p(1), of free "can_park h er"] by blast
  note q(1)
  moreover have "mset (qs @ [t]) \<subseteq># mset ts"
    using subset_mset.order_trans [OF _ subset_mset.order_trans [OF p(3) ts], of "mset (qs @ [t])"] q(2)
    by simp
  ultimately obtain i where i: "i \<notin> set (filter free ids)" "can_park h er i t"
    using served [unfolded served_def, rule_format, of "filter free ids" qs t] p(2) by auto
  then show "\<exists>i. i \<notin> set ids \<and> can_park h er' i t"
    using can_park_free [of h er i t] can_park_free [of h er' i t] er by (auto simp: free_def)
qed

lemma promise_without:
  assumes "promise h"
  shows "promise (without i h)"
proof -
  let ?er = "filter (\<lambda>(k, r). reservation_id r \<noteq> i) (evse_reservations h)"
  let ?gs = "filter (\<lambda>r. reservation_id r \<noteq> i) (global_reservations h)"
  have "mset (map connector_type_of ?gs) \<subseteq># mset (map connector_type_of (global_reservations h))"
    by (simp add: image_mset_subseteq_mono)
  moreover have "set (keys ?er) \<subseteq> set (keys (evse_reservations h))"
    by (auto simp: keys_def)
  ultimately have "served h ?er (map connector_type_of ?gs)"
    using assms served_fewer unfolding promise_def by blast
  then have "served (without i h) ?er (map connector_type_of ?gs)"
    by (subst served_cong [of _ h]) (simp_all add: without_def)
  moreover have "length ?gs + length ?er \<le> length (evses h)"
    using assms length_filter_le [of "\<lambda>r. reservation_id r \<noteq> i" "global_reservations h"]
      length_filter_le [of "\<lambda>(k, r). reservation_id r \<noteq> i" "evse_reservations h"]
    unfolding promise_def by linarith
  ultimately show ?thesis
    unfolding promise_def by (simp add: without_def)
qed

lemma cancel_promise: "rh_inv h \<Longrightarrow> promise h \<Longrightarrow> promise (exec (cancel_reservation i b reason) h)"
  using cancel_held held_promise promise_without by metis

section \<open>Reserving\<close>

lemma keys_map_put: "set (keys (map_put k v m)) = insert k (set (keys m))"
  by (induction k v m rule: map_put.induct) (auto simp: keys_def)

lemma map_put_sorted: "sorted_wrt (<) (keys m) \<Longrightarrow> sorted_wrt (<) (keys (map_put k v m))"
proof (induction k v m rule: map_put.induct)
  case (2 k v l w m)
  have "set (map fst (map_put k v m)) = insert k (set (map fst m))"
    using keys_map_put [of k v m] by (simp add: keys_def)
  with 2 show ?case
    by (auto simp: keys_def)
qed (simp add: keys_def)

lemma map_put_mset: "k \<notin> set (keys m) \<Longrightarrow> mset (map_put k v m) = add_mset (k, v) (mset m)"
  by (induction k v m rule: map_put.induct) (auto simp: keys_def)

lemma map_put_last: "\<forall>l \<in> set (keys m). l < k \<Longrightarrow> map_put k v m = m @ [(k, v)]"
  by (induction k v m rule: map_put.induct) (auto simp: keys_def)

text \<open>A request that is turned down is never answered with Accepted.\<close>

lemma new_state_not_available: "current \<noteq> CS_AVAILABLE \<Longrightarrow> get_new_connector_state current new \<noteq> CS_AVAILABLE"
  by (cases new) (auto simp: get_new_connector_state_def less_ConnectorState_def)

lemma fold_keeps: "P s \<Longrightarrow> (\<And>x s. P s \<Longrightarrow> P (f x s)) \<Longrightarrow> P (fold f xs s)"
  by (induction xs arbitrary: s) simp_all

lemma refused_not_accepted: "get_reservation_evse_connector_state h t \<noteq> Accepted"
proof -
  have result: "connector_state_to_reservation_result s \<noteq> Accepted" if "s \<noteq> CS_AVAILABLE" for s
    using that by (cases s) simp_all
  have "fold (\<lambda>(i, e) state. if plugged_in e then get_new_connector_state state CS_OCCUPIED else state)
      (evses h) CS_UNAVAILABLE \<noteq> CS_AVAILABLE"
    by (rule fold_keeps) (auto simp: new_state_not_available split: prod.splits if_splits)
  moreover have "fold (\<lambda>c state. if \<not> fits c t then state
        else if con_state c \<noteq> CS_AVAILABLE then get_new_connector_state state (con_state c) else state)
      cs CS_UNAVAILABLE \<noteq> CS_AVAILABLE" for cs
    by (rule fold_keeps) (auto simp: new_state_not_available split: prod.splits if_splits)
  ultimately show ?thesis
    unfolding get_reservation_evse_connector_state_def Let_def by (auto dest!: result)
qed

definition with_evse :: "int \<Rightarrow> Reservation \<Rightarrow> rh \<Rightarrow> rh" where
  "with_evse i r h = h\<lparr>evse_reservations := map_put i r (evse_reservations h),
     timers := insert (reservation_id r) (timers h)\<rparr>"

definition with_global :: "Reservation \<Rightarrow> rh \<Rightarrow> rh" where
  "with_global r h = h\<lparr>global_reservations := global_reservations h @ [r],
     timers := insert (reservation_id r) (timers h)\<rparr>"

lemma with_evse_inv:
  assumes "rh_inv h" and "reservation_id r \<notin> set (held_ids h)" and "i \<in> set (keys (evses h))"
    and "i \<notin> set (keys (evse_reservations h))"
  shows "rh_inv (with_evse i r h)"
proof -
  have "mset (held_ids (with_evse i r h)) = mset (reservation_id r # held_ids h)"
    using assms(4) by (simp add: held_ids_def with_evse_def map_put_mset)
  note mset_eq_imp_distinct_iff [OF this] mset_eq_setD [OF this]
  then have "distinct (held_ids (with_evse i r h))"
      "set (held_ids (with_evse i r h)) = insert (reservation_id r) (set (held_ids h))"
    using assms(1,2) by (simp_all add: rh_inv_def)
  with assms show ?thesis
    by (simp add: rh_inv_def with_evse_def keys_map_put map_put_sorted)
qed

lemma with_global_inv:
  "rh_inv h \<Longrightarrow> reservation_id r \<notin> set (held_ids h) \<Longrightarrow> rh_inv (with_global r h)"
  by (auto simp: rh_inv_def with_global_def held_ids_def)

lemma inv_length: "rh_inv h \<Longrightarrow> length (evse_reservations h) \<le> length (evses h)"
proof -
  assume "rh_inv h"
  then have "distinct (keys (evse_reservations h))" "set (keys (evse_reservations h)) \<subseteq> set (keys (evses h))"
    using strict_distinct by (simp_all add: rh_inv_def)
  then have "length (keys (evse_reservations h)) \<le> card (set (keys (evses h)))"
    using card_mono [OF finite_set] distinct_card by metis
  then show ?thesis
    using card_length [of "keys (evses h)"] by (simp add: keys_def)
qed

lemma promise_no_globals: "rh_inv h \<Longrightarrow> global_reservations h = [] \<Longrightarrow> promise h"
  using inv_length by (simp add: promise_def served_def)

text \<open>What a request does, once a reservation with its id is gone: nothing, or it is held and all
  reservations are possible.\<close>

definition outcome :: "rh \<Rightarrow> ReservationResult \<Rightarrow> rh \<Rightarrow> bool" where
  "outcome h a h' \<longleftrightarrow> (if a = Accepted then rh_inv h' \<and> promise h' else held h' = held h)"

lemma possible_cong:
  "evses h' = evses h \<Longrightarrow> is_reservation_possible h' t rs er = is_reservation_possible h t rs er"
  using served_cong [of h' h] by (simp add: possible_iff)

lemma with_evse_promise:
  assumes "rh_inv (with_evse i r h)"
    and "global_reservations h = [] \<or>
      is_reservation_possible h None (global_reservations h) (map_put i r (evse_reservations h))"
  shows "promise (with_evse i r h)"
proof (cases "global_reservations h = []")
  case True
  then show ?thesis
    using promise_no_globals [OF assms(1)] by (simp add: with_evse_def)
next
  case False
  then show ?thesis
    using assms(2) possible_cong [of "with_evse i r h" h] by (simp add: promise_iff with_evse_def)
qed

lemma with_global_promise:
  assumes "is_reservation_possible h (Some (connector_type_of r)) (global_reservations h) (evse_reservations h)"
  shows "promise (with_global r h)"
  using assms served_cong [of "with_global r h" h]
  by (simp add: promise_def possible_iff reserved_types_def with_global_def)

lemma reserve_evse_outcome:
  assumes inv: "rh_inv h" and new: "reservation_id r \<notin> set (held_ids h)"
  shows "outcome h (result (reserve_evse i r) h) (exec (reserve_evse i r) h)"
proof (cases "map_of (evses h) i = None \<or> map_of (evse_reservations h) i \<noteq> None")
  case True
  then show ?thesis
    by (auto simp: reserve_evse_def run_simps outcome_def split: option.splits)
next
  case False
  then obtain e where e: "map_of (evses h) i = Some e" and free: "map_of (evse_reservations h) i = None"
    by auto
  then have "i \<in> set (keys (evses h))" "i \<notin> set (keys (evse_reservations h))"
    using map_of_SomeD [OF e] by (force simp: keys_def map_of_eq_None_iff)+
  then have inv': "rh_inv (with_evse i r h)"
    by (rule with_evse_inv [OF inv new])
  have acc: "outcome h Accepted (with_evse i r h)" if "global_reservations h = [] \<or>
      is_reservation_possible h None (global_reservations h) (map_put i r (evse_reservations h))"
    using inv' with_evse_promise [OF inv'] that by (simp add: outcome_def)
  let ?h' = "h\<lparr>timers := insert (reservation_id r) (timers h), evse_reservations := map_put i r (evse_reservations h)\<rparr>"
  have h': "?h' = with_evse i r h" "h\<lparr>evse_reservations := map_put i r (evse_reservations h),
      timers := insert (reservation_id r) (timers h)\<rparr> = with_evse i r h"
    by (simp_all add: with_evse_def)
  have same: "outcome h a h" if "a \<noteq> Accepted" for a
    using that by (simp add: outcome_def)
  show ?thesis
    using acc same refused_not_accepted
    by (simp add: reserve_evse_def run_simps e free Let_def set_reservation_timer_def h')
qed

lemma reserve_any_outcome:
  assumes inv: "rh_inv h" and new: "reservation_id r \<notin> set (held_ids h)"
  shows "outcome h (result (reserve_any r) h) (exec (reserve_any r) h)"
proof -
  let ?h1 = "h\<lparr>global_reservations := global_reservations h @ [r]\<rparr>"
  have same: "outcome h a h" if "a \<noteq> Accepted" for a
    using that by (simp add: outcome_def)
  have "outcome h Accepted ((exec store_reservations ?h1)
      \<lparr>timers := insert (reservation_id r) (timers (exec store_reservations ?h1))\<rparr>)" (is "outcome h _ ?h2")
    if "is_reservation_possible h (Some (connector_type_of r)) (global_reservations h) (evse_reservations h)"
  proof -
    have "held ?h2 = held (with_global r h)"
      by (simp add: exec_store held_def with_global_def)
    then have "rh_inv ?h2 \<and> promise ?h2"
      using held_rh_inv held_promise with_global_promise [OF that] with_global_inv [OF inv new] by blast
    then show ?thesis
      by (simp add: outcome_def)
  qed
  then show ?thesis
    using same refused_not_accepted
    by (simp add: reserve_any_def run_simps Let_def set_reservation_timer_def split: option.splits)
qed

lemma make_outcome:
  assumes "rh_inv h"
  shows "outcome h (result (make_reservation e r) h) (exec (make_reservation e r) h) \<or>
    outcome (without (reservation_id r) h) (result (make_reservation e r) h) (exec (make_reservation e r) h)"
proof -
  let ?h1 = "exec (cancel_reservation (reservation_id r) False End_Cancelled) h"
  have "outcome (without (reservation_id r) h) = outcome ?h1"
    using cancel_held [OF assms] by (intro ext) (simp add: outcome_def)
  then show ?thesis
    using reserve_evse_outcome [OF cancel_inv [OF assms] cancel_gone [OF assms]]
      reserve_any_outcome [OF cancel_inv [OF assms] cancel_gone [OF assms]]
    by (cases e) (simp_all add: make_reservation_def run_simps outcome_def)
qed

lemma make_inv: "rh_inv h \<Longrightarrow> rh_inv (exec (make_reservation e r) h)"
  using make_outcome [of h e r] held_rh_inv without_inv
  unfolding outcome_def by (metis (full_types))

lemma make_promise: "rh_inv h \<Longrightarrow> promise h \<Longrightarrow> promise (exec (make_reservation e r) h)"
  using make_outcome [of h e r] held_promise promise_without
  unfolding outcome_def by (metis (full_types))

section \<open>Runs\<close>

text \<open>What holds of the reservations and is kept by making and cancelling one is kept by all requests.\<close>

locale book_invariant =
  fixes P :: "rh \<Rightarrow> bool"
  assumes P_cancel: "P h \<Longrightarrow> P (exec (cancel_reservation i b reason) h)"
    and P_make: "P h \<Longrightarrow> P (exec (make_reservation e r) h)"
    and P_held: "P h \<Longrightarrow> held h' = held h \<Longrightarrow> P h'"
begin

lemma P_cancel_all:
  "P h \<Longrightarrow> P (exec (for_each ids (\<lambda>i. do { _ \<leftarrow> cancel_reservation i b reason; skip })) h)"
  by (induction ids arbitrary: h) (simp_all add: run_simps P_cancel)

lemma P_check: "P h \<Longrightarrow> P (exec check_reservations_and_cancel_if_not_possible h)"
  by (simp add: check_reservations_and_cancel_if_not_possible_def run_simps P_cancel_all split_def Let_def)

lemma P_connector_changed: "P h \<Longrightarrow> P (exec (on_connector_state_changed s i c) h)"
  by (simp add: on_connector_state_changed_def run_simps P_cancel P_check split: option.splits)

lemma P_load_entries: "P h \<Longrightarrow> P (exec (load_entries xs) h)"
proof (induction xs arbitrary: h rule: load_entries.induct)
  case (3 e r xs)
  let ?h = "exec (make_reservation e r) h"
  have "P ?h"
    using 3 by (simp add: P_make)
  then have "P (exec (reservation_cancelled_callback e (reservation_id r) End_Cancelled True) ?h)"
    by (rule P_held) (rule exec_callback)
  with \<open>P ?h\<close> 3 show ?case
    by (simp add: run_simps)
qed (simp_all add: run_simps)

lemma P_load: "P h \<Longrightarrow> P (exec (load_reservations answer) h)"
  by (simp add: load_reservations_def run_simps P_load_entries split: option.splits)

lemma P_check_number: "P h \<Longrightarrow> P (exec check_number_global_reservations_match_number_available_evses h)"
  by (rule P_held, assumption) (simp add: check_number_global_reservations_match_number_available_evses_def
      get_evse_global_reserved_status_and_set_new_status_def run_simps Let_def held_def)

lemma P_handle:
  assumes "P h" and "\<And>es. x \<noteq> R_evses es"
  shows "P (exec (rh_handle x) h)"
proof (cases x)
  case (R_clock t)
  then show ?thesis
    by (intro P_held [OF assms(1)]) (simp add: run_simps held_def)
next
  case R_register
  then show ?thesis
    by (intro P_held [OF assms(1)])
      (simp add: register_reservation_cancelled_callback_def run_simps held_def)
qed (use assms in \<open>simp_all add: run_simps P_cancel P_make P_load P_check_number P_connector_changed
    cancel_reservation_of_evse_def on_reservation_used_def split: option.split\<close>)

lemma P_run:
  assumes "P h" and "list_all (\<lambda>x. \<forall>es. x \<noteq> R_evses es) inputs"
  shows "P (rh_run inputs h)"
  using assms
proof (induction inputs arbitrary: h)
  case (Cons x inputs)
  then have "P (rh_run inputs (exec (rh_handle x) h))"
    using P_handle by simp
  then show ?case
    by (simp add: rh_run_def run_simps)
qed (simp add: rh_run_def run_simps)

end

lemma held_inv: "rh_inv h \<Longrightarrow> held h' = held h \<Longrightarrow> rh_inv h'"
  using held_rh_inv [of h' h] by simp

interpretation ids: book_invariant rh_inv
  by unfold_locales (fact cancel_inv make_inv held_inv)+

interpretation kept: book_invariant "\<lambda>h. rh_inv h \<and> promise h"
proof unfold_locales
  fix h h'
  assume "rh_inv h \<and> promise h" "held h' = held h"
  then show "rh_inv h' \<and> promise h'"
    using held_rh_inv [of h' h] held_promise [of h' h] by simp
qed (simp_all add: cancel_inv make_inv cancel_promise make_promise)

lemma handle_inv:
  assumes "rh_inv h"
  shows "rh_inv (exec (rh_handle x) h)"
proof (cases "\<exists>es. x = R_evses es")
  case True
  then obtain es where "x = R_evses es" ..
  with assms show ?thesis
    by (cases "keys es = keys (evses h)") (simp_all add: run_simps rh_inv_def held_ids_def)
next
  case False
  with assms show ?thesis
    by (intro ids.P_handle) auto
qed

lemma run_inv: "rh_inv h \<Longrightarrow> rh_inv (rh_run inputs h)"
proof (induction inputs arbitrary: h)
  case (Cons x inputs)
  then have "rh_inv (rh_run inputs (exec (rh_handle x) h))"
    using handle_inv by simp
  then show ?case
    by (simp add: rh_run_def run_simps)
qed (simp add: rh_run_def run_simps)

lemma init_inv: "distinct (keys es) \<Longrightarrow> rh_inv (rh_init es store parse)"
  by (simp add: rh_inv_def rh_init_def held_ids_def keys_def)

end
