(* ===== verification/Reservation_Runs.thy ===== *)
theory Reservation_Runs
  imports Reservation_Promise
begin

text \<open>
  The properties of the reservation handler: what its search decides, that it keeps its promise, what
  the check after a change of a connector restores, and what a restart finds in the store.
\<close>

section \<open>The check of all reservations\<close>

lemma check_evse_all:
  "sorted_wrt (<) (keys (er @ m)) \<Longrightarrow> length (er @ m) \<le> length (evses h) \<Longrightarrow>
     check_evse_reservations h m (ids, er) = (ids, er @ m)"
proof (induction m arbitrary: er)
  case (Cons x m)
  obtain k r where x: "x = (k, r)" by (cases x)
  have "map_put k r er = er @ [x]"
    using Cons.prems(1) by (subst map_put_last) (auto simp: x keys_def sorted_wrt_append)
  moreover have "is_reservation_possible h None [] (er @ [x])"
    using Cons.prems(2) by (simp add: possible_iff reserved_types_def served_def)
  moreover have "check_evse_reservations h m (ids, er @ [x]) = (ids, (er @ [x]) @ m)"
    using Cons.prems by (intro Cons.IH) simp_all
  ultimately show ?case
    by (simp add: x)
qed simp

lemma check_global_split:
  "check_global_reservations h er rs (ids, gs) = (ids', gs') \<Longrightarrow> distinct (map reservation_id rs) \<Longrightarrow>
     \<exists>D. ids' = ids @ D \<and> gs' = gs @ filter (\<lambda>r. reservation_id r \<notin> set D) rs \<and>
       set D \<subseteq> reservation_id ` set rs"
proof (induction rs arbitrary: ids gs)
  case (Cons r rs)
  show ?case
  proof (cases "is_reservation_possible h (res_connector_type r) gs er")
    case True
    with Cons.prems have "check_global_reservations h er rs (ids, gs @ [r]) = (ids', gs')"
      by simp
    then obtain D where D: "ids' = ids @ D" "gs' = (gs @ [r]) @ filter (\<lambda>r. reservation_id r \<notin> set D) rs"
        "set D \<subseteq> reservation_id ` set rs"
      using Cons.IH [of ids "gs @ [r]"] Cons.prems(2) by auto
    then have "reservation_id r \<notin> set D"
      using Cons.prems(2) by auto
    with D show ?thesis
      by (intro exI [of _ D]) auto
  next
    case False
    with Cons.prems have "check_global_reservations h er rs (ids @ [reservation_id r], gs) = (ids', gs')"
      by simp
    then obtain D where D: "ids' = (ids @ [reservation_id r]) @ D"
        "gs' = gs @ filter (\<lambda>r. reservation_id r \<notin> set D) rs" "set D \<subseteq> reservation_id ` set rs"
      using Cons.IH [of "ids @ [reservation_id r]" gs] Cons.prems(2) by auto
    have "filter (\<lambda>q. reservation_id q \<notin> set D) rs = filter (\<lambda>q. reservation_id q \<notin> set (reservation_id r # D)) rs"
      using Cons.prems(2) by (intro filter_cong) (auto simp: image_iff)
    with D show ?thesis
      by (intro exI [of _ "reservation_id r # D"]) auto
  qed
qed simp

lemma check_global_possible:
  "check_global_reservations h er rs (ids, gs) = (ids', gs') \<Longrightarrow>
   list_all (\<lambda>r. res_connector_type r \<noteq> None) rs \<Longrightarrow> is_reservation_possible h None gs er \<Longrightarrow>
     is_reservation_possible h None gs' er"
proof (induction rs arbitrary: ids gs)
  case (Cons r rs)
  obtain t where "res_connector_type r = Some t"
    using Cons.prems(2) by auto
  then have "reserved_types (res_connector_type r) gs = reserved_types None (gs @ [r])"
    by (simp add: reserved_types_def connector_type_of_def)
  then have "is_reservation_possible h (res_connector_type r) gs er = is_reservation_possible h None (gs @ [r]) er"
    by (simp add: possible_iff)
  with Cons show ?case
    by (auto split: if_splits)
qed simp

lemma cancel_all_held:
  assumes "rh_inv h"
  shows "held (exec (for_each ids (\<lambda>i. do { _ \<leftarrow> cancel_reservation i b reason; skip })) h) =
    (evses h, filter (\<lambda>(k, r). reservation_id r \<notin> set ids) (evse_reservations h),
     filter (\<lambda>r. reservation_id r \<notin> set ids) (global_reservations h), timers h - set ids)"
  using assms
proof (induction ids arbitrary: h)
  case (Cons i ids)
  let ?h = "exec (cancel_reservation i b reason) h"
  have "held ?h = held (without i h)"
    using Cons.prems by (rule cancel_held)
  with Cons.IH [OF cancel_inv [OF Cons.prems, of i b reason]] show ?case
    by (auto simp: run_simps held_def without_def split_def intro!: filter_cong)
qed (simp add: run_simps held_def split_def)

lemma check_held:
  assumes inv: "rh_inv h"
    and check: "check_global_reservations h (evse_reservations h) (global_reservations h) ([], []) = (ids, gs)"
  shows "\<exists>T. held (exec check_reservations_and_cancel_if_not_possible h) = (evses h, evse_reservations h, gs, T)"
proof -
  have evse: "check_evse_reservations h (evse_reservations h) ([], []) = ([], evse_reservations h)"
    using check_evse_all [of "[]" "evse_reservations h" h "[]"] inv inv_length [OF inv]
    by (simp add: rh_inv_def)
  have d: "distinct (map reservation_id (global_reservations h))"
    using inv by (simp add: rh_inv_def held_ids_def)
  obtain D where D: "ids = D" "gs = filter (\<lambda>r. reservation_id r \<notin> set D) (global_reservations h)"
      "set D \<subseteq> reservation_id ` set (global_reservations h)"
    using check_global_split [OF check d] by auto
  have "filter (\<lambda>(k, r). reservation_id r \<notin> set ids) (evse_reservations h) = evse_reservations h"
    using D(1,3) inv by (fastforce simp: filter_id_conv rh_inv_def held_ids_def)
  then show ?thesis
    unfolding check_reservations_and_cancel_if_not_possible_def
    by (simp add: run_simps evse check cancel_all_held [OF inv] D(1) flip: D(2))
qed
section \<open>Loading\<close>









section \<open>Properties\<close>

text \<open>C13. The search is exact.  A set of reservations is possible if and only if there are no more of
  them than EVSEs and, wherever some of the holders of the reservations without an EVSE have already
  parked, each of the others still finds a free EVSE that is not reserved for somebody else and has
  an available connector of the type.\<close>

theorem reservation_possible_exact:
  "is_reservation_possible h t rs er \<longleftrightarrow>
     length (reserved_types t rs) + length er \<le> length (evses h) \<and> served h er (reserved_types t rs)"
  by (rule possible_iff)

text \<open>C12. The handler keeps its promise.  As long as the EVSEs do not change, whatever is requested,
  cancelled, used, loaded or expires, all reservations it holds stay possible together.\<close>

theorem promise_kept:
  assumes "rh_inv h" and "promise h" and "list_all (\<lambda>x. \<forall>es. x \<noteq> R_evses es) inputs"
  shows "promise (rh_run inputs h)"
  using kept.P_run [of h inputs] assms by simp

definition example_connector :: Connector where
  "example_connector =
     \<lparr>con_id = 1, con_transaction_active = False, con_state = CS_AVAILABLE, con_type = T_cCCS2\<rparr>"

definition example_context :: EVSEContext where
  "example_context = \<lparr>evse_evse_id = 1, evse_index = 0, evse_transaction_active = False,
     evse_identifier = None, connectors = [example_connector],
     timeout_timer = None, timeout_in_progress = None, plugged_in = False, plug_in_timeout = False\<rparr>"

definition example_rh :: rh where
  "example_rh = rh_init [(1, example_context), (2, example_context)] True (\<lambda>_. 10)"

definition example_reservation :: Reservation where
  "example_reservation = \<lparr>reservation_id = 7, res_id_token = ''a'', res_expiry_time = ''t'',
     res_parent_id_token = None, res_connector_type = Some T_cCCS2\<rparr>"

lemma example_inv: "rh_inv example_rh"
  by (simp add: example_rh_def init_inv keys_def)

lemma example_promise: "promise example_rh"
  by (rule promise_no_globals [OF example_inv]) (simp add: example_rh_def rh_init_def)

theorem promise_kept_witness:
  "promise (rh_run [R_make None example_reservation, R_make (Some 1) (example_reservation\<lparr>reservation_id := 8\<rparr>),
     R_cancel 8 True End_Cancelled] example_rh)"
  by (rule promise_kept [OF example_inv example_promise]) simp

text \<open>An accepted request keeps the promise in any case, also if the EVSEs have changed before; a
  request that is turned down leaves the reservations as they are, except that a reservation with
  the same id may be gone.\<close>

theorem accepted_is_possible:
  assumes "rh_inv h"
  shows "(if result (make_reservation e r) h = Accepted then promise (exec (make_reservation e r) h)
     else held (exec (make_reservation e r) h) \<in> {held h, held (without (reservation_id r) h)})"
  using make_outcome [OF assms, of e r] by (auto simp: outcome_def split: if_splits)

theorem accepted_is_possible_witness:
  "result (make_reservation (Some 1) example_reservation) example_rh = Accepted \<and>
   promise (exec (make_reservation (Some 1) example_reservation) example_rh)"
proof -
  have "result (make_reservation (Some 1) example_reservation) example_rh = Accepted"
    by code_simp
  with accepted_is_possible [OF example_inv, of "Some 1" example_reservation] show ?thesis
    by simp
qed

text \<open>C25. After a change of a connector, the check cancels reservations until all the rest are possible
  again, provided that every reservation without an EVSE names a connector type.\<close>

theorem check_restores_promise:
  assumes inv: "rh_inv h" and typed: "list_all (\<lambda>r. res_connector_type r \<noteq> None) (global_reservations h)"
  shows "promise (exec check_reservations_and_cancel_if_not_possible h)"
proof -
  obtain ids gs where check:
      "check_global_reservations h (evse_reservations h) (global_reservations h) ([], []) = (ids, gs)"
    by (rule prod.exhaust)
  have "is_reservation_possible h None [] (evse_reservations h)"
    using inv_length [OF inv] by (simp add: possible_iff reserved_types_def served_def)
  then have gs: "is_reservation_possible h None gs (evse_reservations h)"
    using check_global_possible [OF check typed] by simp
  obtain T where "held (exec check_reservations_and_cancel_if_not_possible h) =
      (evses h, evse_reservations h, gs, T)"
    using check_held [OF inv check] by blast
  with gs show ?thesis
    using possible_cong [of "exec check_reservations_and_cancel_if_not_possible h" h]
    by (simp add: promise_iff held_def)
qed

text \<open>A reservation without an EVSE, and then cars at all EVSEs.\<close>

definition example_plugged :: "Reservation \<Rightarrow> rh" where
  "example_plugged r = rh_run [R_make None r, R_evses [(1, example_context\<lparr>plugged_in := True\<rparr>),
     (2, example_context\<lparr>plugged_in := True\<rparr>)]] example_rh"

lemma example_plugged_inv: "rh_inv (example_plugged r)"
  unfolding example_plugged_def by (rule run_inv [OF example_inv])

theorem check_restores_promise_witness:
  "global_reservations (example_plugged example_reservation) = [example_reservation] \<and>
   \<not> promise (example_plugged example_reservation) \<and>
   promise (exec check_reservations_and_cancel_if_not_possible (example_plugged example_reservation))"
proof -
  have g: "global_reservations (example_plugged example_reservation) = [example_reservation]"
    by code_simp
  moreover have "\<not> promise (example_plugged example_reservation)"
    unfolding promise_iff by code_simp
  moreover have "promise (exec check_reservations_and_cancel_if_not_possible (example_plugged example_reservation))"
    by (rule check_restores_promise [OF example_plugged_inv])
      (simp only: g, simp add: example_reservation_def)
  ultimately show ?thesis
    by simp
qed

text \<open>But a reservation without an EVSE and without a connector type is not counted when the check
  asks whether it is possible: the first of them is kept whatever the EVSEs are, and its holder may
  find no place.\<close>

theorem untyped_reservation_not_cancelled:
  assumes inv: "rh_inv h" and r: "global_reservations h = r # rs" "res_connector_type r = None"
  shows "r \<in> set (global_reservations (exec check_reservations_and_cancel_if_not_possible h))"
proof -
  obtain ids gs where check:
      "check_global_reservations h (evse_reservations h) (global_reservations h) ([], []) = (ids, gs)"
    by (rule prod.exhaust)
  have "is_reservation_possible h None [] (evse_reservations h)"
    using inv_length [OF inv] by (simp add: possible_iff reserved_types_def served_def)
  then have "check_global_reservations h (evse_reservations h) rs ([], [r]) = (ids, gs)"
    using check r by simp
  moreover have "distinct (map reservation_id rs)"
    using inv r by (simp add: rh_inv_def held_ids_def)
  ultimately have "r \<in> set gs"
    by (auto dest: check_global_split)
  moreover obtain T where "held (exec check_reservations_and_cancel_if_not_possible h) =
      (evses h, evse_reservations h, gs, T)"
    using check_held [OF inv check] by blast
  ultimately show ?thesis
    by (simp add: held_def)
qed

theorem untyped_reservation_not_cancelled_witness:
  "let r = example_reservation\<lparr>res_connector_type := None\<rparr>;
       h = exec check_reservations_and_cancel_if_not_possible (example_plugged r)
   in r \<in> set (global_reservations h) \<and> \<not> promise h"
proof -
  let ?r = "example_reservation\<lparr>res_connector_type := None\<rparr>"
  have g: "global_reservations (example_plugged ?r) = [?r]"
    by code_simp
  have "\<not> promise (exec check_reservations_and_cancel_if_not_possible (example_plugged ?r))"
    unfolding promise_iff by code_simp
  then show ?thesis
    using untyped_reservation_not_cancelled [OF example_plugged_inv g] by simp
qed

text \<open>C32. In every run, every reservation that is held has an id of its own and exactly the ids of the
  reservations that are held have a timer; the reservations of EVSEs are ordered by the EVSE, at
  most one for each, and only for EVSEs that exist.\<close>

theorem reservations_well_formed:
  assumes "distinct (keys es)"
  shows "rh_inv (rh_run inputs (rh_init es store parse))"
  using run_inv [OF init_inv [OF assms]] .

theorem reservations_well_formed_witness:
  "rh_inv (rh_run [R_make None example_reservation, R_make (Some 1) example_reservation]
     (rh_init [(1, example_context), (2, example_context)] True (\<lambda>_. 10)))"
  by (rule reservations_well_formed) (simp add: keys_def)



lemma can_park_code [code]:
  "can_park h er i t \<longleftrightarrow> list_ex (\<lambda>(j, e). j = i \<and>
     get_evse_connector_state_reservation_result h i er = Accepted \<and>
     has_evse_connector_type (connectors e) t \<and>
     get_connector_availability_reservation_result h i t = Accepted) (evses h)"
  by (auto simp: can_park_def list_ex_iff)


text \<open>But the store is not written when the last reservation goes: a reservation that was cancelled,
  used or has expired stays stored if it was the only one, and is made again at the next start.\<close>

theorem last_reservation_stays_stored:
  assumes inv: "rh_inv h" and last: "held_ids h = [i]"
  shows "held_ids (exec (cancel_reservation i b reason) h) = [] \<and>
    stored (exec (cancel_reservation i b reason) h) = stored h"
proof -
  let ?h = "exec (cancel_reservation i b reason) h"
  have "held ?h = held (without i h)"
    using inv by (rule cancel_held)
  then have "held_ids ?h = held_ids (without i h)"
    by (simp add: held_def held_ids_def)
  then have none: "held_ids ?h = []"
    by (simp add: held_ids_without last)
  have "stored ?h = stored h \<or> stored ?h = Some (map (\<lambda>(i, r). (Some i, r)) (evse_reservations ?h) @
      map (\<lambda>r. (None, r)) (global_reservations ?h)) \<and> held_ids ?h \<noteq> []"
    by (auto simp: cancel_reservation_def run_simps Let_def exec_store held_ids_def exec_callback split: option.splits)
  with none show ?thesis
    by simp
qed

theorem last_reservation_stays_stored_witness:
  "let h = exec (cancel_reservation 7 True End_Cancelled) (rh_run [R_make None example_reservation] example_rh);
       h' = exec (load_reservations (map_option (map Some) (stored h))) example_rh
   in held_ids h = [] \<and> stored h = Some [(None, example_reservation)] \<and> held_ids h' = [7]"
proof -
  let ?h = "rh_run [R_make None example_reservation] example_rh"
  have h: "held_ids ?h = [7]" "stored ?h = Some [(None, example_reservation)]"
    by code_simp+
  have "held_ids (exec (load_reservations (map_option (map Some) (Some [(None, example_reservation)]))) example_rh) = [7]"
    by code_simp
  with last_reservation_stays_stored [OF run_inv [OF example_inv] h(1), of True End_Cancelled] h(2) show ?thesis
    by simp
qed

end
