(* ===== verification/Energy_Types.thy ===== *)
theory Energy_Types
  imports Prelude
begin

text \<open>
  The data of the energy management (\<^verbatim>\<open>types/energy.yaml\<close>, \<^verbatim>\<open>types/energy_price_information.yaml\<close>),
  without the fields that the energy manager and the energy node neither read nor copy.  Numbers of the
  type \<^verbatim>\<open>number\<close> are real numbers.  A time stamp is a string; the library that reads and writes it,
  with the table of leap seconds, is a parameter.
\<close>

record NumberWithSource =
  nvalue :: real
  nsource :: string

record IntegerWithSource =
  ivalue :: int
  isource :: string

datatype NodeType = NT_Undefined | NT_Evse | NT_Generic

datatype EnergyEvseState =
    ES_Unplugged | ES_WaitForAuth | ES_WaitForEnergy | ES_PrepareCharging | ES_PausedEV | ES_PausedEVSE
  | ES_Charging | ES_Finished | ES_Disabled

record LimitsReq =
  total_power_W :: "NumberWithSource option"
  ac_max_current_A :: "NumberWithSource option"
  ac_min_current_A :: "NumberWithSource option"
  ac_max_phase_count :: "IntegerWithSource option"
  ac_min_phase_count :: "IntegerWithSource option"
  ac_supports_changing_phases_during_charging :: "bool option"
  ac_number_of_active_phases :: "int option"

record LimitsRes =
  sold_power_W :: "NumberWithSource option"
  sold_current_A :: "NumberWithSource option"
  sold_phase_count :: "IntegerWithSource option"

record OptimizerTarget =
  energy_amount_needed :: "real option"
  charge_to_max_percent :: "real option"
  car_battery_soc :: "real option"
  leave_time :: "string option"
  price_limit :: "real option"
  full_autonomy :: "bool option"

record FrequencyWattPoint =
  frequency_Hz :: real
  point_power_W :: real

record SetpointType =
  sp_current_A :: "real option"
  sp_power_W :: "real option"
  frequency_table :: "FrequencyWattPoint list option"
  sp_priority :: int
  sp_source :: string

record PricePerkWh =
  price_timestamp :: string
  price_value :: real
  price_currency :: string

record ScheduleSetpointEntry =
  sp_timestamp :: string
  setpoint :: "SetpointType option"

record ScheduleReqEntry =
  req_timestamp :: string
  limits_to_root :: LimitsReq
  limits_to_leaves :: LimitsReq
  conversion_efficiency :: "real option"
  price_per_kwh :: "PricePerkWh option"

record ScheduleResEntry =
  res_timestamp :: string
  res_limits :: LimitsRes
  res_price_per_kwh :: "PricePerkWh option"

type_synonym ScheduleReq = "ScheduleReqEntry list"
type_synonym ScheduleRes = "ScheduleResEntry list"
type_synonym ScheduleSetpoints = "ScheduleSetpointEntry list"

text \<open>Of a measurement only the frequency of the first phase is read.\<close>

record Powermeter =
  frequency_L1 :: "real option"

record flow_node =
  uuid :: string
  node_type :: NodeType
  priority_request :: "bool option"
  evse_state :: "EnergyEvseState option"
  optimizer_target :: "OptimizerTarget option"
  energy_usage_root :: "Powermeter option"
  energy_usage_leaves :: "Powermeter option"
  schedule_import :: ScheduleReq
  schedule_export :: ScheduleReq
  schedule_setpoints :: ScheduleSetpoints

datatype EnergyFlowRequest = Flow_Request (flow: flow_node) (children: "EnergyFlowRequest list")

record EnforcedLimits =
  enf_uuid :: string
  valid_for :: int
  enf_schedule :: ScheduleRes
  limits_root_side :: LimitsRes

record ExternalLimits =
  ext_import :: ScheduleReq
  ext_export :: ScheduleReq
  ext_setpoints :: ScheduleSetpoints

record EnergyPriceSchedule =
  price_import :: "PricePerkWh list"
  price_export :: "PricePerkWh list"

text \<open>The library of dates.\<close>

record dates =
  parse_date :: "string \<Rightarrow> time"
  print_date :: "time \<Rightarrow> string"
  leap_elapsed :: "time \<Rightarrow> time"

definition empty_limits_req :: LimitsReq where
  "empty_limits_req = \<lparr>total_power_W = None, ac_max_current_A = None, ac_min_current_A = None,
     ac_max_phase_count = None, ac_min_phase_count = None,
     ac_supports_changing_phases_during_charging = None, ac_number_of_active_phases = None\<rparr>"

definition empty_limits_res :: LimitsRes where
  "empty_limits_res = \<lparr>sold_power_W = None, sold_current_A = None, sold_phase_count = None\<rparr>"

definition number :: "real \<Rightarrow> string \<Rightarrow> NumberWithSource" where
  "number v s = \<lparr>nvalue = v, nsource = s\<rparr>"

definition integer :: "int \<Rightarrow> string \<Rightarrow> IntegerWithSource" where
  "integer v s = \<lparr>ivalue = v, isource = s\<rparr>"

lemma number_sel [simp]: "nvalue (number v s) = v" "nsource (number v s) = s"
  by (simp_all add: number_def)

lemma integer_sel [simp]: "ivalue (integer v s) = v" "isource (integer v s) = s"
  by (simp_all add: integer_def)

end
