(* ===== verification/Energy_Market.thy ===== *)
theory Energy_Market
  imports Energy_Types
begin

text \<open>
  The markets and the offers of the energy manager
  (\<^verbatim>\<open>modules/EnergyManagement/EnergyManager/Market.cpp\<close>, \<^verbatim>\<open>Offer.cpp\<close>).

  The objects of the class \<^verbatim>\<open>Market\<close> form a tree with pointers to the parents.  They are kept in a
  list in the order of their construction; a pointer is an index, and every parent has a smaller index
  than its children.
\<close>

section \<open>Globals\<close>

record globals_t =
  start_time :: time
  schedule_length :: nat
  slice_ampere :: real
  slice_watt :: real
  zero_schedule_req :: ScheduleReq
  empty_schedule_req :: ScheduleReq
  empty_schedule_res :: ScheduleRes
  empty_schedule_setpoints :: ScheduleSetpoints

definition minutes :: "int \<Rightarrow> time" where
  "minutes n = milliseconds (60000 * n)"

text \<open>The operator \<^verbatim>\<open>%\<close> of durations, which truncates.\<close>

definition trunc_mod :: "int \<Rightarrow> int \<Rightarrow> int" where
  "trunc_mod a b = a - b * trunc_div a b"

fun add_timestamps :: "dates \<Rightarrow> EnergyFlowRequest \<Rightarrow> time list" where
  "add_timestamps d (Flow_Request f cs) =
     map (parse_date d \<circ> req_timestamp) (schedule_import f) @
     map (parse_date d \<circ> req_timestamp) (schedule_export f) @
     map (parse_date d \<circ> sp_timestamp) (schedule_setpoints f) @
     concat (map (add_timestamps d) cs)"

text \<open>\<^verbatim>\<open>std::unique\<close>: of equal neighbours the first one stays.\<close>

definition create_timestamps :: "dates \<Rightarrow> time \<Rightarrow> int \<Rightarrow> int \<Rightarrow> EnergyFlowRequest \<Rightarrow> time list" where
  "create_timestamps d start interval_duration slots request =
     (let start_slot = start - trunc_mod start interval_duration + leap_elapsed d start;
          regular = map (\<lambda>i. start_slot + i * interval_duration) [0..slots - 1]
      in remdups_adj (sort (regular @ add_timestamps d request)))"

definition empty_req_entry :: "string \<Rightarrow> ScheduleReqEntry" where
  "empty_req_entry t = \<lparr>req_timestamp = t, limits_to_root = empty_limits_req,
     limits_to_leaves = empty_limits_req, conversion_efficiency = None, price_per_kwh = None\<rparr>"

definition zero_req_entry :: "string \<Rightarrow> ScheduleReqEntry" where
  "zero_req_entry t = (empty_req_entry t)\<lparr>limits_to_root := empty_limits_req
     \<lparr>ac_max_current_A := Some (number 0 []), total_power_W := Some (number 0 [])\<rparr>\<rparr>"

definition globals_init ::
  "dates \<Rightarrow> time \<Rightarrow> int \<Rightarrow> int \<Rightarrow> real \<Rightarrow> real \<Rightarrow> EnergyFlowRequest \<Rightarrow> globals_t" where
  "globals_init d start interval schedule ampere watt request =
     (let interval_duration = minutes interval;
          slots = trunc_div (minutes (60 * schedule)) interval_duration;
          stamps = map (print_date d) (create_timestamps d start interval_duration slots request)
      in \<lparr>start_time = start, schedule_length = length stamps, slice_ampere = ampere, slice_watt = watt,
          zero_schedule_req = map zero_req_entry stamps,
          empty_schedule_req = map empty_req_entry stamps,
          empty_schedule_res = map (\<lambda>t. \<lparr>res_timestamp = t, res_limits = empty_limits_res,
            res_price_per_kwh = None\<rparr>) stamps,
          empty_schedule_setpoints = map (\<lambda>t. \<lparr>sp_timestamp = t, setpoint = None\<rparr>) stamps\<rparr>)"

section \<open>Limits\<close>

definition min_optional :: "('a \<Rightarrow> 'b::linorder) \<Rightarrow> 'a option \<Rightarrow> 'a option \<Rightarrow> 'a option" where
  "min_optional val a b = (case (a, b) of
     (Some x, Some y) \<Rightarrow> if val x < val y then a else b
   | (Some x, None) \<Rightarrow> a
   | _ \<Rightarrow> b)"

definition max_optional :: "('a \<Rightarrow> 'b::linorder) \<Rightarrow> 'a option \<Rightarrow> 'a option \<Rightarrow> 'a option" where
  "max_optional val a b = (case (a, b) of
     (Some x, Some y) \<Rightarrow> if val x > val y then a else b
   | (Some x, None) \<Rightarrow> a
   | _ \<Rightarrow> b)"

text \<open>The loop that finds the entry of a schedule for a time; \<open>first\<close> marks the entry \<^verbatim>\<open>request.begin()\<close>.
  None: the schedule is empty.\<close>

fun find_entry :: "('e \<Rightarrow> time) \<Rightarrow> time \<Rightarrow> bool \<Rightarrow> 'e list \<Rightarrow> 'e option" where
  "find_entry tp t first [] = None"
| "find_entry tp t first [e] = Some e"
| "find_entry tp t first (e # e' # es) =
     (if (t \<ge> tp e \<and> t < tp e') \<or> (first \<and> t < tp e) then Some e else find_entry tp t False (e' # es))"

definition resample :: "dates \<Rightarrow> globals_t \<Rightarrow> ScheduleSetpoints \<Rightarrow> ScheduleSetpoints" where
  "resample d g request = map (\<lambda>s.
     case find_entry (parse_date d \<circ> sp_timestamp) (parse_date d (sp_timestamp s)) True request of
       None \<Rightarrow> s
     | Some r \<Rightarrow> s\<lparr>setpoint := setpoint r\<rparr>) (empty_schedule_setpoints g)"

definition merge_limits :: "ScheduleReqEntry \<Rightarrow> ScheduleReqEntry \<Rightarrow> ScheduleReqEntry" where
  "merge_limits r a =
     (let root = limits_to_root r; leaves = limits_to_leaves r;
          leaves_power_W = map_option (\<lambda>n. n\<lparr>nvalue := nvalue n /
            (case conversion_efficiency r of Some e \<Rightarrow> e | None \<Rightarrow> 1)\<rparr>) (total_power_W leaves)
      in a\<lparr>limits_to_root := (limits_to_root a)\<lparr>
          total_power_W := min_optional nvalue leaves_power_W (total_power_W root),
          ac_max_current_A := min_optional nvalue (ac_max_current_A leaves) (ac_max_current_A root),
          ac_min_phase_count := max_optional ivalue (ac_min_phase_count root) (ac_min_phase_count leaves),
          ac_max_phase_count := min_optional ivalue (ac_max_phase_count root) (ac_max_phase_count leaves),
          ac_min_current_A := max_optional nvalue (ac_min_current_A root) (ac_min_current_A leaves),
          ac_number_of_active_phases := ac_number_of_active_phases root\<rparr>,
        price_per_kwh := price_per_kwh r\<rparr>)"

definition get_max_available_energy :: "dates \<Rightarrow> globals_t \<Rightarrow> ScheduleReq \<Rightarrow> ScheduleReq" where
  "get_max_available_energy d g request = map (\<lambda>a.
     case find_entry (parse_date d \<circ> req_timestamp) (parse_date d (req_timestamp a)) True request of
       None \<Rightarrow> a
     | Some r \<Rightarrow> merge_limits r a) (empty_schedule_req g)"

text \<open>The loop over the table; \<open>watt2\<close> is the power of the last entry that was looked at.\<close>

fun freq_table_loop :: "real \<Rightarrow> FrequencyWattPoint list \<Rightarrow> real \<times> real \<times> real \<Rightarrow> real \<times> real \<times> real" where
  "freq_table_loop freq [] (watt1, watt2, freq1) = (watt1, watt2, freq1)"
| "freq_table_loop freq (e # es) (watt1, watt2, freq1) =
     (if frequency_Hz e > freq then (watt1, point_power_W e, freq1)
      else freq_table_loop freq es (point_power_W e, point_power_W e, frequency_Hz e))"

definition get_watt_from_freq_table :: "FrequencyWattPoint list \<Rightarrow> real \<Rightarrow> real" where
  "get_watt_from_freq_table table freq =
     (case table of
        [] \<Rightarrow> 0
      | [e] \<Rightarrow> point_power_W e
      | e # _ \<Rightarrow> (case freq_table_loop freq table (point_power_W e, 0, 0) of
          (watt1, watt2, freq1) \<Rightarrow> watt1 + (freq - freq1) * (watt2 - watt1)))"

definition apply_limit_if_smaller :: "NumberWithSource option \<Rightarrow> real \<Rightarrow> string \<Rightarrow> NumberWithSource option" where
  "apply_limit_if_smaller base limit source =
     (case base of
        None \<Rightarrow> Some (number limit source)
      | Some b \<Rightarrow> if nvalue b > limit then Some (number limit source) else base)"

text \<open>One setpoint, on the limits for import and for export.\<close>

definition apply_watts :: "real \<Rightarrow> string \<Rightarrow> LimitsReq \<Rightarrow> LimitsReq \<Rightarrow> LimitsReq \<times> LimitsReq" where
  "apply_watts w source imp expo =
     (if w \<ge> 0 then
        (imp\<lparr>total_power_W := apply_limit_if_smaller (total_power_W imp) w source\<rparr>,
         expo\<lparr>total_power_W := Some (number 0 source)\<rparr>)
      else
        (imp\<lparr>total_power_W := Some (number 0 source)\<rparr>,
         expo\<lparr>total_power_W := apply_limit_if_smaller (total_power_W expo) (- w) source\<rparr>))"

definition apply_setpoint :: "SetpointType \<Rightarrow> real option \<Rightarrow> LimitsReq \<Rightarrow> LimitsReq \<Rightarrow> LimitsReq \<times> LimitsReq" where
  "apply_setpoint sp freq imp expo =
     (case sp_current_A sp of
        Some a \<Rightarrow>
          if a \<ge> 0 then
            (imp\<lparr>ac_max_current_A := apply_limit_if_smaller (ac_max_current_A imp) a (sp_source sp)\<rparr>,
             expo\<lparr>ac_max_current_A := Some (number 0 (sp_source sp))\<rparr>)
          else
            (imp\<lparr>ac_max_current_A := Some (number 0 (sp_source sp))\<rparr>,
             expo\<lparr>ac_max_current_A := apply_limit_if_smaller (ac_max_current_A expo) (- a) (sp_source sp)\<rparr>)
      | None \<Rightarrow> (case sp_power_W sp of
          Some w \<Rightarrow> apply_watts w (sp_source sp) imp expo
        | None \<Rightarrow> (case (frequency_table sp, freq) of
            (Some table, Some f) \<Rightarrow> apply_watts (get_watt_from_freq_table table f) (sp_source sp) imp expo
          | _ \<Rightarrow> (imp, expo))))"

fun apply_setpoints_loop :: "ScheduleReq \<Rightarrow> ScheduleReq \<Rightarrow> ScheduleSetpoints \<Rightarrow> real option \<Rightarrow> ScheduleReq \<times> ScheduleReq" where
  "apply_setpoints_loop (i # is) (e # es) (s # ss) freq =
     (let (i', e') = (case setpoint s of
            None \<Rightarrow> (i, e)
          | Some sp \<Rightarrow> (case apply_setpoint sp freq (limits_to_root i) (limits_to_root e) of
              (li, le) \<Rightarrow> (i\<lparr>limits_to_root := li\<rparr>, e\<lparr>limits_to_root := le\<rparr>)));
          (is', es') = apply_setpoints_loop is es ss freq
      in (i' # is', e' # es'))"
| "apply_setpoints_loop is es ss freq = (is, es)"

definition apply_setpoints :: "ScheduleReq \<Rightarrow> ScheduleReq \<Rightarrow> ScheduleSetpoints \<Rightarrow> real option \<Rightarrow> ScheduleReq \<times> ScheduleReq" where
  "apply_setpoints imp expo setpoints freq =
     (if length setpoints \<noteq> length imp then (imp, expo)
      else if length setpoints \<noteq> length expo then (imp, expo)
      else apply_setpoints_loop imp expo setpoints freq)"

section \<open>Markets\<close>

record market =
  energy_flow_request :: flow_node
  m_parent :: "nat option"
  nominal_ac_voltage :: real
  import_max_available :: ScheduleReq
  export_max_available :: ScheduleReq
  m_setpoints :: ScheduleSetpoints
  sold_root :: ScheduleRes

definition find_frequency :: "flow_node \<Rightarrow> real option" where
  "find_frequency f =
     (case map_option frequency_L1 (energy_usage_root f) of
        Some (Some x) \<Rightarrow> Some x
      | _ \<Rightarrow> (case map_option frequency_L1 (energy_usage_leaves f) of Some (Some x) \<Rightarrow> Some x | _ \<Rightarrow> None))"

definition new_market :: "dates \<Rightarrow> globals_t \<Rightarrow> real \<Rightarrow> nat option \<Rightarrow> flow_node \<Rightarrow> market" where
  "new_market d g voltage parent f =
     (let imp = (if schedule_import f \<noteq> [] then get_max_available_energy d g (schedule_import f)
            else zero_schedule_req g);
          expo = (if schedule_export f \<noteq> [] then get_max_available_energy d g (schedule_export f)
            else zero_schedule_req g);
          sps = (if schedule_setpoints f \<noteq> [] then resample d g (schedule_setpoints f)
            else empty_schedule_setpoints g);
          (imp', expo') = apply_setpoints imp expo sps (find_frequency f)
      in \<lparr>energy_flow_request = f, m_parent = parent, nominal_ac_voltage = voltage,
          import_max_available = imp', export_max_available = expo', m_setpoints = sps,
          sold_root = empty_schedule_res g\<rparr>)"

text \<open>The constructor: the new market is added to those that exist, then those of its children.\<close>

fun create_market :: "dates \<Rightarrow> globals_t \<Rightarrow> real \<Rightarrow> nat option \<Rightarrow> EnergyFlowRequest \<Rightarrow> market list \<Rightarrow> market list"
and create_children :: "dates \<Rightarrow> globals_t \<Rightarrow> real \<Rightarrow> nat \<Rightarrow> EnergyFlowRequest list \<Rightarrow> market list \<Rightarrow> market list" where
  "create_market d g voltage parent (Flow_Request f cs) ms =
     create_children d g voltage (length ms) cs (ms @ [new_market d g voltage parent f])"
| "create_children d g voltage this [] ms = ms"
| "create_children d g voltage this (c # cs) ms =
     create_children d g voltage this cs (create_market d g voltage (Some this) c ms)"

definition is_root :: "market list \<Rightarrow> nat \<Rightarrow> bool" where
  "is_root ms i \<longleftrightarrow> m_parent (ms ! i) = None"

text \<open>The recursion visits the markets in the order of their construction.\<close>

definition get_list_of_evses :: "market list \<Rightarrow> nat list" where
  "get_list_of_evses ms = filter (\<lambda>i. node_type (energy_flow_request (ms ! i)) = NT_Evse) [0..<length ms]"

definition sold_available :: "bool \<Rightarrow> NumberWithSource option \<Rightarrow> real" where
  "sold_available add_sold sold =
     (case sold of
        None \<Rightarrow> 0
      | Some n \<Rightarrow> let s = (if add_sold then 1 else - 1) * nvalue n in if s > 0 then 0 else s)"

definition get_available_energy :: "market \<Rightarrow> ScheduleReq \<Rightarrow> bool \<Rightarrow> ScheduleReq" where
  "get_available_energy m max_available add_sold =
     map2 (\<lambda>a s. a\<lparr>limits_to_root := (limits_to_root a)\<lparr>
       ac_max_current_A := map_option (\<lambda>n. n\<lparr>nvalue := nvalue n + sold_available add_sold (sold_current_A (res_limits s))\<rparr>)
         (ac_max_current_A (limits_to_root a)),
       total_power_W := map_option (\<lambda>n. n\<lparr>nvalue := nvalue n + sold_available add_sold (sold_power_W (res_limits s))\<rparr>)
         (total_power_W (limits_to_root a))\<rparr>\<rparr>) max_available (sold_root m)"

definition get_available_energy_import :: "market \<Rightarrow> ScheduleReq" where
  "get_available_energy_import m = get_available_energy m (import_max_available m) False"

definition get_available_energy_export :: "market \<Rightarrow> ScheduleReq" where
  "get_available_energy_export m = get_available_energy m (export_max_available m) True"

definition add_number :: "NumberWithSource option \<Rightarrow> NumberWithSource option \<Rightarrow> NumberWithSource option" where
  "add_number a b =
     (case b of
        None \<Rightarrow> a
      | Some y \<Rightarrow>
          let source = (if nvalue y \<noteq> 0 then nsource y else case a of Some x \<Rightarrow> nsource x | None \<Rightarrow> []);
              base = (case a of Some x \<Rightarrow> nvalue x | None \<Rightarrow> 0)
          in Some (number (nvalue y + base) source))"

definition add_phases :: "IntegerWithSource option \<Rightarrow> IntegerWithSource option \<Rightarrow> IntegerWithSource option" where
  "add_phases a b =
     (case b of
        None \<Rightarrow> a
      | Some y \<Rightarrow> (case a of Some x \<Rightarrow> if ivalue y > ivalue x then b else a | None \<Rightarrow> b))"

definition add_limits :: "LimitsRes \<Rightarrow> LimitsRes \<Rightarrow> LimitsRes" where
  "add_limits a b = a\<lparr>sold_current_A := add_number (sold_current_A a) (sold_current_A b),
     sold_power_W := add_number (sold_power_W a) (sold_power_W b),
     sold_phase_count := add_phases (sold_phase_count a) (sold_phase_count b)\<rparr>"

definition schedule_add :: "ScheduleRes \<Rightarrow> ScheduleRes \<Rightarrow> ScheduleRes" where
  "schedule_add a b =
     (if length a \<noteq> length b then a
      else map2 (\<lambda>x y. x\<lparr>res_limits := add_limits (res_limits x) (res_limits y)\<rparr>) a b)"

text \<open>The recursion to the root.  The test of the index is always true in a tree that was built by
  \<open>create_market\<close>.\<close>

function market_trade :: "nat \<Rightarrow> ScheduleRes \<Rightarrow> market list \<Rightarrow> market list" where
  "market_trade i traded ms =
     (let ms' = ms[i := (ms ! i)\<lparr>sold_root := schedule_add (sold_root (ms ! i)) traded\<rparr>]
      in case m_parent (ms ! i) of
        None \<Rightarrow> ms'
      | Some p \<Rightarrow> if p < i then market_trade p traded ms' else ms')"
  by pat_completeness auto
termination
  by (relation "measure fst") auto

declare market_trade.simps [simp del]

section \<open>Offers\<close>

record Offer =
  import_offer :: ScheduleReq
  export_offer :: ScheduleReq
  offer_target :: "OptimizerTarget option"

definition apply_one_limit_if_smaller ::
  "('a \<Rightarrow> 'b::linorder) \<Rightarrow> (string \<Rightarrow> 'a \<Rightarrow> 'a) \<Rightarrow> ('a \<Rightarrow> string) \<Rightarrow> 'a option \<Rightarrow> 'a option \<Rightarrow> 'a option" where
  "apply_one_limit_if_smaller val set_source source a b =
     (case b of
        None \<Rightarrow> a
      | Some y \<Rightarrow> (case a of
          None \<Rightarrow> b
        | Some x \<Rightarrow> if val x > val y then b
            else if val x = val y then Some (set_source (source x @ '','' @ source y) x) else a))"

definition apply_one_limit_if_greater ::
  "('a \<Rightarrow> 'b::linorder) \<Rightarrow> (string \<Rightarrow> 'a \<Rightarrow> 'a) \<Rightarrow> ('a \<Rightarrow> string) \<Rightarrow> 'a option \<Rightarrow> 'a option \<Rightarrow> 'a option" where
  "apply_one_limit_if_greater val set_source source a b =
     (case b of
        None \<Rightarrow> a
      | Some y \<Rightarrow> (case a of
          None \<Rightarrow> b
        | Some x \<Rightarrow> if val x < val y then b
            else if val x = val y then Some (set_source (source x @ '','' @ source y) x) else a))"

abbreviation smaller_n :: "NumberWithSource option \<Rightarrow> NumberWithSource option \<Rightarrow> NumberWithSource option" where
  "smaller_n \<equiv> apply_one_limit_if_smaller nvalue (\<lambda>s n. n\<lparr>nsource := s\<rparr>) nsource"

abbreviation smaller_i :: "IntegerWithSource option \<Rightarrow> IntegerWithSource option \<Rightarrow> IntegerWithSource option" where
  "smaller_i \<equiv> apply_one_limit_if_smaller ivalue (\<lambda>s n. n\<lparr>isource := s\<rparr>) isource"

abbreviation greater_n :: "NumberWithSource option \<Rightarrow> NumberWithSource option \<Rightarrow> NumberWithSource option" where
  "greater_n \<equiv> apply_one_limit_if_greater nvalue (\<lambda>s n. n\<lparr>nsource := s\<rparr>) nsource"

abbreviation greater_i :: "IntegerWithSource option \<Rightarrow> IntegerWithSource option \<Rightarrow> IntegerWithSource option" where
  "greater_i \<equiv> apply_one_limit_if_greater ivalue (\<lambda>s n. n\<lparr>isource := s\<rparr>) isource"

definition apply_limits_entry :: "ScheduleReqEntry \<Rightarrow> ScheduleReqEntry \<Rightarrow> ScheduleReqEntry" where
  "apply_limits_entry a b =
     (let x = limits_to_root a; y = limits_to_root b
      in a\<lparr>limits_to_root := x\<lparr>
          ac_max_current_A := smaller_n (ac_max_current_A x) (ac_max_current_A y),
          ac_max_phase_count := smaller_i (ac_max_phase_count x) (ac_max_phase_count y),
          total_power_W := smaller_n (total_power_W x) (total_power_W y),
          ac_min_phase_count := greater_i (ac_min_phase_count x) (ac_min_phase_count y),
          ac_min_current_A := greater_n (ac_min_current_A x) (ac_min_current_A y),
          ac_number_of_active_phases := ac_number_of_active_phases y\<rparr>,
        price_per_kwh := price_per_kwh b\<rparr>)"

definition apply_limits :: "ScheduleReq \<Rightarrow> ScheduleReq \<Rightarrow> ScheduleReq" where
  "apply_limits a b = (if length a \<noteq> length b then a else map2 apply_limits_entry a b)"

function create_offer_for_local_market :: "globals_t \<Rightarrow> market list \<Rightarrow> nat \<Rightarrow> Offer" where
  "create_offer_for_local_market g ms i =
     (let m = ms ! i;
          empty = \<lparr>import_offer = empty_schedule_req g, export_offer = empty_schedule_req g, offer_target = None\<rparr>;
          base = (case m_parent m of
            None \<Rightarrow> empty
          | Some p \<Rightarrow> if p < i then create_offer_for_local_market g ms p else empty)
      in \<lparr>import_offer = apply_limits (import_offer base) (get_available_energy_import m),
          export_offer = apply_limits (export_offer base) (get_available_energy_export m),
          offer_target = optimizer_target (energy_flow_request m)\<rparr>)"
  by pat_completeness auto
termination
  by (relation "measure (snd \<circ> snd)") auto

declare create_offer_for_local_market.simps [simp del]

end
