(* ===== verification/Energy_Broker.thy ===== *)
theory Energy_Broker
  imports Energy_Market
begin

text \<open>
  The brokers of the energy manager (\<^verbatim>\<open>Broker.cpp\<close>, \<^verbatim>\<open>BrokerFastCharging.cpp\<close>) and the optimizer that runs
  them (\<^verbatim>\<open>EnergyManagerImpl.cpp\<close>).

  A broker keeps an index of its market and the key of its context, which the optimizer keeps from run
  to run.  The clock does not advance during a run.
\<close>

section \<open>Data\<close>

datatype SlotType = ST_Import | ST_Export | ST_Undecided

datatype Switch1ph3phMode = SM_Never | SM_Oneway | SM_Both

datatype StickyNess = SN_SinglePhase | SN_ThreePhase | SN_DontChange

record BrokerContext =
  number_1ph3ph_cycles :: int
  last_ac_number_of_active_phases_import :: int
  ts_1ph_optimal :: time

record BrokerConfig =
  switch_1ph_3ph_mode :: Switch1ph3phMode
  stickyness :: StickyNess
  max_nr_of_switches_per_session :: int
  power_hysteresis_W :: int
  time_hysteresis_s :: int

record Broker =
  local_market :: nat
  first_trade :: "bool list"
  slot_type :: "SlotType list"
  num_phases :: "IntegerWithSource list"
  b_context :: BrokerContext
  trading :: ScheduleRes
  traded :: bool

type_synonym 'a brokerM = "(Broker, 'a) state"

definition clear_context :: "time \<Rightarrow> BrokerContext" where
  "clear_context now =
     \<lparr>number_1ph3ph_cycles = 0, last_ac_number_of_active_phases_import = 0, ts_1ph_optimal = now\<rparr>"

definition new_broker :: "globals_t \<Rightarrow> nat \<Rightarrow> BrokerContext \<Rightarrow> Broker" where
  "new_broker g m c =
     \<lparr>local_market = m, first_trade = replicate (schedule_length g) True,
      slot_type = replicate (schedule_length g) ST_Undecided,
      num_phases = replicate (schedule_length g) (integer 0 ''empty''),
      b_context = c, trading = [], traded = False\<rparr>"

section \<open>Buying\<close>

definition on_trading :: "nat \<Rightarrow> (LimitsRes \<Rightarrow> LimitsRes) \<Rightarrow> unit brokerM" where
  "on_trading i f = modify (\<lambda>b. b\<lparr>trading := (trading b)[i := (trading b ! i)
     \<lparr>res_limits := f (res_limits (trading b ! i))\<rparr>]\<rparr>)"

definition buy_ampere_unchecked :: "nat \<Rightarrow> NumberWithSource \<Rightarrow> IntegerWithSource \<Rightarrow> unit brokerM" where
  "buy_ampere_unchecked i ampere number_of_phases = do {
     on_trading i (\<lambda>l. l\<lparr>sold_current_A := Some ampere, sold_phase_count := Some number_of_phases\<rparr>);
     modify (\<lambda>b. b\<lparr>traded := True, first_trade := (first_trade b)[i := False]\<rparr>)
   }"

definition buy_watt_unchecked :: "nat \<Rightarrow> NumberWithSource \<Rightarrow> unit brokerM" where
  "buy_watt_unchecked i watt = do {
     on_trading i (\<lambda>l. l\<lparr>sold_power_W := Some watt\<rparr>);
     modify (\<lambda>b. b\<lparr>traded := True\<rparr>)
   }"

definition sign :: "bool \<Rightarrow> real" where
  "sign imp = (if imp then 1 else - 1)"

definition buy_ampere ::
  "real \<Rightarrow> ScheduleReqEntry \<Rightarrow> nat \<Rightarrow> real \<Rightarrow> bool \<Rightarrow> bool \<Rightarrow> IntegerWithSource \<Rightarrow> bool brokerM" where
  "buy_ampere voltage offer i ampere allow_less imp number_of_phases =
     (let total_power = total_power_W (limits_to_root offer);
          per_ampere = real_of_int (ivalue number_of_phases) * voltage;
          buy = (\<lambda>a source. do {
            buy_ampere_unchecked i (number (sign imp * a) source) number_of_phases;
            buy_watt_unchecked i (number (sign imp * a * per_ampere) source);
            State_Monad.return True
          })
      in case ac_max_current_A (limits_to_root offer) of
        None \<Rightarrow> State_Monad.return False
      | Some max_current \<Rightarrow>
          if nvalue max_current \<ge> ampere \<and> (\<forall>p \<in> set_option total_power. nvalue p \<ge> ampere * per_ampere)
          then (case total_power of
              Some _ \<Rightarrow> buy ampere (nsource max_current)
            | None \<Rightarrow> do {
                buy_ampere_unchecked i (number (sign imp * ampere) (nsource max_current)) number_of_phases;
                State_Monad.return True
              })
          else if allow_less \<and> nvalue max_current > 0 then
            (case total_power of
               Some p \<Rightarrow>
                 if nvalue p > 0 then
                   if nvalue p \<ge> nvalue max_current * per_ampere
                   then buy (nvalue max_current) (nsource max_current)
                   else buy (nvalue p / ivalue number_of_phases / voltage) (nsource p)
                 else State_Monad.return False
             | None \<Rightarrow> do {
                 buy_ampere_unchecked i (number (sign imp * nvalue max_current) (nsource max_current)) number_of_phases;
                 State_Monad.return True
               })
          else State_Monad.return False)"

definition buy_watt :: "ScheduleReqEntry \<Rightarrow> nat \<Rightarrow> real \<Rightarrow> bool \<Rightarrow> bool \<Rightarrow> bool brokerM" where
  "buy_watt offer i watt allow_less imp =
     (case total_power_W (limits_to_root offer) of
        None \<Rightarrow> State_Monad.return False
      | Some p \<Rightarrow>
          if nvalue p \<ge> watt then do {
            buy_watt_unchecked i (number (sign imp * watt) (nsource p));
            State_Monad.return True
          } else if allow_less \<and> nvalue p > 0 then do {
            buy_watt_unchecked i (number (sign imp * nvalue p) (nsource p));
            State_Monad.return True
          } else State_Monad.return False)"

definition buy_ampere_import ::
  "real \<Rightarrow> Offer \<Rightarrow> nat \<Rightarrow> real \<Rightarrow> bool \<Rightarrow> IntegerWithSource \<Rightarrow> bool brokerM" where
  "buy_ampere_import voltage offer i ampere allow_less phases =
     buy_ampere voltage (import_offer offer ! i) i ampere allow_less True phases"

definition buy_ampere_export ::
  "real \<Rightarrow> Offer \<Rightarrow> nat \<Rightarrow> real \<Rightarrow> bool \<Rightarrow> IntegerWithSource \<Rightarrow> bool brokerM" where
  "buy_ampere_export voltage offer i ampere allow_less phases =
     buy_ampere voltage (export_offer offer ! i) i ampere allow_less False phases"

definition buy_watt_import :: "Offer \<Rightarrow> nat \<Rightarrow> real \<Rightarrow> bool \<Rightarrow> bool brokerM" where
  "buy_watt_import offer i watt allow_less = buy_watt (import_offer offer ! i) i watt allow_less True"

definition buy_watt_export :: "Offer \<Rightarrow> nat \<Rightarrow> real \<Rightarrow> bool \<Rightarrow> bool brokerM" where
  "buy_watt_export offer i watt allow_less = buy_watt (export_offer offer ! i) i watt allow_less False"

section \<open>The broker for fast charging\<close>

text \<open>The loop of \<^verbatim>\<open>time_slot_active\<close> for a time between the first and the last entry.\<close>

fun active_slot_loop :: "time \<Rightarrow> nat \<Rightarrow> time list \<Rightarrow> nat" where
  "active_slot_loop now n (t # t' # ts) =
     (if now > t \<and> now < t' then n else active_slot_loop now (n + 1) (t' # ts))"
| "active_slot_loop now n ts = 0"

definition active_slot :: "time \<Rightarrow> time list \<Rightarrow> nat" where
  "active_slot now ts =
     (if now < hd ts then 0 else if now > last ts then length ts - 1 else active_slot_loop now 0 ts)"

definition time_slot_active :: "dates \<Rightarrow> globals_t \<Rightarrow> nat \<Rightarrow> ScheduleReq \<Rightarrow> bool" where
  "time_slot_active d g i offer \<longleftrightarrow> active_slot (start_time g) (map (parse_date d \<circ> req_timestamp) offer) = i"

definition not_zero :: "NumberWithSource option \<Rightarrow> bool" where
  "not_zero n \<longleftrightarrow> \<not> (case n of Some x \<Rightarrow> nvalue x = 0 | None \<Rightarrow> False)"

definition decide_slot :: "nat \<Rightarrow> LimitsReq \<Rightarrow> LimitsReq \<Rightarrow> unit brokerM" where
  "decide_slot i imp expo = modify (\<lambda>b.
     if slot_type b ! i = ST_Undecided then
       if not_zero (total_power_W imp) \<and> not_zero (ac_max_current_A imp)
       then b\<lparr>slot_type := (slot_type b)[i := ST_Import]\<rparr>
       else if not_zero (total_power_W expo) \<and> not_zero (ac_max_current_A expo)
       then b\<lparr>slot_type := (slot_type b)[i := ST_Export]\<rparr>
       else b
     else b)"

abbreviation three :: IntegerWithSource where
  "three \<equiv> integer 3 ''BrokerFastCharging_Fallback''"

definition or_three :: "IntegerWithSource option \<Rightarrow> IntegerWithSource" where
  "or_three n = (case n of Some x \<Rightarrow> x | None \<Rightarrow> three)"

definition active_phases :: "LimitsReq \<Rightarrow> int" where
  "active_phases l = (case ac_number_of_active_phases l of Some n \<Rightarrow> n | None \<Rightarrow> 3)"

text \<open>The number of phases of a first trade with a power limit, before and after the limits on
  switching: lines 88--97, 104--115 and 117--136.\<close>

definition optimal_phases :: "BrokerConfig \<Rightarrow> LimitsReq \<Rightarrow> NumberWithSource \<Rightarrow> real \<Rightarrow> IntegerWithSource" where
  "optimal_phases conf l watts min_power_3ph =
     (if nvalue watts < min_power_3ph
      then integer (ivalue (or_three (ac_min_phase_count l))) (nsource watts)
      else if switch_1ph_3ph_mode conf = SM_Both \<and> nvalue watts > min_power_3ph + power_hysteresis_W conf
      then or_three (ac_max_phase_count l)
      else integer (active_phases l) ''BrokerFastCharging_KeepNrOfPhases'')"

definition cycles_reached :: "BrokerConfig \<Rightarrow> BrokerContext \<Rightarrow> bool" where
  "cycles_reached conf c \<longleftrightarrow> max_nr_of_switches_per_session conf > 0 \<and>
     number_1ph3ph_cycles c > max_nr_of_switches_per_session conf"

definition sticky_phases :: "BrokerConfig \<Rightarrow> LimitsReq \<Rightarrow> IntegerWithSource" where
  "sticky_phases conf l =
     (case stickyness conf of
        SN_SinglePhase \<Rightarrow> or_three (ac_min_phase_count l)
      | SN_ThreePhase \<Rightarrow> or_three (ac_max_phase_count l)
      | SN_DontChange \<Rightarrow> integer (active_phases l) ''BrokerFastCharging_KeepNrOfPhases'')"

definition hysteresis_phases :: "globals_t \<Rightarrow> BrokerConfig \<Rightarrow> LimitsReq \<Rightarrow> bool \<Rightarrow> IntegerWithSource \<Rightarrow> IntegerWithSource brokerM" where
  "hysteresis_phases g conf l slot_active n = do {
     c \<leftarrow> gets b_context;
     let stable_3ph = count_s (start_time g - ts_1ph_optimal c);
     State_Monad.return
       (if time_hysteresis_s conf > 0 \<and> slot_active \<and> stable_3ph < time_hysteresis_s conf \<and>
           ivalue n = ivalue (or_three (ac_max_phase_count l))
        then or_three (ac_min_phase_count l) else n)
   }"

definition min_power_3ph :: "real \<Rightarrow> LimitsReq \<Rightarrow> real" where
  "min_power_3ph voltage l =
     (case ac_min_current_A l of
        Some m \<Rightarrow> nvalue m * ivalue (or_three (ac_max_phase_count l)) * voltage
      | None \<Rightarrow> 0)"

text \<open>Returns the number of phases and whether the limit of switching cycles is reached.\<close>

definition first_trade_phases ::
  "globals_t \<Rightarrow> BrokerConfig \<Rightarrow> time \<Rightarrow> real \<Rightarrow> LimitsReq \<Rightarrow> bool \<Rightarrow> (IntegerWithSource \<times> bool) brokerM" where
  "first_trade_phases g conf now voltage l slot_active =
     (case total_power_W l of
        Some watts \<Rightarrow>
          if switch_1ph_3ph_mode conf \<noteq> SM_Never \<and> min_power_3ph voltage l > 0 then do {
            c \<leftarrow> gets b_context;
            let reached = cycles_reached conf c;
            let n = (if reached then sticky_phases conf l
                     else optimal_phases conf l watts (min_power_3ph voltage l));
            do_if (ivalue n = ivalue (or_three (ac_min_phase_count l)) \<and> slot_active)
              (modify (\<lambda>b. b\<lparr>b_context := (b_context b)\<lparr>ts_1ph_optimal := now\<rparr>\<rparr>));
            n' \<leftarrow> hysteresis_phases g conf l slot_active n;
            State_Monad.return (n', reached)
          } else State_Monad.return (or_three (ac_max_phase_count l), False)
      | None \<Rightarrow> State_Monad.return (or_three (ac_max_phase_count l), False))"

definition store_decision :: "LimitsReq \<Rightarrow> unit brokerM" where
  "store_decision l = modify (\<lambda>b. let c = b_context b in
     b\<lparr>b_context := c\<lparr>
       number_1ph3ph_cycles := number_1ph3ph_cycles c +
         (if active_phases l \<noteq> last_ac_number_of_active_phases_import c then 1 else 0),
       last_ac_number_of_active_phases_import := active_phases l\<rparr>\<rparr>)"

definition positive :: "NumberWithSource option \<Rightarrow> real option" where
  "positive n = (case n of Some x \<Rightarrow> if nvalue x > 0 then Some (nvalue x) else None | None \<Rightarrow> None)"

definition import_ampere ::
  "globals_t \<Rightarrow> BrokerConfig \<Rightarrow> time \<Rightarrow> real \<Rightarrow> Offer \<Rightarrow> nat \<Rightarrow> bool \<Rightarrow> unit brokerM" where
  "import_ampere g conf now voltage offer i slot_active = do {
     let l = limits_to_root (import_offer offer ! i);
     first \<leftarrow> gets (\<lambda>b. first_trade b ! i);
     decision \<leftarrow> (if first then first_trade_phases g conf now voltage l slot_active
       else State_Monad.return (integer (active_phases l) ''BrokerFastCharging_Default'', False));
     store_decision l;
     (case (if first then positive (ac_min_current_A l) else None) of
        Some m \<Rightarrow> do {
          modify (\<lambda>b. b\<lparr>num_phases := (num_phases b)[i := fst decision]\<rparr>);
          ok \<leftarrow> buy_ampere_import voltage offer i m False (fst decision);
          do_if (\<not> ok \<and> switch_1ph_3ph_mode conf \<noteq> SM_Never \<and> \<not> snd decision) (do {
            let one = integer 1 ''BrokerFastCharging_Buy3phFailed'';
            modify (\<lambda>b. b\<lparr>num_phases := (num_phases b)[i := one]\<rparr>);
            _ \<leftarrow> buy_ampere_import voltage offer i m False one;
            skip
          })
        }
      | None \<Rightarrow> do {
          n \<leftarrow> gets (\<lambda>b. num_phases b ! i);
          _ \<leftarrow> buy_ampere_import voltage offer i (slice_ampere g) True n;
          skip
        })
   }"

definition export_ampere :: "globals_t \<Rightarrow> real \<Rightarrow> Offer \<Rightarrow> nat \<Rightarrow> unit brokerM" where
  "export_ampere g voltage offer i = do {
     let l = limits_to_root (export_offer offer ! i);
     let fixed = integer 3 ''BrokerFastCharging_FixedValue'';
     first \<leftarrow> gets (\<lambda>b. first_trade b ! i);
     _ \<leftarrow> (case (if first then positive (ac_min_current_A l) else None) of
        Some m \<Rightarrow> buy_ampere_export voltage offer i m False fixed
      | None \<Rightarrow> buy_ampere_export voltage offer i (slice_ampere g) True fixed);
     skip
   }"

text \<open>One time slot.\<close>

definition trade_slot :: "dates \<Rightarrow> globals_t \<Rightarrow> BrokerConfig \<Rightarrow> time \<Rightarrow> real \<Rightarrow> Offer \<Rightarrow> nat \<Rightarrow> unit brokerM" where
  "trade_slot d g conf now voltage offer i = do {
     let imp = limits_to_root (import_offer offer ! i);
     let expo = limits_to_root (export_offer offer ! i);
     decide_slot i imp expo;
     modify (\<lambda>b. if ivalue (num_phases b ! i) = 0
       then b\<lparr>num_phases := (num_phases b)[i := integer (active_phases imp) ''BrokerFastCharging_NumPhasesActive'']\<rparr>
       else b);
     slot \<leftarrow> gets (\<lambda>b. slot_type b ! i);
     (case slot of
        ST_Import \<Rightarrow>
          if ac_max_current_A imp \<noteq> None
          then import_ampere g conf now voltage offer i (time_slot_active d g i (import_offer offer))
          else do_if (total_power_W imp \<noteq> None) (do {
            _ \<leftarrow> buy_watt_import offer i (slice_watt g) True;
            skip
          })
      | ST_Export \<Rightarrow>
          if ac_max_current_A expo \<noteq> None then export_ampere g voltage offer i
          else do_if (total_power_W expo \<noteq> None) (do {
            _ \<leftarrow> buy_watt_export offer i (slice_watt g) True;
            skip
          })
      | ST_Undecided \<Rightarrow> skip)
   }"

definition tradeImpl :: "dates \<Rightarrow> globals_t \<Rightarrow> BrokerConfig \<Rightarrow> time \<Rightarrow> real \<Rightarrow> Offer \<Rightarrow> unit brokerM" where
  "tradeImpl d g conf now voltage offer =
     for_each [0..<schedule_length g] (trade_slot d g conf now voltage offer)"

definition zero_trading :: "globals_t \<Rightarrow> Offer \<Rightarrow> ScheduleRes" where
  "zero_trading g offer = map2 (\<lambda>t entry. let l = limits_to_root entry in t\<lparr>res_limits := (res_limits t)\<lparr>
     sold_current_A := (if ac_max_current_A l \<noteq> None then Some (number 0 []) else sold_current_A (res_limits t)),
     sold_power_W := (if total_power_W l \<noteq> None then Some (number 0 []) else sold_power_W (res_limits t))\<rparr>\<rparr>)
     (empty_schedule_res g) (import_offer offer)"

text \<open>The broker part of \<^verbatim>\<open>Broker::trade\<close>: what is to be traded on the market, None if nothing is.\<close>

definition broker_trade ::
  "dates \<Rightarrow> globals_t \<Rightarrow> BrokerConfig \<Rightarrow> time \<Rightarrow> real \<Rightarrow> Offer \<Rightarrow> Broker \<Rightarrow> ScheduleRes option \<times> Broker" where
  "broker_trade d g conf now voltage offer b =
     (let b0 = b\<lparr>trading := zero_trading g offer, traded := False\<rparr>
      in if length (import_offer offer) \<noteq> length (export_offer offer) then (None, b0)
         else let b1 = exec (tradeImpl d g conf now voltage offer) b0 in (Some (trading b1), b1))"

section \<open>The optimizer\<close>

record EnergyManagerConfig =
  em_nominal_ac_voltage :: real
  update_interval :: int
  schedule_interval_duration :: int
  schedule_total_duration :: int
  em_slice_ampere :: real
  em_slice_watt :: real
  switch_3ph1ph_while_charging_mode :: string
  switch_3ph1ph_max_nr_of_switches_per_session :: int
  switch_3ph1ph_switch_limit_stickyness :: string
  switch_3ph1ph_power_hysteresis_W :: int
  switch_3ph1ph_time_hysteresis_s :: int

definition to_switch_1ph3ph_mode :: "string \<Rightarrow> Switch1ph3phMode" where
  "to_switch_1ph3ph_mode m =
     (if m = ''Both'' then SM_Both else if m = ''Oneway'' then SM_Oneway else SM_Never)"

definition to_stickyness :: "string \<Rightarrow> StickyNess" where
  "to_stickyness m =
     (if m = ''DontChange'' then SN_DontChange else if m = ''SinglePhase'' then SN_SinglePhase
      else SN_ThreePhase)"

definition to_broker_fast_charging_config :: "EnergyManagerConfig \<Rightarrow> BrokerConfig" where
  "to_broker_fast_charging_config c =
     \<lparr>switch_1ph_3ph_mode = to_switch_1ph3ph_mode (switch_3ph1ph_while_charging_mode c),
      stickyness = to_stickyness (switch_3ph1ph_switch_limit_stickyness c),
      max_nr_of_switches_per_session = switch_3ph1ph_max_nr_of_switches_per_session c,
      power_hysteresis_W = switch_3ph1ph_power_hysteresis_W c,
      time_hysteresis_s = switch_3ph1ph_time_hysteresis_s c\<rparr>"

fun is_priority_request :: "EnergyFlowRequest \<Rightarrow> bool" where
  "is_priority_request (Flow_Request f cs) \<longleftrightarrow>
     priority_request f = Some True \<or> list_ex is_priority_request cs"

text \<open>A run: the markets, the brokers, and the contexts by the uuid of the EVSE.\<close>

record optimizer =
  markets :: "market list"
  brokers :: "Broker list"
  contexts :: "string \<Rightarrow> BrokerContext option"

type_synonym 'a runM = "(optimizer, 'a) state"

definition get_context :: "time \<Rightarrow> string \<Rightarrow> optimizer \<Rightarrow> BrokerContext" where
  "get_context now u s = (case contexts s u of Some c \<Rightarrow> c | None \<Rightarrow> clear_context now)"

definition create_broker :: "EnergyManagerConfig \<Rightarrow> globals_t \<Rightarrow> time \<Rightarrow> nat \<Rightarrow> unit runM" where
  "create_broker conf g now i = do {
     f \<leftarrow> gets (\<lambda>s. energy_flow_request (markets s ! i));
     do_if (evse_state f = Some ES_Unplugged \<or> evse_state f = Some ES_Finished)
       (modify (\<lambda>s. s\<lparr>contexts := (contexts s)(uuid f \<mapsto> (clear_context now)
         \<lparr>ts_1ph_optimal := start_time g - milliseconds (1000 * switch_3ph1ph_time_hysteresis_s conf)\<rparr>)\<rparr>));
     modify (\<lambda>s. s\<lparr>contexts := (contexts s)(uuid f \<mapsto> get_context now (uuid f) s),
       brokers := brokers s @ [new_broker g i (get_context now (uuid f) s)]\<rparr>)
   }"

text \<open>The turn of the broker \<open>k\<close>: it works on the context that the brokers of its EVSE share.  True if
  something was traded.\<close>

definition broker_turn :: "dates \<Rightarrow> EnergyManagerConfig \<Rightarrow> globals_t \<Rightarrow> time \<Rightarrow> nat \<Rightarrow> bool runM" where
  "broker_turn d conf g now k = do {
     s \<leftarrow> State_Monad.get;
     let b = brokers s ! k;
     let m = markets s ! local_market b;
     let u = uuid (energy_flow_request m);
     let offer = create_offer_for_local_market g (markets s) (local_market b);
     let (trade, b') = broker_trade d g (to_broker_fast_charging_config conf) now (nominal_ac_voltage m) offer
       (b\<lparr>b_context := get_context now u s\<rparr>);
     modify (\<lambda>s. s\<lparr>brokers := (brokers s)[k := b'], contexts := (contexts s)(u \<mapsto> b_context b')\<rparr>);
     (case trade of
        None \<Rightarrow> State_Monad.return False
      | Some t \<Rightarrow> do {
          modify (\<lambda>s. s\<lparr>markets := market_trade (local_market b) t (markets s)\<rparr>);
          State_Monad.return (traded b')
        })
   }"

fun trading_round :: "dates \<Rightarrow> EnergyManagerConfig \<Rightarrow> globals_t \<Rightarrow> time \<Rightarrow> nat list \<Rightarrow> bool runM" where
  "trading_round d conf g now [] = State_Monad.return False"
| "trading_round d conf g now (k # ks) = do {
     t \<leftarrow> broker_turn d conf g now k;
     t' \<leftarrow> trading_round d conf g now ks;
     State_Monad.return (t \<or> t')
   }"

text \<open>The loop of at most \<open>n\<close> rounds.  True if it ended in a round without a trade.\<close>

fun trading_rounds :: "dates \<Rightarrow> EnergyManagerConfig \<Rightarrow> globals_t \<Rightarrow> time \<Rightarrow> nat \<Rightarrow> bool runM" where
  "trading_rounds d conf g now 0 = State_Monad.return False"
| "trading_rounds d conf g now (Suc n) = do {
     bs \<leftarrow> gets brokers;
     t \<leftarrow> trading_round d conf g now [0..<length bs];
     (if t then trading_rounds d conf g now n else State_Monad.return True)
   }"

definition select_limits :: "dates \<Rightarrow> time \<Rightarrow> ScheduleRes \<Rightarrow> LimitsRes" where
  "select_limits d start sold =
     (case takeWhile (\<lambda>s. \<not> start < parse_date d (res_timestamp s)) sold of
        [] \<Rightarrow> res_limits (hd sold)
      | ss \<Rightarrow> res_limits (last ss))"

definition enforced_limits :: "dates \<Rightarrow> EnergyManagerConfig \<Rightarrow> globals_t \<Rightarrow> market \<Rightarrow> EnforcedLimits list" where
  "enforced_limits d conf g m =
     (if sold_root m = [] then []
      else [\<lparr>enf_uuid = uuid (energy_flow_request m), valid_for = update_interval conf * 10,
        enf_schedule = sold_root m, limits_root_side = select_limits d (start_time g) (sold_root m)\<rparr>])"

definition start_run :: "dates \<Rightarrow> EnergyManagerConfig \<Rightarrow> globals_t \<Rightarrow> time \<Rightarrow> EnergyFlowRequest \<Rightarrow>
    (string \<Rightarrow> BrokerContext option) \<Rightarrow> optimizer" where
  "start_run d conf g now request cs =
     (let ms = create_market d g (em_nominal_ac_voltage conf) None request []
      in exec (for_each (get_list_of_evses ms) (create_broker conf g now))
        \<lparr>markets = ms, brokers = [], contexts = cs\<rparr>)"

definition config_globals :: "dates \<Rightarrow> EnergyManagerConfig \<Rightarrow> time \<Rightarrow> EnergyFlowRequest \<Rightarrow> globals_t" where
  "config_globals d conf start request = globals_init d start (schedule_interval_duration conf)
     (schedule_total_duration conf) (em_slice_ampere conf) (em_slice_watt conf) request"

definition optimizer_end :: "dates \<Rightarrow> EnergyManagerConfig \<Rightarrow> time \<Rightarrow> EnergyFlowRequest \<Rightarrow> time \<Rightarrow>
    (string \<Rightarrow> BrokerContext option) \<Rightarrow> bool \<times> optimizer" where
  "optimizer_end d conf now request start cs =
     (let g = config_globals d conf start request
      in run_state (trading_rounds d conf g now 100) (start_run d conf g now request cs))"

definition run_optimizer :: "dates \<Rightarrow> EnergyManagerConfig \<Rightarrow> time \<Rightarrow> EnergyFlowRequest \<Rightarrow> time \<Rightarrow>
    (string \<Rightarrow> BrokerContext option) \<Rightarrow> EnforcedLimits list \<times> (string \<Rightarrow> BrokerContext option)" where
  "run_optimizer d conf now request start cs =
     (let g = config_globals d conf start request;
          s = snd (optimizer_end d conf now request start cs)
      in (concat (map (\<lambda>b. enforced_limits d conf g (markets s ! local_market b)) (brokers s)), contexts s))"

section \<open>The module\<close>

text \<open>The request that came last, the contexts, whether the main loop waits for its condition variable, and
  the limits that were sent to the tree.\<close>

record energy_manager =
  mgr_request :: EnergyFlowRequest
  mgr_contexts :: "string \<Rightarrow> BrokerContext option"
  mgr_waiting :: bool
  mgr_enforced :: "EnforcedLimits list"

definition on_energy_flow_request :: "EnergyFlowRequest \<Rightarrow> energy_manager \<Rightarrow> energy_manager" where
  "on_energy_flow_request e m =
     m\<lparr>mgr_request := e, mgr_waiting := (if is_priority_request e then False else mgr_waiting m)\<rparr>"

text \<open>One pass of the main loop, up to the wait.\<close>

definition mainloop_pass :: "dates \<Rightarrow> EnergyManagerConfig \<Rightarrow> time \<Rightarrow> energy_manager \<Rightarrow> energy_manager" where
  "mainloop_pass d conf now m =
     (case run_optimizer d conf now (mgr_request m) now (mgr_contexts m) of
        (limits, cs) \<Rightarrow> m\<lparr>mgr_contexts := cs, mgr_waiting := True, mgr_enforced := mgr_enforced m @ limits\<rparr>)"

datatype manager_input =
    M_request EnergyFlowRequest
  | M_timeout
  | M_loop time

fun manager_handle :: "dates \<Rightarrow> EnergyManagerConfig \<Rightarrow> manager_input \<Rightarrow> energy_manager \<Rightarrow> energy_manager" where
  "manager_handle d conf (M_request e) m = on_energy_flow_request e m"
| "manager_handle d conf M_timeout m = m\<lparr>mgr_waiting := False\<rparr>"
| "manager_handle d conf (M_loop now) m = (if mgr_waiting m then m else mainloop_pass d conf now m)"

end
