(* ===== verification/Energy_Laws.thy ===== *)
theory Energy_Laws
  imports Energy_Broker
begin

text \<open>
  The trade of energy keeps within the limits: a broker buys no more than it is offered, an offer is no
  more than what is left at any market on the way to the root, and a trade is charged at all of them.
\<close>

section \<open>Values\<close>

definition val :: "NumberWithSource option \<Rightarrow> real" where
  "val n = (case n of Some x \<Rightarrow> nvalue x | None \<Rightarrow> 0)"

lemma val_simps [simp]: "val None = 0" "val (Some n) = nvalue n"
  by (simp_all add: val_def)

lemma val_add_number: "val (add_number a b) = val a + val b"
  by (simp add: val_def add_number_def Let_def split: option.split)

lemma sold_available_eq: "sold_available False n = - max 0 (val n)" "sold_available True n = min 0 (val n)"
  by (auto simp: sold_available_def val_def Let_def split: option.splits)

abbreviation amps :: "ScheduleReq \<Rightarrow> nat \<Rightarrow> NumberWithSource option" where
  "amps sched t \<equiv> ac_max_current_A (limits_to_root (sched ! t))"

abbreviation watts :: "ScheduleReq \<Rightarrow> nat \<Rightarrow> NumberWithSource option" where
  "watts sched t \<equiv> total_power_W (limits_to_root (sched ! t))"

definition sold_amps :: "ScheduleRes \<Rightarrow> nat \<Rightarrow> real" where
  "sold_amps sched t = val (sold_current_A (res_limits (sched ! t)))"

definition sold_watts :: "ScheduleRes \<Rightarrow> nat \<Rightarrow> real" where
  "sold_watts sched t = val (sold_power_W (res_limits (sched ! t)))"

lemma length_schedule_add [simp]: "length (schedule_add a b) = length a"
  by (simp add: schedule_add_def)

lemma sold_schedule_add:
  "length a = length b \<Longrightarrow> t < length a \<Longrightarrow> sold_amps (schedule_add a b) t = sold_amps a t + sold_amps b t"
  "length a = length b \<Longrightarrow> t < length a \<Longrightarrow> sold_watts (schedule_add a b) t = sold_watts a t + sold_watts b t"
  by (simp_all add: sold_amps_def sold_watts_def schedule_add_def add_limits_def val_add_number)

section \<open>The way to the root\<close>

function ancestors :: "market list \<Rightarrow> nat \<Rightarrow> nat list" where
  "ancestors ms i = i # (case m_parent (ms ! i) of
     None \<Rightarrow> []
   | Some p \<Rightarrow> if p < i then ancestors ms p else [])"
  by pat_completeness auto
termination
  by (relation "measure snd") auto

declare ancestors.simps [simp del]

lemma ancestors_le: "j \<in> set (ancestors ms i) \<Longrightarrow> j \<le> i"
proof (induction ms i rule: ancestors.induct)
  case (1 ms i)
  then show ?case
    by (subst (asm) (2) ancestors.simps) (force split: option.splits if_splits)
qed

lemma self_ancestor: "i \<in> set (ancestors ms i)"
  by (subst ancestors.simps) simp

text \<open>The parts of a market that a trade does not change.\<close>

definition same_tree :: "market list \<Rightarrow> market list \<Rightarrow> bool" where
  "same_tree ms ms' \<longleftrightarrow> map (\<lambda>m. m\<lparr>sold_root := []\<rparr>) ms = map (\<lambda>m. m\<lparr>sold_root := []\<rparr>) ms'"

lemma same_tree_length: "same_tree ms ms' \<Longrightarrow> length ms' = length ms"
  unfolding same_tree_def using map_eq_imp_length_eq by force

lemma same_tree_nth:
  assumes "same_tree ms ms'" and "i < length ms"
  shows "m_parent (ms' ! i) = m_parent (ms ! i) \<and> import_max_available (ms' ! i) = import_max_available (ms ! i) \<and>
    export_max_available (ms' ! i) = export_max_available (ms ! i) \<and>
    energy_flow_request (ms' ! i) = energy_flow_request (ms ! i) \<and>
    nominal_ac_voltage (ms' ! i) = nominal_ac_voltage (ms ! i)"
proof -
  have "(ms ! i)\<lparr>sold_root := []\<rparr> = (ms' ! i)\<lparr>sold_root := []\<rparr>"
    using assms same_tree_length [OF assms(1)] unfolding same_tree_def by (metis nth_map)
  then show ?thesis
    by (cases "ms ! i"; cases "ms' ! i") simp
qed

lemma same_tree_refl: "same_tree ms ms"
  by (simp add: same_tree_def)

lemma same_tree_trans: "same_tree a b \<Longrightarrow> same_tree b c \<Longrightarrow> same_tree a c"
  by (simp add: same_tree_def)

lemma same_tree_update: "i < length ms \<Longrightarrow> same_tree ms (ms[i := (ms ! i)\<lparr>sold_root := x\<rparr>])"
  unfolding same_tree_def by (intro nth_equalityI) (simp_all add: nth_list_update)

lemma ancestors_same: "same_tree ms ms' \<Longrightarrow> i < length ms \<Longrightarrow> ancestors ms' i = ancestors ms i"
proof (induction ms i rule: ancestors.induct)
  case (1 ms i)
  then show ?case
    using same_tree_nth [OF 1(2,3)]
    by (subst (1 2) ancestors.simps) (auto split: option.splits)
qed

lemma market_trade_tree: "i < length ms \<Longrightarrow> same_tree ms (market_trade i t ms)"
proof (induction i t ms rule: market_trade.induct)
  case (1 i t ms)
  let ?ms = "ms[i := (ms ! i)\<lparr>sold_root := schedule_add (sold_root (ms ! i)) t\<rparr>]"
  have u: "same_tree ms ?ms"
    by (rule same_tree_update [OF 1(2)])
  show ?case
  proof (cases "m_parent (ms ! i)")
    case None
    then show ?thesis
      using u by (subst market_trade.simps) (simp add: Let_def)
  next
    case (Some p)
    then show ?thesis
      using u 1(1) [OF refl Some] 1(2) same_tree_trans [OF u]
      by (subst market_trade.simps) (auto simp: Let_def)
  qed
qed

lemma market_trade_sold:
  assumes "i < length ms" and "j < length ms"
  shows "sold_root (market_trade i t ms ! j) =
    (if j \<in> set (ancestors ms i) then schedule_add (sold_root (ms ! j)) t else sold_root (ms ! j))"
  using assms
proof (induction i t ms rule: market_trade.induct)
  case (1 i t ms)
  let ?ms = "ms[i := (ms ! i)\<lparr>sold_root := schedule_add (sold_root (ms ! i)) t\<rparr>]"
  have here: "sold_root (?ms ! j) = (if j = i then schedule_add (sold_root (ms ! j)) t else sold_root (ms ! j))"
    using 1(3) by (simp add: nth_list_update)
  show ?case
  proof (cases "\<exists>p. m_parent (ms ! i) = Some p \<and> p < i")
    case False
    then show ?thesis
      using here by (subst market_trade.simps, subst ancestors.simps) (auto simp: Let_def split: option.splits)
  next
    case True
    then obtain p where p: "m_parent (ms ! i) = Some p" "p < i" by blast
    have "ancestors ?ms p = ancestors ms p"
      using ancestors_same [OF same_tree_update [OF 1(2)]] p(2) 1(2) by simp
    moreover have "i \<notin> set (ancestors ms p)"
      using ancestors_le p(2) by fastforce
    moreover have "sold_root (market_trade p t ?ms ! j) =
        (if j \<in> set (ancestors ?ms p) then schedule_add (sold_root (?ms ! j)) t else sold_root (?ms ! j))"
      using 1 p by simp
    ultimately show ?thesis
      using here p by (subst market_trade.simps, subst ancestors.simps) (auto simp: Let_def)
  qed
qed

section \<open>Offers\<close>

text \<open>A limit \<open>a\<close> is at least as strict as \<open>b\<close>; None is no limit.\<close>

definition stricter :: "NumberWithSource option \<Rightarrow> NumberWithSource option \<Rightarrow> bool" where
  "stricter a b \<longleftrightarrow> (\<forall>y. b = Some y \<longrightarrow> (\<exists>x. a = Some x \<and> nvalue x \<le> nvalue y))"

lemma stricter_refl: "stricter a a"
  by (auto simp: stricter_def)

lemma stricter_trans: "stricter a b \<Longrightarrow> stricter b c \<Longrightarrow> stricter a c"
  by (cases a; cases b; cases c) (auto simp: stricter_def)

lemma smaller_stricter: "stricter (smaller_n a b) a" "stricter (smaller_n a b) b"
  by (auto simp: stricter_def apply_one_limit_if_smaller_def split: option.splits)

definition schedules_ok :: "globals_t \<Rightarrow> market list \<Rightarrow> bool" where
  "schedules_ok g ms \<longleftrightarrow> length (empty_schedule_req g) = schedule_length g \<and>
     length (empty_schedule_res g) = schedule_length g \<and>
     (\<forall>r \<in> set (empty_schedule_res g). res_limits r = empty_limits_res) \<and>
     (\<forall>m \<in> set ms. length (import_max_available m) = schedule_length g \<and>
        length (export_max_available m) = schedule_length g \<and> length (sold_root m) = schedule_length g)"

definition inside :: "ScheduleReq \<Rightarrow> ScheduleReq \<Rightarrow> bool" where
  "inside a b \<longleftrightarrow> length a = length b \<and>
     (\<forall>t < length a. stricter (amps a t) (amps b t) \<and> stricter (watts a t) (watts b t))"

lemma inside_trans: "inside a b \<Longrightarrow> inside b c \<Longrightarrow> inside a c"
  using stricter_trans [of "amps a t" "amps b t" "amps c t" for t]
    stricter_trans [of "watts a t" "watts b t" "watts c t" for t]
  by (simp add: inside_def)

lemma inside_apply_limits:
  assumes "length a = length b"
  shows "inside (apply_limits a b) a" "inside (apply_limits a b) b"
  using assms by (auto simp: inside_def apply_limits_def apply_limits_entry_def Let_def smaller_stricter)

lemma length_available [simp]:
  "length (get_available_energy m a x) = min (length a) (length (sold_root m))"
  by (simp add: get_available_energy_def)

lemma offer_step:
  assumes "schedules_ok g ms" and "i < length ms"
    and "\<And>p. m_parent (ms ! i) = Some p \<Longrightarrow> p < i \<Longrightarrow>
      length (import_offer (create_offer_for_local_market g ms p)) = schedule_length g \<and>
      length (export_offer (create_offer_for_local_market g ms p)) = schedule_length g"
  shows "inside (import_offer (create_offer_for_local_market g ms i)) (get_available_energy_import (ms ! i)) \<and>
    inside (export_offer (create_offer_for_local_market g ms i)) (get_available_energy_export (ms ! i)) \<and>
    (\<forall>p. m_parent (ms ! i) = Some p \<longrightarrow> p < i \<longrightarrow>
      inside (import_offer (create_offer_for_local_market g ms i)) (import_offer (create_offer_for_local_market g ms p)) \<and>
      inside (export_offer (create_offer_for_local_market g ms i)) (export_offer (create_offer_for_local_market g ms p)))"
proof -
  have l: "length (get_available_energy_import (ms ! i)) = schedule_length g"
    "length (get_available_energy_export (ms ! i)) = schedule_length g" "length (empty_schedule_req g) = schedule_length g"
    using assms(1,2) by (auto simp: schedules_ok_def get_available_energy_import_def get_available_energy_export_def)
  show ?thesis
    using l assms(3)
    by (subst (1 2 3 5) create_offer_for_local_market.simps)
       (auto simp: Let_def intro!: inside_apply_limits split: option.split)
qed

lemma offer_length:
  assumes "schedules_ok g ms" and "i < length ms"
  shows "length (import_offer (create_offer_for_local_market g ms i)) = schedule_length g \<and>
    length (export_offer (create_offer_for_local_market g ms i)) = schedule_length g"
  using assms
proof (induction i rule: less_induct)
  case (less i)
  have "length (get_available_energy_import (ms ! i)) = schedule_length g"
    "length (get_available_energy_export (ms ! i)) = schedule_length g"
    using less(2,3) by (auto simp: schedules_ok_def get_available_energy_import_def get_available_energy_export_def)
  then show ?case
    using offer_step [OF less(2,3)] less by (auto simp: inside_def)
qed

lemma offer_within:
  assumes "schedules_ok g ms" and "i < length ms" and "j \<in> set (ancestors ms i)"
  shows "inside (import_offer (create_offer_for_local_market g ms i)) (get_available_energy_import (ms ! j)) \<and>
    inside (export_offer (create_offer_for_local_market g ms i)) (get_available_energy_export (ms ! j))"
  using assms
proof (induction i rule: less_induct)
  case (less i)
  have step: "inside (import_offer (create_offer_for_local_market g ms i)) (get_available_energy_import (ms ! i)) \<and>
    inside (export_offer (create_offer_for_local_market g ms i)) (get_available_energy_export (ms ! i)) \<and>
    (\<forall>p. m_parent (ms ! i) = Some p \<longrightarrow> p < i \<longrightarrow>
      inside (import_offer (create_offer_for_local_market g ms i)) (import_offer (create_offer_for_local_market g ms p)) \<and>
      inside (export_offer (create_offer_for_local_market g ms i)) (export_offer (create_offer_for_local_market g ms p)))"
    by (rule offer_step [OF less(2,3)]) (use offer_length [OF less(2)] less(3) in auto)
  show ?case
  proof (cases "j = i")
    case True
    then show ?thesis using step by simp
  next
    case False
    then obtain p where p: "m_parent (ms ! i) = Some p" "p < i" "j \<in> set (ancestors ms p)"
      using less(4) by (cases "m_parent (ms ! i)") (auto simp: ancestors.simps [of ms i] split: if_splits)
    then show ?thesis
      using step less(1) [OF p(2) less(2) _ p(3)] less(3) by (auto intro: inside_trans)
  qed
qed

section \<open>What a broker buys\<close>

definition fair_amps :: "Offer \<Rightarrow> nat \<Rightarrow> real \<Rightarrow> bool" where
  "fair_amps offer t a \<longleftrightarrow>
     (0 < a \<longrightarrow> (\<exists>x. amps (import_offer offer) t = Some x \<and> a \<le> nvalue x)) \<and>
     (a < 0 \<longrightarrow> (\<exists>x. amps (export_offer offer) t = Some x \<and> - a \<le> nvalue x))"

definition fair_watts :: "Offer \<Rightarrow> nat \<Rightarrow> real \<Rightarrow> bool" where
  "fair_watts offer t w \<longleftrightarrow> (0 < w \<longrightarrow> (\<exists>x. watts (import_offer offer) t = Some x \<and> w \<le> nvalue x))"

definition fair :: "Offer \<Rightarrow> Broker \<Rightarrow> bool" where
  "fair offer b \<longleftrightarrow> length (trading b) = length (import_offer offer) \<and>
     (\<forall>t < length (trading b). fair_amps offer t (sold_amps (trading b) t) \<and> fair_watts offer t (sold_watts (trading b) t))"

interpretation fair_frame: frame_rel "\<lambda>b b'. fair offer b \<longrightarrow> fair offer b'" for offer
  by unfold_locales auto

lemma nth_update: "t < length xs \<Longrightarrow> xs[i := x] ! t = (if i = t then x else xs ! t)"
  by simp

lemma fair_buy_ampere_unchecked:
  "fair_amps offer i (nvalue a) \<Longrightarrow> fair_frame.keeps offer (buy_ampere_unchecked i a n)"
  unfolding buy_ampere_unchecked_def on_trading_def
  by (intro fair_frame.keeps_bind fair_frame.keeps_modify)
     (auto simp: fair_def sold_amps_def sold_watts_def nth_update)

lemma fair_buy_watt_unchecked:
  "fair_watts offer i (nvalue w) \<Longrightarrow> fair_frame.keeps offer (buy_watt_unchecked i w)"
  unfolding buy_watt_unchecked_def on_trading_def
  by (intro fair_frame.keeps_bind fair_frame.keeps_modify)
     (auto simp: fair_def sold_amps_def sold_watts_def nth_update)

lemma nvalue_number [simp]: "nvalue (number v s) = v"
  by (simp add: number_def)

lemma reduced_current:
  fixes n v p m :: real
  assumes "0 < p" and "\<not> m * (n * v) \<le> p" and "0 < m"
  shows "p / (n * v) \<le> m" and "\<not> p / (n * v) < 0"
proof -
  have "0 < n * v"
    using assms by (metis less_trans not_le zero_less_mult_pos)
  then show "p / (n * v) \<le> m" "\<not> p / (n * v) < 0"
    using assms by (simp_all add: divide_le_eq divide_less_0_iff)
qed

lemma fair_buy_ampere_import:
  "0 \<le> ampere \<Longrightarrow> fair_frame.keeps offer (buy_ampere_import voltage offer i ampere allow n)"
  unfolding buy_ampere_import_def buy_ampere_def sign_def Let_def
  by (auto simp: fair_amps_def fair_watts_def reduced_current split: option.split
      intro!: fair_frame.keeps_rules fair_buy_ampere_unchecked fair_buy_watt_unchecked)

lemma fair_buy_ampere_export:
  assumes "0 \<le> ampere" and "0 \<le> ivalue n" and "0 \<le> voltage"
  shows "fair_frame.keeps offer (buy_ampere_export voltage offer i ampere allow n)"
proof -
  have "\<not> a * (ivalue n * voltage) < 0" if "0 \<le> a" for a
    using that assms(2,3) by (simp add: not_less)
  then show ?thesis
    unfolding buy_ampere_export_def buy_ampere_def sign_def Let_def
    using assms
    by (auto simp: fair_amps_def fair_watts_def reduced_current split: option.split
        intro!: fair_frame.keeps_rules fair_buy_ampere_unchecked fair_buy_watt_unchecked)
qed

lemma fair_buy_watt_import: "fair_frame.keeps offer (buy_watt_import offer i watt allow)"
  unfolding buy_watt_import_def buy_watt_def sign_def
  by (auto simp: fair_watts_def split: option.split intro!: fair_frame.keeps_rules fair_buy_watt_unchecked)

lemma fair_buy_watt_export: "0 \<le> watt \<Longrightarrow> fair_frame.keeps offer (buy_watt_export offer i watt allow)"
  unfolding buy_watt_export_def buy_watt_def sign_def
  by (auto simp: fair_watts_def split: option.split intro!: fair_frame.keeps_rules fair_buy_watt_unchecked)

lemma positive_SomeD: "positive n = Some m \<Longrightarrow> 0 < m"
  by (auto simp: positive_def split: option.splits if_splits)

lemma fair_modify: "(\<And>b. trading (f b) = trading b) \<Longrightarrow> fair_frame.keeps offer (modify f)"
  by (rule fair_frame.keeps_modify) (simp add: fair_def)

lemma fair_context:
  "fair_frame.keeps offer (first_trade_phases g conf now voltage l active)"
  "fair_frame.keeps offer (store_decision l)"
  "fair_frame.keeps offer (decide_slot i imp expo)"
  unfolding first_trade_phases_def hysteresis_phases_def store_decision_def decide_slot_def Let_def
  by (auto split: option.split intro!: fair_frame.keeps_rules fair_modify)

lemma fair_import_ampere:
  assumes "0 \<le> slice_ampere g"
  shows "fair_frame.keeps offer (import_ampere g conf now voltage offer i active)"
  unfolding import_ampere_def Let_def
  using assms positive_SomeD
  by (auto split: option.split
      intro!: fair_frame.keeps_rules fair_context fair_buy_ampere_import fair_modify less_imp_le)

lemma fair_export_ampere:
  assumes "0 \<le> slice_ampere g" and "0 \<le> voltage"
  shows "fair_frame.keeps offer (export_ampere g voltage offer i)"
  unfolding export_ampere_def Let_def
  using assms positive_SomeD
  by (auto split: option.split simp: integer_def
      intro!: fair_frame.keeps_rules fair_buy_ampere_export less_imp_le)

lemma fair_tradeImpl:
  assumes "0 \<le> slice_ampere g" and "0 \<le> slice_watt g" and "0 \<le> voltage"
  shows "fair_frame.keeps offer (tradeImpl d g conf now voltage offer)"
  unfolding tradeImpl_def trade_slot_def Let_def
  using assms
  by (auto split: SlotType.split
      intro!: fair_frame.keeps_rules fair_context fair_import_ampere fair_export_ampere fair_buy_watt_import
        fair_buy_watt_export fair_modify)

lemma fair_zero_trading:
  assumes "schedules_ok g ms" and "length (import_offer offer) = schedule_length g"
  shows "fair offer (b\<lparr>trading := zero_trading g offer, traded := False\<rparr>)"
proof -
  have "res_limits (empty_schedule_res g ! t) = empty_limits_res" if "t < schedule_length g" for t
    using assms(1) that by (auto simp: schedules_ok_def)
  then show ?thesis
    using assms
    by (auto simp: fair_def zero_trading_def schedules_ok_def sold_amps_def sold_watts_def fair_amps_def
        fair_watts_def empty_limits_res_def Let_def)
qed

lemma broker_trade_fair:
  assumes "schedules_ok g ms" and "length (import_offer offer) = schedule_length g"
    and "0 \<le> slice_ampere g" and "0 \<le> slice_watt g" and "0 \<le> voltage"
    and "broker_trade d g conf now voltage offer b = (Some t, b')"
  shows "fair offer b'" and "t = trading b'"
proof -
  let ?b = "b\<lparr>trading := zero_trading g offer, traded := False\<rparr>"
  have b': "b' = exec (tradeImpl d g conf now voltage offer) ?b" and "t = trading b'"
    using assms(6) by (auto simp: broker_trade_def Let_def split: if_splits)
  then show "t = trading b'" by simp
  show "fair offer b'"
    unfolding b' using fair_frame.keepsD [OF fair_tradeImpl [OF assms(3,4,5)]] fair_zero_trading [OF assms(1,2)]
    by blast
qed

text \<open>A trade of another broker does not change the index of its market.\<close>

interpretation local_frame: frame_rel "\<lambda>b b'. local_market b' = local_market b"
  by unfold_locales auto

lemma local_buy:
  "local_frame.keeps (buy_ampere_import voltage offer i a allow n)"
  "local_frame.keeps (buy_ampere_export voltage offer i a allow n)"
  "local_frame.keeps (buy_watt_import offer i a allow)"
  "local_frame.keeps (buy_watt_export offer i a allow)"
  unfolding buy_ampere_import_def buy_ampere_export_def buy_watt_import_def buy_watt_export_def buy_ampere_def
    buy_watt_def buy_ampere_unchecked_def buy_watt_unchecked_def on_trading_def Let_def
  by (auto split: option.split intro!: local_frame.keeps_rules local_frame.keeps_modify)

lemma local_context:
  "local_frame.keeps (first_trade_phases g conf now voltage l active)"
  "local_frame.keeps (store_decision l)"
  "local_frame.keeps (decide_slot i imp expo)"
  unfolding first_trade_phases_def hysteresis_phases_def store_decision_def decide_slot_def Let_def
  by (auto split: option.split intro!: local_frame.keeps_rules local_frame.keeps_modify)

lemma local_slot:
  "local_frame.keeps (import_ampere g conf now voltage offer i active)"
  "local_frame.keeps (export_ampere g voltage offer i)"
  unfolding import_ampere_def export_ampere_def Let_def
  by (auto split: option.split intro!: local_frame.keeps_rules local_frame.keeps_modify local_buy local_context)

lemma local_tradeImpl: "local_frame.keeps (tradeImpl d g conf now voltage offer)"
  unfolding tradeImpl_def trade_slot_def Let_def
  by (auto split: SlotType.split
      intro!: local_frame.keeps_rules local_frame.keeps_modify local_buy local_context local_slot)

lemma local_market_kept:
  "broker_trade d g conf now voltage offer b = (t, b') \<Longrightarrow> local_market b' = local_market b"
  using local_frame.keepsD [OF local_tradeImpl]
  by (auto simp: broker_trade_def Let_def split: if_splits)

section \<open>Trades keep the limits\<close>

definition keeps_limit :: "NumberWithSource option \<Rightarrow> real \<Rightarrow> bool" where
  "keeps_limit mx x \<longleftrightarrow> (\<forall>y. mx = Some y \<longrightarrow> x \<le> max 0 (nvalue y))"

definition market_safe :: "nat \<Rightarrow> market \<Rightarrow> bool" where
  "market_safe n m \<longleftrightarrow> (\<forall>t < n.
     keeps_limit (amps (import_max_available m) t) (sold_amps (sold_root m) t) \<and>
     keeps_limit (watts (import_max_available m) t) (sold_watts (sold_root m) t) \<and>
     keeps_limit (amps (export_max_available m) t) (- sold_amps (sold_root m) t))"

definition left_over :: "real \<Rightarrow> NumberWithSource option \<Rightarrow> NumberWithSource option" where
  "left_over sold mx = map_option (\<lambda>n. n\<lparr>nvalue := nvalue n - max 0 sold\<rparr>) mx"

lemma available_import:
  assumes "t < length (import_max_available m)" and "length (sold_root m) = length (import_max_available m)"
  shows "amps (get_available_energy_import m) t = left_over (sold_amps (sold_root m) t) (amps (import_max_available m) t)"
    and "watts (get_available_energy_import m) t = left_over (sold_watts (sold_root m) t) (watts (import_max_available m) t)"
  using assms
  by (simp_all add: get_available_energy_import_def get_available_energy_def left_over_def sold_amps_def
      sold_watts_def sold_available_eq)

lemma available_export:
  assumes "t < length (export_max_available m)" and "length (sold_root m) = length (export_max_available m)"
  shows "amps (get_available_energy_export m) t = left_over (- sold_amps (sold_root m) t) (amps (export_max_available m) t)"
proof -
  have "min 0 x = - max 0 (- x)" for x :: real by simp
  then show ?thesis
    using assms
    by (simp add: get_available_energy_export_def get_available_energy_def left_over_def sold_amps_def
        sold_available_eq)
qed

lemma keeps_limit_add:
  assumes "keeps_limit mx sold" and "stricter off (left_over sold mx)"
    and "0 < a \<longrightarrow> (\<exists>x. off = Some x \<and> a \<le> nvalue x)"
  shows "keeps_limit mx (sold + a)"
  using assms by (cases mx; cases off) (auto simp: keeps_limit_def stricter_def left_over_def)

lemma market_safe_add:
  assumes "market_safe n m" and "fair offer b" and "length (trading b) = n"
    and "length (import_max_available m) = n" "length (export_max_available m) = n" "length (sold_root m) = n"
    and "inside (import_offer offer) (get_available_energy_import m)"
    and "inside (export_offer offer) (get_available_energy_export m)"
  shows "market_safe n (m\<lparr>sold_root := schedule_add (sold_root m) (trading b)\<rparr>)"
proof -
  have fair: "fair_amps offer t (sold_amps (trading b) t)" "fair_watts offer t (sold_watts (trading b) t)" if "t < n" for t
    using assms(2,3) that by (auto simp: fair_def)
  have str: "stricter (amps (import_offer offer) t) (left_over (sold_amps (sold_root m) t) (amps (import_max_available m) t))"
      "stricter (watts (import_offer offer) t) (left_over (sold_watts (sold_root m) t) (watts (import_max_available m) t))"
      "stricter (amps (export_offer offer) t) (left_over (- sold_amps (sold_root m) t) (amps (export_max_available m) t))"
    if "t < n" for t
    using assms(4-8) that available_import [of t m] available_export [of t m]
    by (auto simp: inside_def get_available_energy_import_def get_available_energy_export_def)
  have "keeps_limit (amps (import_max_available m) t) (sold_amps (sold_root m) t + sold_amps (trading b) t)"
    "keeps_limit (watts (import_max_available m) t) (sold_watts (sold_root m) t + sold_watts (trading b) t)"
    "keeps_limit (amps (export_max_available m) t) (- sold_amps (sold_root m) t + - sold_amps (trading b) t)"
    if "t < n" for t
    using assms(1) that fair [OF that] keeps_limit_add [OF _ str(1) [OF that], of "sold_amps (trading b) t"]
      keeps_limit_add [OF _ str(2) [OF that], of "sold_watts (trading b) t"]
      keeps_limit_add [OF _ str(3) [OF that], of "- sold_amps (trading b) t"]
    by (simp_all add: market_safe_def fair_amps_def fair_watts_def)
  then show ?thesis
    using assms(3,6) by (simp add: market_safe_def sold_schedule_add)
qed

definition markets_safe :: "globals_t \<Rightarrow> market list \<Rightarrow> bool" where
  "markets_safe g ms \<longleftrightarrow> schedules_ok g ms \<and> (\<forall>m \<in> set ms. market_safe (schedule_length g) m)"

lemma market_trade_nth:
  assumes "i < length ms" and "j < length ms"
  shows "market_trade i t ms ! j =
    (if j \<in> set (ancestors ms i) then (ms ! j)\<lparr>sold_root := schedule_add (sold_root (ms ! j)) t\<rparr> else ms ! j)"
proof -
  have "(ms ! j)\<lparr>sold_root := []\<rparr> = (market_trade i t ms ! j)\<lparr>sold_root := []\<rparr>"
    using assms market_trade_tree [OF assms(1)] same_tree_length [OF market_trade_tree [OF assms(1)]]
    unfolding same_tree_def by (metis nth_map)
  then show ?thesis
    using market_trade_sold [OF assms, of t]
    by (cases "ms ! j"; cases "market_trade i t ms ! j") simp
qed

lemma trade_safe:
  assumes "markets_safe g ms" and "i < length ms" and "fair (create_offer_for_local_market g ms i) b"
  shows "markets_safe g (market_trade i (trading b) ms)"
proof -
  have ok: "schedules_ok g ms" and safe: "\<And>j. j < length ms \<Longrightarrow> market_safe (schedule_length g) (ms ! j)"
    using assms(1) by (auto simp: markets_safe_def)
  have l: "length (trading b) = schedule_length g"
    using assms(3) offer_length [OF ok assms(2)] by (simp add: fair_def)
  have lj: "length (import_max_available (ms ! j)) = schedule_length g"
      "length (export_max_available (ms ! j)) = schedule_length g" "length (sold_root (ms ! j)) = schedule_length g"
    if "j < length ms" for j
    using ok that by (auto simp: schedules_ok_def)
  have "market_safe (schedule_length g) (market_trade i (trading b) ms ! j)" if j: "j < length ms" for j
    using safe [OF j] market_safe_add [OF safe [OF j] assms(3) l lj [OF j]] offer_within [OF ok assms(2), of j]
    by (simp add: market_trade_nth [OF assms(2) j])
  moreover have "length (import_max_available (market_trade i (trading b) ms ! j)) = schedule_length g \<and>
      length (export_max_available (market_trade i (trading b) ms ! j)) = schedule_length g \<and>
      length (sold_root (market_trade i (trading b) ms ! j)) = schedule_length g" if j: "j < length ms" for j
    using lj [OF j] by (simp add: market_trade_nth [OF assms(2) j])
  ultimately show ?thesis
    using ok same_tree_length [OF market_trade_tree [OF assms(2), of "trading b"]]
    by (auto simp: markets_safe_def schedules_ok_def in_set_conv_nth)
qed

end
