(* ===== verification/Energy_Node.thy ===== *)
theory Energy_Node
  imports Energy_Types
begin

text \<open>
  A node of the energy tree (\<^verbatim>\<open>modules/EnergyManagement/EnergyNode/energy_grid/energyImpl.cpp\<close>): it
  collects the requests of its children, adds the limits of its fuse and of external sources, and
  publishes the request for its part of the tree.

  Publishing calls the loop that merges prices into a schedule, which may run forever; then the
  operation has the value None.  The messages to other modules are the trace \<open>node_out\<close>.
\<close>

section \<open>State\<close>

datatype node_message =
    Published_request EnergyFlowRequest
  | Published_limits EnforcedLimits
  | Forwarded_limits nat EnforcedLimits

record energy_node =
  node_request :: flow_node
  node_children :: "EnergyFlowRequest list"
  energy_pricing :: EnergyPriceSchedule
  fuse_limit_A :: real
  phase_count :: int
  source_cfg :: string
  consumers :: nat
  node_now :: time
  node_out :: "node_message list"

section \<open>Schedules\<close>

definition hours_floor :: "time \<Rightarrow> time" where
  "hours_floor t = t div milliseconds 3600000 * milliseconds 3600000"

definition get_local_schedule_req_entry :: "dates \<Rightarrow> energy_node \<Rightarrow> ScheduleReqEntry" where
  "get_local_schedule_req_entry d n =
     (let limits = empty_limits_req\<lparr>ac_max_phase_count := Some (integer (phase_count n) (source_cfg n)),
            ac_max_current_A := Some (number (fuse_limit_A n) (source_cfg n))\<rparr>
      in \<lparr>req_timestamp = print_date d (hours_floor (node_now n) + leap_elapsed d (node_now n)),
          limits_to_root = limits, limits_to_leaves = limits, conversion_efficiency = None,
          price_per_kwh = None\<rparr>)"

definition get_local_schedule :: "dates \<Rightarrow> energy_node \<Rightarrow> ScheduleReq" where
  "get_local_schedule d n = [get_local_schedule_req_entry d n]"

text \<open>Lines 92--99 and 110--117: the limits of the fuse on one entry.\<close>

definition add_fuse_limits :: "energy_node \<Rightarrow> ScheduleReqEntry \<Rightarrow> ScheduleReqEntry" where
  "add_fuse_limits n e =
     (let l = limits_to_root e
      in e\<lparr>limits_to_root := l\<lparr>
          ac_max_current_A := (case ac_max_current_A l of
              Some x \<Rightarrow> if nvalue x > fuse_limit_A n then Some (number (fuse_limit_A n) (source_cfg n)) else Some x
            | None \<Rightarrow> Some (number (fuse_limit_A n) (source_cfg n))),
          ac_max_phase_count := (case ac_max_phase_count l of
              Some x \<Rightarrow> if ivalue x > phase_count n then Some (integer (phase_count n) (source_cfg n)) else Some x
            | None \<Rightarrow> Some (integer (phase_count n) (source_cfg n)))\<rparr>\<rparr>)"

definition set_external_limits :: "dates \<Rightarrow> ExternalLimits \<Rightarrow> energy_node \<Rightarrow> energy_node" where
  "set_external_limits d l n = n\<lparr>node_request := (node_request n)\<lparr>
     schedule_import := (if ext_import l \<noteq> [] then map (add_fuse_limits n) (ext_import l) else get_local_schedule d n),
     schedule_export := (if ext_export l \<noteq> [] then map (add_fuse_limits n) (ext_export l) else get_local_schedule d n),
     schedule_setpoints := ext_setpoints l\<rparr>\<rparr>"

text \<open>The loop; the arguments are the entries and prices that are left, the entry and the price that
  are valid, and the schedule that was joined.\<close>

partial_function (option) merge_loop ::
  "dates \<Rightarrow> ScheduleReq \<Rightarrow> PricePerkWh list \<Rightarrow> ScheduleReqEntry \<Rightarrow> PricePerkWh \<Rightarrow> ScheduleReq \<Rightarrow> ScheduleReq option" where
  "merge_loop d ss ps valid_s valid_p joined =
     (case ss of
        [] \<Rightarrow> Some joined
      | s # ss' \<Rightarrow> (case ps of
          [] \<Rightarrow> Some joined
        | p # ps' \<Rightarrow>
            if parse_date d (req_timestamp s) < parse_date d (price_timestamp p)
            then merge_loop d ss' ps s valid_p (joined @ [s\<lparr>price_per_kwh := Some valid_p\<rparr>])
            else if parse_date d (price_timestamp p) < parse_date d (req_timestamp s)
            then merge_loop d ss ps' valid_s p
              (joined @ [valid_s\<lparr>price_per_kwh := Some p, req_timestamp := price_timestamp p\<rparr>])
            else merge_loop d ss ps valid_s valid_p joined))"

definition merge_price_into_schedule :: "dates \<Rightarrow> ScheduleReq \<Rightarrow> PricePerkWh list \<Rightarrow> ScheduleReq option" where
  "merge_price_into_schedule d schedule price = merge_loop d schedule price (hd schedule) (hd price) []"

section \<open>Operations\<close>

definition publish_request :: "energy_node \<Rightarrow> energy_node" where
  "publish_request n = n\<lparr>node_out := node_out n @ [Published_request (Flow_Request (node_request n) (node_children n))]\<rparr>"

text \<open>The joined schedule is a local variable of \<^verbatim>\<open>merge_price_into_schedule\<close>: what is published is the
  request without prices.\<close>

definition publish_complete_energy_object :: "dates \<Rightarrow> energy_node \<Rightarrow> energy_node option" where
  "publish_complete_energy_object d n =
     (if schedule_export (node_request n) \<noteq> [] \<and> price_export (energy_pricing n) \<noteq> []
      then (case merge_price_into_schedule d (schedule_export (node_request n)) (price_export (energy_pricing n)) of
        None \<Rightarrow> None
      | Some joined \<Rightarrow> Some (publish_request n))
      else Some (publish_request n))"

definition on_child_request :: "dates \<Rightarrow> EnergyFlowRequest \<Rightarrow> energy_node \<Rightarrow> energy_node option" where
  "on_child_request d e n =
     (let same = (\<lambda>c. uuid (flow c) = uuid (flow e));
          cs = (if list_ex same (node_children n) then map (\<lambda>c. if same c then e else c) (node_children n)
            else node_children n @ [e])
      in publish_complete_energy_object d (n\<lparr>node_children := cs\<rparr>))"

definition on_powermeter :: "dates \<Rightarrow> Powermeter \<Rightarrow> energy_node \<Rightarrow> energy_node option" where
  "on_powermeter d p n =
     publish_complete_energy_object d (n\<lparr>node_request := (node_request n)\<lparr>energy_usage_root := Some p\<rparr>\<rparr>)"

definition on_energy_pricing :: "dates \<Rightarrow> EnergyPriceSchedule \<Rightarrow> energy_node \<Rightarrow> energy_node option" where
  "on_energy_pricing d p n = publish_complete_energy_object d (n\<lparr>energy_pricing := p\<rparr>)"

definition handle_enforce_limits :: "EnforcedLimits \<Rightarrow> energy_node \<Rightarrow> energy_node" where
  "handle_enforce_limits v n =
     (if enf_uuid v = uuid (node_request n) then n\<lparr>node_out := node_out n @ [Published_limits v]\<rparr>
      else n\<lparr>node_out := node_out n @ map (\<lambda>i. Forwarded_limits i v) [0..<consumers n]\<rparr>)"

definition node_init :: "dates \<Rightarrow> string \<Rightarrow> real \<Rightarrow> int \<Rightarrow> nat \<Rightarrow> time \<Rightarrow> energy_node" where
  "node_init d name fuse phases k now =
     (let f = \<lparr>uuid = name, node_type = NT_Generic, priority_request = None, evse_state = None,
            optimizer_target = None, energy_usage_root = None, energy_usage_leaves = None,
            schedule_import = [], schedule_export = [], schedule_setpoints = []\<rparr>;
          n = \<lparr>node_request = f, node_children = [], energy_pricing = \<lparr>price_import = [], price_export = []\<rparr>,
            fuse_limit_A = fuse, phase_count = phases, source_cfg = name @ ''/module_config'', consumers = k,
            node_now = now, node_out = []\<rparr>
      in n\<lparr>node_request := f\<lparr>schedule_import := get_local_schedule d n,
         schedule_export := get_local_schedule d n\<rparr>\<rparr>)"

section \<open>Runs\<close>

datatype node_input =
    N_ready
  | N_child EnergyFlowRequest
  | N_powermeter Powermeter
  | N_pricing EnergyPriceSchedule
  | N_external ExternalLimits
  | N_enforce EnforcedLimits
  | N_clock time

fun node_handle :: "dates \<Rightarrow> node_input \<Rightarrow> energy_node \<Rightarrow> energy_node option" where
  "node_handle d N_ready n = Some (publish_request n)"
| "node_handle d (N_child e) n = on_child_request d e n"
| "node_handle d (N_powermeter p) n = on_powermeter d p n"
| "node_handle d (N_pricing p) n = on_energy_pricing d p n"
| "node_handle d (N_external l) n = Some (set_external_limits d l n)"
| "node_handle d (N_enforce v) n = Some (handle_enforce_limits v n)"
| "node_handle d (N_clock t) n = Some (n\<lparr>node_now := t\<rparr>)"

fun node_run :: "dates \<Rightarrow> node_input list \<Rightarrow> energy_node \<Rightarrow> energy_node option" where
  "node_run d [] n = Some n"
| "node_run d (x # xs) n = (case node_handle d x n of None \<Rightarrow> None | Some n' \<Rightarrow> node_run d xs n')"

section \<open>The merge of prices\<close>

definition stamp_s :: "dates \<Rightarrow> ScheduleReqEntry \<Rightarrow> time" where
  "stamp_s d s = parse_date d (req_timestamp s)"

definition stamp_p :: "dates \<Rightarrow> PricePerkWh \<Rightarrow> time" where
  "stamp_p d p = parse_date d (price_timestamp p)"

text \<open>A time that both an entry and a price have.\<close>

definition common_time :: "dates \<Rightarrow> ScheduleReq \<Rightarrow> PricePerkWh list \<Rightarrow> bool" where
  "common_time d ss ps \<longleftrightarrow> set (map (stamp_s d) ss) \<inter> set (map (stamp_p d) ps) \<noteq> {}"

abbreviation ascending :: "time list \<Rightarrow> bool" where
  "ascending \<equiv> sorted_wrt (<)"

lemma below_ascending: "t < f x \<Longrightarrow> ascending (map f (x # xs)) \<Longrightarrow> t \<notin> set (map f (x # xs))"
  by auto

lemma merge_loop_returns_only:
  assumes "merge_loop d ss ps vs vp joined = Some r"
  shows "ascending (map (stamp_s d) ss) \<longrightarrow> ascending (map (stamp_p d) ps) \<longrightarrow> \<not> common_time d ss ps"
proof (rule merge_loop.raw_induct [where P = "\<lambda>d ss ps vs vp joined r. ascending (map (stamp_s d) ss) \<longrightarrow>
    ascending (map (stamp_p d) ps) \<longrightarrow> \<not> common_time d ss ps", OF _ assms], goal_cases)
  case (1 loop d ss ps vs vp joined r)
  show ?case
  proof (cases "ss = [] \<or> ps = []")
    case False
    then obtain s ss' p ps' where l: "ss = s # ss'" "ps = p # ps'"
      by (meson neq_Nil_conv)
    consider (less) "stamp_s d s < stamp_p d p" | (greater) "stamp_p d p < stamp_s d s"
      | (equal) "stamp_s d s = stamp_p d p" by linarith
    then show ?thesis
    proof cases
      case less
      then have "loop d ss' ps s vp (joined @ [s\<lparr>price_per_kwh := Some vp\<rparr>]) = Some r"
        using 1(2) by (simp add: l stamp_s_def stamp_p_def)
      note 1(1) [OF this]
      moreover have "common_time d ss ps \<longleftrightarrow> common_time d ss' ps" if "ascending (map (stamp_p d) ps)"
        using below_ascending [of "stamp_s d s" "stamp_p d" p ps'] less that by (simp add: common_time_def l)
      ultimately show ?thesis
        by (simp add: l)
    next
      case greater
      then have "loop d ss ps' vs p (joined @ [vs\<lparr>price_per_kwh := Some p, req_timestamp := price_timestamp p\<rparr>]) = Some r"
        using 1(2) by (simp add: l stamp_s_def stamp_p_def)
      note 1(1) [OF this]
      moreover have "common_time d ss ps \<longleftrightarrow> common_time d ss ps'" if "ascending (map (stamp_s d) ss)"
        using below_ascending [of "stamp_p d p" "stamp_s d" s ss'] greater that by (simp add: common_time_def l)
      ultimately show ?thesis
        by (simp add: l)
    next
      case equal
      then have "loop d ss ps vs vp joined = Some r"
        using 1(2) by (simp add: l stamp_s_def stamp_p_def)
      from 1(1) [OF this] show ?thesis .
    qed
  qed (auto simp: common_time_def)
qed

lemma merge_loop_returns:
  "\<not> common_time d ss ps \<Longrightarrow> \<exists>r. merge_loop d ss ps vs vp joined = Some r"
proof (induction "length ss + length ps" arbitrary: ss ps vs vp joined rule: less_induct)
  case less
  show ?case
  proof (cases "ss = [] \<or> ps = []")
    case True
    then show ?thesis
      by (subst merge_loop.simps) (auto split: list.splits)
  next
    case False
    then obtain s ss' p ps' where l: "ss = s # ss'" "ps = p # ps'"
      by (meson neq_Nil_conv)
    have "\<not> common_time d ss' ps" "\<not> common_time d ss ps'" "stamp_s d s \<noteq> stamp_p d p"
      using less.prems by (auto simp: common_time_def l)
    then show ?thesis
      using less.hyps [of ss' ps] less.hyps [of ss ps']
      by (subst merge_loop.simps) (auto simp: l stamp_s_def stamp_p_def)
  qed
qed

section \<open>The limits of the fuse\<close>

definition fuse_ok :: "real \<Rightarrow> int \<Rightarrow> ScheduleReq \<Rightarrow> bool" where
  "fuse_ok fuse phases sched \<longleftrightarrow> sched \<noteq> [] \<and> list_all (\<lambda>e.
     (\<exists>x. ac_max_current_A (limits_to_root e) = Some x \<and> nvalue x \<le> fuse) \<and>
     (\<exists>x. ac_max_phase_count (limits_to_root e) = Some x \<and> ivalue x \<le> phases)) sched"

definition flow_ok :: "real \<Rightarrow> int \<Rightarrow> flow_node \<Rightarrow> bool" where
  "flow_ok fuse phases f \<longleftrightarrow> fuse_ok fuse phases (schedule_import f) \<and> fuse_ok fuse phases (schedule_export f)"

fun message_ok :: "real \<Rightarrow> int \<Rightarrow> node_message \<Rightarrow> bool" where
  "message_ok fuse phases (Published_request r) = flow_ok fuse phases (flow r)"
| "message_ok fuse phases _ = True"

definition node_ok :: "energy_node \<Rightarrow> bool" where
  "node_ok n \<longleftrightarrow> flow_ok (fuse_limit_A n) (phase_count n) (node_request n) \<and>
     list_all (message_ok (fuse_limit_A n) (phase_count n)) (node_out n)"

lemma fuse_ok_local: "fuse_ok (fuse_limit_A n) (phase_count n) (get_local_schedule d n)"
  by (simp add: fuse_ok_def get_local_schedule_def get_local_schedule_req_entry_def Let_def)

lemma fuse_ok_external: "es \<noteq> [] \<Longrightarrow> fuse_ok (fuse_limit_A n) (phase_count n) (map (add_fuse_limits n) es)"
  by (auto simp: fuse_ok_def list_all_iff add_fuse_limits_def Let_def split: option.splits)

lemma publish_ok: "node_ok n \<Longrightarrow> node_ok (publish_request n)"
  by (simp add: node_ok_def publish_request_def)

lemma publish_complete_ok:
  assumes "node_ok n" and "publish_complete_energy_object d n = Some n'"
  shows "node_ok n' \<and> fuse_limit_A n' = fuse_limit_A n \<and> phase_count n' = phase_count n"
  using assms publish_ok [of n]
  by (auto simp: publish_complete_energy_object_def publish_request_def split: if_splits option.splits)

lemma node_ok_same:
  assumes "node_ok n" and "fuse_limit_A n' = fuse_limit_A n" "phase_count n' = phase_count n"
    "schedule_import (node_request n') = schedule_import (node_request n)"
    "schedule_export (node_request n') = schedule_export (node_request n)" "node_out n' = node_out n"
  shows "node_ok n'"
  using assms by (simp add: node_ok_def flow_ok_def)

lemma publish_changed:
  assumes "publish_complete_energy_object d n1 = Some n'" and "node_ok n" and "fuse_limit_A n1 = fuse_limit_A n"
    "phase_count n1 = phase_count n" "schedule_import (node_request n1) = schedule_import (node_request n)"
    "schedule_export (node_request n1) = schedule_export (node_request n)" "node_out n1 = node_out n"
  shows "node_ok n' \<and> fuse_limit_A n' = fuse_limit_A n \<and> phase_count n' = phase_count n"
  using publish_complete_ok [OF node_ok_same [OF assms(2-7)] assms(1)] assms(3,4) by simp

lemma external_ok: "node_ok n \<Longrightarrow> node_ok (set_external_limits d l n)"
  by (simp add: node_ok_def flow_ok_def set_external_limits_def fuse_ok_local fuse_ok_external)

lemma enforce_ok: "node_ok n \<Longrightarrow> node_ok (handle_enforce_limits v n)"
  by (auto simp: node_ok_def handle_enforce_limits_def list_all_iff)

lemma node_handle_ok:
  assumes "node_ok n" and "node_handle d x n = Some n'"
  shows "node_ok n' \<and> fuse_limit_A n' = fuse_limit_A n \<and> phase_count n' = phase_count n"
proof (cases x)
  case (N_child e)
  then obtain cs where "publish_complete_energy_object d (n\<lparr>node_children := cs\<rparr>) = Some n'"
    using assms(2) by (auto simp: on_child_request_def Let_def)
  then show ?thesis
    by (rule publish_changed [OF _ assms(1)]) simp_all
next
  case (N_powermeter p)
  then have "publish_complete_energy_object d (n\<lparr>node_request := (node_request n)\<lparr>energy_usage_root := Some p\<rparr>\<rparr>) = Some n'"
    using assms(2) by (simp add: on_powermeter_def)
  then show ?thesis
    by (rule publish_changed [OF _ assms(1)]) simp_all
next
  case (N_pricing p)
  then have "publish_complete_energy_object d (n\<lparr>energy_pricing := p\<rparr>) = Some n'"
    using assms(2) by (simp add: on_energy_pricing_def)
  then show ?thesis
    by (rule publish_changed [OF _ assms(1)]) simp_all
next
  case N_ready
  then show ?thesis
    using assms publish_ok [of n] by (auto simp: publish_request_def)
next
  case (N_external l)
  then show ?thesis
    using assms external_ok [of n d l] by (auto simp: set_external_limits_def)
next
  case (N_enforce v)
  then show ?thesis
    using assms enforce_ok [of n v] by (auto simp: handle_enforce_limits_def)
next
  case (N_clock t)
  then show ?thesis
    using assms by (auto simp: node_ok_def)
qed

lemma node_init_ok: "node_ok (node_init d name fuse phases k now)"
  by (simp add: node_ok_def node_init_def Let_def flow_ok_def fuse_ok_def get_local_schedule_def
      get_local_schedule_req_entry_def)

lemma node_run_ok:
  "node_ok n \<Longrightarrow> node_run d xs n = Some n' \<Longrightarrow>
     node_ok n' \<and> fuse_limit_A n' = fuse_limit_A n \<and> phase_count n' = phase_count n"
proof (induction xs arbitrary: n)
  case (Cons x xs)
  then obtain n1 where n1: "node_handle d x n = Some n1" "node_run d xs n1 = Some n'"
    by (auto split: option.splits)
  with Cons.IH [of n1] node_handle_ok [OF Cons.prems(1) n1(1)] show ?case
    by simp
qed simp

text \<open>Whatever external limits, children, measurements and prices a node gets, in every request that
  it publishes each entry of both schedules has a current limit of at most the fuse and at most the
  configured number of phases.\<close>

lemma published_limits_respect_fuse:
  assumes "node_run d xs (node_init d name fuse phases k now) = Some n" and "Published_request r \<in> set (node_out n)"
  shows "flow_ok fuse phases (flow r)"
proof -
  have "node_ok n" "fuse_limit_A n = fuse" "phase_count n = phases"
    using node_run_ok [OF node_init_ok assms(1)] by (simp_all add: node_init_def Let_def)
  then have "message_ok fuse phases (Published_request r)"
    using assms(2) unfolding node_ok_def list_all_iff by blast
  then show ?thesis
    by simp
qed

section \<open>Properties\<close>

text \<open>C39. New prices make the node publish its request, without the prices: the joined schedule is
  dropped.  And the loop never returns, with the mutex held, if and only if a price and an entry of
  the export schedule have the same time.\<close>

theorem pricing_hangs_on_common_time:
  assumes "ascending (map (stamp_s d) (schedule_export (node_request n)))"
    and "ascending (map (stamp_p d) (price_export p))"
  shows "on_energy_pricing d p n =
    (if common_time d (schedule_export (node_request n)) (price_export p) then None
     else Some (publish_request (n\<lparr>energy_pricing := p\<rparr>)))"
proof (cases "common_time d (schedule_export (node_request n)) (price_export p)")
  case True
  let ?m = "merge_price_into_schedule d (schedule_export (node_request n)) (price_export p)"
  have "?m \<noteq> Some r" for r
    using merge_loop_returns_only [of d "schedule_export (node_request n)" "price_export p" _ _ "[]" r] assms True
    unfolding merge_price_into_schedule_def by blast
  then have "?m = None"
    by (cases ?m) auto
  moreover have "schedule_export (node_request n) \<noteq> []" "price_export p \<noteq> []"
    using True by (auto simp: common_time_def)
  ultimately show ?thesis
    using True by (simp add: on_energy_pricing_def publish_complete_energy_object_def)
next
  case False
  then obtain r where "merge_price_into_schedule d (schedule_export (node_request n)) (price_export p) = Some r"
    using merge_loop_returns unfolding merge_price_into_schedule_def by blast
  with False show ?thesis
    by (simp add: on_energy_pricing_def publish_complete_energy_object_def)
qed

definition example_dates :: dates where
  "example_dates = \<lparr>parse_date = (\<lambda>s. int (length s)), print_date = (\<lambda>t. replicate (nat t) CHR ''0''),
     leap_elapsed = (\<lambda>_. 0)\<rparr>"

definition example_price :: "string \<Rightarrow> PricePerkWh" where
  "example_price t = \<lparr>price_timestamp = t, price_value = 1, price_currency = ''EUR''\<rparr>"

definition example_node :: energy_node where
  "example_node = node_init example_dates ''grid'' 63 3 1 0"

theorem pricing_hangs_on_common_time_witness:
  "on_energy_pricing example_dates \<lparr>price_import = [], price_export = [example_price '''']\<rparr> example_node = None \<and>
   on_energy_pricing example_dates \<lparr>price_import = [], price_export = [example_price ''0'']\<rparr> example_node \<noteq> None"
proof -
  have "schedule_export (node_request example_node) = get_local_schedule example_dates example_node"
    by (simp add: example_node_def node_init_def Let_def get_local_schedule_def
        get_local_schedule_req_entry_def)
  then have s: "map (stamp_s example_dates) (schedule_export (node_request example_node)) = [0]"
    by (simp add: get_local_schedule_def get_local_schedule_req_entry_def Let_def stamp_s_def
        example_dates_def example_node_def node_init_def hours_floor_def)
  have p: "map (stamp_p example_dates) [example_price t] = [int (length t)]" for t
    by (simp add: stamp_p_def example_dates_def example_price_def)
  have "common_time example_dates (schedule_export (node_request example_node)) [example_price t] \<longleftrightarrow> t = []" for t
    unfolding common_time_def s p by simp
  then show ?thesis
    using pricing_hangs_on_common_time [of example_dates example_node] s p by simp
qed

end
