(* ===== verification/Energy_Schedules.thy ===== *)
theory Energy_Schedules
  imports Energy_Broker Energy_Node
begin

text \<open>
  The look-ups in schedules and tables of the energy manager, compared with what they stand for: the
  entry that is in force at a time, and the linear interpolation between points.
\<close>

section \<open>The entry in force\<close>

text \<open>The last entry that has begun, or the first one if none has.\<close>

definition in_force :: "('e \<Rightarrow> time) \<Rightarrow> time \<Rightarrow> 'e list \<Rightarrow> 'e" where
  "in_force tp t es = (case filter (\<lambda>e. tp e \<le> t) es of [] \<Rightarrow> hd es | bs \<Rightarrow> last bs)"

lemma later_not_begun:
  assumes "sorted (map tp (e # es))" and "t < tp e"
  shows "filter (\<lambda>e. tp e \<le> t) (e # es) = []"
  using assms by (auto simp: filter_empty_conv)

lemma find_entry_last:
  "sorted (map tp es) \<Longrightarrow> es \<noteq> [] \<Longrightarrow> (\<not> first \<longrightarrow> tp (hd es) \<le> t) \<Longrightarrow>
    find_entry tp t first es = Some (in_force tp t es)"
proof (induction tp t first es rule: find_entry.induct)
  case (3 tp t first e e' es)
  show ?case
  proof (cases "t < tp e'")
    case True
    have "filter (\<lambda>e. tp e \<le> t) (e' # es) = []"
      using 3(2) True by (intro later_not_begun) auto
    then show ?thesis
      using 3 True by (auto simp: in_force_def)
  next
    case False
    then have "find_entry tp t False (e' # es) = Some (in_force tp t (e' # es))"
      using 3 by auto
    moreover have "\<not> t < tp e"
      using 3(2) False by auto
    ultimately show ?thesis
      using False by (auto simp: in_force_def split: list.split)
  qed
qed (auto simp: in_force_def)

lemma takeWhile_filter_sorted:
  "sorted (map tp es) \<Longrightarrow> takeWhile (\<lambda>e. \<not> t < tp e) es = filter (\<lambda>e. tp e \<le> t) es"
proof (induction es)
  case (Cons e es)
  then show ?case
    using later_not_begun [of tp e es t] by (cases "t < tp e") (auto simp: not_less)
qed simp

section \<open>Tables and slots\<close>

lemma freq_table_loop_between:
  assumes "sorted (map frequency_Hz (pre @ [e1]))" and "frequency_Hz e1 \<le> freq" and "freq < frequency_Hz e2"
  shows "freq_table_loop freq (pre @ e1 # e2 # post) s = (point_power_W e1, point_power_W e2, frequency_Hz e1)"
  using assms(1)
proof (induction pre arbitrary: s)
  case Nil
  then show ?case
    using assms(2,3) by (cases s) auto
next
  case (Cons e pre)
  then have "frequency_Hz e \<le> freq"
    using assms(2) by force
  then show ?case
    using Cons by (cases s) auto
qed

lemma get_watt_between:
  assumes "sorted (map frequency_Hz (pre @ [e1]))" and "frequency_Hz e1 \<le> freq" and "freq < frequency_Hz e2"
  shows "get_watt_from_freq_table (pre @ e1 # e2 # post) freq =
    point_power_W e1 + (freq - frequency_Hz e1) * (point_power_W e2 - point_power_W e1)"
proof -
  obtain e xs where x: "pre @ e1 # e2 # post = e # xs" "xs \<noteq> []"
    by (cases pre) auto
  then have "get_watt_from_freq_table (pre @ e1 # e2 # post) freq =
      (case freq_table_loop freq (pre @ e1 # e2 # post) (point_power_W e, 0, 0) of
        (watt1, watt2, freq1) \<Rightarrow> watt1 + (freq - freq1) * (watt2 - watt1))"
    unfolding get_watt_from_freq_table_def by (simp split: list.split)
  then show ?thesis
    by (simp add: freq_table_loop_between [OF assms])
qed

definition interpolated :: "FrequencyWattPoint \<Rightarrow> FrequencyWattPoint \<Rightarrow> real \<Rightarrow> real" where
  "interpolated e1 e2 freq = point_power_W e1 + (freq - frequency_Hz e1) *
     (point_power_W e2 - point_power_W e1) / (frequency_Hz e2 - frequency_Hz e1)"

lemma active_slot_loop_on_boundary:
  "sorted_wrt (<) ts \<Longrightarrow> now \<in> set ts \<or> (ts \<noteq> [] \<and> now < hd ts) \<Longrightarrow> active_slot_loop now n ts = 0"
proof (induction now n ts rule: active_slot_loop.induct)
  case (1 now n t t' ts)
  moreover have "now \<in> set (t' # ts) \<or> now < t'" and "\<not> (t < now \<and> now < t')"
    using 1(2,3) by auto
  ultimately show ?case
    by auto
qed auto

lemma active_slot_loop_between:
  assumes "sorted_wrt (<) (pre @ t # t' # post)" and "t < now" and "now < t'"
  shows "active_slot_loop now n (pre @ t # t' # post) = n + length pre"
  using assms(1)
proof (induction pre arbitrary: n)
  case (Cons x pre)
  then have "\<not> now < hd (pre @ t # t' # post)"
    using assms(2) by (cases pre) auto
  then show ?case
    using Cons by (cases pre) auto
qed (use assms in simp)

section \<open>Properties\<close>

definition example_em_config :: EnergyManagerConfig where
  "example_em_config = \<lparr>em_nominal_ac_voltage = 230, update_interval = 1, schedule_interval_duration = 60,
     schedule_total_duration = 1, em_slice_ampere = 1/2, em_slice_watt = 500,
     switch_3ph1ph_while_charging_mode = ''Never'', switch_3ph1ph_max_nr_of_switches_per_session = 0,
     switch_3ph1ph_switch_limit_stickyness = ''DontChange'', switch_3ph1ph_power_hysteresis_W = 200,
     switch_3ph1ph_time_hysteresis_s = 600\<rparr>"

definition example_entry :: "string \<Rightarrow> real \<Rightarrow> ScheduleReqEntry" where
  "example_entry t a = (empty_req_entry t)\<lparr>limits_to_root := empty_limits_req
     \<lparr>ac_max_current_A := Some (number a ''evse''), ac_max_phase_count := Some (integer 3 ''evse'')\<rparr>\<rparr>"

definition example_evse :: EnergyFlowRequest where
  "example_evse = Flow_Request \<lparr>uuid = ''evse'', node_type = NT_Evse, priority_request = None,
     evse_state = Some ES_Charging, optimizer_target = None, energy_usage_root = None, energy_usage_leaves = None,
     schedule_import = [example_entry [] 16, example_entry ''00'' 32], schedule_export = [], schedule_setpoints = []\<rparr> []"

definition example_sold :: ScheduleRes where
  "example_sold = map (\<lambda>t. \<lparr>res_timestamp = t, res_limits = empty_limits_res
     \<lparr>sold_current_A := Some (number (real (length t)) [])\<rparr>, res_price_per_kwh = None\<rparr>) ['''', ''00'']"

text \<open>For a schedule in order of time, the limits that the energy manager enforces and the requests
  that it resamples are those of the entry in force: the last one that has begun, the first one
  before that.\<close>

theorem schedule_lookup:
  assumes "sorted (map (parse_date d \<circ> res_timestamp) sold)"
    and "sorted (map (parse_date d \<circ> req_timestamp) request)" and "request \<noteq> []"
  shows "select_limits d now sold = res_limits (in_force (parse_date d \<circ> res_timestamp) now sold) \<and>
    get_max_available_energy d g request = map (\<lambda>a. merge_limits
      (in_force (parse_date d \<circ> req_timestamp) (parse_date d (req_timestamp a)) request) a) (empty_schedule_req g)"
  using takeWhile_filter_sorted [of "parse_date d \<circ> res_timestamp" sold now] assms
  by (auto simp: select_limits_def in_force_def get_max_available_energy_def find_entry_last split: list.split)

theorem schedule_lookup_witness:
  "select_limits example_dates 1 example_sold = res_limits (hd example_sold) \<and>
   get_max_available_energy example_dates (config_globals example_dates example_em_config 0 example_evse)
     (schedule_import (flow example_evse)) = map (\<lambda>a. merge_limits (in_force (parse_date example_dates \<circ> req_timestamp)
       (parse_date example_dates (req_timestamp a)) (schedule_import (flow example_evse))) a)
     (empty_schedule_req (config_globals example_dates example_em_config 0 example_evse))"
  using schedule_lookup [of example_dates example_sold "schedule_import (flow example_evse)" 1
      "config_globals example_dates example_em_config 0 example_evse"]
  by (simp add: example_sold_def example_evse_def example_entry_def empty_req_entry_def example_dates_def in_force_def)

text \<open>Between two points of a frequency table the power is the linear interpolation only where the
  points are one Hertz apart, or the power is the same, or at the first of the two points: the slope is not
  divided by the distance of the frequencies.\<close>

theorem freq_table_interpolates_iff:
  assumes "sorted (map frequency_Hz (pre @ [e1]))" and "frequency_Hz e1 \<le> freq" and "freq < frequency_Hz e2"
  shows "get_watt_from_freq_table (pre @ e1 # e2 # post) freq = interpolated e1 e2 freq \<longleftrightarrow>
    frequency_Hz e2 - frequency_Hz e1 = 1 \<or> point_power_W e1 = point_power_W e2 \<or> freq = frequency_Hz e1"
proof -
  define x dx where "x = (freq - frequency_Hz e1) * (point_power_W e2 - point_power_W e1)"
    and "dx = frequency_Hz e2 - frequency_Hz e1"
  have "0 < dx"
    using assms by (simp add: dx_def)
  have "get_watt_from_freq_table (pre @ e1 # e2 # post) freq = interpolated e1 e2 freq \<longleftrightarrow> x = x / dx"
    by (simp add: get_watt_between [OF assms] interpolated_def x_def dx_def)
  also have "\<dots> \<longleftrightarrow> dx = 1 \<or> x = 0"
    using \<open>0 < dx\<close> by (auto simp: field_simps)
  finally show ?thesis
    by (auto simp: x_def dx_def)
qed

theorem freq_table_interpolates_iff_witness:
  "get_watt_from_freq_table [\<lparr>frequency_Hz = 49, point_power_W = 0\<rparr>, \<lparr>frequency_Hz = 51, point_power_W = 1000\<rparr>] 50 \<noteq>
     interpolated \<lparr>frequency_Hz = 49, point_power_W = 0\<rparr> \<lparr>frequency_Hz = 51, point_power_W = 1000\<rparr> 50"
  using freq_table_interpolates_iff [of "[]" "\<lparr>frequency_Hz = 49, point_power_W = 0\<rparr>" 50
      "\<lparr>frequency_Hz = 51, point_power_W = 1000\<rparr>" "[]"] by simp

text \<open>The slot that counts as the active one, for a schedule in strict order of time: strictly between two
  entries it is the first of them, before the schedule the first, after it the last one; but at the very
  beginning of a slot it is slot zero.\<close>

theorem active_slot_exact:
  assumes "sorted_wrt (<) ts" and "k < length ts"
  shows "active_slot (ts ! k) ts = 0 \<and>
    (\<forall>now. ts ! k < now \<and> (Suc k < length ts \<longrightarrow> now < ts ! Suc k) \<longrightarrow> active_slot now ts = k) \<and>
    (\<forall>now < hd ts. active_slot now ts = 0)"
proof -
  have st: "sorted ts"
    using assms(1) by (simp add: strict_sorted_iff)
  have ne: "ts \<noteq> []"
    using assms(2) by auto
  have le: "ts ! k \<le> last ts" "hd ts \<le> ts ! k"
    using sorted_nth_mono [OF st, of k "length ts - 1"] sorted_nth_mono [OF st, of 0 k] assms(2)
    by (simp_all add: last_conv_nth [OF ne] hd_conv_nth [OF ne])
  have "active_slot now ts = k" if now: "ts ! k < now" "Suc k < length ts \<longrightarrow> now < ts ! Suc k" for now
  proof (cases "Suc k < length ts")
    case True
    have ts: "ts = take k ts @ ts ! k # ts ! Suc k # drop (Suc (Suc k)) ts"
      using True by (simp add: Cons_nth_drop_Suc)
    have "ts ! Suc k \<le> last ts"
      using sorted_nth_mono [OF st, of "Suc k" "length ts - 1"] True by (simp add: last_conv_nth [OF ne])
    moreover have "active_slot_loop now 0 ts = k"
      using active_slot_loop_between [of "take k ts" "ts ! k" "ts ! Suc k" "drop (Suc (Suc k)) ts" now 0] ts assms
        now True by simp
    ultimately show ?thesis
      using now True le by (auto simp: active_slot_def)
  next
    case False
    then have "k = length ts - 1"
      using assms(2) by simp
    moreover have "\<not> now < hd ts" "last ts < now"
      using now(1) le calculation by (simp_all add: last_conv_nth [OF ne])
    ultimately show ?thesis
      by (simp add: active_slot_def)
  qed
  then show ?thesis
    using le active_slot_loop_on_boundary [OF assms(1), of "ts ! k" 0] nth_mem [OF assms(2)] by (auto simp: active_slot_def)
qed

theorem active_slot_exact_witness:
  "active_slot 10 [0, 10, 20] = 0 \<and> active_slot 15 [0, 10, 20] = 1 \<and> active_slot (- 1) [0, 10, 20] = 0"
  using active_slot_exact [of "[0, 10, 20]" 1] by simp

end
