(* ===== verification/Energy_Safety.thy ===== *)
theory Energy_Safety
  imports Energy_Laws Energy_Schedules
begin

text \<open>
  A run of the optimizer as a whole: what the EVSEs below a node are given together never exceeds a limit of
  that node, in any time slot.
\<close>

section \<open>The tree of markets\<close>

text \<open>An EVSE is a leaf of the tree of requests.\<close>

fun evse_leaves :: "EnergyFlowRequest \<Rightarrow> bool" where
  "evse_leaves (Flow_Request f cs) \<longleftrightarrow> (node_type f = NT_Evse \<longrightarrow> cs = []) \<and> list_all evse_leaves cs"

definition is_evse :: "market \<Rightarrow> bool" where
  "is_evse m \<longleftrightarrow> node_type (energy_flow_request m) = NT_Evse"

definition built :: "dates \<Rightarrow> globals_t \<Rightarrow> real \<Rightarrow> market list \<Rightarrow> bool" where
  "built d g v ms \<longleftrightarrow> (\<forall>i < length ms. ms ! i = new_market d g v (m_parent (ms ! i)) (energy_flow_request (ms ! i)) \<and>
     (\<forall>p. m_parent (ms ! i) = Some p \<longrightarrow> p < i \<and> \<not> is_evse (ms ! p)))"

lemma new_market_fields [simp]:
  "energy_flow_request (new_market d g v p f) = f" "m_parent (new_market d g v p f) = p"
  "nominal_ac_voltage (new_market d g v p f) = v" "sold_root (new_market d g v p f) = empty_schedule_res g"
  by (simp_all add: new_market_def Let_def split: prod.split)

lemma built_snoc:
  assumes "built d g v ms" and "\<And>p. parent = Some p \<Longrightarrow> p < length ms \<and> \<not> is_evse (ms ! p)"
  shows "built d g v (ms @ [new_market d g v parent f])"
  using assms by (auto simp: built_def nth_append less_Suc_eq)

lemma create_built:
  "built d g v ms \<Longrightarrow> evse_leaves r \<Longrightarrow> (\<forall>p. parent = Some p \<longrightarrow> p < length ms \<and> \<not> is_evse (ms ! p)) \<Longrightarrow>
    built d g v (create_market d g v parent r ms) \<and> (\<exists>xs. create_market d g v parent r ms = ms @ xs)"
  "built d g v ms \<Longrightarrow> list_all evse_leaves cs \<Longrightarrow> this < length ms \<Longrightarrow> (cs \<noteq> [] \<longrightarrow> \<not> is_evse (ms ! this)) \<Longrightarrow>
    built d g v (create_children d g v this cs ms) \<and> (\<exists>xs. create_children d g v this cs ms = ms @ xs)"
proof (induction d g v parent r ms and d g v this cs ms rule: create_market_create_children.induct)
  case (1 d g v parent f cs ms)
  have "built d g v (ms @ [new_market d g v parent f])"
    using built_snoc [OF 1(2), of parent f] 1(4) by blast
  then show ?case
    using 1(1,3) by (auto simp: is_evse_def)
next
  case (3 d g v this c cs ms)
  have m: "built d g v (create_market d g v (Some this) c ms)" "\<exists>xs. create_market d g v (Some this) c ms = ms @ xs"
    using 3(1,3,4,5,6) by auto
  then obtain xs where xs: "create_market d g v (Some this) c ms = ms @ xs" by blast
  have "built d g v (create_children d g v this cs (ms @ xs)) \<and>
      (\<exists>ys. create_children d g v this cs (ms @ xs) = (ms @ xs) @ ys)"
    using 3(2) m(1) 3(4,5,6) unfolding xs by (simp add: nth_append)
  then show ?case
    by (auto simp: xs)
qed auto

lemma parent_no_evse:
  assumes "built d g v ms" and "e < length ms" and "i \<in> set (ancestors ms e)" and "is_evse (ms ! i)"
  shows "i = e"
  using assms(2,3)
proof (induction e rule: less_induct)
  case (less e)
  show ?case
  proof (rule ccontr)
    assume "i \<noteq> e"
    then obtain p where p: "m_parent (ms ! e) = Some p" "p < e" "i \<in> set (ancestors ms p)"
      using less(3) by (cases "m_parent (ms ! e)") (auto simp: ancestors.simps [of ms e] split: if_splits)
    then have "i = p"
      using less by simp
    then show False
      using p(1) assms(1,4) less(2) by (simp add: built_def)
  qed
qed

text \<open>A setpoint makes a limit stricter, or zero.\<close>

definition capped :: "NumberWithSource option \<Rightarrow> NumberWithSource option \<Rightarrow> bool" where
  "capped a b \<longleftrightarrow> (\<forall>y. b = Some y \<longrightarrow> (\<exists>x. a = Some x \<and> nvalue x \<le> max 0 (nvalue y)))"

lemma capped_refl: "capped a a"
  by (auto simp: capped_def)

lemma capped_setpoint:
  "capped (ac_max_current_A (fst (apply_setpoint sp freq imp expo))) (ac_max_current_A imp)"
  "capped (ac_max_current_A (snd (apply_setpoint sp freq imp expo))) (ac_max_current_A expo)"
  by (auto simp: apply_setpoint_def apply_watts_def apply_limit_if_smaller_def capped_def split: option.split)

lemma apply_setpoints_loop_cons:
  "apply_setpoints_loop (i # is) (e # es) (s # ss) freq =
    (i\<lparr>limits_to_root := (case setpoint s of None \<Rightarrow> limits_to_root i
       | Some sp \<Rightarrow> fst (apply_setpoint sp freq (limits_to_root i) (limits_to_root e)))\<rparr>
       # fst (apply_setpoints_loop is es ss freq),
     e\<lparr>limits_to_root := (case setpoint s of None \<Rightarrow> limits_to_root e
       | Some sp \<Rightarrow> snd (apply_setpoint sp freq (limits_to_root i) (limits_to_root e)))\<rparr>
       # snd (apply_setpoints_loop is es ss freq))"
  by (simp add: Let_def split: prod.split option.split)

lemma apply_setpoints_loop_capped:
  assumes "length sps = length imp" and "length sps = length expo"
  shows "length (fst (apply_setpoints_loop imp expo sps freq)) = length imp \<and>
    length (snd (apply_setpoints_loop imp expo sps freq)) = length expo \<and>
    (\<forall>t < length imp. capped (amps (fst (apply_setpoints_loop imp expo sps freq)) t) (amps imp t) \<and>
      capped (amps (snd (apply_setpoints_loop imp expo sps freq)) t) (amps expo t))"
  using assms(1) [symmetric] assms(2)
proof (induction imp sps expo rule: list_induct3)
  case (Cons i "is" s ss e es)
  then show ?case
    unfolding apply_setpoints_loop_cons
    by (auto simp: nth_Cons capped_refl capped_setpoint split: nat.split option.split)
qed simp

lemma apply_setpoints_capped:
  assumes "apply_setpoints imp expo sps freq = (imp', expo')" and "length expo = length imp"
  shows "length imp' = length imp \<and> length expo' = length expo \<and>
    (\<forall>t < length imp. capped (amps imp' t) (amps imp t) \<and> capped (amps expo' t) (amps expo t))"
  using assms apply_setpoints_loop_capped [of sps imp expo freq]
  by (auto simp: apply_setpoints_def capped_refl split: if_splits)

definition globals_ok :: "globals_t \<Rightarrow> bool" where
  "globals_ok g \<longleftrightarrow> length (empty_schedule_req g) = schedule_length g \<and>
     length (zero_schedule_req g) = schedule_length g \<and> length (empty_schedule_res g) = schedule_length g \<and>
     (\<forall>r \<in> set (empty_schedule_res g). res_limits r = empty_limits_res)"

lemma globals_ok_config: "globals_ok (config_globals d conf start request)"
  by (auto simp: globals_ok_def config_globals_def globals_init_def Let_def)

definition requested :: "dates \<Rightarrow> globals_t \<Rightarrow> ScheduleReq \<Rightarrow> ScheduleReq" where
  "requested d g sched = (if sched \<noteq> [] then get_max_available_energy d g sched else zero_schedule_req g)"

lemma length_requested: "globals_ok g \<Longrightarrow> length (requested d g sched) = schedule_length g"
  by (simp add: requested_def globals_ok_def get_max_available_energy_def)

lemma new_market_capped:
  assumes "globals_ok g"
  shows "length (import_max_available (new_market d g v p f)) = schedule_length g"
    and "length (export_max_available (new_market d g v p f)) = schedule_length g"
    and "t < schedule_length g \<Longrightarrow>
      capped (amps (import_max_available (new_market d g v p f)) t) (amps (requested d g (schedule_import f)) t)"
    and "t < schedule_length g \<Longrightarrow>
      capped (amps (export_max_available (new_market d g v p f)) t) (amps (requested d g (schedule_export f)) t)"
proof -
  define sps where "sps = (if schedule_setpoints f \<noteq> [] then resample d g (schedule_setpoints f) else empty_schedule_setpoints g)"
  obtain imp expo where a: "apply_setpoints (requested d g (schedule_import f)) (requested d g (schedule_export f)) sps
      (find_frequency f) = (imp, expo)"
    by fastforce
  then have m: "import_max_available (new_market d g v p f) = imp" "export_max_available (new_market d g v p f) = expo"
    by (simp_all add: new_market_def requested_def sps_def Let_def)
  note apply_setpoints_capped [OF a]
  then show "length (import_max_available (new_market d g v p f)) = schedule_length g"
    "length (export_max_available (new_market d g v p f)) = schedule_length g"
    "t < schedule_length g \<Longrightarrow>
      capped (amps (import_max_available (new_market d g v p f)) t) (amps (requested d g (schedule_import f)) t)"
    "t < schedule_length g \<Longrightarrow>
      capped (amps (export_max_available (new_market d g v p f)) t) (amps (requested d g (schedule_export f)) t)"
    by (simp_all add: m length_requested [OF assms])
qed

lemma built_safe:
  assumes "globals_ok g" and "built d g v ms"
  shows "markets_safe g ms"
proof -
  have "length (import_max_available m) = schedule_length g \<and> length (export_max_available m) = schedule_length g \<and>
      sold_root m = empty_schedule_res g" if "m \<in> set ms" for m
  proof -
    have "m = new_market d g v (m_parent m) (energy_flow_request m)"
      using assms(2) that by (auto simp: built_def in_set_conv_nth)
    then show ?thesis
      using new_market_capped(1,2) [OF assms(1), of d v "m_parent m" "energy_flow_request m"]
        new_market_fields(4) [of d g v "m_parent m" "energy_flow_request m"] by simp
  qed
  moreover have "sold_amps (empty_schedule_res g) t = 0" "sold_watts (empty_schedule_res g) t = 0" if "t < schedule_length g" for t
    using assms(1) that by (auto simp: sold_amps_def sold_watts_def globals_ok_def empty_limits_res_def)
  ultimately show ?thesis
    using assms(1) by (auto simp: markets_safe_def schedules_ok_def market_safe_def keeps_limit_def globals_ok_def)
qed

section \<open>A run of the optimizer\<close>

definition evses_below :: "market list \<Rightarrow> nat \<Rightarrow> nat list" where
  "evses_below ms j = filter (\<lambda>e. j \<in> set (ancestors ms e)) (get_list_of_evses ms)"

text \<open>What the EVSEs below a market were given together; \<open>q\<close> is the current or the power.\<close>

definition total_sold :: "(ScheduleRes \<Rightarrow> nat \<Rightarrow> real) \<Rightarrow> market list \<Rightarrow> nat \<Rightarrow> nat \<Rightarrow> real" where
  "total_sold q ms j t = (\<Sum>e \<in> set (evses_below ms j). q (sold_root (ms ! e)) t)"

definition sums_up :: "nat \<Rightarrow> (ScheduleRes \<Rightarrow> nat \<Rightarrow> real) \<Rightarrow> market list \<Rightarrow> bool" where
  "sums_up n q ms \<longleftrightarrow> (\<forall>j < length ms. \<forall>t < n. q (sold_root (ms ! j)) t = total_sold q ms j t)"

lemma same_tree_evses: "same_tree ms ms' \<Longrightarrow> get_list_of_evses ms' = get_list_of_evses ms"
  using same_tree_nth [of ms ms']
  by (auto simp: get_list_of_evses_def same_tree_length intro!: filter_cong)

lemma evse_range: "e \<in> set (get_list_of_evses ms) \<longleftrightarrow> e < length ms \<and> is_evse (ms ! e)"
  by (auto simp: get_list_of_evses_def is_evse_def)

lemma same_tree_below:
  assumes "same_tree ms ms'"
  shows "evses_below ms' j = evses_below ms j"
  unfolding evses_below_def same_tree_evses [OF assms]
  using ancestors_same [OF assms] by (auto simp: evse_range intro!: filter_cong)

lemma same_tree_built_parts:
  assumes "same_tree ms ms'" and "built d g v ms" and "e < length ms'" and "i \<in> set (ancestors ms' e)"
    and "is_evse (ms' ! i)"
  shows "i = e"
proof -
  have e: "e < length ms" and "i < length ms"
    using assms(1,3,4) ancestors_le [of i ms' e] same_tree_length [OF assms(1)] by auto
  then have "is_evse (ms ! i)"
    using assms(5) same_tree_nth [OF assms(1), of i] by (simp add: is_evse_def)
  then show ?thesis
    using parent_no_evse [OF assms(2) e _, of i] assms(4) ancestors_same [OF assms(1) e] by simp
qed

lemma sums_up_trade:
  assumes "sums_up n q ms" and "same_tree ms0 ms" and "built d g v ms0" and "i \<in> set (get_list_of_evses ms)"
    and add: "\<And>j t. j < length ms \<Longrightarrow> t < n \<Longrightarrow>
      q (schedule_add (sold_root (ms ! j)) tr) t = q (sold_root (ms ! j)) t + q tr t"
  shows "sums_up n q (market_trade i tr ms)"
proof -
  have i: "i < length ms"
    using assms(4) by (simp add: evse_range)
  let ?ms = "market_trade i tr ms"
  have st: "same_tree ms ?ms"
    by (rule market_trade_tree [OF i])
  have "q (sold_root (?ms ! j)) t = total_sold q ?ms j t" if j: "j < length ms" and t: "t < n" for j t
  proof -
    have e: "q (sold_root (?ms ! e)) t = q (sold_root (ms ! e)) t + (if e = i then q tr t else 0)"
      if "e \<in> set (evses_below ms j)" for e
    proof -
      have "e < length ms" and "is_evse (ms ! e)"
        using that by (auto simp: evses_below_def evse_range)
      then show ?thesis
        using same_tree_built_parts [OF assms(2,3) i] self_ancestor [of i ms]
        by (auto simp: market_trade_nth [OF i] add t)
    qed
    have "total_sold q ?ms j t = (\<Sum>e \<in> set (evses_below ms j). q (sold_root (ms ! e)) t + (if e = i then q tr t else 0))"
      unfolding total_sold_def same_tree_below [OF st] by (rule sum.cong [OF refl e])
    also have "\<dots> = total_sold q ms j t + (if j \<in> set (ancestors ms i) then q tr t else 0)"
      using assms(4) by (simp add: sum.distrib total_sold_def evses_below_def)
    also have "\<dots> = q (sold_root (?ms ! j)) t"
      using assms(1) j t by (simp add: sums_up_def market_trade_nth [OF i j] add)
    finally show ?thesis by simp
  qed
  then show ?thesis
    by (simp add: sums_up_def same_tree_length [OF st])
qed

definition run_inv :: "globals_t \<Rightarrow> market list \<Rightarrow> optimizer \<Rightarrow> bool" where
  "run_inv g ms0 s \<longleftrightarrow> same_tree ms0 (markets s) \<and> markets_safe g (markets s) \<and>
     map local_market (brokers s) = get_list_of_evses ms0 \<and>
     sums_up (schedule_length g) sold_amps (markets s) \<and> sums_up (schedule_length g) sold_watts (markets s)"

lemma broker_turn_inv:
  assumes inv: "run_inv g ms0 s" and "built d g v ms0" and "0 \<le> v" and "0 \<le> slice_ampere g" "0 \<le> slice_watt g"
    and k: "k < length (brokers s)"
  shows "run_inv g ms0 (exec (broker_turn d conf g now k) s)"
proof -
  let ?i = "local_market (brokers s ! k)"
  let ?ms = "markets s"
  let ?offer = "create_offer_for_local_market g ?ms ?i"
  have st: "same_tree ms0 ?ms" and safe: "markets_safe g ?ms" and ok: "schedules_ok g ?ms"
    and loc: "map local_market (brokers s) = get_list_of_evses ms0"
    using inv by (auto simp: run_inv_def markets_safe_def)
  have ev: "?i \<in> set (get_list_of_evses ?ms)"
    using loc k same_tree_evses [OF st] by (metis length_map nth_map nth_mem)
  then have i: "?i < length ?ms"
    by (simp add: evse_range)
  have volt: "0 \<le> nominal_ac_voltage (?ms ! ?i)"
    using same_tree_nth [OF st, of ?i] i same_tree_length [OF st] assms(2,3) new_market_fields(3)
    unfolding built_def by metis
  obtain trade b' where bt: "broker_trade d g (to_broker_fast_charging_config conf) now
      (nominal_ac_voltage (?ms ! ?i)) ?offer ((brokers s ! k)\<lparr>b_context := get_context now
        (uuid (energy_flow_request (?ms ! ?i))) s\<rparr>) = (trade, b')"
    by fastforce
  have b': "(map local_market (brokers s))[k := local_market b'] = map local_market (brokers s)"
    using local_market_kept [OF bt] k by (simp add: list_update_same_conv)
  show ?thesis
  proof (cases trade)
    case None
    then show ?thesis
      using inv b' bt by (simp add: broker_turn_def run_inv_def run_simps Let_def map_update)
  next
    case (Some t)
    have fair: "fair ?offer b'" and t: "t = trading b'"
      using broker_trade_fair [OF ok _ assms(4,5) volt, of ?offer] offer_length [OF ok i] bt Some by blast+
    have "length (trading b') = schedule_length g"
      using fair offer_length [OF ok i] by (simp add: fair_def)
    moreover have "length (sold_root (?ms ! j)) = schedule_length g" if "j < length ?ms" for j
      using ok that by (auto simp: schedules_ok_def)
    ultimately have "sums_up (schedule_length g) q (market_trade ?i t ?ms)"
      if "q = sold_amps \<or> q = sold_watts" for q
      using sums_up_trade [OF _ st assms(2) ev, of "schedule_length g" q t] inv that
      by (auto simp: run_inv_def t sold_schedule_add)
    then show ?thesis
      using trade_safe [OF safe i fair] same_tree_trans [OF st market_trade_tree [OF i]] b' bt Some loc
      by (simp add: broker_turn_def run_inv_def run_simps Let_def map_update t)
  qed
qed

lemma trading_round_inv:
  assumes "built d g v ms0" and "0 \<le> v" and "0 \<le> slice_ampere g" "0 \<le> slice_watt g"
  shows "run_inv g ms0 s \<Longrightarrow> \<forall>k \<in> set ks. k < length (get_list_of_evses ms0) \<Longrightarrow>
    run_inv g ms0 (exec (trading_round d conf g now ks) s)"
proof (induction ks arbitrary: s)
  case (Cons k ks)
  then have "k < length (brokers s)"
    by (metis length_map list.set_intros(1) run_inv_def)
  then show ?case
    using Cons(1) [OF broker_turn_inv [OF Cons(2) assms]] Cons(3) by (simp add: run_simps)
qed (simp add: run_simps)

lemma trading_rounds_inv:
  assumes "built d g v ms0" and "0 \<le> v" and "0 \<le> slice_ampere g" "0 \<le> slice_watt g"
  shows "run_inv g ms0 s \<Longrightarrow> run_inv g ms0 (exec (trading_rounds d conf g now n) s)"
proof (induction n arbitrary: s)
  case (Suc n)
  have "length (brokers s) = length (get_list_of_evses ms0)"
    using Suc(2) by (metis length_map run_inv_def)
  then have "run_inv g ms0 (exec (trading_round d conf g now [0..<length (brokers s)]) s)"
    by (intro trading_round_inv [OF assms Suc(2)]) simp
  then show ?case
    using Suc(1) by (simp add: run_simps)
qed (simp add: run_simps)

lemma create_brokers:
  "markets (exec (for_each es (create_broker conf g now)) s) = markets s \<and>
    map local_market (brokers (exec (for_each es (create_broker conf g now)) s)) = map local_market (brokers s) @ es"
  by (induction es arbitrary: s) (simp_all add: create_broker_def new_broker_def run_simps do_if_def)

lemma sums_up_start:
  assumes "\<And>j. j < length ms \<Longrightarrow> sold_root (ms ! j) = nothing" and "\<And>t. t < n \<Longrightarrow> q nothing t = 0"
  shows "sums_up n q ms"
  using assms by (auto simp: sums_up_def total_sold_def evses_below_def evse_range intro!: sum.neutral)

lemma built_create: "evse_leaves request \<Longrightarrow> built d g v (create_market d g v None request [])"
  using create_built(1) [of d g v "[]" request None] by (simp add: built_def)

lemma start_run_inv:
  assumes "evse_leaves request" and "globals_ok g"
  shows "run_inv g (create_market d g (em_nominal_ac_voltage conf) None request []) (start_run d conf g now request cs)"
proof -
  define ms where "ms = create_market d g (em_nominal_ac_voltage conf) None request []"
  have b: "built d g (em_nominal_ac_voltage conf) ms"
    using built_create [OF assms(1)] by (simp add: ms_def)
  have "sold_root (ms ! j) = empty_schedule_res g" if "j < length ms" for j
    using b that new_market_fields(4) unfolding built_def by metis
  moreover have "sold_amps (empty_schedule_res g) t = 0" "sold_watts (empty_schedule_res g) t = 0"
    if "t < schedule_length g" for t
    using assms(2) that by (auto simp: sold_amps_def sold_watts_def globals_ok_def empty_limits_res_def)
  ultimately have "sums_up (schedule_length g) sold_amps ms" "sums_up (schedule_length g) sold_watts ms"
    by (auto intro: sums_up_start)
  then show ?thesis
    using create_brokers [of "get_list_of_evses ms" conf g now "\<lparr>markets = ms, brokers = [], contexts = cs\<rparr>"]
      built_safe [OF assms(2) b]
    by (simp add: run_inv_def start_run_def Let_def ms_def [symmetric] same_tree_refl)
qed

definition em_config_ok :: "EnergyManagerConfig \<Rightarrow> bool" where
  "em_config_ok conf \<longleftrightarrow> 0 \<le> em_nominal_ac_voltage conf \<and> 0 \<le> em_slice_ampere conf \<and> 0 \<le> em_slice_watt conf"

lemma optimizer_end_inv:
  assumes "evse_leaves request" and "em_config_ok conf"
  shows "run_inv (config_globals d conf start request)
    (create_market d (config_globals d conf start request) (em_nominal_ac_voltage conf) None request [])
    (snd (optimizer_end d conf now request start cs))"
proof -
  define g where "g = config_globals d conf start request"
  have "0 \<le> slice_ampere g" "0 \<le> slice_watt g" "0 \<le> em_nominal_ac_voltage conf"
    using assms(2) by (simp_all add: em_config_ok_def g_def config_globals_def globals_init_def Let_def)
  moreover have "run_inv g (create_market d g (em_nominal_ac_voltage conf) None request []) (start_run d conf g now request cs)"
    using start_run_inv [OF assms(1)] globals_ok_config by (simp add: g_def)
  ultimately show ?thesis
    using trading_rounds_inv [OF built_create [OF assms(1)]]
    by (simp add: optimizer_end_def Let_def g_def [symmetric] exec_def)
qed

section \<open>Fuses\<close>

lemma find_entry_member: "es \<noteq> [] \<Longrightarrow> \<exists>e \<in> set es. find_entry tp t first es = Some e"
  by (induction tp t first es rule: find_entry.induct) auto

lemma min_optional_stricter: "stricter (min_optional nvalue a b) b"
  by (auto simp: stricter_def min_optional_def split: option.split)

lemma requested_fuse:
  assumes "globals_ok g" and "fuse_ok fuse phases sched" and "t < schedule_length g"
  shows "\<exists>x. amps (requested d g sched) t = Some x \<and> nvalue x \<le> fuse"
proof -
  define a where "a = empty_schedule_req g ! t"
  have "sched \<noteq> []"
    using assms(2) by (simp add: fuse_ok_def)
  then obtain e where e: "e \<in> set sched"
      "find_entry (parse_date d \<circ> req_timestamp) (parse_date d (req_timestamp a)) True sched = Some e"
    using find_entry_member by blast
  have "requested d g sched ! t = merge_limits e a"
    using assms(1,3) \<open>sched \<noteq> []\<close> e(2) by (simp add: requested_def get_max_available_energy_def globals_ok_def a_def)
  moreover have "stricter (ac_max_current_A (limits_to_root (merge_limits e a))) (ac_max_current_A (limits_to_root e))"
    by (simp add: merge_limits_def Let_def min_optional_stricter)
  moreover obtain y where "ac_max_current_A (limits_to_root e) = Some y" "nvalue y \<le> fuse"
    using assms(2) e(1) by (auto simp: fuse_ok_def list_all_iff)
  ultimately show ?thesis
    by (auto simp: stricter_def)
qed

lemma optimizer_limits:
  assumes "evse_leaves request" and "em_config_ok conf" and "g = config_globals d conf start request"
    and "ms = markets (snd (optimizer_end d conf now request start cs))" and "j < length ms" and "t < schedule_length g"
  shows "keeps_limit (amps (import_max_available (ms ! j)) t) (total_sold sold_amps ms j t)"
    and "keeps_limit (watts (import_max_available (ms ! j)) t) (total_sold sold_watts ms j t)"
    and "keeps_limit (amps (export_max_available (ms ! j)) t) (- total_sold sold_amps ms j t)"
proof -
  have "markets_safe g ms" "sums_up (schedule_length g) sold_amps ms" "sums_up (schedule_length g) sold_watts ms"
    using optimizer_end_inv [OF assms(1,2), of d start now cs] by (simp_all add: run_inv_def assms(3,4))
  then have "market_safe (schedule_length g) (ms ! j)"
    "sold_amps (sold_root (ms ! j)) t = total_sold sold_amps ms j t"
    "sold_watts (sold_root (ms ! j)) t = total_sold sold_watts ms j t"
    using assms(5,6) by (simp_all add: markets_safe_def sums_up_def)
  then show "keeps_limit (amps (import_max_available (ms ! j)) t) (total_sold sold_amps ms j t)"
    "keeps_limit (watts (import_max_available (ms ! j)) t) (total_sold sold_watts ms j t)"
    "keeps_limit (amps (export_max_available (ms ! j)) t) (- total_sold sold_amps ms j t)"
    using assms(6) by (auto simp: market_safe_def)
qed

lemma optimizer_market:
  assumes "evse_leaves request" and "em_config_ok conf" and "g = config_globals d conf start request"
    and "ms = markets (snd (optimizer_end d conf now request start cs))" and "j < length ms"
  shows "\<exists>v p. import_max_available (ms ! j) = import_max_available (new_market d g v p (energy_flow_request (ms ! j))) \<and>
    export_max_available (ms ! j) = export_max_available (new_market d g v p (energy_flow_request (ms ! j)))"
proof -
  define ms0 where "ms0 = create_market d g (em_nominal_ac_voltage conf) None request []"
  have st: "same_tree ms0 ms"
    using optimizer_end_inv [OF assms(1,2), of d start now cs] by (simp add: run_inv_def assms(3,4) ms0_def)
  then have "ms0 ! j = new_market d g (em_nominal_ac_voltage conf) (m_parent (ms0 ! j)) (energy_flow_request (ms0 ! j))"
    using built_create [OF assms(1), of d g "em_nominal_ac_voltage conf"] assms(5) same_tree_length [OF st]
    by (simp add: ms0_def built_def)
  then show ?thesis
    using same_tree_nth [OF st, of j] assms(5) same_tree_length [OF st] by metis
qed

lemma capped_keeps:
  assumes "keeps_limit mx x" and "capped mx rq" and "\<exists>y. rq = Some y \<and> nvalue y \<le> fuse"
  shows "x \<le> max 0 fuse"
  using assms by (fastforce simp: keeps_limit_def capped_def)

section \<open>Properties\<close>

text \<open>C6. At the end of a run, for every node of the tree and every time slot: the current and the power
  that the EVSEs below the node are given together are at most the import limits of the node (or zero, where a
  limit is negative), and the current that they feed back together is at most its export limit.\<close>

theorem no_overload:
  assumes "evse_leaves request" and "em_config_ok conf"
    and "ms = markets (snd (optimizer_end d conf now request start cs))"
    and "j < length ms" and "t < schedule_length (config_globals d conf start request)"
  shows "keeps_limit (amps (import_max_available (ms ! j)) t) (total_sold sold_amps ms j t) \<and>
    keeps_limit (watts (import_max_available (ms ! j)) t) (total_sold sold_watts ms j t) \<and>
    keeps_limit (amps (export_max_available (ms ! j)) t) (- total_sold sold_amps ms j t)"
  using optimizer_limits [OF assms(1,2) refl assms(3,4,5)] by simp

definition example_request :: EnergyFlowRequest where
  "example_request = Flow_Request (node_request example_node) [example_evse]"

lemma example_ok: "evse_leaves example_request" "em_config_ok example_em_config"
  by (simp_all add: example_request_def example_evse_def example_node_def node_init_def Let_def em_config_ok_def
      example_em_config_def)

lemma example_schedule: "0 < schedule_length (config_globals example_dates example_em_config 0 example_request)"
proof -
  have "remdups_adj (sort xs) \<noteq> []" if "xs \<noteq> []" for xs :: "time list"
    using that by (metis remdups_adj_set set_empty set_sort)
  then show ?thesis
    by (simp add: config_globals_def globals_init_def Let_def create_timestamps_def example_request_def example_evse_def)
qed

lemma optimizer_root:
  assumes "evse_leaves (Flow_Request f cs')" and "em_config_ok conf"
    and "ms = markets (snd (optimizer_end d conf now (Flow_Request f cs') start cs))"
  shows "0 < length ms \<and> energy_flow_request (ms ! 0) = f"
proof -
  define g where "g = config_globals d conf start (Flow_Request f cs')"
  have st: "same_tree (create_market d g (em_nominal_ac_voltage conf) None (Flow_Request f cs') []) ms"
    using optimizer_end_inv [OF assms(1,2), of d start now cs] by (simp add: run_inv_def assms(3) g_def)
  have "node_type f = NT_Evse \<longrightarrow> cs' = []" "list_all evse_leaves cs'"
    using assms(1) by simp_all
  then obtain xs where "create_market d g (em_nominal_ac_voltage conf) None (Flow_Request f cs') [] =
      new_market d g (em_nominal_ac_voltage conf) None f # xs"
    using create_built(2) [of d g "em_nominal_ac_voltage conf" "[new_market d g (em_nominal_ac_voltage conf) None f]" cs' 0]
    by (auto simp: built_def is_evse_def)
  then show ?thesis
    using same_tree_length [OF st] same_tree_nth [OF st, of 0] by simp
qed

theorem no_overload_witness:
  "\<exists>ms. ms = markets (snd (optimizer_end example_dates example_em_config 0 example_request 0 (\<lambda>_. None))) \<and> 0 < length ms \<and>
    keeps_limit (amps (import_max_available (ms ! 0)) 0) (total_sold sold_amps ms 0 0)"
  using no_overload [OF example_ok refl _ example_schedule, of 0 0 "\<lambda>_. None"]
    optimizer_root [OF example_ok [unfolded example_request_def] refl, of example_dates 0 0 "\<lambda>_. None"]
  by (simp add: example_request_def)

lemma fuse_bound:
  assumes "node_run d xs (node_init d name fuse phases k t0) = Some n" and "Published_request r \<in> set (node_out n)"
    and "0 \<le> fuse" and "evse_leaves request" and "em_config_ok conf"
    and "ms = markets (snd (optimizer_end d conf now request start cs))"
    and "j < length ms" and "energy_flow_request (ms ! j) = flow r"
    and "t < schedule_length (config_globals d conf start request)"
  shows "\<bar>total_sold sold_amps ms j t\<bar> \<le> fuse"
proof -
  define g where "g = config_globals d conf start request"
  have ok: "globals_ok g" and t: "t < schedule_length g"
    using globals_ok_config assms(9) by (simp_all add: g_def)
  have fuse: "fuse_ok fuse phases (schedule_import (flow r))" "fuse_ok fuse phases (schedule_export (flow r))"
    using published_limits_respect_fuse [OF assms(1,2)] by (simp_all add: flow_ok_def)
  obtain v p where m: "import_max_available (ms ! j) = import_max_available (new_market d g v p (flow r))"
      "export_max_available (ms ! j) = export_max_available (new_market d g v p (flow r))"
    using optimizer_market [OF assms(4,5) g_def assms(6,7)] by (auto simp: assms(8))
  note lim = optimizer_limits [OF assms(4,5) g_def assms(6,7) t, unfolded m]
  have "total_sold sold_amps ms j t \<le> max 0 fuse"
    by (rule capped_keeps [OF lim(1) new_market_capped(3) [OF ok t] requested_fuse [OF ok fuse(1) t]])
  moreover have "- total_sold sold_amps ms j t \<le> max 0 fuse"
    by (rule capped_keeps [OF lim(3) new_market_capped(4) [OF ok t] requested_fuse [OF ok fuse(2) t]])
  ultimately show ?thesis
    using assms(3) by simp
qed

text \<open>C7. Energy manager and energy nodes together.  A node was configured with a fuse and handled any
  sequence of inputs; a request that it published is part of the tree of a run of the optimizer.  Then the EVSEs
  below that node together are given no more current than the fuse allows, and feed back no more, in every slot.\<close>

theorem fuse_never_exceeded:
  assumes "node_run d xs (node_init d name fuse phases k t0) = Some n" and "Published_request r \<in> set (node_out n)"
    and "0 \<le> fuse" and "evse_leaves request" and "em_config_ok conf"
    and "ms = markets (snd (optimizer_end d conf now request start cs))"
    and "j < length ms" and "energy_flow_request (ms ! j) = flow r"
    and "t < schedule_length (config_globals d conf start request)"
  shows "\<bar>total_sold sold_amps ms j t\<bar> \<le> fuse"
  by (rule fuse_bound [OF assms])

theorem fuse_never_exceeded_witness:
  "\<bar>total_sold sold_amps (markets (snd (optimizer_end example_dates example_em_config 0 example_request 0 (\<lambda>_. None)))) 0 0\<bar> \<le> 63"
proof -
  let ?n = "example_node\<lparr>node_children := [example_evse]\<rparr>"
  have "node_run example_dates [N_child example_evse] example_node = Some (publish_request ?n)"
    by (simp add: on_child_request_def publish_complete_energy_object_def Let_def example_node_def node_init_def)
  moreover have "Published_request example_request \<in> set (node_out (publish_request ?n))"
    by (simp add: publish_request_def example_request_def)
  ultimately show ?thesis
    using fuse_never_exceeded [of example_dates "[N_child example_evse]" "''grid''" 63 3 1 0 "publish_request ?n"
        example_request example_request example_em_config _ 0 0 "\<lambda>_. None" 0 0] example_ok example_schedule
      optimizer_root [OF example_ok [unfolded example_request_def] refl, of example_dates 0 0 "\<lambda>_. None"]
    by (simp add: example_request_def example_node_def)
qed

end
