(* ===== verification/Auth_Handler.thy ===== *)
theory Auth_Handler
  imports Reservation
begin

text \<open>
  The authorisation handler of the module Auth (\<^verbatim>\<open>modules/EVSE/Auth/lib/AuthHandler.cpp\<close>), with the calls of
  \<^verbatim>\<open>Auth.cpp\<close> and \<^verbatim>\<open>reservation/reservationImpl.cpp\<close>.

  The map of the EVSEs, which the handler and its reservation handler share, is the field \<open>evses\<close> of
  the latter.  The calls of the callbacks are recorded in \<open>auth_out\<close>.

  The methods run in threads of their callers and share a mutex.  A method that gives the mutex away in
  the middle, to call the validators or to wait for a condition variable, is cut there: what is left of
  it is a value in \<open>threads\<close>, \<open>session_waits\<close> or \<open>withdraw_waits\<close>, and an input lets it go on.  A
  thread that waits for a condition variable may go on whenever its predicate holds, as the language
  allows.  The wait for \<^verbatim>\<open>signal_ok\<close> keeps the mutex: \<open>lock_holder\<close> is the thread that does, and no other
  method that takes the mutex can run.
\<close>

section \<open>Data\<close>

datatype TokenHandlingResult =
    ALREADY_IN_PROCESS | REJECTED | USED_TO_START_TRANSACTION | USED_TO_STOP_TRANSACTION | TIMEOUT
  | NO_CONNECTOR_AVAILABLE | WITHDRAWN

datatype auth_message =
    Out_notify_evse int ProvidedIdToken ValidationResult
  | Out_withdraw_authorization int
  | Out_stop_transaction int StopTransactionRequest
  | Out_token_status ProvidedIdToken TokenValidationStatus
  | Out_token_result nat TokenHandlingResult
  | Out_withdraw_result WithdrawAuthorizationResult

text \<open>Where a thread that handles a token waits: for the validators, for the signal, for an EVSE, or for a
  task of the timer of an EVSE.\<close>

datatype phase = Ph_validating | Ph_signal | Ph_selecting | Ph_timer int

record token_thread =
  th_provided :: ProvidedIdToken
  th_token :: ProvidedIdToken
  th_evses :: "int list"
  th_results :: "ValidationResult list"
  th_validation :: ValidationResult
  th_phase :: phase

datatype event_rest = Rest_transaction_started | Rest_session_finished | Rest_deauthorized

record auth =
  auth_rh :: rh
  selection_algorithm :: SelectionAlgorithm
  connection_timeout :: int
  master_pass_group_id :: "string option"
  prioritize_authorization_over_stopping_transaction :: bool
  ignore_faults :: bool
  plug_in_queue :: "int list"
  tokens_in_process :: "ProvidedIdToken list"
  withdraw_request :: "WithdrawAuthorizationRequest option"
  signal_ok :: bool
  threads :: "(nat \<times> token_thread) list"
  lock_holder :: "nat option"
  session_waits :: "(int \<times> event_rest) list"
  withdraw_waits :: "WithdrawAuthorizationRequest option"
  auth_out :: "auth_message list"

type_synonym 'a authM = "(auth, 'a) state"

definition out :: "auth_message \<Rightarrow> unit authM" where
  "out m = modify (\<lambda>a. a\<lparr>auth_out := auth_out a @ [m]\<rparr>)"

definition with_rh :: "'a rhM \<Rightarrow> 'a authM" where
  "with_rh m = do {
     h \<leftarrow> gets auth_rh;
     modify (\<lambda>a. a\<lparr>auth_rh := exec m h\<rparr>);
     State_Monad.return (result m h)
   }"

definition auth_evses :: "auth \<Rightarrow> (int \<times> EVSEContext) list" where
  "auth_evses a = evses (auth_rh a)"

definition evse_at :: "auth \<Rightarrow> int \<Rightarrow> EVSEContext option" where
  "evse_at a i = map_of (auth_evses a) i"

definition on_evse :: "int \<Rightarrow> (EVSEContext \<Rightarrow> EVSEContext) \<Rightarrow> unit authM" where
  "on_evse i f = modify (\<lambda>a. a\<lparr>auth_rh := (auth_rh a)\<lparr>evses :=
     map (\<lambda>(k, e). (k, if k = i then f e else e)) (evses (auth_rh a))\<rparr>\<rparr>)"

definition index_of :: "auth \<Rightarrow> int \<Rightarrow> int" where
  "index_of a i = (case evse_at a i of Some e \<Rightarrow> evse_index e | None \<Rightarrow> 0)"

definition transaction_at :: "auth \<Rightarrow> int \<Rightarrow> bool" where
  "transaction_at a i = (case evse_at a i of Some e \<Rightarrow> evse_transaction_active e | None \<Rightarrow> False)"

definition identifier_at :: "auth \<Rightarrow> int \<Rightarrow> Identifier option" where
  "identifier_at a i = (case evse_at a i of Some e \<Rightarrow> evse_identifier e | None \<Rightarrow> None)"

definition stop_transaction_at :: "int \<Rightarrow> StopTransactionReason \<Rightarrow> ProvidedIdToken option \<Rightarrow> unit authM" where
  "stop_transaction_at i reason token = do {
     a \<leftarrow> State_Monad.get;
     out (Out_stop_transaction (index_of a i) \<lparr>stop_reason = reason, stop_id_tag = token\<rparr>)
   }"

section \<open>Queries\<close>

text \<open>\<^verbatim>\<open>std::set_intersection\<close> of two sorted ranges.\<close>

fun set_intersection :: "int list \<Rightarrow> int list \<Rightarrow> int list" where
  "set_intersection (x # xs) (y # ys) =
     (if x < y then set_intersection xs (y # ys)
      else if y < x then set_intersection (x # xs) ys
      else x # set_intersection xs ys)"
| "set_intersection xs ys = []"

definition intersect :: "int list \<Rightarrow> int list \<Rightarrow> int list" where
  "intersect a b = set_intersection (sort a) (sort b)"

definition get_referenced_evses :: "auth \<Rightarrow> ProvidedIdToken \<Rightarrow> int list" where
  "get_referenced_evses a token =
     (case provided_connectors token of
        Some cs \<Rightarrow> filter (\<lambda>i. case evse_at a i of Some e \<Rightarrow> \<not> evse_is_unavailable e | None \<Rightarrow> False) cs
      | None \<Rightarrow> map fst (filter (\<lambda>(i, e). \<not> evse_is_unavailable e) (auth_evses a)))"

text \<open>None stands for \<^verbatim>\<open>-1\<close>.\<close>

definition used_for_transaction :: "auth \<Rightarrow> int list \<Rightarrow> string \<Rightarrow> int option" where
  "used_for_transaction a ids token = find (\<lambda>i.
     case identifier_at a i of
       None \<Rightarrow> False
     | Some ident \<Rightarrow> is_equal_case_insensitive (token_value (ident_id_token ident)) token \<or>
         (\<exists>p \<in> set_option (ident_parent_id_token ident). is_equal_case_insensitive (token_value p) token)) ids"

definition same_token :: "ProvidedIdToken \<Rightarrow> ProvidedIdToken \<Rightarrow> bool" where
  "same_token s t \<longleftrightarrow> token_value (provided_id_token s) = token_value (provided_id_token t)"

definition is_token_already_in_process :: "auth \<Rightarrow> ProvidedIdToken \<Rightarrow> int list \<Rightarrow> bool" where
  "is_token_already_in_process a token ids \<longleftrightarrow>
     list_ex (same_token token) (tokens_in_process a) \<or>
     list_ex (\<lambda>i. (case identifier_at a i of
         Some ident \<Rightarrow> is_equal_id_token (ident_id_token ident) (provided_id_token token)
       | None \<Rightarrow> False) \<and> \<not> transaction_at a i) ids"

definition any_evse_available :: "auth \<Rightarrow> int list \<Rightarrow> bool" where
  "any_evse_available a ids = list_ex (\<lambda>i. case evse_at a i of Some e \<Rightarrow> evse_is_available e | None \<Rightarrow> False) ids"

definition any_parent_id_present :: "auth \<Rightarrow> int list \<Rightarrow> bool" where
  "any_parent_id_present a ids = list_ex (\<lambda>i. case identifier_at a i of
     Some ident \<Rightarrow> ident_parent_id_token ident \<noteq> None | None \<Rightarrow> False) ids"

definition equals_master_pass_group_id :: "auth \<Rightarrow> IdToken option \<Rightarrow> bool" where
  "equals_master_pass_group_id a parent \<longleftrightarrow>
     (case (master_pass_group_id a, parent) of
        (Some m, Some p) \<Rightarrow> is_equal_case_insensitive (token_value p) m | _ \<Rightarrow> False)"

definition get_latest_plugin :: "auth \<Rightarrow> int list \<Rightarrow> int option" where
  "get_latest_plugin a ids = find (\<lambda>i. i \<in> set ids) (plug_in_queue a)"

definition does_withdraw_request_match :: "WithdrawAuthorizationRequest \<Rightarrow> int list \<Rightarrow> IdToken \<Rightarrow> bool" where
  "does_withdraw_request_match w ids token \<longleftrightarrow>
     (\<forall>t \<in> set_option (withdraw_id_token w). is_equal_id_token t token) \<and>
     (\<forall>e \<in> set_option (withdraw_evse_id w). e \<in> set ids)"

definition is_authorization_withdrawn :: "auth \<Rightarrow> int list \<Rightarrow> IdToken \<Rightarrow> bool" where
  "is_authorization_withdrawn a ids token =
     (case withdraw_request a of None \<Rightarrow> False | Some w \<Rightarrow> does_withdraw_request_match w ids token)"

text \<open>The loop at the beginning of \<^verbatim>\<open>handle_token\<close> over the EVSEs, none of which has a negative id.\<close>

definition all_evses_reserved_and_tag_does_not_match :: "rh \<Rightarrow> string \<Rightarrow> int list \<Rightarrow> bool" where
  "all_evses_reserved_and_tag_does_not_match h token ids = list_all (\<lambda>i.
     \<not> (\<not> result (is_evse_reserved i) h \<and> result (is_charging_possible i) h) \<and>
     result (matches_reserved_identifier token (Some i) None) h = None \<and>
     \<not> result (has_reservation_parent_id (Some i)) h) ids"

section \<open>Tokens\<close>

text \<open>How a piece of \<^verbatim>\<open>handle_token\<close> ends: it returns, it waits, or an exception leaves it.\<close>

datatype outcome = Done TokenHandlingResult | Blocked phase | Thrown

type_synonym piece = "token_thread \<Rightarrow> (outcome \<times> token_thread) authM"

definition returns :: "TokenHandlingResult \<Rightarrow> piece" where
  "returns r th = State_Monad.return (Done r, th)"

text \<open>The stop of a transaction by a parent token: None if no result leads to one.\<close>

primrec stop_with_parent_id_token :: "ValidationResult list \<Rightarrow> token_thread \<Rightarrow> (outcome \<times> token_thread) option authM" where
  "stop_with_parent_id_token [] th = State_Monad.return None"
| "stop_with_parent_id_token (vr # vrs) th =
     (case validated_parent_id_token vr of
        None \<Rightarrow> stop_with_parent_id_token vrs th
      | Some parent \<Rightarrow>
          if authorization_status vr \<noteq> Status_Accepted then stop_with_parent_id_token vrs th
          else do {
            a \<leftarrow> State_Monad.get;
            let token = th_token th;
            (if equals_master_pass_group_id a (Some parent) then do {
               let ids = filter (transaction_at a) (th_evses th);
               for_each ids (\<lambda>i. stop_transaction_at i Stop_MasterPass (Some token));
               State_Monad.return (Some (Done USED_TO_STOP_TRANSACTION, th\<lparr>th_token := token\<lparr>
                 provided_parent_id_token := Some parent, provided_connectors := Some ids\<rparr>\<rparr>))
             }
             else case used_for_transaction a (th_evses th) (token_value parent) of
               None \<Rightarrow> stop_with_parent_id_token vrs th
             | Some i \<Rightarrow> do {
                 let token = token\<lparr>provided_connectors := Some [i]\<rparr>;
                 (if \<not> transaction_at a i
                  then State_Monad.return (Some (Done ALREADY_IN_PROCESS, th\<lparr>th_token := token\<rparr>))
                  else do {
                    stop_transaction_at i Stop_Local (Some token);
                    State_Monad.return (Some (Done USED_TO_STOP_TRANSACTION,
                      th\<lparr>th_token := token\<lparr>provided_parent_id_token := Some parent\<rparr>\<rparr>))
                  })
               })
          })"

text \<open>The notification of an EVSE of a result that is not accepted, for the connectors of the token.  False:
  an EVSE is unknown, and \<^verbatim>\<open>evses.at\<close> throws.\<close>

primrec notify_rejected :: "ProvidedIdToken \<Rightarrow> ValidationResult \<Rightarrow> int list \<Rightarrow> bool authM" where
  "notify_rejected token vr [] = State_Monad.return True"
| "notify_rejected token vr (i # is) = do {
     a \<leftarrow> State_Monad.get;
     (case evse_at a i of
        None \<Rightarrow> State_Monad.return False
      | Some e \<Rightarrow> do {
          out (Out_notify_evse (evse_index e) token vr);
          notify_rejected token vr is
        })
   }"

definition not_authorized :: piece where
  "not_authorized th = (case provided_connectors (th_token th) of
     None \<Rightarrow> returns REJECTED th
   | Some cs \<Rightarrow> do {
       ok \<leftarrow> notify_rejected (th_token th) (th_validation th) cs;
       State_Monad.return (if ok then Done REJECTED else Thrown, th)
     })"

text \<open>The rest of \<^verbatim>\<open>notify_evse\<close> of an accepted result, after the wait for the timer.\<close>

definition notify_accepted :: "int \<Rightarrow> piece" where
  "notify_accepted i th = do {
     on_evse i (\<lambda>e. e\<lparr>timeout_timer := Some (Task_authorization (th_token th))\<rparr>);
     modify (\<lambda>a. a\<lparr>plug_in_queue := filter (\<lambda>k. k \<noteq> i) (plug_in_queue a)\<rparr>);
     a \<leftarrow> State_Monad.get;
     out (Out_notify_evse (index_of a i) (th_token th) (th_validation th));
     returns USED_TO_START_TRANSACTION th
   }"

definition identifier_of :: "ProvidedIdToken \<Rightarrow> ValidationResult \<Rightarrow> Identifier" where
  "identifier_of token vr = \<lparr>ident_id_token = provided_id_token token, ident_type = authorization_type token,
     ident_authorization_status = Some (authorization_status vr), ident_expiry_time = validation_expiry_time vr,
     ident_parent_id_token = validated_parent_id_token vr\<rparr>"

definition authorize_evse :: "int \<Rightarrow> piece" where
  "authorize_evse i th = do {
     let th = th\<lparr>th_token := (th_token th)\<lparr>provided_connectors := Some [i]\<rparr>\<rparr>;
     on_evse i (\<lambda>e. e\<lparr>evse_identifier := Some (identifier_of (th_token th) (th_validation th))\<rparr>);
     a \<leftarrow> State_Monad.get;
     (if (\<exists>e \<in> set_option (evse_at a i). timeout_in_progress e \<noteq> None)
      then State_Monad.return (Blocked (Ph_timer i), th)
      else notify_accepted i th)
   }"

text \<open>Refusal at the selected EVSE; \<open>k\<close> goes on with the next validation result.\<close>

definition refuse :: "piece \<Rightarrow> int \<Rightarrow> AuthorizationStatus \<Rightarrow> piece" where
  "refuse k i status th = do {
     let th = th\<lparr>th_validation := (th_validation th)\<lparr>authorization_status := status\<rparr>\<rparr>;
     a \<leftarrow> State_Monad.get;
     out (Out_notify_evse (index_of a i) (th_token th) (th_validation th));
     k th
   }"

text \<open>The call of \<^verbatim>\<open>intersect\<close> sorts the EVSEs of the thread.\<close>

definition evse_selected :: "piece \<Rightarrow> int \<Rightarrow> piece" where
  "evse_selected k i th0 = do {
     h \<leftarrow> gets auth_rh;
     let vr = th_validation th0;
     let th = (if validated_evse_ids vr \<noteq> None then th0\<lparr>th_evses := sort (th_evses th0)\<rparr> else th0);
     let reservation = result (matches_reserved_identifier (token_value (provided_id_token (th_token th))) (Some i)
       (map_option token_value (validated_parent_id_token vr))) h;
     (if (\<exists>ids \<in> set_option (validated_evse_ids vr). intersect (th_evses th) ids = [])
      then refuse k i Status_NotAtThisLocation th
      else if reservation = None \<and> \<not> result (is_charging_possible i) h then refuse k i Status_NotAtThisTime th
      else if reservation = None \<and> \<not> result (is_evse_reserved i) h then authorize_evse i th
      else case reservation of
        Some r \<Rightarrow> do {
          with_rh (on_reservation_used r);
          authorize_evse i (th\<lparr>th_validation := vr\<lparr>validated_reservation_id := Some r\<rparr>\<rparr>)
        }
      | None \<Rightarrow> refuse k i Status_NotAtThisTime th)
   }"

datatype select_result = Selected int | Select_waits | Select_timeout | Select_interrupted | Select_throws

definition select_evse :: "auth \<Rightarrow> int list \<Rightarrow> IdToken \<Rightarrow> select_result" where
  "select_evse a ids token =
     (if length ids = 1 then Selected (hd ids)
      else case selection_algorithm a of
        Select_PlugEvents \<Rightarrow>
          if is_authorization_withdrawn a ids token then Select_interrupted
          else (case get_latest_plugin a ids of Some i \<Rightarrow> Selected i | None \<Rightarrow> Select_waits)
      | Select_FindFirst \<Rightarrow>
          (case get_latest_plugin a ids of
             Some i \<Rightarrow> if \<not> transaction_at a i then Selected i
               else (case find (\<lambda>i. \<not> transaction_at a i) ids of Some j \<Rightarrow> Selected j | None \<Rightarrow> Select_timeout)
           | None \<Rightarrow> (case find (\<lambda>i. \<not> transaction_at a i) ids of Some j \<Rightarrow> Selected j | None \<Rightarrow> Select_timeout))
      | Select_UserInput \<Rightarrow> Select_throws)"

definition select_and_authorize :: "piece \<Rightarrow> piece" where
  "select_and_authorize k th = do {
     a \<leftarrow> State_Monad.get;
     (case select_evse a (th_evses th) (provided_id_token (th_token th)) of
        Selected i \<Rightarrow> evse_selected k i th
      | Select_waits \<Rightarrow> State_Monad.return (Blocked Ph_selecting, th)
      | Select_timeout \<Rightarrow> returns TIMEOUT th
      | Select_interrupted \<Rightarrow> returns WITHDRAWN th
      | Select_throws \<Rightarrow> State_Monad.return (Thrown, th))
   }"

primrec results_loop :: "ValidationResult list \<Rightarrow> piece" where
  "results_loop [] th = not_authorized th"
| "results_loop (vr # vrs) th =
     (if th_evses th = [] then not_authorized th
      else do {
        let th = th\<lparr>th_validation := vr, th_results := vrs\<rparr>;
        a \<leftarrow> State_Monad.get;
        (if authorization_status vr \<noteq> Status_Accepted then results_loop vrs th
         else if equals_master_pass_group_id a (validated_parent_id_token vr) then returns REJECTED th
         else do {
           let th = (if validated_parent_id_token vr \<noteq> None then th\<lparr>th_token := (th_token th)\<lparr>
             provided_parent_id_token := validated_parent_id_token vr\<rparr>\<rparr> else th);
           out (Out_token_status (th_token th) Token_Accepted);
           (if \<not> signal_ok a then State_Monad.return (Blocked Ph_signal, th)
            else select_and_authorize (results_loop vrs) th)
         })
      })"

text \<open>\<^verbatim>\<open>handle_token\<close> from the validation on.\<close>

definition after_validation :: "ValidationResult list \<Rightarrow> piece" where
  "after_validation vrs th = do {
     a \<leftarrow> State_Monad.get;
     stopped \<leftarrow> (if prioritize_authorization_over_stopping_transaction a \<and> any_evse_available a (th_evses th)
       then State_Monad.return None else stop_with_parent_id_token vrs th);
     (case stopped of
        Some r \<Rightarrow> State_Monad.return r
      | None \<Rightarrow>
          if \<not> any_evse_available a (th_evses th) then returns NO_CONNECTOR_AVAILABLE th
          else if vrs = [] then returns REJECTED th
          else results_loop vrs (th\<lparr>th_evses := filter (\<lambda>i. identifier_at a i = None) (th_evses th)\<rparr>))
   }"

definition unknown_result :: ValidationResult where
  "unknown_result = \<lparr>authorization_status = Status_Unknown, tariff_messages = [], validation_expiry_time = None,
     validated_parent_id_token = None, validated_evse_ids = None, validated_reservation_id = None\<rparr>"

definition handle_token :: piece where
  "handle_token th0 = do {
     a \<leftarrow> State_Monad.get;
     let token = th_token th0;
     let ids = get_referenced_evses a token;
     let th = th0\<lparr>th_evses := ids\<rparr>;
     let tag = token_value (provided_id_token token);
     (case (if authorization_type token = Auth_RFID then used_for_transaction a ids tag else None) of
        Some i \<Rightarrow> do {
          stop_transaction_at i Stop_Local (Some token);
          let parent = (case identifier_at a i of Some ident \<Rightarrow> ident_parent_id_token ident | None \<Rightarrow> None);
          returns USED_TO_STOP_TRANSACTION (th\<lparr>th_token := token\<lparr>
            provided_parent_id_token := (if parent \<noteq> None then parent else provided_parent_id_token token),
            provided_connectors := Some [i]\<rparr>\<rparr>)
        }
      | None \<Rightarrow>
          if \<not> any_evse_available a ids \<and> \<not> any_parent_id_present a ids \<and> master_pass_group_id a = None
          then returns NO_CONNECTOR_AVAILABLE th
          else if all_evses_reserved_and_tag_does_not_match (auth_rh a) tag ids
          then returns NO_CONNECTOR_AVAILABLE th
          else if prevalidated token = Some True
          then after_validation [unknown_result\<lparr>authorization_status := Status_Accepted,
            validated_parent_id_token := provided_parent_id_token token\<rparr>] th
          else State_Monad.return (Blocked Ph_validating, th))
   }"

fun token_status :: "TokenHandlingResult \<Rightarrow> TokenValidationStatus option" where
  "token_status ALREADY_IN_PROCESS = None"
| "token_status TIMEOUT = Some Token_TimedOut"
| "token_status NO_CONNECTOR_AVAILABLE = Some Token_Rejected"
| "token_status REJECTED = Some Token_Rejected"
| "token_status USED_TO_START_TRANSACTION = Some Token_UsedToStart"
| "token_status USED_TO_STOP_TRANSACTION = Some Token_UsedToStop"
| "token_status WITHDRAWN = Some Token_Withdrawn"

text \<open>The end of \<^verbatim>\<open>on_token\<close>.\<close>

definition finish_token :: "nat \<Rightarrow> TokenHandlingResult \<Rightarrow> token_thread \<Rightarrow> unit authM" where
  "finish_token n r th = do {
     (case token_status r of Some s \<Rightarrow> out (Out_token_status (th_token th) s) | None \<Rightarrow> skip);
     do_if (r \<noteq> ALREADY_IN_PROCESS)
       (modify (\<lambda>a. a\<lparr>tokens_in_process := filter (\<lambda>t. \<not> same_token (th_provided th) t) (tokens_in_process a)\<rparr>));
     out (Out_token_result n r)
   }"

text \<open>A piece of the thread \<open>n\<close>; the thread goes on waiting, or ends.\<close>

definition run_piece :: "nat \<Rightarrow> piece \<Rightarrow> token_thread \<Rightarrow> unit authM" where
  "run_piece n p th = do {
     (r, th') \<leftarrow> p th;
     (case r of
        Done res \<Rightarrow> finish_token n res th'
      | Thrown \<Rightarrow> skip
      | Blocked ph \<Rightarrow> modify (\<lambda>a. a\<lparr>threads := threads a @ [(n, th'\<lparr>th_phase := ph\<rparr>)],
          lock_holder := (if ph = Ph_signal then Some n else lock_holder a)\<rparr>))
   }"

definition on_token :: "nat \<Rightarrow> ProvidedIdToken \<Rightarrow> unit authM" where
  "on_token n token = do {
     a \<leftarrow> State_Monad.get;
     let th = \<lparr>th_provided = token, th_token = token, th_evses = [], th_results = [],
       th_validation = unknown_result, th_phase = Ph_validating\<rparr>;
     (if is_token_already_in_process a token (get_referenced_evses a token)
      then finish_token n ALREADY_IN_PROCESS th
      else do {
        modify (\<lambda>a. a\<lparr>tokens_in_process := tokens_in_process a @ [token]\<rparr>);
        out (Out_token_status token Token_Processing);
        run_piece n handle_token th
      })
   }"

text \<open>The thread \<open>n\<close>, if it waits in a phase \<open>P\<close>, goes on with \<open>p\<close>.\<close>

definition resume :: "nat \<Rightarrow> (token_thread \<Rightarrow> bool) \<Rightarrow> piece \<Rightarrow> unit authM" where
  "resume n P p = do {
     a \<leftarrow> State_Monad.get;
     (case map_of (threads a) n of
        None \<Rightarrow> skip
      | Some th \<Rightarrow> do_if (P th) (do {
          modify (\<lambda>a. a\<lparr>threads := filter (\<lambda>(k, t). k \<noteq> n) (threads a),
            lock_holder := (if lock_holder a = Some n then None else lock_holder a)\<rparr>);
          run_piece n p th
        }))
   }"

definition validated :: "nat \<Rightarrow> ValidationResult list \<Rightarrow> unit authM" where
  "validated n vrs = resume n (\<lambda>th. th_phase th = Ph_validating) (after_validation vrs)"

definition signalled :: "nat \<Rightarrow> unit authM" where
  "signalled n = do {
     ok \<leftarrow> gets signal_ok;
     do_if ok (resume n (\<lambda>th. th_phase th = Ph_signal)
       (\<lambda>th. select_and_authorize (results_loop (th_results th)) th))
   }"

text \<open>The wait in \<^verbatim>\<open>select_evse\<close> ends because of its predicate, or by its timeout.\<close>

definition select_woken :: "nat \<Rightarrow> unit authM" where
  "select_woken n = do {
     a \<leftarrow> State_Monad.get;
     resume n (\<lambda>th. th_phase th = Ph_selecting \<and>
         select_evse a (th_evses th) (provided_id_token (th_token th)) \<noteq> Select_waits)
       (\<lambda>th. select_and_authorize (results_loop (th_results th)) th)
   }"

definition select_expired :: "nat \<Rightarrow> unit authM" where
  "select_expired n = do {
     a \<leftarrow> State_Monad.get;
     resume n (\<lambda>th. th_phase th = Ph_selecting \<and>
         select_evse a (th_evses th) (provided_id_token (th_token th)) = Select_waits)
       (returns TIMEOUT)
   }"

definition timer_finished :: "nat \<Rightarrow> unit authM" where
  "timer_finished n = do {
     a \<leftarrow> State_Monad.get;
     (case map_of (threads a) n of
        Some th \<Rightarrow> (case th_phase th of
          Ph_timer i \<Rightarrow> resume n (\<lambda>th. \<not> (\<exists>e \<in> set_option (evse_at a i). timeout_in_progress e \<noteq> None))
            (notify_accepted i)
        | _ \<Rightarrow> skip)
      | None \<Rightarrow> skip)
   }"

section \<open>EVSEs\<close>

definition init_evse :: "int \<Rightarrow> int \<Rightarrow> Connector list \<Rightarrow> unit authM" where
  "init_evse i index cs = do_if (i > 0) (modify (\<lambda>a. a\<lparr>auth_rh := (auth_rh a)\<lparr>evses :=
     map_put i \<lparr>evse_evse_id = i, evse_index = index, evse_transaction_active = False, evse_identifier = None,
       connectors = cs, timeout_timer = None, timeout_in_progress = None, plugged_in = False,
       plug_in_timeout = False\<rparr> (evses (auth_rh a))\<rparr>\<rparr>))"

definition initialize :: "(int option \<times> Reservation) option list option \<Rightarrow> unit authM" where
  "initialize answer = do {
     _ \<leftarrow> with_rh (load_reservations answer);
     with_rh check_evse_reserved_and_send_updates
   }"

definition submit_event_for_connector :: "int \<Rightarrow> int \<Rightarrow> ConnectorEvent \<Rightarrow> unit authM" where
  "submit_event_for_connector i c ev = do {
     a \<leftarrow> State_Monad.get;
     (case evse_at a i of
        None \<Rightarrow> skip
      | Some e \<Rightarrow> (case find (\<lambda>k. con_id k = c) (connectors e) of
          None \<Rightarrow> skip
        | Some con \<Rightarrow> do {
            let cs = connectors e;
            let k = length (takeWhile (\<lambda>k. con_id k \<noteq> c) cs);
            on_evse i (\<lambda>e. e\<lparr>connectors := cs[k := submit_event ev con]\<rparr>);
            with_rh (on_connector_state_changed (con_state (submit_event ev con)) i c)
          }))
   }"

definition handle_permanent_fault_raised :: "int \<Rightarrow> int \<Rightarrow> unit authM" where
  "handle_permanent_fault_raised i c = do {
     ignore \<leftarrow> gets ignore_faults;
     do_if (\<not> ignore) (submit_event_for_connector i c E_FAULTED)
   }"

definition handle_permanent_fault_cleared :: "int \<Rightarrow> int \<Rightarrow> unit authM" where
  "handle_permanent_fault_cleared i c = do {
     ignore \<leftarrow> gets ignore_faults;
     do_if (\<not> ignore) (submit_event_for_connector i c E_ERROR_CLEARED)
   }"

definition remove_plug_in :: "int \<Rightarrow> unit authM" where
  "remove_plug_in i = modify (\<lambda>a. a\<lparr>plug_in_queue := filter (\<lambda>k. k \<noteq> i) (plug_in_queue a)\<rparr>)"

text \<open>What is left of \<^verbatim>\<open>handle_session_event\<close> after the wait for the timer.\<close>

definition session_rest :: "int \<Rightarrow> event_rest \<Rightarrow> unit authM" where
  "session_rest i rest = do {
     on_evse i (\<lambda>e. e\<lparr>timeout_timer := None\<rparr>);
     do_if (rest = Rest_session_finished) (remove_plug_in i);
     do_if (rest \<noteq> Rest_deauthorized) (with_rh check_evse_reserved_and_send_updates)
   }"

definition timer_busy :: "auth \<Rightarrow> int \<Rightarrow> bool" where
  "timer_busy a i \<longleftrightarrow> (\<exists>e \<in> set_option (evse_at a i). timeout_in_progress e \<noteq> None)"

definition session_wait :: "int \<Rightarrow> event_rest \<Rightarrow> unit authM" where
  "session_wait i rest = do {
     a \<leftarrow> State_Monad.get;
     (if timer_busy a i then modify (\<lambda>a. a\<lparr>session_waits := session_waits a @ [(i, rest)]\<rparr>)
      else session_rest i rest)
   }"

definition session_resumes :: "nat \<Rightarrow> unit authM" where
  "session_resumes n = do {
     a \<leftarrow> State_Monad.get;
     do_if (n < length (session_waits a) \<and> \<not> timer_busy a (fst (session_waits a ! n))) (do {
       modify (\<lambda>a. a\<lparr>session_waits := take n (session_waits a) @ drop (Suc n) (session_waits a)\<rparr>);
       session_rest (fst (session_waits a ! n)) (snd (session_waits a ! n))
     })
   }"

definition ev_connected :: "int \<Rightarrow> unit authM" where
  "ev_connected i = do {
     modify (\<lambda>a. a\<lparr>plug_in_queue := plug_in_queue a @ [i]\<rparr>);
     on_evse i (\<lambda>e. e\<lparr>plugged_in := True, timeout_timer := Some Task_plug_in\<rparr>)
   }"

definition handle_session_event :: "int \<Rightarrow> SessionEvent \<Rightarrow> unit authM" where
  "handle_session_event i event = do {
     a \<leftarrow> State_Monad.get;
     let c = (case event_connector_id event of Some c \<Rightarrow> c | None \<Rightarrow> 1);
     do_if (i > 0 \<and> c > 0 \<and> evse_at a i \<noteq> None) (case session_event event of
       Ev_SessionStarted \<Rightarrow> do_if (session_started_reason event = Some Start_EVConnected) (ev_connected i)
     | Ev_TransactionStarted \<Rightarrow> do {
         on_evse i (\<lambda>e. e\<lparr>plugged_in := True, evse_transaction_active := True\<rparr>);
         submit_event_for_connector i c E_TRANSACTION_STARTED;
         session_wait i Rest_transaction_started
       }
     | Ev_TransactionFinished \<Rightarrow>
         on_evse i (\<lambda>e. e\<lparr>evse_transaction_active := False, evse_identifier := None\<rparr>)
     | Ev_SessionFinished \<Rightarrow> do {
         on_evse i (\<lambda>e. e\<lparr>plugged_in := False, plug_in_timeout := False, evse_identifier := None\<rparr>);
         submit_event_for_connector i c E_SESSION_FINISHED;
         session_wait i Rest_session_finished
       }
     | Ev_Disabled \<Rightarrow> do {
         submit_event_for_connector i c E_DISABLE;
         with_rh check_evse_reserved_and_send_updates
       }
     | Ev_Enabled \<Rightarrow> do {
         submit_event_for_connector i c E_ENABLE;
         with_rh check_evse_reserved_and_send_updates
       }
     | Ev_Deauthorized \<Rightarrow> do {
         on_evse i (\<lambda>e. e\<lparr>evse_identifier := None\<rparr>);
         session_wait i Rest_deauthorized
       }
     | Ev_ReservationEnd \<Rightarrow> do {
         reserved \<leftarrow> with_rh (is_evse_reserved i);
         do_if reserved (do { _ \<leftarrow> with_rh (cancel_reservation_of_evse i True); skip })
       }
     | _ \<Rightarrow> skip)
   }"

text \<open>The timer of an EVSE: it fires, and its task sets \<^verbatim>\<open>timeout_in_progress\<close> without the mutex; then the task
  gets the mutex.\<close>

definition timer_fires :: "int \<Rightarrow> unit authM" where
  "timer_fires i = do {
     a \<leftarrow> State_Monad.get;
     do_if (\<not> timer_busy a i)
       (on_evse i (\<lambda>e. e\<lparr>timeout_in_progress := timeout_timer e, timeout_timer := None\<rparr>))
   }"

definition timer_task_runs :: "int \<Rightarrow> unit authM" where
  "timer_task_runs i = do {
     a \<leftarrow> State_Monad.get;
     (case evse_at a i of
        None \<Rightarrow> skip
      | Some e \<Rightarrow> (case timeout_in_progress e of
          None \<Rightarrow> skip
        | Some Task_plug_in \<Rightarrow> do {
            out (Out_withdraw_authorization (evse_index e));
            remove_plug_in i;
            on_evse i (\<lambda>e. e\<lparr>plug_in_timeout := True, timeout_in_progress := None\<rparr>)
          }
        | Some (Task_authorization token) \<Rightarrow> do {
            on_evse i (\<lambda>e. e\<lparr>evse_identifier := None\<rparr>);
            out (Out_withdraw_authorization (evse_index e));
            out (Out_token_status token Token_TimedOut);
            on_evse i (\<lambda>e. e\<lparr>timeout_in_progress := None\<rparr>)
          }))
   }"

section \<open>Reservations\<close>

datatype ReservationCheckStatus =
    NotReserved | ReservedForToken | ReservedForOtherToken | ReservedForOtherTokenAndHasParentToken

definition handle_reservation :: "int option \<Rightarrow> Reservation \<Rightarrow> ReservationResult authM" where
  "handle_reservation evse_id r = with_rh (make_reservation
     (case evse_id of Some i \<Rightarrow> if i \<ge> 0 then Some i else None | None \<Rightarrow> None) r)"

definition handle_cancel_reservation :: "int \<Rightarrow> (bool \<times> int option) authM" where
  "handle_cancel_reservation i = do {
     (ok, evse_id) \<leftarrow> with_rh (cancel_reservation i False End_Cancelled);
     State_Monad.return (if ok then (True, evse_id) else (False, None))
   }"

text \<open>The argument of \<^verbatim>\<open>is_evse_reserved\<close> is the conversion of a truth value: the EVSE 1.\<close>

definition handle_reservation_exists :: "string \<Rightarrow> int option \<Rightarrow> string option \<Rightarrow> ReservationCheckStatus authM" where
  "handle_reservation_exists id_token evse_id group_id_token = do {
     reservation \<leftarrow> with_rh (matches_reserved_identifier id_token evse_id group_id_token);
     (case evse_id of
        None \<Rightarrow> State_Monad.return (if reservation \<noteq> None then ReservedForToken else NotReserved)
      | Some i \<Rightarrow> do {
          reserved \<leftarrow> with_rh (is_evse_reserved (if evse_id \<noteq> None then 1 else 0));
          parent \<leftarrow> with_rh (has_reservation_parent_id evse_id);
          State_Monad.return (if \<not> reserved then NotReserved
            else if reservation \<noteq> None then ReservedForToken
            else if group_id_token = None \<and> parent then ReservedForOtherTokenAndHasParentToken
            else ReservedForOtherToken)
        })
   }"

text \<open>\<open>answer\<close>: whether the EVSE accepts the reservation.  If it does not, the callback of \<^verbatim>\<open>Auth.cpp\<close> cancels it.\<close>

definition call_reserved :: "bool \<Rightarrow> int \<Rightarrow> int option \<Rightarrow> bool authM" where
  "call_reserved answer i evse_id =
     (if evse_id \<noteq> None \<and> \<not> answer then do {
        _ \<leftarrow> handle_cancel_reservation i;
        State_Monad.return False
      } else do {
        with_rh (notify (N_reserved evse_id i));
        with_rh check_evse_reserved_and_send_updates;
        State_Monad.return True
      })"

definition handle_reserve_now :: "bool \<Rightarrow> int option \<Rightarrow> Reservation \<Rightarrow> ReservationResult authM" where
  "handle_reserve_now answer evse_id r = do {
     res \<leftarrow> handle_reservation evse_id r;
     (if res = Accepted then do {
        ok \<leftarrow> call_reserved answer (reservation_id r) evse_id;
        State_Monad.return (if ok then Accepted else Rejected)
      } else State_Monad.return res)
   }"

definition cancel_by_request :: "int \<Rightarrow> bool authM" where
  "cancel_by_request i = do {
     (ok, evse_id) \<leftarrow> handle_cancel_reservation i;
     (if ok then do {
        with_rh (call_reservation_cancelled i End_Cancelled evse_id False);
        State_Monad.return True
      } else State_Monad.return False)
   }"

section \<open>Other operations\<close>

definition handle_token_validation_result_update :: "ValidationResultUpdate \<Rightarrow> unit authM" where
  "handle_token_validation_result_update u = do {
     a \<leftarrow> State_Monad.get;
     let i = updated_connector_id u;
     let vr = updated_result u;
     (case identifier_at a i of
        None \<Rightarrow> skip
      | Some ident \<Rightarrow> do {
          on_evse i (\<lambda>e. e\<lparr>evse_identifier := Some (ident\<lparr>
            ident_authorization_status := Some (authorization_status vr),
            ident_parent_id_token := validated_parent_id_token vr\<rparr>)\<rparr>);
          out (Out_token_status \<lparr>provided_id_token = ident_id_token ident,
            provided_parent_id_token = validated_parent_id_token vr, authorization_type = ident_type ident,
            provided_connectors = Some [i], prevalidated = None\<rparr> Token_Accepted)
        })
   }"

definition set_connection_timeout :: "int \<Rightarrow> unit authM" where
  "set_connection_timeout t = modify (\<lambda>a. a\<lparr>connection_timeout := t\<rparr>)"

definition set_master_pass_group_id :: "string \<Rightarrow> unit authM" where
  "set_master_pass_group_id m = modify (\<lambda>a. a\<lparr>master_pass_group_id := (if m = [] then None else Some m)\<rparr>)"

definition set_prioritize_authorization_over_stopping_transaction :: "bool \<Rightarrow> unit authM" where
  "set_prioritize_authorization_over_stopping_transaction b =
     modify (\<lambda>a. a\<lparr>prioritize_authorization_over_stopping_transaction := b\<rparr>)"

definition set_signal_ok :: "bool \<Rightarrow> unit authM" where
  "set_signal_ok ok = modify (\<lambda>a. a\<lparr>signal_ok := ok\<rparr>)"

section \<open>Withdrawal\<close>

definition targets_token_in_process :: "auth \<Rightarrow> WithdrawAuthorizationRequest \<Rightarrow> bool" where
  "targets_token_in_process a w = list_ex (\<lambda>t.
     does_withdraw_request_match w (get_referenced_evses a t) (provided_id_token t)) (tokens_in_process a)"

definition withdraw_at :: "int \<Rightarrow> unit authM" where
  "withdraw_at i = do {
     a \<leftarrow> State_Monad.get;
     (if transaction_at a i then stop_transaction_at i Stop_DeAuthorized None
      else out (Out_withdraw_authorization (index_of a i)))
   }"

definition withdraw_matches :: "auth \<Rightarrow> WithdrawAuthorizationRequest \<Rightarrow> int \<Rightarrow> bool" where
  "withdraw_matches a w i \<longleftrightarrow> (case identifier_at a i of
     None \<Rightarrow> False
   | Some ident \<Rightarrow> \<forall>t \<in> set_option (withdraw_id_token w). is_equal_id_token t (ident_id_token ident))"

text \<open>What follows the wait for the tokens in process; \<open>result\<close> is the result so far.\<close>

definition withdraw_granted :: "WithdrawAuthorizationRequest \<Rightarrow> WithdrawAuthorizationResult \<Rightarrow> unit authM" where
  "withdraw_granted w r = do {
     a \<leftarrow> State_Monad.get;
     let ids = filter (withdraw_matches a w)
       (case withdraw_evse_id w of Some i \<Rightarrow> [i] | None \<Rightarrow> keys (auth_evses a));
     for_each ids withdraw_at;
     out (Out_withdraw_result (if ids \<noteq> [] then Withdraw_Accepted else r))
   }"

definition handle_withdraw_authorization :: "WithdrawAuthorizationRequest \<Rightarrow> unit authM" where
  "handle_withdraw_authorization w = do {
     a \<leftarrow> State_Monad.get;
     (if (\<exists>i \<in> set_option (withdraw_evse_id w). evse_at a i = None) then out (Out_withdraw_result Withdraw_EvseNotFound)
      else do {
        modify (\<lambda>a. a\<lparr>withdraw_request := Some w\<rparr>);
        (if targets_token_in_process a w then modify (\<lambda>a. a\<lparr>withdraw_waits := Some w\<rparr>)
         else withdraw_granted w Withdraw_AuthorizationNotFound)
      })
   }"

definition withdraw_resumes :: "unit authM" where
  "withdraw_resumes = do {
     a \<leftarrow> State_Monad.get;
     (case withdraw_waits a of
        None \<Rightarrow> skip
      | Some w \<Rightarrow> do_if (\<not> targets_token_in_process a w) (do {
          modify (\<lambda>a. a\<lparr>withdraw_waits := None\<rparr>);
          withdraw_granted w Withdraw_Accepted
        }))
   }"

section \<open>Runs\<close>

datatype auth_input =
    I_init_evse int int "Connector list"
  | I_initialize "(int option \<times> Reservation) option list option"
  | I_token nat ProvidedIdToken
  | I_validated nat "ValidationResult list"
  | I_signalled nat
  | I_select_woken nat
  | I_select_expired nat
  | I_timer_finished nat
  | I_session_event int SessionEvent
  | I_session_resumes nat
  | I_timer_fires int
  | I_timer_task int
  | I_fault_raised int int
  | I_fault_cleared int int
  | I_reserve_now bool "int option" Reservation
  | I_cancel_reservation int
  | I_reservation_expired int
  | I_result_update ValidationResultUpdate
  | I_connection_timeout int
  | I_master_pass_group_id string
  | I_prioritize bool
  | I_signal_ok bool
  | I_withdraw WithdrawAuthorizationRequest
  | I_withdraw_resumes
  | I_clock time

text \<open>The inputs that do not take the mutex.\<close>

fun needs_no_lock :: "auth_input \<Rightarrow> bool" where
  "needs_no_lock (I_signalled n) = True"
| "needs_no_lock (I_timer_fires i) = True"
| "needs_no_lock (I_reservation_expired i) = True"
| "needs_no_lock (I_signal_ok b) = True"
| "needs_no_lock (I_clock t) = True"
| "needs_no_lock x = False"

fun auth_operation :: "auth_input \<Rightarrow> unit authM" where
  "auth_operation (I_init_evse i index cs) = init_evse i index cs"
| "auth_operation (I_initialize answer) = initialize answer"
| "auth_operation (I_token n token) = do {
     a \<leftarrow> State_Monad.get;
     do_if (map_of (threads a) n = None) (on_token n token)
   }"
| "auth_operation (I_validated n vrs) = validated n vrs"
| "auth_operation (I_signalled n) = signalled n"
| "auth_operation (I_select_woken n) = select_woken n"
| "auth_operation (I_select_expired n) = select_expired n"
| "auth_operation (I_timer_finished n) = timer_finished n"
| "auth_operation (I_session_event i e) = handle_session_event i e"
| "auth_operation (I_session_resumes n) = session_resumes n"
| "auth_operation (I_timer_fires i) = timer_fires i"
| "auth_operation (I_timer_task i) = timer_task_runs i"
| "auth_operation (I_fault_raised i c) = handle_permanent_fault_raised i c"
| "auth_operation (I_fault_cleared i c) = handle_permanent_fault_cleared i c"
| "auth_operation (I_reserve_now answer i r) = do { _ \<leftarrow> handle_reserve_now answer i r; skip }"
| "auth_operation (I_cancel_reservation i) = do { _ \<leftarrow> cancel_by_request i; skip }"
| "auth_operation (I_reservation_expired i) = do { _ \<leftarrow> with_rh (cancel_reservation i True End_Expired); skip }"
| "auth_operation (I_result_update u) = handle_token_validation_result_update u"
| "auth_operation (I_connection_timeout t) = set_connection_timeout t"
| "auth_operation (I_master_pass_group_id m) = set_master_pass_group_id m"
| "auth_operation (I_prioritize b) = set_prioritize_authorization_over_stopping_transaction b"
| "auth_operation (I_signal_ok b) = set_signal_ok b"
| "auth_operation (I_withdraw w) = do {
     a \<leftarrow> State_Monad.get;
     do_if (withdraw_waits a = None) (handle_withdraw_authorization w)
   }"
| "auth_operation I_withdraw_resumes = withdraw_resumes"
| "auth_operation (I_clock t) = with_rh (modify (\<lambda>h. h\<lparr>utc_now := t\<rparr>))"

definition auth_handle :: "auth_input \<Rightarrow> unit authM" where
  "auth_handle x = do {
     a \<leftarrow> State_Monad.get;
     do_if (needs_no_lock x \<or> lock_holder a = None) (auth_operation x)
   }"

definition auth_run :: "auth_input list \<Rightarrow> auth \<Rightarrow> auth" where
  "auth_run inputs a = exec (for_each inputs auth_handle) a"

definition auth_init :: "SelectionAlgorithm \<Rightarrow> int \<Rightarrow> bool \<Rightarrow> bool \<Rightarrow> bool \<Rightarrow> (string \<Rightarrow> time) \<Rightarrow> auth" where
  "auth_init algorithm timeout prioritize ignore store parse =
     \<lparr>auth_rh = (rh_init [] store parse)\<lparr>has_callback := True\<rparr>, selection_algorithm = algorithm,
      connection_timeout = timeout, master_pass_group_id = None,
      prioritize_authorization_over_stopping_transaction = prioritize, ignore_faults = ignore, plug_in_queue = [],
      tokens_in_process = [], withdraw_request = None, signal_ok = False, threads = [], lock_holder = None,
      session_waits = [], withdraw_waits = None, auth_out = []\<rparr>"

end
