(* ===== verification/Auth_Laws.thy ===== *)
theory Auth_Laws
  imports Auth_Handler Reservation_Runs
begin

text \<open>
  The threads of the authorisation handler: what a piece of work leaves alone, that a token is never handled
  by two threads, and which tokens are never handled again.
\<close>

section \<open>Running the operations\<close>

lemma wp_out [wp_simps]: "wp (out m) Q a = Q () (a\<lparr>auth_out := auth_out a @ [m]\<rparr>)"
  by (simp add: out_def wp_simps)

lemma wp_with_rh [wp_simps]:
  "wp (with_rh m) Q a = Q (result m (auth_rh a)) (a\<lparr>auth_rh := exec m (auth_rh a)\<rparr>)"
  by (simp add: with_rh_def wp_simps)

lemma wp_returns [wp_simps]: "wp (returns r th) Q a = Q (Done r, th) a"
  by (simp add: returns_def wp_simps)

lemma wp_stop_transaction [wp_simps]:
  "wp (stop_transaction_at i reason token) Q a = Q () (a\<lparr>auth_out := auth_out a @
     [Out_stop_transaction (index_of a i) \<lparr>stop_reason = reason, stop_id_tag = token\<rparr>]\<rparr>)"
  by (simp add: stop_transaction_at_def wp_simps)

section \<open>What pieces leave alone\<close>

definition control :: "auth \<Rightarrow> _" where
  "control a = (threads a, tokens_in_process a, lock_holder a, session_waits a, withdraw_waits a, withdraw_request a,
     selection_algorithm a, master_pass_group_id a, signal_ok a)"

interpretation ctl: frame_rel "\<lambda>a a'. control a' = control a"
  by unfold_locales auto

lemma ctl_out: "ctl.keeps (out m)"
  unfolding out_def by (rule ctl.keeps_modify) (simp add: control_def)

lemma ctl_with_rh: "ctl.keeps (with_rh m)"
  unfolding with_rh_def by (intro ctl.keeps_rules ctl.keeps_modify) (simp add: control_def)

lemma ctl_on_evse: "ctl.keeps (on_evse i f)"
  unfolding on_evse_def by (intro ctl.keeps_rules ctl.keeps_modify) (simp add: control_def)

lemma ctl_remove_plug_in: "ctl.keeps (remove_plug_in i)"
  unfolding remove_plug_in_def by (intro ctl.keeps_modify) (simp add: control_def)

lemma ctl_stop: "ctl.keeps (stop_transaction_at i reason token)"
  unfolding stop_transaction_at_def by (intro ctl.keeps_rules ctl_out)

lemmas ctl_basic = ctl_out ctl_with_rh ctl_on_evse ctl_remove_plug_in ctl_stop

text \<open>A piece keeps the control state, and the token that the thread was called with.\<close>

definition tame :: "piece \<Rightarrow> bool" where
  "tame p \<longleftrightarrow> (\<forall>th a. wp (p th) (\<lambda>x a'. control a' = control a \<and> th_provided (snd x) = th_provided th) a)"

lemma tameI:
  "(\<And>th. ctl.keeps (p th)) \<Longrightarrow> (\<And>th a. th_provided (snd (result (p th) a)) = th_provided th) \<Longrightarrow> tame p"
  by (simp add: tame_def wp_def ctl.keepsD)

lemma tame_ctl: "tame p \<Longrightarrow> ctl.keeps (p th)"
  by (auto simp: tame_def wp_def intro: ctl.keepsI)

lemma tame_provided: "tame p \<Longrightarrow> th_provided (snd (result (p th) a)) = th_provided th"
  by (simp add: tame_def wp_def)

lemma tame_returns: "tame (returns r)"
  by (simp add: tame_def wp_simps)

lemma ctl_for_stop: "ctl.keeps (for_each ids (\<lambda>i. stop_transaction_at i reason token))"
  by (intro ctl.keeps_for_each ctl_stop)

lemma ctl_stop_with_parent: "ctl.keeps (stop_with_parent_id_token vrs th)"
  by (induction vrs) (auto simp: Let_def split: option.split intro!: ctl.keeps_rules ctl_basic)

lemma provided_stop_with_parent:
  "result (stop_with_parent_id_token vrs th) a = Some x \<Longrightarrow> th_provided (snd x) = th_provided th"
  by (induction vrs) (auto simp: run_simps Let_def split: option.splits if_splits)

lemma ctl_notify_rejected: "ctl.keeps (notify_rejected token vr is)"
  by (induction "is") (auto split: option.split intro!: ctl.keeps_rules ctl_basic)

lemma tame_not_authorized: "tame not_authorized"
  by (rule tameI; simp add: not_authorized_def returns_def split: option.split)
     (auto simp: run_simps intro!: ctl.keeps_rules ctl_notify_rejected)

lemma tame_notify_accepted: "tame (notify_accepted i)"
proof (rule tameI)
  show "ctl.keeps (notify_accepted i th)" for th
    unfolding notify_accepted_def returns_def
    by (intro ctl.keeps_rules ctl_basic ctl.keeps_modify) (simp add: control_def)
qed (simp add: notify_accepted_def returns_def run_simps)

lemma tame_authorize: "tame (authorize_evse i)"
proof (rule tameI)
  show "ctl.keeps (authorize_evse i th)" for th
    unfolding authorize_evse_def Let_def by (intro ctl.keeps_rules ctl_basic tame_ctl [OF tame_notify_accepted])
qed (simp add: authorize_evse_def Let_def run_simps tame_provided [OF tame_notify_accepted])

lemma tame_refuse:
  assumes "tame k"
  shows "tame (refuse k i status)"
proof (rule tameI)
  show "ctl.keeps (refuse k i status th)" for th
    unfolding refuse_def Let_def by (intro ctl.keeps_rules ctl_basic tame_ctl [OF assms])
qed (simp add: refuse_def Let_def run_simps tame_provided [OF assms])

lemma tame_evse_selected:
  assumes "tame k"
  shows "tame (evse_selected k i)"
proof (rule tameI)
  note tame = tame_authorize [of i] tame_refuse [OF assms, of i]
  show "ctl.keeps (evse_selected k i th)" for th
    unfolding evse_selected_def Let_def
    by (intro ctl.keeps_rules ctl.keeps_option ctl_basic tame [THEN tame_ctl])
  show "th_provided (snd (result (evse_selected k i th) a)) = th_provided th" for th a
    by (auto simp: evse_selected_def Let_def run_simps tame [THEN tame_provided] split: option.split)
qed

lemma tame_select:
  assumes "tame k"
  shows "tame (select_and_authorize k)"
proof (rule tameI)
  note tame = tame_evse_selected [OF assms] tame_returns
  show "ctl.keeps (select_and_authorize k th)" for th
    unfolding select_and_authorize_def
    by (auto split: select_result.split intro!: ctl.keeps_rules tame [THEN tame_ctl])
  show "th_provided (snd (result (select_and_authorize k th) a)) = th_provided th" for th a
    by (auto simp: select_and_authorize_def run_simps tame [THEN tame_provided] split: select_result.split)
qed

lemma tame_results_loop: "tame (results_loop vrs)"
proof (induction vrs)
  case (Cons vr vrs)
  note tame = tame_select [OF Cons] Cons tame_returns tame_not_authorized
  show ?case
  proof (rule tameI)
    show "ctl.keeps (results_loop (vr # vrs) th)" for th
      by (auto simp: Let_def intro!: ctl.keeps_rules ctl_basic tame [THEN tame_ctl])
    show "th_provided (snd (result (results_loop (vr # vrs) th) a)) = th_provided th" for th a
      by (simp add: Let_def run_simps tame [THEN tame_provided])
  qed
qed (use tame_not_authorized in \<open>simp add: tame_def\<close>)

lemma tame_after_validation: "tame (after_validation vrs)"
proof (rule tameI)
  show "ctl.keeps (after_validation vrs th)" for th
    unfolding after_validation_def
    by (auto simp: returns_def split: option.split
        intro!: ctl.keeps_rules ctl_stop_with_parent tame_ctl [OF tame_results_loop])
  show "th_provided (snd (result (after_validation vrs th) a)) = th_provided th" for th a
    using provided_stop_with_parent [of vrs th a] tame_provided [OF tame_results_loop]
    by (auto simp: after_validation_def run_simps returns_def split: option.splits if_splits)
qed

lemma tame_handle_token: "tame handle_token"
proof (rule tameI)
  note tame = tame_after_validation tame_returns
  show "ctl.keeps (handle_token th)" for th
    unfolding handle_token_def Let_def
    by (auto split: option.split intro!: ctl.keeps_rules ctl_basic tame [THEN tame_ctl])
  show "th_provided (snd (result (handle_token th) a)) = th_provided th" for th a
    by (simp add: handle_token_def Let_def run_simps tame [THEN tame_provided] split: option.split)
qed

section \<open>Threads and tokens\<close>

definition value_of :: "ProvidedIdToken \<Rightarrow> string" where
  "value_of t = token_value (provided_id_token t)"

definition thread_tokens :: "auth \<Rightarrow> string list" where
  "thread_tokens a = map (\<lambda>(n, th). value_of (th_provided th)) (threads a)"

definition process_tokens :: "auth \<Rightarrow> string list" where
  "process_tokens a = map value_of (tokens_in_process a)"

definition auth_inv :: "auth \<Rightarrow> bool" where
  "auth_inv a \<longleftrightarrow> distinct (map fst (threads a)) \<and> distinct (thread_tokens a) \<and> distinct (process_tokens a) \<and>
     set (thread_tokens a) \<subseteq> set (process_tokens a)"

text \<open>A token that counts as in process, though no thread handles it.\<close>

definition orphan :: "string \<Rightarrow> auth \<Rightarrow> bool" where
  "orphan v a \<longleftrightarrow> v \<in> set (process_tokens a) \<and> v \<notin> set (thread_tokens a)"

interpretation thr: frame_rel "\<lambda>a a'. threads a' = threads a \<and> tokens_in_process a' = tokens_in_process a"
  by unfold_locales auto

lemma thr_ctl:
  assumes "ctl.keeps m"
  shows "thr.keeps m"
proof (rule thr.keepsI)
  show "threads (exec m a) = threads a \<and> tokens_in_process (exec m a) = tokens_in_process a" for a
    using ctl.keepsD [OF assms, of a] by (simp add: control_def)
qed

lemma thr_inv:
  assumes "thr.keeps m"
  shows "auth_inv (exec m a) = auth_inv a" "orphan v (exec m a) = orphan v a"
  using thr.keepsD [OF assms, of a] by (simp_all add: auth_inv_def orphan_def thread_tokens_def process_tokens_def)

lemma same_token_value: "same_token s t \<longleftrightarrow> value_of s = value_of t"
  by (simp add: same_token_def value_of_def)

lemma map_value_filter:
  "map value_of (filter (\<lambda>t. \<not> same_token s t) ts) = filter (\<lambda>v. v \<noteq> value_of s) (map value_of ts)"
  by (induction ts) (auto simp: same_token_value)

lemma finish_token_effect:
  "threads (exec (finish_token n r th) a) = threads a"
  "process_tokens (exec (finish_token n r th) a) =
     (if r = ALREADY_IN_PROCESS then process_tokens a
      else filter (\<lambda>v. v \<noteq> value_of (th_provided th)) (process_tokens a))"
  by (cases r; simp add: finish_token_def run_simps out_def process_tokens_def map_value_filter)+

lemma run_piece_effect:
  assumes "tame p"
  obtains "threads (exec (run_piece n p th) a) = threads a"
    "process_tokens (exec (run_piece n p th) a) = filter (\<lambda>v. v \<noteq> value_of (th_provided th)) (process_tokens a)"
  | "threads (exec (run_piece n p th) a) = threads a" "process_tokens (exec (run_piece n p th) a) = process_tokens a"
  | th' where "threads (exec (run_piece n p th) a) = threads a @ [(n, th')]" "th_provided th' = th_provided th"
    "process_tokens (exec (run_piece n p th) a) = process_tokens a"
proof -
  obtain r th' where r: "result (p th) a = (r, th')"
    by (cases "result (p th) a")
  have p: "threads (exec (p th) a) = threads a" "tokens_in_process (exec (p th) a) = tokens_in_process a"
      "th_provided th' = th_provided th"
    using ctl.keepsD [OF tame_ctl [OF assms], of th a] tame_provided [OF assms, of th a]
    by (simp_all add: control_def r)
  show ?thesis
  proof (cases r)
    case (Done res)
    then show ?thesis
      using that(1,2) finish_token_effect [of n res th' "exec (p th) a"] p r
      by (cases "res = ALREADY_IN_PROCESS") (simp_all add: run_piece_def run_simps process_tokens_def)
  next
    case (Blocked ph)
    then show ?thesis
      using that(3) [of "th'\<lparr>th_phase := ph\<rparr>"] p r by (simp add: run_piece_def run_simps process_tokens_def)
  next
    case Thrown
    then show ?thesis
      using that(2) p r by (simp add: run_piece_def run_simps process_tokens_def)
  qed
qed

lemma run_piece_inv:
  assumes "tame p" and "auth_inv a" and "n \<notin> fst ` set (threads a)"
    and "value_of (th_provided th) \<in> set (process_tokens a)" "value_of (th_provided th) \<notin> set (thread_tokens a)"
  shows "auth_inv (exec (run_piece n p th) a)"
proof -
  let ?a = "exec (run_piece n p th) a"
  have tt: "threads ?a = threads a \<Longrightarrow> thread_tokens ?a = thread_tokens a"
    by (simp add: thread_tokens_def)
  have tc: "threads ?a = threads a @ [(n, th')] \<Longrightarrow> th_provided th' = th_provided th \<Longrightarrow>
      thread_tokens ?a = thread_tokens a @ [value_of (th_provided th)]" for th'
    by (simp add: thread_tokens_def)
  show ?thesis
    by (rule run_piece_effect [OF assms(1), of n th a]) (use assms(2-5) tt tc in \<open>auto simp: auth_inv_def\<close>)
qed

lemma run_piece_orphan:
  assumes "tame p" and "orphan v a" and "value_of (th_provided th) \<noteq> v"
  shows "orphan v (exec (run_piece n p th) a)"
proof (rule run_piece_effect [OF assms(1), of n th a])
qed (use assms(2,3) in \<open>auto simp: orphan_def thread_tokens_def\<close>)

lemma on_token_keeps:
  assumes "auth_inv a" and "map_of (threads a) n = None"
  shows "auth_inv (exec (on_token n token) a)" and "orphan v a \<Longrightarrow> orphan v (exec (on_token n token) a)"
proof -
  define th where "th = \<lparr>th_provided = token, th_token = token, th_evses = [], th_results = [],
    th_validation = unknown_result, th_phase = Ph_validating\<rparr>"
  define a' where "a' = a\<lparr>tokens_in_process := tokens_in_process a @ [token],
    auth_out := auth_out a @ [Out_token_status token Token_Processing]\<rparr>"
  define busy where "busy = is_token_already_in_process a token (get_referenced_evses a token)"
  have e: "exec (on_token n token) a =
      (if busy then exec (finish_token n ALREADY_IN_PROCESS th) a else exec (run_piece n handle_token th) a')"
    by (simp add: on_token_def run_simps Let_def th_def a'_def busy_def out_def)
  have f: "auth_inv (exec (finish_token n ALREADY_IN_PROCESS th) a) = auth_inv a"
      "orphan v (exec (finish_token n ALREADY_IN_PROCESS th) a) = orphan v a"
    using finish_token_effect [of n ALREADY_IN_PROCESS th a] by (simp_all add: auth_inv_def orphan_def thread_tokens_def)
  have p: "process_tokens a' = process_tokens a @ [value_of token]" "threads a' = threads a"
    by (simp_all add: a'_def process_tokens_def)
  have new: "value_of token \<notin> set (process_tokens a)" if "\<not> busy"
    using that by (auto simp: busy_def is_token_already_in_process_def process_tokens_def list_ex_iff same_token_value)
  have "auth_inv (exec (run_piece n handle_token th) a')" if "\<not> busy"
    using assms new [OF that]
    by (intro run_piece_inv tame_handle_token)
       (auto simp: auth_inv_def p thread_tokens_def th_def map_of_eq_None_iff)
  then show "auth_inv (exec (on_token n token) a)"
    using assms(1) f e by simp
  have "orphan v (exec (run_piece n handle_token th) a')" if "\<not> busy" "orphan v a"
    using that new by (intro run_piece_orphan tame_handle_token) (auto simp: orphan_def p thread_tokens_def th_def)
  then show "orphan v a \<Longrightarrow> orphan v (exec (on_token n token) a)"
    using f e by simp
qed

text \<open>The state without a thread, which goes on.\<close>

definition off :: "nat \<Rightarrow> auth \<Rightarrow> auth" where
  "off n a = a\<lparr>threads := filter (\<lambda>(k, t). k \<noteq> n) (threads a),
     lock_holder := (if lock_holder a = Some n then None else lock_holder a)\<rparr>"

lemma exec_resume:
  "map_of (threads a) n = Some th \<Longrightarrow> P th \<Longrightarrow> exec (resume n P p) a = exec (run_piece n p th) (off n a)"
  by (simp add: resume_def run_simps off_def)

lemma off_thread:
  assumes inv: "auth_inv a" and th: "map_of (threads a) n = Some th"
  shows "auth_inv (off n a)" and "n \<notin> fst ` set (threads (off n a))"
    and "value_of (th_provided th) \<in> set (process_tokens (off n a))"
    and "value_of (th_provided th) \<notin> set (thread_tokens (off n a))"
proof -
  have mem: "(n, th) \<in> set (threads a)"
    using th by (rule map_of_SomeD)
  then show "auth_inv (off n a)" "n \<notin> fst ` set (threads (off n a))"
    "value_of (th_provided th) \<in> set (process_tokens (off n a))"
    using inv by (auto simp: auth_inv_def off_def thread_tokens_def process_tokens_def intro!: distinct_map_filter)
  have d: "distinct (thread_tokens a)"
    using inv by (simp add: auth_inv_def)
  show "value_of (th_provided th) \<notin> set (thread_tokens (off n a))"
  proof
    assume "value_of (th_provided th) \<in> set (thread_tokens (off n a))"
    then obtain k t where kt: "(k, t) \<in> set (threads a)" "k \<noteq> n" "value_of (th_provided t) = value_of (th_provided th)"
      by (auto simp: thread_tokens_def off_def)
    then have "(k, t) = (n, th)"
      using inj_onD [OF d [unfolded thread_tokens_def distinct_map, THEN conjunct2], of "(k, t)" "(n, th)"] mem
      by simp
    with kt show False by simp
  qed
qed

lemma resume_keeps:
  assumes "tame p" and "auth_inv a"
  shows "auth_inv (exec (resume n P p) a)" and "orphan v a \<Longrightarrow> orphan v (exec (resume n P p) a)"
proof -
  have "auth_inv (exec (resume n P p) a) \<and> (orphan v a \<longrightarrow> orphan v (exec (resume n P p) a))"
  proof (cases "\<exists>th. map_of (threads a) n = Some th \<and> P th")
    case True
    then obtain th where th: "map_of (threads a) n = Some th" "P th" by blast
    have "orphan v (off n a) \<and> value_of (th_provided th) \<noteq> v" if "orphan v a"
      using that map_of_SomeD [OF th(1)] by (force simp: orphan_def off_def thread_tokens_def process_tokens_def)
    then show ?thesis
      using run_piece_inv [OF assms(1) off_thread [OF assms(2) th(1)]] run_piece_orphan [OF assms(1)]
      by (auto simp: exec_resume [of a n th P p, OF th])
  next
    case False
    then have "exec (resume n P p) a = a"
      by (auto simp: resume_def run_simps split: option.split)
    then show ?thesis
      using assms(2) by simp
  qed
  then show "auth_inv (exec (resume n P p) a)" "orphan v a \<Longrightarrow> orphan v (exec (resume n P p) a)"
    by blast+
qed

text \<open>A thread that ends with ALREADY_IN_PROCESS or with an exception leaves its token in process.\<close>

lemma resume_loses_token:
  assumes "tame p" and "auth_inv a" and th: "map_of (threads a) n = Some th" "P th"
    and r: "fst (result (p th) (off n a)) \<in> {Done ALREADY_IN_PROCESS, Thrown}"
  shows "orphan (value_of (th_provided th)) (exec (resume n P p) a)"
proof -
  let ?b = "off n a"
  have p: "threads (exec (p th) ?b) = threads ?b" "tokens_in_process (exec (p th) ?b) = tokens_in_process ?b"
    using ctl.keepsD [OF tame_ctl [OF assms(1)], of th ?b] by (simp_all add: control_def)
  have "threads (exec (run_piece n p th) ?b) = threads ?b \<and> process_tokens (exec (run_piece n p th) ?b) = process_tokens ?b"
    using r finish_token_effect [of n ALREADY_IN_PROCESS _ "exec (p th) ?b"] p
    by (cases "result (p th) ?b") (auto simp: run_piece_def run_simps process_tokens_def)
  then show ?thesis
    using off_thread [OF assms(2) th(1)] by (simp add: exec_resume [of a n th P p, OF th] orphan_def thread_tokens_def)
qed

section \<open>Every input\<close>

lemmas thr_basic = ctl_basic [THEN thr_ctl]

lemma thr_submit: "thr.keeps (submit_event_for_connector i c ev)"
  unfolding submit_event_for_connector_def Let_def by (intro thr.keeps_rules thr.keeps_option thr_basic)

lemma thr_session: "thr.keeps (session_rest i r)" "thr.keeps (session_wait i r)"
proof -
  show rest: "thr.keeps (session_rest i r)"
    unfolding session_rest_def by (intro thr.keeps_rules thr_basic)
  show "thr.keeps (session_wait i r)"
    unfolding session_wait_def by (intro thr.keeps_rules thr.keeps_modify rest) simp
qed

lemma thr_session_event: "thr.keeps (handle_session_event i e)"
  unfolding handle_session_event_def ev_connected_def Let_def
  by (intro thr.keeps_rules, cases "session_event e")
     (auto intro!: thr.keeps_rules thr_basic thr_submit thr_session thr.keeps_modify)

lemma thr_other:
  "thr.keeps (init_evse i k cs)" "thr.keeps (initialize ans)" "thr.keeps (session_resumes n)"
  "thr.keeps (timer_fires i)" "thr.keeps (handle_permanent_fault_raised i c)"
  "thr.keeps (handle_permanent_fault_cleared i c)" "thr.keeps (handle_token_validation_result_update u)"
  "thr.keeps (set_connection_timeout t)" "thr.keeps (set_master_pass_group_id m)"
  "thr.keeps (set_prioritize_authorization_over_stopping_transaction b)" "thr.keeps (set_signal_ok b)"
  unfolding init_evse_def initialize_def session_resumes_def timer_fires_def handle_permanent_fault_raised_def
    handle_permanent_fault_cleared_def handle_token_validation_result_update_def set_connection_timeout_def
    set_master_pass_group_id_def set_prioritize_authorization_over_stopping_transaction_def set_signal_ok_def Let_def
  by (intro thr.keeps_rules thr.keeps_option thr_basic thr_submit thr_session thr.keeps_modify; simp)+

lemma thr_timer_task: "thr.keeps (timer_task_runs i)"
  unfolding timer_task_runs_def
  by (auto split: option.split timer_task.split intro!: thr.keeps_rules thr_basic)

lemma thr_cancel: "thr.keeps (handle_cancel_reservation i)"
  unfolding handle_cancel_reservation_def by (auto split: prod.split intro!: thr.keeps_rules thr_basic)

lemma thr_reserve: "thr.keeps (handle_reserve_now ans i r)" "thr.keeps (cancel_by_request k)"
  unfolding handle_reserve_now_def handle_reservation_def call_reserved_def cancel_by_request_def
  by (auto split: prod.split intro!: thr.keeps_rules thr_basic thr_cancel)

lemma thr_withdraw: "thr.keeps (handle_withdraw_authorization w)" "thr.keeps withdraw_resumes"
proof -
  have "thr.keeps (withdraw_granted w r)" for w r
    unfolding withdraw_granted_def withdraw_at_def Let_def by (intro thr.keeps_rules thr_basic)
  then show "thr.keeps (handle_withdraw_authorization w)" "thr.keeps withdraw_resumes"
    unfolding handle_withdraw_authorization_def withdraw_resumes_def
    by (auto split: option.split intro!: thr.keeps_rules thr_basic thr.keeps_modify)
qed

text \<open>The inputs of threads that handle a token.\<close>

definition thread_input :: "auth_input \<Rightarrow> bool" where
  "thread_input x \<longleftrightarrow> (\<exists>n token. x = I_token n token) \<or> (\<exists>n vrs. x = I_validated n vrs) \<or> (\<exists>n. x = I_signalled n) \<or>
     (\<exists>n. x = I_select_woken n) \<or> (\<exists>n. x = I_select_expired n) \<or> (\<exists>n. x = I_timer_finished n)"

lemma thr_operation: "\<not> thread_input x \<Longrightarrow> thr.keeps (auth_operation x)"
  by (cases x) (auto simp: thread_input_def
      intro!: thr.keeps_rules thr_basic thr_other thr_session_event thr_timer_task thr_reserve thr_withdraw)

lemma operation_keeps:
  assumes "auth_inv a"
  shows "auth_inv (exec (auth_operation x) a) \<and> (orphan v a \<longrightarrow> orphan v (exec (auth_operation x) a))"
proof (cases "thread_input x")
  case True
  have sel: "tame (\<lambda>th. select_and_authorize (results_loop (th_results th)) th)"
    using tame_select [OF tame_results_loop] by (simp add: tame_def)
  note keeps = resume_keeps [OF tame_after_validation assms] resume_keeps [OF sel assms]
    resume_keeps [OF tame_returns assms] resume_keeps [OF tame_notify_accepted assms] on_token_keeps [OF assms]
  from True consider n token where "x = I_token n token" | n vrs where "x = I_validated n vrs" | n where "x = I_signalled n"
    | n where "x = I_select_woken n" | n where "x = I_select_expired n" | n where "x = I_timer_finished n"
    by (auto simp: thread_input_def)
  then show ?thesis
    using assms
    by cases (auto simp: run_simps validated_def signalled_def select_woken_def select_expired_def timer_finished_def
        keeps split: option.split phase.split)
next
  case False
  then show ?thesis
    using thr_inv [OF thr_operation] assms by blast
qed

lemma auth_run_keeps:
  assumes "auth_inv a"
  shows "auth_inv (auth_run xs a) \<and> (orphan v a \<longrightarrow> orphan v (auth_run xs a))"
  using assms
proof (induction xs arbitrary: a)
  case (Cons x xs)
  have "auth_inv (exec (auth_handle x) a) \<and> (orphan v a \<longrightarrow> orphan v (exec (auth_handle x) a))"
    using operation_keeps [OF Cons(2), of x v] Cons(2) by (auto simp: auth_handle_def run_simps)
  then have "auth_inv (auth_run xs (exec (auth_handle x) a)) \<and>
      (orphan v a \<longrightarrow> orphan v (auth_run xs (exec (auth_handle x) a)))"
    using Cons(1) by blast
  then show ?case
    by (simp add: auth_run_def run_simps)
qed (simp add: auth_run_def run_simps)

lemma auth_init_inv: "auth_inv (auth_init alg t p i s parse)"
  by (simp add: auth_inv_def auth_init_def thread_tokens_def process_tokens_def)

end
