(* ===== verification/Auth_Grants.thy ===== *)
theory Auth_Grants
  imports Auth_Laws
begin

text \<open>
  When the authorisation handler gives an EVSE to a token: only with a reservation for the token, or where
  all reservations can still be served.
\<close>

section \<open>The EVSEs in the reservation handler\<close>

interpretation evs: frame_rel "\<lambda>h h'. evses h' = evses h"
  by unfold_locales auto

lemma evs_check_number: "evs.keeps check_number_global_reservations_match_number_available_evses"
  unfolding check_number_global_reservations_match_number_available_evses_def
    get_evse_global_reserved_status_and_set_new_status_def Let_def
  by (intro evs.keeps_rules evs.keeps_modify) simp_all

lemma evs_updates: "evs.keeps check_evse_reserved_and_send_updates"
  unfolding check_evse_reserved_and_send_updates_def notify_def
  by (intro evs.keeps_rules evs.keeps_modify evs_check_number) simp_all

lemma evs_cancelled: "evs.keeps (call_reservation_cancelled i reason e b)"
  unfolding call_reservation_cancelled_def notify_def
  by (intro evs.keeps_rules evs.keeps_modify evs_updates) simp

lemma evs_callback: "evs.keeps (reservation_cancelled_callback e i reason b)"
  unfolding reservation_cancelled_callback_def
  by (intro evs.keeps_rules evs.keeps_modify evs_cancelled) simp

lemma evs_store: "evs.keeps store_reservations"
  by (rule evs.keepsI) (simp add: exec_store)

lemma evs_cancel: "evs.keeps (cancel_reservation i b reason)"
  unfolding cancel_reservation_def Let_def
  by (intro evs.keeps_rules evs.keeps_option evs.keeps_modify evs_callback evs_store) simp_all

lemma evs_cancel_evse: "evs.keeps (cancel_reservation_of_evse i b)"
  unfolding cancel_reservation_of_evse_def by (intro evs.keeps_rules evs.keeps_option evs_cancel)

lemma evs_make: "evs.keeps (make_reservation e r)"
  unfolding make_reservation_def reserve_evse_def reserve_any_def set_reservation_timer_def Let_def
  by (intro evs.keeps_rules evs.keeps_option evs.keeps_modify evs_cancel evs_store) simp_all

lemma evs_check: "evs.keeps check_reservations_and_cancel_if_not_possible"
  unfolding check_reservations_and_cancel_if_not_possible_def
  by (auto simp: Let_def split: prod.split intro!: evs.keeps_rules evs_cancel)

lemma evs_connector: "evs.keeps (on_connector_state_changed s i c)"
  unfolding on_connector_state_changed_def by (intro evs.keeps_rules evs.keeps_option evs_cancel evs_check)

lemma evs_load: "evs.keeps (load_reservations answer)"
proof -
  have "evs.keeps (load_entries xs)" for xs
    by (induction xs rule: load_entries.induct) (auto intro!: evs.keeps_rules evs_make evs_callback)
  then show ?thesis
    unfolding load_reservations_def by (intro evs.keeps_rules evs.keeps_option)
qed

lemmas evs_operations = evs_updates evs_cancelled evs_cancel evs_cancel_evse evs_make evs_connector evs_load

section \<open>Identifiers that do not appear\<close>

interpretation idc: frame_rel "\<lambda>a a'. \<forall>i. identifier_at a' i = identifier_at a i \<or> identifier_at a' i = None"
  by (unfold_locales; metis)

interpretation rhq: frame_rel "\<lambda>a a'. auth_rh a' = auth_rh a"
  by unfold_locales auto

lemma identifier_rh: "evses (auth_rh a') = evses (auth_rh a) \<Longrightarrow> identifier_at a' i = identifier_at a i"
  by (simp add: identifier_at_def evse_at_def auth_evses_def)

lemma idc_quiet:
  assumes "rhq.keeps m"
  shows "idc.keeps m"
proof (rule idc.keepsI)
  show "\<forall>i. identifier_at (exec m a) i = identifier_at a i \<or> identifier_at (exec m a) i = None" for a
    using rhq.keepsD [OF assms, of a] identifier_rh [of "exec m a" a] by simp
qed

lemma idc_with_rh:
  assumes "evs.keeps m"
  shows "idc.keeps (with_rh m)"
proof (rule idc.keepsI)
  show "\<forall>i. identifier_at (exec (with_rh m) a) i = identifier_at a i \<or> identifier_at (exec (with_rh m) a) i = None" for a
    using evs.keepsD [OF assms, of "auth_rh a"] identifier_rh [of "exec (with_rh m) a" a]
    by (simp add: with_rh_def run_simps)
qed

lemma map_of_on_evse:
  "map_of (map (\<lambda>(k, e). (k, if k = i then f e else e)) es) j = map_option (\<lambda>e. if j = i then f e else e) (map_of es j)"
  by (induction es) auto

lemma evse_at_on_evse: "evse_at (exec (on_evse i f) a) j = map_option (\<lambda>e. if j = i then f e else e) (evse_at a j)"
  by (simp add: on_evse_def run_simps evse_at_def auth_evses_def map_of_on_evse)

lemma idc_on_evse:
  "(\<And>e. evse_identifier (f e) = evse_identifier e \<or> evse_identifier (f e) = None) \<Longrightarrow> idc.keeps (on_evse i f)"
  by (rule idc.keepsI) (auto simp: identifier_at_def evse_at_on_evse split: option.split)

lemma rhq_out: "rhq.keeps (out m)"
  unfolding out_def by (rule rhq.keeps_modify) simp

lemma rhq_remove_plug_in: "rhq.keeps (remove_plug_in i)"
  unfolding remove_plug_in_def by (rule rhq.keeps_modify) simp

lemma rhq_stop: "rhq.keeps (stop_transaction_at i reason token)"
  unfolding stop_transaction_at_def by (intro rhq.keeps_rules rhq_out)

lemmas idc_basic = rhq_out [THEN idc_quiet] rhq_remove_plug_in [THEN idc_quiet] rhq_stop [THEN idc_quiet]

lemma idc_submit: "idc.keeps (submit_event_for_connector i c ev)"
  unfolding submit_event_for_connector_def Let_def
  by (intro idc.keeps_rules idc.keeps_option idc_on_evse idc_with_rh evs_connector) simp

lemma idc_session: "idc.keeps (session_rest i r)" "idc.keeps (session_wait i r)"
proof -
  show rest: "idc.keeps (session_rest i r)"
    unfolding session_rest_def by (intro idc.keeps_rules idc_basic idc_on_evse idc_with_rh evs_updates) simp
  show "idc.keeps (session_wait i r)"
    unfolding session_wait_def
    by (intro idc.keeps_rules idc_quiet [OF rhq.keeps_modify] rest) simp
qed

lemma evs_is_reserved: "evs.keeps (is_evse_reserved i)"
  unfolding is_evse_reserved_def by (rule evs.keeps_gets)

lemma idc_session_event: "idc.keeps (handle_session_event i e)"
  unfolding handle_session_event_def ev_connected_def Let_def
  by (intro idc.keeps_rules, cases "session_event e")
     (auto intro!: idc.keeps_rules idc_submit idc_session idc_on_evse idc_with_rh evs_operations evs_is_reserved
        idc_quiet [OF rhq.keeps_modify])

lemma map_of_put: "map_of (map_put k v m) j = (if j = k then Some v else map_of m j)"
  by (induction k v m rule: map_put.induct) auto

lemma idc_init_evse: "idc.keeps (init_evse i k cs)"
  unfolding init_evse_def
  by (intro idc.keeps_rules idc.keeps_modify) (simp add: identifier_at_def evse_at_def auth_evses_def map_of_put)

lemma idc_other:
  "idc.keeps (initialize ans)" "idc.keeps (session_resumes n)"
  "idc.keeps (timer_fires j)" "idc.keeps (handle_permanent_fault_raised j c)"
  "idc.keeps (handle_permanent_fault_cleared j c)" "idc.keeps (set_connection_timeout t)"
  "idc.keeps (set_master_pass_group_id m)"
  "idc.keeps (set_prioritize_authorization_over_stopping_transaction b)" "idc.keeps (set_signal_ok b)"
  unfolding initialize_def session_resumes_def timer_fires_def handle_permanent_fault_raised_def
    handle_permanent_fault_cleared_def set_connection_timeout_def set_master_pass_group_id_def
    set_prioritize_authorization_over_stopping_transaction_def set_signal_ok_def Let_def
  by (intro idc.keeps_rules idc_submit idc_session idc_on_evse idc_with_rh evs_operations
      idc_quiet [OF rhq.keeps_modify]; simp)+

lemma idc_timer_task: "idc.keeps (timer_task_runs i)"
  unfolding timer_task_runs_def
  by (auto split: option.split timer_task.split intro!: idc.keeps_rules idc_basic idc_on_evse)

lemma idc_reserve: "idc.keeps (handle_reserve_now ans i r)" "idc.keeps (cancel_by_request k)"
proof -
  have c: "idc.keeps (handle_cancel_reservation i)" for i
    unfolding handle_cancel_reservation_def
    by (auto split: prod.split intro!: idc.keeps_rules idc_with_rh evs_operations)
  have n: "evs.keeps (notify x)" for x
    unfolding notify_def by (rule evs.keeps_modify) simp
  show "idc.keeps (handle_reserve_now ans i r)" "idc.keeps (cancel_by_request k)"
    unfolding handle_reserve_now_def handle_reservation_def call_reserved_def cancel_by_request_def
    by (auto split: prod.split intro!: idc.keeps_rules idc_with_rh evs_operations c n)
qed

lemma idc_withdraw: "idc.keeps (handle_withdraw_authorization w)" "idc.keeps withdraw_resumes"
proof -
  have "idc.keeps (withdraw_granted w r)" for w r
    unfolding withdraw_granted_def withdraw_at_def Let_def by (intro idc.keeps_rules idc_basic)
  then show "idc.keeps (handle_withdraw_authorization w)" "idc.keeps withdraw_resumes"
    unfolding handle_withdraw_authorization_def withdraw_resumes_def
    by (auto split: option.split intro!: idc.keeps_rules idc_basic idc_quiet [OF rhq.keeps_modify])
qed

lemma idc_operation:
  "\<not> thread_input x \<Longrightarrow> (\<And>u. x \<noteq> I_result_update u) \<Longrightarrow> idc.keeps (auth_operation x)"
  by (cases x) (auto simp: thread_input_def
      intro!: idc.keeps_rules idc_init_evse idc_other idc_session_event idc_timer_task idc_reserve idc_withdraw
        idc_with_rh evs_operations evs.keeps_modify)

section \<open>Grants\<close>

text \<open>A token may charge at an EVSE: it has a reservation, or all reservations can still be served.\<close>

definition may_charge :: "rh \<Rightarrow> string \<Rightarrow> string option \<Rightarrow> int \<Rightarrow> bool" where
  "may_charge h tag parent i \<longleftrightarrow>
     (\<exists>r. token_matches tag parent r \<and> (map_of (evse_reservations h) i = Some r \<or>
        map_of (evse_reservations h) i = None \<and> r \<in> set (global_reservations h))) \<or>
     map_of (evse_reservations h) i = None \<and>
        served h (map_put i dummy_reservation (evse_reservations h)) (map connector_type_of (global_reservations h))"

definition new_identifier :: "auth \<Rightarrow> auth \<Rightarrow> int \<Rightarrow> Identifier \<Rightarrow> bool" where
  "new_identifier a a' i ident \<longleftrightarrow> identifier_at a' i = Some ident \<and> identifier_at a i \<noteq> Some ident"

definition granting :: "(auth, 'a) state \<Rightarrow> bool" where
  "granting m \<longleftrightarrow> (\<forall>a i ident. new_identifier a (exec m a) i ident \<longrightarrow>
     may_charge (auth_rh a) (token_value (ident_id_token ident))
       (map_option token_value (ident_parent_id_token ident)) i)"

lemma granting_idle:
  assumes "idc.keeps m"
  shows "granting m"
  unfolding granting_def new_identifier_def using idc.keepsD [OF assms] by (metis option.distinct(1))

lemma granting_quiet_bind:
  assumes "rhq.keeps m" and "\<And>x. granting (f x)"
  shows "granting (State_Monad.bind m f)"
proof -
  have "auth_rh (exec m a) = auth_rh a" "identifier_at (exec m a) i = identifier_at a i" for a i
    using rhq.keepsD [OF assms(1), of a] identifier_rh [of "exec m a" a i] by auto
  then show ?thesis
    using assms(2) unfolding granting_def new_identifier_def exec_bind by metis
qed

lemma granting_bind_idle:
  assumes "granting m" and "\<And>x. idc.keeps (f x)"
  shows "granting (State_Monad.bind m f)"
proof -
  have "identifier_at (exec m a) i = Some ident" if "identifier_at (exec (f x) (exec m a)) i = Some ident" for a i x ident
    using idc.keepsD [OF assms(2), of x "exec m a"] that by (metis option.distinct(1))
  then show ?thesis
    using assms(1) by (auto simp: granting_def new_identifier_def run_simps)
qed

lemma authorize_identifiers:
  "identifier_at (exec (authorize_evse i th) a) j =
     (if j = i \<and> evse_at a i \<noteq> None
      then Some (identifier_of ((th_token th)\<lparr>provided_connectors := Some [i]\<rparr>) (th_validation th))
      else identifier_at a j)"
proof -
  define b where "b = exec (on_evse i (\<lambda>e. e\<lparr>evse_identifier := Some (identifier_of
    ((th_token th)\<lparr>provided_connectors := Some [i]\<rparr>) (th_validation th))\<rparr>)) a"
  have b: "identifier_at b j = (if j = i \<and> evse_at a i \<noteq> None
      then Some (identifier_of ((th_token th)\<lparr>provided_connectors := Some [i]\<rparr>) (th_validation th))
      else identifier_at a j)"
    by (auto simp: b_def identifier_at_def evse_at_on_evse split: option.split)
  have n: "identifier_at (exec (notify_accepted i t) c) j = identifier_at c j" for t c
  proof -
    have "identifier_at (exec (notify_accepted i t) c) j =
        identifier_at (exec (on_evse i (\<lambda>e. e\<lparr>timeout_timer := Some (Task_authorization (th_token t))\<rparr>)) c) j"
      by (intro identifier_rh) (simp add: notify_accepted_def returns_def run_simps out_def)
    also have "\<dots> = identifier_at c j"
      by (simp add: identifier_at_def evse_at_on_evse split: option.split)
    finally show ?thesis .
  qed
  have "identifier_at (exec (authorize_evse i th) a) j = identifier_at b j"
    by (simp add: authorize_evse_def Let_def run_simps n b_def [symmetric])
  then show ?thesis
    by (simp add: b)
qed

lemma granting_authorize:
  assumes "evses (auth_rh a') = evses (auth_rh a)"
    and "may_charge (auth_rh a) (token_value (provided_id_token (th_token th)))
      (map_option token_value (validated_parent_id_token (th_validation th))) i"
    and "new_identifier a (exec (authorize_evse i th) a') j ident"
  shows "may_charge (auth_rh a) (token_value (ident_id_token ident)) (map_option token_value (ident_parent_id_token ident)) j"
  using assms(2,3) identifier_rh [OF assms(1), of j]
  by (auto simp: new_identifier_def authorize_identifiers identifier_of_def split: if_splits)

lemma rhq_refuse:
  assumes "granting (k (th\<lparr>th_validation := (th_validation th)\<lparr>authorization_status := status\<rparr>\<rparr>))"
  shows "granting (refuse k i status th)"
  unfolding refuse_def Let_def using assms
  by (intro granting_quiet_bind rhq.keeps_get rhq_out)

lemma matches_may_charge:
  assumes "result (matches_reserved_identifier tag (Some i) parent) h = Some r"
  shows "may_charge h tag parent i"
  using assms
  by (auto simp: matches_reserved_identifier_def run_simps may_charge_def find_Some_iff split: option.splits if_splits)

lemma possible_may_charge:
  assumes "result (is_charging_possible i) h"
  shows "may_charge h tag parent i"
  using assms
  by (auto simp: is_charging_possible_def run_simps may_charge_def possible_iff reserved_types_def split: if_splits)

lemma granting_evse_selected:
  assumes "\<And>th. granting (k th)"
  shows "granting (evse_selected k i th)"
proof -
  define vr where "vr = th_validation th"
  define th1 where "th1 = (if validated_evse_ids vr \<noteq> None then th\<lparr>th_evses := sort (th_evses th)\<rparr> else th)"
  define tag where "tag = token_value (provided_id_token (th_token th))"
  define parent where "parent = map_option token_value (validated_parent_id_token vr)"
  have f: "th_token th1 = th_token th" "th_validation th1 = vr"
    by (simp_all add: th1_def vr_def)
  have ref: "granting (refuse k i status th1)" for status
    by (rule rhq_refuse) (rule assms)
  show ?thesis
    unfolding granting_def
  proof (intro allI impI)
    fix a j ident
    assume new: "new_identifier a (exec (evse_selected k i th) a) j ident"
    have e: "exec (evse_selected k i th) a = (let res = result (matches_reserved_identifier tag (Some i) parent) (auth_rh a) in
        if (\<exists>ids \<in> set_option (validated_evse_ids vr). intersect (th_evses th1) ids = [])
        then exec (refuse k i Status_NotAtThisLocation th1) a
        else if res = None \<and> \<not> result (is_charging_possible i) (auth_rh a) then exec (refuse k i Status_NotAtThisTime th1) a
        else if res = None \<and> \<not> result (is_evse_reserved i) (auth_rh a) then exec (authorize_evse i th1) a
        else case res of
          Some r \<Rightarrow> exec (authorize_evse i (th1\<lparr>th_validation := vr\<lparr>validated_reservation_id := Some r\<rparr>\<rparr>))
            (exec (with_rh (on_reservation_used r)) a)
        | None \<Rightarrow> exec (refuse k i Status_NotAtThisTime th1) a)"
      by (simp add: evse_selected_def run_simps Let_def vr_def th1_def tag_def parent_def split: option.split)
    have u: "evses (auth_rh (exec (with_rh (on_reservation_used r)) a)) = evses (auth_rh a)" for r
      using evs.keepsD [OF evs_cancel] by (simp add: with_rh_def on_reservation_used_def run_simps)
    show "may_charge (auth_rh a) (token_value (ident_id_token ident))
        (map_option token_value (ident_parent_id_token ident)) j"
      using new ref granting_authorize [OF refl, of a th1 i j ident]
        granting_authorize [OF u, of "th1\<lparr>th_validation := vr\<lparr>validated_reservation_id := Some r\<rparr>\<rparr>" i _ j ident for r]
        matches_may_charge [of tag i parent "auth_rh a"] possible_may_charge [of i "auth_rh a" tag parent]
      unfolding e by (auto simp: Let_def granting_def f tag_def parent_def split: if_splits option.splits)
  qed
qed

lemma granting_return: "granting (State_Monad.return x)"
  by (simp add: granting_def new_identifier_def run_simps)

lemma granting_returns: "granting (returns r th)"
  by (simp add: returns_def granting_return)

lemma granting_select:
  assumes "\<And>th. granting (k th)"
  shows "granting (select_and_authorize k th)"
proof -
  have "granting (case s of Selected i \<Rightarrow> evse_selected k i th | Select_waits \<Rightarrow> State_Monad.return (Blocked Ph_selecting, th)
      | Select_timeout \<Rightarrow> returns TIMEOUT th | Select_interrupted \<Rightarrow> returns WITHDRAWN th
      | Select_throws \<Rightarrow> State_Monad.return (Thrown, th))" for s
    using granting_evse_selected [OF assms] by (cases s) (simp_all add: granting_return granting_returns)
  then show ?thesis
    unfolding select_and_authorize_def by (intro granting_quiet_bind rhq.keeps_get)
qed

lemma granting_not_authorized: "granting (not_authorized th)"
proof -
  have "rhq.keeps (notify_rejected token vr is)" for token vr "is"
    by (induction "is") (auto split: option.split intro!: rhq.keeps_rules rhq_out)
  then show ?thesis
    unfolding not_authorized_def
    by (auto simp: granting_returns granting_return split: option.split intro!: granting_quiet_bind)
qed

lemma granting_results_loop: "granting (results_loop vrs th)"
proof (induction vrs arbitrary: th)
  case (Cons vr vrs)
  note grant = granting_select [OF Cons] granting_not_authorized granting_returns granting_return Cons
  show ?case
    by (auto simp: Let_def grant intro!: granting_quiet_bind rhq.keeps_get rhq_out)
qed (simp add: granting_not_authorized)

lemma rhq_stop_with_parent: "rhq.keeps (stop_with_parent_id_token vrs th)"
  by (induction vrs) (auto simp: Let_def split: option.split intro!: rhq.keeps_rules rhq_stop)

lemma granting_after_validation: "granting (after_validation vrs th)"
  unfolding after_validation_def
  by (intro granting_quiet_bind rhq.keeps_rules rhq_stop_with_parent)
     (auto simp: granting_returns granting_return granting_results_loop split: option.split)

lemma granting_handle_token: "granting (handle_token th)"
  unfolding handle_token_def Let_def
  by (intro granting_quiet_bind rhq.keeps_get)
     (auto simp: granting_returns granting_return granting_after_validation split: option.split
        intro!: granting_quiet_bind rhq_stop)

lemma granting_notify_accepted: "granting (notify_accepted i th)"
  unfolding notify_accepted_def returns_def
  by (intro granting_idle idc.keeps_rules idc_on_evse idc_basic idc_quiet [OF rhq.keeps_modify]) simp_all

lemma rhq_finish: "rhq.keeps (finish_token n r th)"
  unfolding finish_token_def
  by (intro rhq.keeps_rules rhq.keeps_option rhq_out rhq.keeps_modify) simp

lemma granting_run_piece:
  assumes "granting (p th)"
  shows "granting (run_piece n p th)"
proof -
  have "rhq.keeps (case x of (r, th') \<Rightarrow> case r of Done res \<Rightarrow> finish_token n res th' | Blocked ph \<Rightarrow>
      modify (\<lambda>a. a\<lparr>threads := threads a @ [(n, th'\<lparr>th_phase := ph\<rparr>)],
        lock_holder := if ph = Ph_signal then Some n else lock_holder a\<rparr>) | Thrown \<Rightarrow> skip)" for x
    by (auto split: prod.split outcome.split intro!: rhq_finish rhq.keeps_modify rhq.keeps_rules)
  then show ?thesis
    unfolding run_piece_def by (intro granting_bind_idle [OF assms] idc_quiet)
qed

lemma granting_resume:
  assumes "\<And>th. granting (p th)"
  shows "granting (resume n P p)"
  unfolding resume_def do_if_def
  by (intro granting_quiet_bind rhq.keeps_get)
     (auto simp: granting_return granting_run_piece assms split: option.split
        intro!: granting_quiet_bind rhq.keeps_modify)

lemma granting_on_token: "granting (on_token n token)"
  unfolding on_token_def Let_def
  by (intro granting_quiet_bind rhq.keeps_get)
     (auto intro!: granting_quiet_bind rhq.keeps_modify rhq_out granting_run_piece granting_handle_token
        granting_idle [OF idc_quiet [OF rhq_finish]])

lemma granting_operation:
  assumes "\<And>u. x \<noteq> I_result_update u"
  shows "granting (auth_operation x)"
proof (cases "thread_input x")
  case True
  have sel: "granting (resume n P (\<lambda>th. select_and_authorize (results_loop (th_results th)) th))" for n P
    by (intro granting_resume granting_select granting_results_loop)
  note grant = granting_on_token granting_resume granting_after_validation granting_returns granting_notify_accepted
    granting_return sel
  from True consider n token where "x = I_token n token" | n vrs where "x = I_validated n vrs" | n where "x = I_signalled n"
    | n where "x = I_select_woken n" | n where "x = I_select_expired n" | n where "x = I_timer_finished n"
    by (auto simp: thread_input_def)
  then show ?thesis
    by cases (auto simp: do_if_def validated_def signalled_def select_woken_def select_expired_def timer_finished_def
        grant split: option.split phase.split intro!: granting_quiet_bind rhq.keeps_get rhq.keeps_gets)
next
  case False
  then show ?thesis
    using idc_operation assms granting_idle by blast
qed

lemma granting_handle: "(\<And>u. x \<noteq> I_result_update u) \<Longrightarrow> granting (auth_handle x)"
  unfolding auth_handle_def do_if_def
  by (intro granting_quiet_bind rhq.keeps_get) (auto simp: granting_return granting_operation)

end
