(* ===== verification/Auth_Runs.thy ===== *)
theory Auth_Runs
  imports Auth_Grants
begin

text \<open>
  The properties of the authorisation handler: who gets an EVSE, which tokens are handled, and where the
  handler fails them.
\<close>

section \<open>The last request to withdraw\<close>



















section \<open>Properties\<close>

text \<open>C11. Whatever the validators answer, an EVSE gets a new identifier only if its token may charge there:
  the token or its parent has the reservation of the EVSE, or, if the EVSE has none, one of the reservations
  without an EVSE, or else all holders of reservations still find a place while a car stands at this EVSE.\<close>

theorem authorisation_respects_reservations:
  assumes "\<And>u. x \<noteq> I_result_update u"
    and "identifier_at (exec (auth_handle x) a) i = Some ident" and "identifier_at a i \<noteq> Some ident"
  shows "may_charge (auth_rh a) (token_value (ident_id_token ident))
    (map_option token_value (ident_parent_id_token ident)) i"
  using granting_handle [of x] assms by (auto simp: granting_def new_identifier_def)

text \<open>C14. Over every run of the handler no two threads handle the same token, and every token that a thread
  handles is in process.\<close>

theorem one_thread_per_token:
  "distinct (thread_tokens (auth_run xs (auth_init alg t p i s parse))) \<and>
   set (thread_tokens (auth_run xs (auth_init alg t p i s parse)))
     \<subseteq> set (process_tokens (auth_run xs (auth_init alg t p i s parse)))"
  using auth_run_keeps [OF auth_init_inv] by (simp add: auth_inv_def)


text \<open>C38. The query for a reservation of an EVSE looks at the EVSE 1, whatever EVSE was asked for: NotReserved
  is the answer exactly if the EVSE 1 has no reservation.\<close>

theorem reservation_exists_reads_evse_1:
  "result (handle_reservation_exists tag (Some i) grp) a = NotReserved \<longleftrightarrow>
     map_of (evse_reservations (auth_rh a)) 1 = None"
proof -
  have "exec (with_rh (matches_reserved_identifier tag (Some i) grp)) a = a"
    "exec (with_rh (is_evse_reserved 1)) a = a"
    by (simp_all add: with_rh_def run_simps matches_reserved_identifier_def is_evse_reserved_def)
  then show ?thesis
    by (simp add: handle_reservation_exists_def run_simps)
       (simp add: with_rh_def is_evse_reserved_def run_simps)
qed

section \<open>A token that gets its EVSE\<close>

text \<open>The queries look at the EVSEs only.\<close>

lemma queries_update [simp]:
  "evse_at (a\<lparr>tokens_in_process := ts\<rparr>) = evse_at a" "evse_at (a\<lparr>auth_out := os\<rparr>) = evse_at a"
  "evse_at (a\<lparr>threads := ths\<rparr>) = evse_at a" "evse_at (a\<lparr>lock_holder := l\<rparr>) = evse_at a"
  by (simp_all add: evse_at_def auth_evses_def fun_eq_iff)


definition fresh_thread :: "ProvidedIdToken \<Rightarrow> int list \<Rightarrow> token_thread" where
  "fresh_thread token ids = \<lparr>th_provided = token, th_token = token, th_evses = ids, th_results = [],
     th_validation = unknown_result, th_phase = Ph_validating\<rparr>"



lemma run_piece_cong:
  "result (p th) a = result (p' th') a' \<Longrightarrow> exec (p th) a = exec (p' th') a' \<Longrightarrow>
     exec (run_piece n p th) a = exec (run_piece n p' th') a'"
  by (simp add: run_piece_def run_simps)

lemma selected_and_possible:
  assumes "result (is_charging_possible i) (auth_rh a)" and "validated_evse_ids (th_validation th) = None"
    and "result (matches_reserved_identifier (token_value (provided_id_token (th_token th))) (Some i)
      (map_option token_value (validated_parent_id_token (th_validation th)))) (auth_rh a) = None"
  shows "result (evse_selected k i th) a = result (authorize_evse i th) a"
    and "exec (evse_selected k i th) a = exec (authorize_evse i th) a"
proof -
  have "\<not> result (is_evse_reserved i) (auth_rh a)"
    using assms(1) by (auto simp: is_charging_possible_def is_evse_reserved_def run_simps split: if_splits)
  then show "result (evse_selected k i th) a = result (authorize_evse i th) a"
    "exec (evse_selected k i th) a = exec (authorize_evse i th) a"
    using assms by (simp_all add: evse_selected_def run_simps Let_def)
qed




section \<open>Tokens that are lost\<close>

lemma off_queries:
  "auth_rh (off n a) = auth_rh a" "evse_at (off n a) = evse_at a" "identifier_at (off n a) = identifier_at a"
  "transaction_at (off n a) = transaction_at a" "index_of (off n a) = index_of a"
  "any_evse_available (off n a) = any_evse_available a" "used_for_transaction (off n a) = used_for_transaction a"
  "equals_master_pass_group_id (off n a) = equals_master_pass_group_id a"
  "prioritize_authorization_over_stopping_transaction (off n a) = prioritize_authorization_over_stopping_transaction a"
  by (simp_all add: off_def evse_at_def auth_evses_def identifier_at_def transaction_at_def index_of_def
      any_evse_available_def used_for_transaction_def equals_master_pass_group_id_def fun_eq_iff)

lemma lost_token_stays:
  assumes "auth_inv a" and "orphan (value_of token) (exec (auth_handle x) a)"
  shows "is_token_already_in_process (auth_run (x # xs) a) token ids"
proof -
  have "auth_inv (exec (auth_handle x) a)"
    using auth_run_keeps [OF assms(1), of "[x]"] by (simp add: auth_run_def run_simps)
  then have "orphan (value_of token) (auth_run xs (exec (auth_handle x) a))"
    using auth_run_keeps assms(2) by blast
  then show ?thesis
    by (auto simp: auth_run_def run_simps is_token_already_in_process_def orphan_def process_tokens_def list_ex_iff
        same_token_value)
qed


lemma notify_unknown_evse: "list_ex (\<lambda>i. evse_at a i = None) cs \<Longrightarrow> \<not> result (notify_rejected token vr cs) a"
proof (induction cs arbitrary: a)
  case (Cons c cs)
  then show ?case
    by (cases "evse_at a c") (auto simp: run_simps out_def)
qed simp

lemma not_authorized_throws:
  "provided_connectors (th_token th) = Some cs \<Longrightarrow> list_ex (\<lambda>i. evse_at a i = None) cs \<Longrightarrow>
     fst (result (not_authorized th) a) = Thrown"
  by (simp add: not_authorized_def run_simps notify_unknown_evse)

lemma rejected_loop:
  assumes "list_all (\<lambda>vr. authorization_status vr \<noteq> Status_Accepted) vrs"
    and "provided_connectors (th_token th) = Some cs" and "list_ex (\<lambda>i. evse_at a i = None) cs"
  shows "fst (result (results_loop vrs th) a) = Thrown"
  using assms
proof (induction vrs arbitrary: th)
  case (Cons vr vrs)
  then show ?case
    by (cases "th_evses th = []") (simp_all add: run_simps Let_def not_authorized_throws)
qed (simp add: not_authorized_throws)

lemma rejected_no_stop:
  "list_all (\<lambda>vr. authorization_status vr \<noteq> Status_Accepted) vrs \<Longrightarrow>
     stop_with_parent_id_token vrs th = State_Monad.return None"
  by (induction vrs) (auto split: option.split)

text \<open>A token that names an EVSE the handler does not know, beside one that is available, and that no
  validator accepts, makes the notification of the refusal throw: the token is never handled again.\<close>

theorem rejected_token_lost:
  assumes "auth_inv a" and "lock_holder a = None"
    and th: "map_of (threads a) n = Some th" "th_phase th = Ph_validating"
    and vrs: "list_all (\<lambda>vr. authorization_status vr \<noteq> Status_Accepted) vrs" "vrs \<noteq> []"
    and "any_evse_available a (th_evses th)"
    and "provided_connectors (th_token th) = Some cs" and "list_ex (\<lambda>i. evse_at a i = None) cs"
  shows "is_token_already_in_process (auth_run (I_validated n vrs # xs) a) (th_provided th) ids"
proof -
  have "fst (result (after_validation vrs th) (off n a)) = Thrown"
    using assms by (simp add: after_validation_def run_simps off_queries rejected_no_stop rejected_loop)
  then have "orphan (value_of (th_provided th)) (exec (validated n vrs) a)"
    unfolding validated_def using assms(1) th by (intro resume_loses_token tame_after_validation) auto
  then show ?thesis
    using assms(1,2) by (intro lost_token_stays) (auto simp: auth_handle_def run_simps)
qed

text \<open>C37. A token that waits for a plug-in takes the EVSE where the next car is plugged in, even if that EVSE was
  authorised for another token, or has an active transaction, since: the identifier there is replaced.\<close>

theorem waiting_token_replaces_identifier:
  assumes "lock_holder a = None" and th: "map_of (threads a) n = Some th" "th_phase th = Ph_selecting"
    and sel: "selection_algorithm a = Select_PlugEvents" "length (th_evses th) \<noteq> 1"
      "\<not> is_authorization_withdrawn a (th_evses th) (provided_id_token (th_token th))"
      "get_latest_plugin a (th_evses th) = Some i"
    and e: "evse_at a i = Some e"
    and possible: "result (is_charging_possible i) (auth_rh a)"
      "result (matches_reserved_identifier (token_value (provided_id_token (th_token th))) (Some i)
        (map_option token_value (validated_parent_id_token (th_validation th)))) (auth_rh a) = None"
    and vr: "validated_evse_ids (th_validation th) = None"
  shows "identifier_at (exec (auth_handle (I_select_woken n)) a) i = Some (identifier_of (th_token th) (th_validation th))"
proof -
  let ?p = "\<lambda>th. select_and_authorize (results_loop (th_results th)) th"
  have s: "select_evse (off n a) (th_evses th) (provided_id_token (th_token th)) = Selected i"
      "select_evse a (th_evses th) (provided_id_token (th_token th)) = Selected i"
    using sel by (simp_all add: select_evse_def off_def is_authorization_withdrawn_def get_latest_plugin_def)
  have "identifier_at (exec (?p th) (off n a)) i = Some (identifier_of (th_token th) (th_validation th))"
    using selected_and_possible(2) [of i "off n a" th] possible vr e s(1)
    by (simp add: select_and_authorize_def run_simps off_queries authorize_identifiers identifier_of_def)
  moreover have "identifier_at (exec (run_piece n ?p th) (off n a)) i = identifier_at (exec (?p th) (off n a)) i"
    by (intro identifier_rh) (auto simp: run_piece_def run_simps rhq.keepsD [OF rhq_finish] split: prod.split outcome.split)
  moreover have "exec (auth_handle (I_select_woken n)) a = exec (run_piece n ?p th) (off n a)"
    using assms(1) th s(2) exec_resume [OF th(1), of _ ?p]
    by (simp add: auth_handle_def select_woken_def run_simps)
  ultimately show ?thesis
    by simp
qed

section \<open>Witnesses\<close>

definition example_auth :: auth where
  "example_auth = auth_run [I_init_evse 1 0 [example_connector], I_init_evse 2 1 [example_connector], I_signal_ok True]
     (auth_init Select_PlugEvents 30 False False False (\<lambda>_. 10))"

definition example_token :: "string \<Rightarrow> int list option \<Rightarrow> ProvidedIdToken" where
  "example_token v cs = \<lparr>provided_id_token = \<lparr>token_value = v, token_type = Tok_ISO14443\<rparr>,
     provided_parent_id_token = None, authorization_type = Auth_RFID, provided_connectors = cs, prevalidated = None\<rparr>"

definition example_accepted :: ValidationResult where
  "example_accepted = unknown_result\<lparr>authorization_status := Status_Accepted\<rparr>"

text \<open>A token is authorised for the EVSE 1; another one is validated; a third one waits for a plug-in.\<close>

definition example_authorised :: auth where
  "example_authorised = auth_run [I_token 0 (example_token ''a'' (Some [1])), I_validated 0 [example_accepted]] example_auth"

lemma example_auth_inv:
  "auth_inv (auth_run xs example_auth)" "auth_inv (auth_run xs example_authorised)"
  using auth_run_keeps auth_init_inv unfolding example_auth_def example_authorised_def by blast+

theorem authorisation_respects_reservations_witness:
  "let a = auth_run [I_token 0 (example_token ''a'' (Some [1]))] example_auth;
       a' = exec (auth_handle (I_validated 0 [example_accepted])) a
   in identifier_at a 1 = None \<and> identifier_at a' 1 \<noteq> None \<and> may_charge (auth_rh a) ''a'' None 1"
proof -
  let ?a = "auth_run [I_token 0 (example_token ''a'' (Some [1]))] example_auth"
  let ?i = "identifier_of (example_token ''a'' (Some [1])) example_accepted"
  have "identifier_at ?a 1 = None" "identifier_at (exec (auth_handle (I_validated 0 [example_accepted])) ?a) 1 = Some ?i"
    by code_simp+
  then show ?thesis
    using authorisation_respects_reservations [of "I_validated 0 [example_accepted]" ?a 1 ?i]
    by (simp add: identifier_of_def example_token_def example_accepted_def unknown_result_def)
qed




theorem rejected_token_lost_witness:
  "is_token_already_in_process (auth_run [I_token 0 (example_token ''a'' (Some [1, 5])), I_validated 0 [unknown_result]]
     example_auth) (example_token ''a'' (Some [1, 5])) []"
proof -
  let ?t = "example_token ''a'' (Some [1, 5])"
  let ?a = "auth_run [I_token 0 ?t] example_auth"
  have a: "lock_holder ?a = None" "map_of (threads ?a) 0 = Some (fresh_thread ?t [1])" "any_evse_available ?a [1]"
    "evse_at ?a 5 = None"
    by code_simp+
  show ?thesis
    using rejected_token_lost [of ?a 0 "fresh_thread ?t [1]" "[unknown_result]" "[1, 5]" "[]" "[]", OF example_auth_inv(1)] a
    by (simp add: fresh_thread_def example_token_def unknown_result_def auth_run_def run_simps)
qed

text \<open>The token ''b'' waits for a plug-in; ''a'' is authorised for the EVSE 1; a car is plugged in there.\<close>

definition example_waiting :: auth where
  "example_waiting = auth_run [I_token 1 (example_token ''b'' None), I_validated 1 [example_accepted],
     I_token 0 (example_token ''a'' (Some [1])), I_validated 0 [example_accepted],
     I_session_event 1 \<lparr>session_event = Ev_SessionStarted, event_connector_id = None,
       session_started_reason = Some Start_EVConnected\<rparr>] example_auth"

theorem waiting_token_replaces_identifier_witness:
  "identifier_at example_waiting 1 = Some (identifier_of (example_token ''a'' None) example_accepted) \<and>
   identifier_at (exec (auth_handle (I_select_woken 1)) example_waiting) 1 =
     Some (identifier_of (example_token ''b'' None) example_accepted)"
proof -
  let ?th = "(fresh_thread (example_token ''b'' None) [1, 2])\<lparr>th_validation := example_accepted, th_phase := Ph_selecting\<rparr>"
  have a: "identifier_at example_waiting 1 = Some (identifier_of (example_token ''a'' None) example_accepted)"
    "lock_holder example_waiting = None" "map_of (threads example_waiting) 1 = Some ?th"
    "selection_algorithm example_waiting = Select_PlugEvents" "withdraw_request example_waiting = None"
    "get_latest_plugin example_waiting [1, 2] = Some 1" "result (is_charging_possible 1) (auth_rh example_waiting)"
    "result (matches_reserved_identifier ''b'' (Some 1) None) (auth_rh example_waiting) = None"
    by code_simp+
  obtain e where "evse_at example_waiting 1 = Some e"
    using a(1) by (auto simp: identifier_at_def split: option.splits)
  then show ?thesis
    using waiting_token_replaces_identifier [of example_waiting 1 ?th 1 e] a
    by (simp add: fresh_thread_def example_token_def example_accepted_def unknown_result_def is_authorization_withdrawn_def)
qed

end
