(* ===== verification/Serial_Link.thy ===== *)
theory Serial_Link
  imports Prelude "HOL-Library.Word"
begin

text \<open>
  The serial link to the controller of the board (\<^verbatim>\<open>modules/HardwareDrivers/EVSE/YetiDriver/yeti_comms/evSerial.cpp\<close>):
  CRC-32, framing by byte stuffing (COBS), the handling of packets, the commands and the watch for a timeout.

  Bytes and the registers of the decoder are 8 bit words, the CRC is a 32 bit word.  The buffer of the decoder has its
  2048 bytes, and \<open>rx_overrun\<close> records whether a byte was written behind its end.  The codec of nanopb for the generated
  message types is a parameter: \<open>pb_decode\<close> gives None for bytes that are no message, \<open>pb_encode\<close> gives None if
  a message does not fit into the buffer of 1020 bytes it is given.  The bytes written to the device are \<open>wire\<close>, the
  signals that are emitted are \<open>signals\<close>.  The times are \<open>serial_now\<close>, in milliseconds, and \<open>unix_time\<close>, in seconds.
\<close>

unbundle bit_operations_syntax

section \<open>Messages\<close>

datatype CpState = Cp_STATE_A | Cp_STATE_B | Cp_STATE_C | Cp_STATE_D | Cp_STATE_E | Cp_STATE_F

record ErrorFlags =
  diode_fault :: bool
  rcd_selftest_failed :: bool
  rcd_triggered :: bool
  ventilation_not_available :: bool
  connector_lock_failed :: bool
  cp_signal_fault :: bool
  over_current :: bool

datatype ResetReason = Reset_USER | Reset_WATCHDOG

record KeepAliveLo =
  lo_time_stamp :: "32 word"
  lo_hw_type :: "32 word"
  lo_hw_revision :: "32 word"
  protocol_version_major :: "32 word"
  protocol_version_minor :: "32 word"
  lo_sw_version_string :: string
  hwcap_max_current :: real
  hwcap_min_current :: real
  hwcap_max_phase_count :: "32 word"
  hwcap_min_phase_count :: "32 word"
  lo_supports_changing_phases_during_charging :: bool

record KeepAlive =
  hi_time_stamp :: "32 word"
  hi_hw_type :: "32 word"
  hi_hw_revision :: "32 word"
  hi_sw_version_string :: string

record Telemetry =
  cp_voltage_hi :: "32 word"
  cp_voltage_lo :: "32 word"

datatype PpState = Pp_STATE_NC | Pp_STATE_13A | Pp_STATE_20A | Pp_STATE_32A | Pp_STATE_70A | Pp_STATE_FAULT

datatype LockState = Lock_UNDEFINED | Lock_UNLOCKED | Lock_LOCKED

record PowerMeter =
  pm_time_stamp :: "32 word"
  vrmsL1 :: real
  vrmsL2 :: real
  vrmsL3 :: real
  irmsL1 :: real
  irmsL2 :: real
  irmsL3 :: real
  irmsN :: real
  wattHrL1 :: real
  wattHrL2 :: real
  wattHrL3 :: real
  totalWattHr :: real
  tempL1 :: real
  tempL2 :: real
  tempL3 :: real
  tempN :: real
  wattL1 :: real
  wattL2 :: real
  wattL3 :: real
  freqL1 :: real
  freqL2 :: real
  freqL3 :: real
  phaseSeqError :: bool

text \<open>\<open>Rx_nothing\<close>: no payload of the container is set.\<close>

datatype McuToEverest =
    Rx_nothing
  | Rx_keep_alive KeepAliveLo
  | Rx_reset ResetReason
  | Rx_cp_state CpState
  | Rx_relais_state bool
  | Rx_error_flags ErrorFlags
  | Rx_telemetry Telemetry
  | Rx_pp_state PpState
  | Rx_lock_state LockState
  | Rx_power_meter PowerMeter

datatype EverestToMcu =
    Tx_firmware_update bool
  | Tx_keep_alive KeepAlive
  | Tx_connector_lock bool
  | Tx_pwm_duty_cycle "32 word"
  | Tx_allow_power_on bool
  | Tx_reset bool
  | Tx_set_number_of_phases bool

datatype serial_signal =
    Sig_KeepAliveLo KeepAliveLo
  | Sig_PowerMeter PowerMeter
  | Sig_CPState CpState
  | Sig_PPState PpState
  | Sig_ErrorFlags ErrorFlags
  | Sig_RelaisState bool
  | Sig_LockState bool
  | Sig_SpuriousReset
  | Sig_ConnectionTimeout

section \<open>State\<close>

type_synonym byte = "8 word"

record evSerial =
  fd :: int
  rx_msg :: "byte list"
  rx_code :: byte
  rx_block :: byte
  rx_decode :: nat
  rx_overrun :: bool
  reset_done_flag :: bool
  forced_reset :: bool
  last_keep_alive_lo_timestamp :: int
  serial_now :: int
  unix_time :: int
  signals :: "serial_signal list"
  wire :: "byte list"

type_synonym 'a serM = "(evSerial, 'a) state"

type_synonym pb_decoder = "byte list \<Rightarrow> McuToEverest option"

type_synonym pb_encoder = "EverestToMcu \<Rightarrow> byte list option"

definition emit_signal :: "serial_signal \<Rightarrow> unit serM" where
  "emit_signal g = modify (\<lambda>s. s\<lparr>signals := signals s @ [g]\<rparr>)"

definition cobsDecodeReset :: "unit serM" where
  "cobsDecodeReset = modify (\<lambda>s. s\<lparr>rx_code := 0xff, rx_block := 0, rx_decode := 0\<rparr>)"

text \<open>The constructor; the content of the buffer and the time of the last sign of life have their initial values.\<close>

definition evSerial_init :: "int \<Rightarrow> evSerial" where
  "evSerial_init now = exec cobsDecodeReset \<lparr>fd = 0, rx_msg = replicate 2048 0, rx_code = 0, rx_block = 0, rx_decode = 0,
     rx_overrun = False, reset_done_flag = False, forced_reset = False, last_keep_alive_lo_timestamp = 0,
     serial_now = now, unix_time = 0, signals = [], wire = []\<rparr>"

text \<open>\<open>handle\<close> is what \<^verbatim>\<open>open\<close> answers, \<open>attributes\<close> whether the attributes of the device can be set.\<close>

definition openDevice :: "int \<Rightarrow> bool \<Rightarrow> nat \<Rightarrow> bool serM" where
  "openDevice handle attributes baud = do {
     modify (\<lambda>s. s\<lparr>fd := handle\<rparr>);
     (if handle < 0 then State_Monad.return False
      else do {
        cobsDecodeReset;
        State_Monad.return (baud \<in> {9600, 19200, 38400, 57600, 115200, 230400} \<and> attributes)
      })
   }"

definition is_open :: "evSerial \<Rightarrow> bool" where
  "is_open s \<longleftrightarrow> fd s > 0"

section \<open>CRC\<close>

definition crc_bit :: "32 word \<Rightarrow> 32 word" where
  "crc_bit crc = drop_bit 1 crc XOR (0xEDB88320 AND (- (crc AND 1)))"

definition crc_byte :: "byte \<Rightarrow> 32 word \<Rightarrow> 32 word" where
  "crc_byte b crc = (crc_bit ^^ 8) (crc XOR ucast b)"

definition crc32 :: "byte list \<Rightarrow> 32 word" where
  "crc32 buf = fold crc_byte buf 0xFFFFFFFF"

section \<open>Packets\<close>

text \<open>A packet with the right CRC, without its last four bytes.  The conversion of the state of the lock to the truth
  value of the signal takes every value but zero for true.\<close>

definition deliver :: "pb_decoder \<Rightarrow> byte list \<Rightarrow> unit serM" where
  "deliver pb_decode buf = (case pb_decode buf of
     None \<Rightarrow> skip
   | Some m \<Rightarrow> (case m of
       Rx_keep_alive k \<Rightarrow> do {
         emit_signal (Sig_KeepAliveLo k);
         modify (\<lambda>s. s\<lparr>last_keep_alive_lo_timestamp := serial_now s\<rparr>)
       }
     | Rx_power_meter p \<Rightarrow> do {
         s \<leftarrow> State_Monad.get;
         emit_signal (Sig_PowerMeter (p\<lparr>pm_time_stamp := word_of_int (unix_time s)\<rparr>))
       }
     | Rx_cp_state c \<Rightarrow> emit_signal (Sig_CPState c)
     | Rx_pp_state p \<Rightarrow> emit_signal (Sig_PPState p)
     | Rx_relais_state b \<Rightarrow> emit_signal (Sig_RelaisState b)
     | Rx_lock_state l \<Rightarrow> emit_signal (Sig_LockState (l \<noteq> Lock_UNDEFINED))
     | Rx_error_flags e \<Rightarrow> emit_signal (Sig_ErrorFlags e)
     | Rx_reset r \<Rightarrow> do {
         s \<leftarrow> State_Monad.get;
         modify (\<lambda>s. s\<lparr>reset_done_flag := True\<rparr>);
         do_if (\<not> forced_reset s) (emit_signal Sig_SpuriousReset)
       }
     | Rx_telemetry t \<Rightarrow> skip
     | Rx_nothing \<Rightarrow> skip))"

definition handlePacket :: "pb_decoder \<Rightarrow> byte list \<Rightarrow> unit serM" where
  "handlePacket pb_decode buf = (if crc32 buf \<noteq> 0 then skip else deliver pb_decode (take (length buf - 4) buf))"

section \<open>Decoder\<close>

text \<open>\<^verbatim>\<open>*decode++ = b\<close>.\<close>

definition put_msg :: "byte \<Rightarrow> unit serM" where
  "put_msg b = modify (\<lambda>s. s\<lparr>rx_msg := (rx_msg s)[rx_decode s := b], rx_decode := rx_decode s + 1,
     rx_overrun := rx_overrun s \<or> rx_decode s \<ge> 2048\<rparr>)"

definition cobsDecodeByte :: "pb_decoder \<Rightarrow> byte \<Rightarrow> unit serM" where
  "cobsDecodeByte pb_decode byte = do {
     s \<leftarrow> State_Monad.get;
     do_if (rx_decode s = 2048 - 1 \<and> byte \<noteq> 0) cobsDecodeReset;
     s \<leftarrow> State_Monad.get;
     (if rx_block s \<noteq> 0 then
        (if byte = 0 then cobsDecodeReset
         else do {
           put_msg byte;
           modify (\<lambda>s. s\<lparr>rx_block := rx_block s - 1\<rparr>)
         })
      else do {
        do_if (rx_code s \<noteq> 0xff) (put_msg 0);
        modify (\<lambda>s. s\<lparr>rx_block := byte, rx_code := byte\<rparr>);
        (if byte = 0 then do {
           s \<leftarrow> State_Monad.get;
           do_if (rx_decode s \<noteq> 0) (handlePacket pb_decode (take (rx_decode s - 1) (rx_msg s)));
           cobsDecodeReset
         }
         else modify (\<lambda>s. s\<lparr>rx_block := rx_block s - 1\<rparr>))
      })
   }"

definition cobsDecode :: "pb_decoder \<Rightarrow> byte list \<Rightarrow> unit serM" where
  "cobsDecode pb_decode buf = for_each buf (cobsDecodeByte pb_decode)"

section \<open>Encoder\<close>

text \<open>The pointers of \<^verbatim>\<open>cobsEncode\<close> are indexes into the buffer.\<close>

record cobs_encoder =
  e_buffer :: "byte list"
  e_encode :: nat
  e_codep :: nat
  e_code :: byte

primrec encode_loop :: "byte list \<Rightarrow> cobs_encoder \<Rightarrow> cobs_encoder" where
  "encode_loop [] e = e"
| "encode_loop (b # bs) e =
     (let e = (if b \<noteq> 0 then e\<lparr>e_buffer := (e_buffer e)[e_encode e := b], e_encode := e_encode e + 1, e_code := e_code e + 1\<rparr>
            else e);
          e = (if b = 0 \<or> e_code e = 0xff
            then e\<lparr>e_buffer := (e_buffer e)[e_codep e := e_code e], e_code := 1, e_codep := e_encode e,
              e_encode := (if b = 0 \<or> bs \<noteq> [] then e_encode e + 1 else e_encode e)\<rparr>
            else e)
      in encode_loop bs e)"

definition encode_finish :: "cobs_encoder \<Rightarrow> cobs_encoder" where
  "encode_finish e = e\<lparr>e_buffer := (e_buffer e)[e_codep e := e_code e, e_encode e := 0], e_encode := e_encode e + 1\<rparr>"

text \<open>The buffer after the call, and the length that is returned.\<close>

definition cobsEncode :: "byte list \<Rightarrow> byte list \<Rightarrow> byte list \<times> nat" where
  "cobsEncode data buffer =
     (let e = encode_finish (encode_loop data \<lparr>e_buffer = buffer, e_encode = 1, e_codep = 0, e_code = 1\<rparr>)
      in (e_buffer e, e_encode e))"

primrec append_crc :: "nat \<Rightarrow> 32 word \<Rightarrow> byte list \<Rightarrow> byte list" where
  "append_crc 0 crc buf = buf"
| "append_crc (Suc n) crc buf = append_crc n (drop_bit 8 crc) (buf @ [ucast crc AND 0xFF])"

text \<open>The bytes \<^verbatim>\<open>linkWrite\<close> writes for an encoded message.\<close>

definition frame :: "byte list \<Rightarrow> byte list" where
  "frame payload =
     (let (buf, len) = cobsEncode (append_crc 4 (crc32 payload) payload) (replicate 1500 0) in take len buf)"

definition linkWrite :: "pb_encoder \<Rightarrow> EverestToMcu \<Rightarrow> bool serM" where
  "linkWrite pb_encode m = do {
     s \<leftarrow> State_Monad.get;
     (if fd s \<le> 0 then State_Monad.return False
      else case pb_encode m of
        None \<Rightarrow> State_Monad.return False
      | Some payload \<Rightarrow> do {
          modify (\<lambda>s. s\<lparr>wire := wire s @ frame payload\<rparr>);
          State_Monad.return True
        })
   }"

section \<open>Commands\<close>

definition send :: "pb_encoder \<Rightarrow> EverestToMcu \<Rightarrow> unit serM" where
  "send pb_encode m = do { _ \<leftarrow> linkWrite pb_encode m; skip }"

definition setPWM :: "pb_encoder \<Rightarrow> 32 word \<Rightarrow> unit serM" where
  "setPWM pb_encode dc = send pb_encode (Tx_pwm_duty_cycle dc)"

definition allowPowerOn :: "pb_encoder \<Rightarrow> bool \<Rightarrow> unit serM" where
  "allowPowerOn pb_encode p = send pb_encode (Tx_allow_power_on p)"

definition forceUnlock :: "pb_encoder \<Rightarrow> unit serM" where
  "forceUnlock pb_encode = send pb_encode (Tx_connector_lock False)"

definition set_number_of_phases :: "pb_encoder \<Rightarrow> bool \<Rightarrow> unit serM" where
  "set_number_of_phases pb_encode p = send pb_encode (Tx_set_number_of_phases p)"

definition firmwareUpdate :: "pb_encoder \<Rightarrow> bool \<Rightarrow> unit serM" where
  "firmwareUpdate pb_encode rom = send pb_encode (Tx_firmware_update rom)"

definition keepAlive :: "pb_encoder \<Rightarrow> unit serM" where
  "keepAlive pb_encode = send pb_encode (Tx_keep_alive
     \<lparr>hi_time_stamp = 0, hi_hw_type = 0, hi_hw_revision = 0, hi_sw_version_string = ''n/a''\<rparr>)"

text \<open>The wait of \<^verbatim>\<open>reset\<close>; an element of the list holds the bytes that the read thread handles during one sleep.\<close>

primrec reset_wait :: "pb_decoder \<Rightarrow> byte list list \<Rightarrow> bool serM" where
  "reset_wait pb_decode [] = State_Monad.return False"
| "reset_wait pb_decode (chunk # chunks) = do {
     seen \<leftarrow> gets reset_done_flag;
     (if seen then State_Monad.return True
      else do {
        cobsDecode pb_decode chunk;
        reset_wait pb_decode chunks
      })
   }"

text \<open>\<open>gpio\<close>: a line for the reset is configured.  The list \<open>chunks\<close> stands for the 20 rounds of the wait.\<close>

definition serial_reset :: "pb_decoder \<Rightarrow> pb_encoder \<Rightarrow> bool \<Rightarrow> byte list list \<Rightarrow> bool serM" where
  "serial_reset pb_decode pb_encode gpio chunks = do {
     modify (\<lambda>s. s\<lparr>reset_done_flag := False, forced_reset := True\<rparr>);
     do_if (\<not> gpio) (send pb_encode (Tx_reset False));
     success \<leftarrow> reset_wait pb_decode (take 20 chunks);
     modify (\<lambda>s. s\<lparr>reset_done_flag := False, forced_reset := False\<rparr>);
     keepAlive pb_encode;
     keepAlive pb_encode;
     keepAlive pb_encode;
     State_Monad.return success
   }"

definition serial_timed_out :: "evSerial \<Rightarrow> bool" where
  "serial_timed_out s \<longleftrightarrow> serial_now s - last_keep_alive_lo_timestamp s \<ge> 5000"

text \<open>A round of the thread that watches for a timeout.\<close>

definition timeoutDetection :: "unit serM" where
  "timeoutDetection = do {
     s \<leftarrow> State_Monad.get;
     do_if (serial_timed_out s) (emit_signal Sig_ConnectionTimeout)
   }"

end
