(* ===== verification/Yeti_Driver.thy ===== *)
theory Yeti_Driver
  imports Serial_Link IEC_State_Machine Error_Handling Evse_Types
begin

text \<open>
  The driver of the Yeti board (\<^verbatim>\<open>modules/HardwareDrivers/EVSE/YetiDriver\<close>): \<^verbatim>\<open>YetiDriver.cpp\<close> and the implementations of
  its interfaces for the board support, the connector lock and the power meter.

  The signals of the serial link call the functions that are connected to them; they change only what belongs to the
  driver, so they are carried out after the part of the link that emitted them, in their order: \<open>handled\<close> is the
  number of signals that were.  The errors that an interface has raised are in the data of the error framework,
  \<open>board_errors\<close> and \<open>lock_errors\<close>; what is published is \<open>published\<close>.
\<close>

section \<open>Data\<close>

record phases =
  at_L1 :: real
  at_L2 :: real
  at_L3 :: real

record meter_values =
  meter_phase_seq_error :: bool
  energy_Wh_import_total :: real
  energy_Wh_import :: phases
  power_W_total :: real
  power_W :: phases
  voltage_V :: phases
  current_A :: phases
  current_A_N :: real
  frequency_Hz :: phases

datatype yeti_message =
    Pub_event BspEvent
  | Pub_ac_pp_ampacity Ampacity
  | Pub_capabilities HardwareCapabilities
  | Pub_powermeter meter_values

record 'd yeti =
  serial :: evSerial
  handled :: nat
  slots_connected :: bool
  errors_connected :: bool
  caps_min_current_A :: int
  caps_max_current_A :: int
  caps :: HardwareCapabilities
  caps_received :: bool
  yeti_last_cp_state :: CpState
  last_relais_state :: bool
  last_pp :: Ampacity
  yeti_enabled :: bool
  lock_state :: bool
  last_error_flags :: ErrorFlags
  error_MREC2GroundFailure :: bool
  error_MREC1ConnectorLockFailure :: bool
  board_errors :: 'd
  lock_errors :: 'd
  published :: "yeti_message list"

type_synonym ('d, 'a) yetiM = "('d yeti, 'a) state"

definition publish :: "yeti_message \<Rightarrow> ('d, unit) yetiM" where
  "publish m = modify (\<lambda>y. y\<lparr>published := published y @ [m]\<rparr>)"

definition on_board_errors :: "('d \<Rightarrow> 'd) \<Rightarrow> ('d, unit) yetiM" where
  "on_board_errors f = modify (\<lambda>y. y\<lparr>board_errors := f (board_errors y)\<rparr>)"

definition on_lock_errors :: "('d \<Rightarrow> 'd) \<Rightarrow> ('d, unit) yetiM" where
  "on_lock_errors f = modify (\<lambda>y. y\<lparr>lock_errors := f (lock_errors y)\<rparr>)"

section \<open>Conversions\<close>

fun cast_event_type :: "CpState \<Rightarrow> BspEvent" where
  "cast_event_type Cp_STATE_A = Bsp_A"
| "cast_event_type Cp_STATE_B = Bsp_B"
| "cast_event_type Cp_STATE_C = Bsp_C"
| "cast_event_type Cp_STATE_D = Bsp_D"
| "cast_event_type Cp_STATE_E = Bsp_E"
| "cast_event_type Cp_STATE_F = Bsp_F"

definition cast_relais_event :: "bool \<Rightarrow> BspEvent" where
  "cast_relais_event b = (if b then Bsp_PowerOn else Bsp_PowerOff)"

fun cast_pp_type :: "PpState \<Rightarrow> Ampacity" where
  "cast_pp_type Pp_STATE_13A = A_13"
| "cast_pp_type Pp_STATE_20A = A_20"
| "cast_pp_type Pp_STATE_32A = A_32"
| "cast_pp_type Pp_STATE_70A = A_63_3ph_70_1ph"
| "cast_pp_type Pp_STATE_FAULT = Ampacity_None"
| "cast_pp_type Pp_STATE_NC = Ampacity_None"

definition yeti_to_everest :: "PowerMeter \<Rightarrow> meter_values" where
  "yeti_to_everest p = \<lparr>meter_phase_seq_error = phaseSeqError p,
     energy_Wh_import_total = totalWattHr p,
     energy_Wh_import = \<lparr>at_L1 = wattHrL1 p, at_L2 = wattHrL2 p, at_L3 = wattHrL3 p\<rparr>,
     power_W_total = wattL1 p + wattL2 p + wattL3 p,
     power_W = \<lparr>at_L1 = wattL1 p, at_L2 = wattL2 p, at_L3 = wattL3 p\<rparr>,
     voltage_V = \<lparr>at_L1 = vrmsL1 p, at_L2 = vrmsL2 p, at_L3 = vrmsL3 p\<rparr>,
     current_A = \<lparr>at_L1 = irmsL1 p, at_L2 = irmsL2 p, at_L3 = irmsL3 p\<rparr>,
     current_A_N = irmsN p,
     frequency_Hz = \<lparr>at_L1 = freqL1 p, at_L2 = freqL2 p, at_L3 = freqL3 p\<rparr>\<rparr>"

section \<open>Errors\<close>

text \<open>An error that follows a flag: raised when the flag comes, cleared when it goes.\<close>

definition follow_flag :: "'d error_framework \<Rightarrow> (ErrorFlags \<Rightarrow> bool) \<Rightarrow> string \<Rightarrow> string \<Rightarrow> ErrorFlags \<Rightarrow> ErrorFlags \<Rightarrow>
    ('d, unit) yetiM" where
  "follow_flag fw flag t description old e =
     (if flag e \<and> \<not> flag old then on_board_errors (raise_error fw (create_error fw t '''' description High))
      else if \<not> flag e \<and> flag old then on_board_errors (clear_error_type fw t) else skip)"

definition error_handling :: "'d error_framework \<Rightarrow> ErrorFlags \<Rightarrow> ('d, unit) yetiM" where
  "error_handling fw e = do {
     old \<leftarrow> gets last_error_flags;
     follow_flag fw diode_fault ''evse_board_support/DiodeFault'' ''Diode Fault'' old e;
     do_if (rcd_triggered e \<and> \<not> rcd_triggered old) (do {
       on_board_errors (raise_error fw
         (create_error fw ''evse_board_support/MREC2GroundFailure'' '''' ''Onboard RCD triggered'' High));
       modify (\<lambda>y. y\<lparr>error_MREC2GroundFailure := True\<rparr>)
     });
     follow_flag fw ventilation_not_available ''evse_board_support/VentilationNotAvailable''
       ''State D is not supported'' old e;
     do_if (connector_lock_failed e \<and> \<not> connector_lock_failed old) (do {
       modify (\<lambda>y. y\<lparr>error_MREC1ConnectorLockFailure := True\<rparr>);
       on_lock_errors (raise_error fw
         (create_error fw ''connector_lock/MREC1ConnectorLockFailure'' '''' ''Lock motor failure'' High))
     });
     follow_flag fw cp_signal_fault ''evse_board_support/MREC14PilotFault'' ''CP error'' old e;
     modify (\<lambda>y. y\<lparr>last_error_flags := e\<rparr>)
   }"

definition yeti_clear_errors_on_unplug :: "'d error_framework \<Rightarrow> ('d, unit) yetiM" where
  "yeti_clear_errors_on_unplug fw = do {
     y \<leftarrow> State_Monad.get;
     do_if (error_MREC2GroundFailure y) (on_board_errors (clear_error_type fw ''evse_board_support/MREC2GroundFailure''));
     modify (\<lambda>y. y\<lparr>error_MREC2GroundFailure := False\<rparr>);
     do_if (error_MREC1ConnectorLockFailure y)
       (on_lock_errors (clear_error_type fw ''connector_lock/MREC1ConnectorLockFailure''));
     modify (\<lambda>y. y\<lparr>error_MREC1ConnectorLockFailure := False\<rparr>)
   }"

section \<open>Signals\<close>

definition on_cp_state :: "'d error_framework \<Rightarrow> CpState \<Rightarrow> ('d, unit) yetiM" where
  "on_cp_state fw c = do {
     y \<leftarrow> State_Monad.get;
     do_if (c \<noteq> yeti_last_cp_state y) (do {
       do_if (yeti_enabled y) (publish (Pub_event (cast_event_type c)));
       do_if (c = Cp_STATE_A) (yeti_clear_errors_on_unplug fw);
       modify (\<lambda>y. y\<lparr>yeti_last_cp_state := c\<rparr>)
     })
   }"

definition on_relais_state :: "bool \<Rightarrow> ('d, unit) yetiM" where
  "on_relais_state b = do {
     y \<leftarrow> State_Monad.get;
     do_if (last_relais_state y \<noteq> b) (do {
       publish (Pub_event (cast_relais_event b));
       modify (\<lambda>y. y\<lparr>last_relais_state := b\<rparr>)
     })
   }"

definition on_pp_state :: "PpState \<Rightarrow> ('d, unit) yetiM" where
  "on_pp_state p = do {
     modify (\<lambda>y. y\<lparr>last_pp := cast_pp_type p\<rparr>);
     publish (Pub_ac_pp_ampacity (cast_pp_type p))
   }"

definition on_keep_alive :: "KeepAliveLo \<Rightarrow> ('d, unit) yetiM" where
  "on_keep_alive l = modify (\<lambda>y.
     let mn = (if caps_min_current_A y \<ge> 0 then of_int (caps_min_current_A y) else hwcap_min_current l);
         mx = (if caps_max_current_A y \<ge> 0 then of_int (caps_max_current_A y) else hwcap_max_current l)
     in y\<lparr>caps := (caps y)\<lparr>
       min_current_A_import := mn, max_current_A_import := mx,
       min_phase_count_import := sint (hwcap_min_phase_count l), max_phase_count_import := sint (hwcap_max_phase_count l),
       min_current_A_export := mn, max_current_A_export := mx,
       min_phase_count_export := sint (hwcap_min_phase_count l), max_phase_count_export := sint (hwcap_max_phase_count l),
       supports_changing_phases_during_charging := lo_supports_changing_phases_during_charging l\<rparr>,
       caps_received := True\<rparr>)"

text \<open>The functions that are connected to the signals; the one for the error flags is connected at the end of
  \<^verbatim>\<open>ready\<close>.\<close>

fun on_signal :: "'d error_framework \<Rightarrow> serial_signal \<Rightarrow> ('d, unit) yetiM" where
  "on_signal fw (Sig_CPState c) = on_cp_state fw c"
| "on_signal fw (Sig_RelaisState b) = on_relais_state b"
| "on_signal fw (Sig_PPState p) = on_pp_state p"
| "on_signal fw (Sig_KeepAliveLo l) = on_keep_alive l"
| "on_signal fw (Sig_PowerMeter p) = publish (Pub_powermeter (yeti_to_everest p))"
| "on_signal fw (Sig_LockState l) = modify (\<lambda>y. y\<lparr>lock_state := l\<rparr>)"
| "on_signal fw (Sig_ErrorFlags e) = do {
     y \<leftarrow> State_Monad.get;
     do_if (errors_connected y) (error_handling fw e)
   }"
| "on_signal fw Sig_SpuriousReset = skip"
| "on_signal fw Sig_ConnectionTimeout = skip"

text \<open>A part of the serial link, followed by the functions for its signals.\<close>

definition with_serial :: "'d error_framework \<Rightarrow> 'a serM \<Rightarrow> ('d, 'a) yetiM" where
  "with_serial fw m = do {
     y \<leftarrow> State_Monad.get;
     modify (\<lambda>y. y\<lparr>serial := exec m (serial y), handled := length (signals (exec m (serial y)))\<rparr>);
     do_if (slots_connected y) (for_each (drop (handled y) (signals (exec m (serial y)))) (on_signal fw));
     State_Monad.return (result m (serial y))
   }"

section \<open>Start\<close>

definition default_caps :: HardwareCapabilities where
  "default_caps = \<lparr>max_current_A_import = 16, min_current_A_import = 6, max_phase_count_import = 3,
     min_phase_count_import = 1, max_current_A_export = 16, min_current_A_export = 6, max_phase_count_export = 3,
     min_phase_count_export = 1, supports_changing_phases_during_charging = False,
     caps_connector_type = IEC62196Type2Cable\<rparr>"

text \<open>The constructor.  \<open>flags\<close> and \<open>c\<close> are the values of \<^verbatim>\<open>last_error_flags\<close> and \<^verbatim>\<open>caps\<close>, which the code does not
  initialise; \<open>d\<close> is the data of the error framework.\<close>

definition yeti_new :: "int \<Rightarrow> int \<Rightarrow> ErrorFlags \<Rightarrow> HardwareCapabilities \<Rightarrow> 'd \<Rightarrow> int \<Rightarrow> 'd yeti" where
  "yeti_new mn mx flags c d now = \<lparr>serial = evSerial_init now, handled = 0, slots_connected = False,
     errors_connected = False, caps_min_current_A = mn, caps_max_current_A = mx, caps = c, caps_received = False,
     yeti_last_cp_state = Cp_STATE_F, last_relais_state = False, last_pp = Ampacity_None, yeti_enabled = False,
     lock_state = False, last_error_flags = flags, error_MREC2GroundFailure = False,
     error_MREC1ConnectorLockFailure = False, board_errors = d, lock_errors = d, published = []\<rparr>"

definition yeti_init :: "'d error_framework \<Rightarrow> int \<Rightarrow> bool \<Rightarrow> nat \<Rightarrow> ('d, unit) yetiM" where
  "yeti_init fw handle attributes baud = do {
     opened \<leftarrow> with_serial fw (openDevice handle attributes baud);
     do_if opened (modify (\<lambda>y. y\<lparr>slots_connected := True, caps := default_caps\<rparr>))
   }"

text \<open>The wait for the capabilities; an element of the list holds the bytes that come in during one sleep.\<close>

primrec wait_for_caps :: "'d error_framework \<Rightarrow> pb_decoder \<Rightarrow> byte list list \<Rightarrow> ('d, unit) yetiM" where
  "wait_for_caps fw pb_decode [] = skip"
| "wait_for_caps fw pb_decode (chunk # chunks) = do {
     received \<leftarrow> gets caps_received;
     do_if (\<not> received) (do {
       with_serial fw (cobsDecode pb_decode chunk);
       wait_for_caps fw pb_decode chunks
     })
   }"

text \<open>The error of a closed port has the default severity of the framework.\<close>

definition yeti_ready :: "'d error_framework \<Rightarrow> Severity \<Rightarrow> pb_decoder \<Rightarrow> pb_encoder \<Rightarrow> bool \<Rightarrow> byte list list \<Rightarrow> byte list list \<Rightarrow>
    ('d, unit) yetiM" where
  "yeti_ready fw severity pb_decode pb_encode gpio reset_chunks caps_chunks = do {
     _ \<leftarrow> with_serial fw (serial_reset pb_decode pb_encode gpio reset_chunks);
     wait_for_caps fw pb_decode (take 50 caps_chunks);
     y \<leftarrow> State_Monad.get;
     publish (Pub_capabilities (caps y));
     modify (\<lambda>y. y\<lparr>errors_connected := True\<rparr>);
     do_if (\<not> is_open (serial y)) (on_board_errors (raise_error fw
       (create_error fw ''evse_board_support/CommunicationFault'' '''' ''Could not open serial port.'' severity)))
   }"

section \<open>Commands\<close>

definition handle_pwm_on :: "'d error_framework \<Rightarrow> pb_encoder \<Rightarrow> real \<Rightarrow> ('d, unit) yetiM" where
  "handle_pwm_on fw pb_encode v = with_serial fw (setPWM pb_encode (word_of_int \<lfloor>v * 100\<rfloor>))"

definition handle_pwm_off :: "'d error_framework \<Rightarrow> pb_encoder \<Rightarrow> ('d, unit) yetiM" where
  "handle_pwm_off fw pb_encode = with_serial fw (setPWM pb_encode 10001)"

definition handle_pwm_F :: "'d error_framework \<Rightarrow> pb_encoder \<Rightarrow> ('d, unit) yetiM" where
  "handle_pwm_F fw pb_encode = with_serial fw (setPWM pb_encode 0)"

definition handle_allow_power_on :: "'d error_framework \<Rightarrow> pb_encoder \<Rightarrow> bool \<Rightarrow> ('d, unit) yetiM" where
  "handle_allow_power_on fw pb_encode v = with_serial fw (allowPowerOn pb_encode v)"

definition handle_ac_switch_three_phases_while_charging :: "'d error_framework \<Rightarrow> pb_encoder \<Rightarrow> bool \<Rightarrow> ('d, unit) yetiM" where
  "handle_ac_switch_three_phases_while_charging fw pb_encode v = with_serial fw (set_number_of_phases pb_encode v)"

definition handle_ac_read_pp_ampacity :: "'d yeti \<Rightarrow> Ampacity" where
  "handle_ac_read_pp_ampacity y = last_pp y"

text \<open>The argument is not looked at.\<close>

definition handle_enable :: "bool \<Rightarrow> ('d, unit) yetiM" where
  "handle_enable v = do {
     modify (\<lambda>y. y\<lparr>yeti_enabled := True\<rparr>);
     y \<leftarrow> State_Monad.get;
     publish (Pub_event (cast_event_type (yeti_last_cp_state y)))
   }"

definition handle_unlock :: "'d error_framework \<Rightarrow> pb_encoder \<Rightarrow> ('d, unit) yetiM" where
  "handle_unlock fw pb_encode = with_serial fw (forceUnlock pb_encode)"

text \<open>The calls of the EvseManager; those of the connector lock come from its signals, of which the one for locking, as the
  replug and the limit of the current, does nothing here.\<close>

fun handle_call :: "'d error_framework \<Rightarrow> pb_encoder \<Rightarrow> bsp_call \<Rightarrow> ('d, unit) yetiM" where
  "handle_call fw pb_encode call_pwm_off = handle_pwm_off fw pb_encode"
| "handle_call fw pb_encode call_pwm_F = handle_pwm_F fw pb_encode"
| "handle_call fw pb_encode (call_pwm_on v) = handle_pwm_on fw pb_encode v"
| "handle_call fw pb_encode (call_allow_power_on v r) = handle_allow_power_on fw pb_encode v"
| "handle_call fw pb_encode (call_enable v) = handle_enable v"
| "handle_call fw pb_encode (call_evse_replug ms) = skip"
| "handle_call fw pb_encode (call_ac_switch_three_phases_while_charging v) =
     handle_ac_switch_three_phases_while_charging fw pb_encode v"
| "handle_call fw pb_encode (call_ac_set_overcurrent_limit_A a) = skip"
| "handle_call fw pb_encode signal_lock = skip"
| "handle_call fw pb_encode signal_unlock = handle_unlock fw pb_encode"
| "handle_call fw pb_encode (signal_event e) = skip"

section \<open>Runs\<close>

datatype yeti_input =
    Y_bytes "byte list"
  | Y_call bsp_call
  | Y_timeout
  | Y_clock int int

fun yeti_handle :: "'d error_framework \<Rightarrow> pb_decoder \<Rightarrow> pb_encoder \<Rightarrow> yeti_input \<Rightarrow> ('d, unit) yetiM" where
  "yeti_handle fw pb_decode pb_encode (Y_bytes bs) = with_serial fw (cobsDecode pb_decode bs)"
| "yeti_handle fw pb_decode pb_encode (Y_call c) = handle_call fw pb_encode c"
| "yeti_handle fw pb_decode pb_encode Y_timeout = with_serial fw timeoutDetection"
| "yeti_handle fw pb_decode pb_encode (Y_clock t u) =
     with_serial fw (modify (\<lambda>s. s\<lparr>serial_now := t, unix_time := u\<rparr>))"

definition yeti_run :: "'d error_framework \<Rightarrow> pb_decoder \<Rightarrow> pb_encoder \<Rightarrow> yeti_input list \<Rightarrow> 'd yeti \<Rightarrow> 'd yeti" where
  "yeti_run fw pb_decode pb_encode inputs y = exec (for_each inputs (yeti_handle fw pb_decode pb_encode)) y"

end
