(* ===== verification/Serial_Laws.thy ===== *)
theory Serial_Laws
  imports Serial_Link
begin

text \<open>
  Laws of the serial link: the CRC register is a linear and injective function of the bytes of a packet, four at a
  time; the encoder writes the byte stuffing of its input; the decoder undoes it, but for one case.
\<close>

section \<open>The CRC register\<close>

lemma crc_bit_cases: "crc_bit x = (if odd x then drop_bit 1 x XOR 0xEDB88320 else drop_bit 1 x)"
proof -
  have "x AND 1 = of_bool (odd x)"
    by (simp add: and_one_eq odd_iff_mod_2_eq_one)
  then show ?thesis
    by (simp add: crc_bit_def)
qed

lemma crc_bit_xor: "crc_bit (x XOR y) = crc_bit x XOR crc_bit y"
proof -
  have "odd (x XOR y) \<longleftrightarrow> odd x \<noteq> odd y"
    by (simp add: even_xor_iff)
  then show ?thesis
    by (cases "odd x"; cases "odd y") (simp_all add: crc_bit_cases drop_bit_xor ac_simps)
qed

lemma crc_bit_0_iff: "crc_bit x = 0 \<longleftrightarrow> x = 0"
proof
  assume z: "crc_bit x = 0"
  show "x = 0"
  proof (cases "odd x")
    case True
    then have "bit (drop_bit 1 x XOR 0xEDB88320) 31 = bit (0 :: 32 word) 31"
      using z by (simp add: crc_bit_cases)
    moreover have "\<not> bit (drop_bit 1 x) 31"
      by (auto simp: bit_drop_bit_eq dest: bit_imp_le_length)
    moreover have "bit (0xEDB88320 :: 32 word) 31"
      by simp
    ultimately show ?thesis
      by (simp add: bit_xor_iff)
  next
    case False
    then have "drop_bit 1 x = 0"
      using z by (simp add: crc_bit_cases)
    with False show ?thesis
      using bits_ident [of 1 x] by (simp add: take_bit_eq_mod mod_2_eq_odd)
  qed
qed (simp add: crc_bit_cases)
abbreviation crc_shift :: "nat \<Rightarrow> 32 word \<Rightarrow> 32 word" where
  "crc_shift n \<equiv> crc_bit ^^ n"

lemma crc_shift_xor: "crc_shift n (x XOR y) = crc_shift n x XOR crc_shift n y"
  by (induction n) (simp_all add: crc_bit_xor)

lemma crc_shift_0_iff: "crc_shift n x = 0 \<longleftrightarrow> x = 0"
  by (induction n) (simp_all add: crc_bit_0_iff)

lemma word_xor_eq_0_iff: "x XOR y = 0 \<longleftrightarrow> x = (y :: 'a :: len word)"
  by (metis xor_self_eq xor.right_neutral xor.assoc xor.commute)

lemma word_xor_cancel: "x XOR z = y XOR z \<longleftrightarrow> x = (y :: 'a :: len word)"
  by (metis xor.assoc xor_self_eq xor.right_neutral)

lemma crc_shift_inj: "crc_shift n x = crc_shift n y \<longleftrightarrow> x = y"
  using crc_shift_0_iff [of n "x XOR y"] by (simp add: crc_shift_xor word_xor_eq_0_iff)

lemma crc_bit_push: "crc_bit (push_bit (Suc n) x) = push_bit n (take_bit (31 - n) x)"
proof -
  have "crc_bit (push_bit (Suc n) x) = drop_bit 1 (push_bit (Suc n) x)"
    by (simp add: crc_bit_cases even_push_bit_iff del: push_bit_Suc)
  also have "\<dots> = push_bit n (take_bit (31 - n) x)"
    by (rule bit_eqI) (auto simp: bit_drop_bit_eq bit_push_bit_iff bit_take_bit_iff Suc_diff_le simp del: push_bit_Suc)
  finally show ?thesis .
qed

lemma crc_shift_push: "crc_shift n (push_bit n x) = take_bit (32 - n) x"
proof (induction n arbitrary: x)
  case (Suc n)
  have "crc_shift (Suc n) (push_bit (Suc n) x) = crc_shift n (push_bit n (take_bit (31 - n) x))"
    by (simp only: funpow_Suc_right comp_apply crc_bit_push)
  then show ?case
    by (simp add: Suc.IH take_bit_take_bit min_def)
qed (simp add: take_bit_word_eq_self)

text \<open>The bytes of a word, the lowest first.\<close>

primrec le_word :: "byte list \<Rightarrow> 32 word" where
  "le_word [] = 0"
| "le_word (b # bs) = ucast b XOR push_bit 8 (le_word bs)"

lemma le_word_bits: "n \<ge> 8 * length bs \<Longrightarrow> \<not> bit (le_word bs) n"
proof (induction bs arbitrary: n)
  case (Cons b bs)
  have "\<not> bit b n"
    using Cons.prems by (auto dest: bit_imp_le_length)
  moreover have "\<not> bit (le_word bs) (n - 8)"
    using Cons.prems by (intro Cons.IH) simp
  ultimately show ?case
    by (simp add: bit_xor_iff bit_push_bit_iff bit_ucast_iff)
qed simp

lemma le_word_bound: "8 * length bs \<le> n \<Longrightarrow> take_bit n (le_word bs) = le_word bs"
  by (rule bit_eqI) (use le_word_bits [of bs] in \<open>auto simp: bit_take_bit_iff not_le [symmetric]\<close>)

lemma crc_bytes:
  "length bs \<le> 4 \<Longrightarrow> fold crc_byte bs c = crc_shift (8 * length bs) (c XOR le_word bs)"
proof (induction bs arbitrary: c)
  case (Cons b bs)
  have w: "crc_shift 8 (push_bit 8 (le_word bs)) = le_word bs"
    using Cons.prems by (simp add: crc_shift_push le_word_bound)
  have "fold crc_byte (b # bs) c = crc_shift (8 * length bs) (crc_byte b c XOR le_word bs)"
    using Cons by simp
  also have "crc_byte b c XOR le_word bs = crc_shift 8 (c XOR le_word (b # bs))"
    unfolding crc_byte_def by (subst w [symmetric]) (simp add: crc_shift_xor [symmetric] ac_simps)
  also have "crc_shift (8 * length bs) \<dots> = crc_shift (8 * length (b # bs)) (c XOR le_word (b # bs))"
    by (simp add: funpow_add [symmetric, unfolded fun_eq_iff comp_apply, rule_format] add.commute)
  finally show ?case .
qed simp

primrec le_bytes :: "nat \<Rightarrow> 32 word \<Rightarrow> byte list" where
  "le_bytes 0 c = []"
| "le_bytes (Suc n) c = ucast c # le_bytes n (drop_bit 8 c)"

lemma length_le_bytes [simp]: "length (le_bytes n c) = n"
  by (induction n arbitrary: c) simp_all

lemma append_crc_bytes: "append_crc n c p = p @ le_bytes n c"
proof (induction n arbitrary: c p)
  case (Suc n)
  have "ucast c AND 0xFF = (ucast c :: byte)"
  proof -
    have "(0xFF :: byte) = - 1"
      by simp
    then show ?thesis
      by (simp only: and.right_neutral)
  qed
  with Suc show ?case
    by simp
qed simp

lemma le_word_bytes: "le_word (le_bytes n c) = take_bit (8 * n) c"
proof (induction n arbitrary: c)
  case (Suc n)
  have "ucast (ucast c :: byte) = take_bit 8 c"
    by (rule bit_eqI) (auto simp: bit_ucast_iff bit_take_bit_iff)
  moreover have "take_bit 8 c XOR push_bit 8 (take_bit (8 * n) (drop_bit 8 c)) = take_bit (8 * Suc n) c"
    by (rule bit_eqI) (auto simp: bit_xor_iff bit_take_bit_iff bit_push_bit_iff bit_drop_bit_eq)
  ultimately show ?case
    using Suc by simp
qed simp

lemma crc32_residue: "crc32 (append_crc 4 (crc32 p) p) = 0"
  by (simp add: append_crc_bytes crc32_def crc_bytes le_word_bytes take_bit_word_eq_self crc_shift_0_iff)

lemma crc32_0_length:
  assumes "crc32 buf = 0"
  shows "4 \<le> length buf"
proof (rule ccontr)
  assume "\<not> 4 \<le> length buf"
  then have len: "length buf \<le> 3"
    by simp
  then have "crc_shift (8 * length buf) (0xFFFFFFFF XOR le_word buf) = 0"
    using assms crc_bytes [of buf "0xFFFFFFFF"] by (simp add: crc32_def)
  then have "le_word buf = 0xFFFFFFFF"
    by (simp add: crc_shift_0_iff word_xor_eq_0_iff)
  moreover have "\<not> bit (le_word buf) 24"
    using len by (intro le_word_bits) simp
  ultimately show False
    by simp
qed

lemma le_word_inj: "length bs = length cs \<Longrightarrow> length bs \<le> 4 \<Longrightarrow> le_word bs = le_word cs \<Longrightarrow> bs = cs"
proof (induction bs cs rule: list_induct2)
  case (Cons b bs c cs)
  have low: "bit b n = bit c n" if "n < 8" for n
    using Cons.prems(2) that unfolding bit_eq_iff
    by (auto simp: bit_xor_iff bit_push_bit_iff bit_ucast_iff dest!: spec [of _ n])
  have "bit (le_word bs) n = bit (le_word cs) n" for n
  proof (cases "n < 24")
    case True
    have "\<not> bit b (n + 8)" "\<not> bit c (n + 8)"
      by (auto dest: bit_imp_le_length)
    then show ?thesis
      using Cons.prems(2) True unfolding bit_eq_iff
      by (auto simp: bit_xor_iff bit_push_bit_iff bit_ucast_iff dest!: spec [of _ "n + 8"])
  next
    case False
    then show ?thesis
      using Cons.prems(1) Cons.hyps le_word_bits [of bs n] le_word_bits [of cs n] by simp
  qed
  then have "bs = cs"
    using Cons by (simp add: bit_eq_iff)
  moreover have "b = c"
    by (rule bit_eqI) (use low in auto)
  ultimately show ?case by simp
qed simp

lemma crc_state_inj: "fold crc_byte bs c = fold crc_byte bs d \<longleftrightarrow> c = d"
proof (induction bs arbitrary: c d)
  case (Cons b bs)
  have "crc_byte b c = crc_byte b d \<longleftrightarrow> c = d"
    by (simp add: crc_byte_def crc_shift_inj word_xor_cancel)
  with Cons show ?case
    by simp
qed simp

text \<open>Two packets that differ in four bytes in a row do not have the same CRC register.\<close>

lemma crc32_burst:
  assumes "length w = length w'" and "length w \<le> 4" and "crc32 (p @ w @ q) = crc32 (p @ w' @ q)"
  shows "w = w'"
proof -
  have "fold crc_byte w (crc32 p) = fold crc_byte w' (crc32 p)"
    using assms(3) by (simp add: crc32_def crc_state_inj)
  then have "le_word w = le_word w'"
    using assms(1,2) crc_bytes [of w "crc32 p"] crc_bytes [of w' "crc32 p"]
    by (simp add: crc_shift_inj xor.commute [of "crc32 p"] word_xor_cancel)
  then show ?thesis
    using assms(1,2) by (intro le_word_inj)
qed

section \<open>Byte stuffing\<close>

text \<open>The encoding of \<open>acc @ data\<close>, where \<open>acc\<close> is the beginning of a block: a block of nonzero bytes follows its
  length, plus one; it ends before a zero, which is left out, or with its 254th byte.\<close>

fun stuff :: "byte list \<Rightarrow> byte list \<Rightarrow> byte list" where
  "stuff acc [] = of_nat (Suc (length acc)) # acc"
| "stuff acc (b # bs) =
     (if b = 0 then of_nat (Suc (length acc)) # acc @ stuff [] bs
      else if Suc (length acc) = 254 then 255 # acc @ [b] @ (if bs = [] then [] else stuff [] bs)
      else stuff (acc @ [b]) bs)"

text \<open>Whether the encoding ends with a block of full length.\<close>

fun full_end :: "byte list \<Rightarrow> byte list \<Rightarrow> bool" where
  "full_end acc [] = False"
| "full_end acc (b # bs) =
     (if b = 0 then full_end [] bs
      else if Suc (length acc) = 254 then bs = [] \<or> full_end [] bs
      else full_end (acc @ [b]) bs)"

text \<open>The state of the encoder within a block.\<close>

definition in_block :: "byte list \<Rightarrow> byte list \<Rightarrow> cobs_encoder \<Rightarrow> bool" where
  "in_block pre acc e \<longleftrightarrow> length acc < 254 \<and> e_codep e = length pre \<and> e_encode e = length pre + 1 + length acc \<and>
     e_code e = of_nat (Suc (length acc)) \<and>
     (\<exists>hole rest. e_buffer e = pre @ hole # acc @ rest)"

lemma stuff_longer: "length acc < length (stuff acc bs)"
  by (induction acc bs rule: stuff.induct) auto

lemma code_full: "n \<le> 254 \<Longrightarrow> (of_nat (Suc n) :: byte) = 255 \<longleftrightarrow> n = 254"
  using word_of_nat_eq_iff [of "Suc n" 255, where ?'a = 8] by (simp add: take_bit_eq_mod)

lemma in_block_put:
  assumes "in_block pre acc e" and "e_encode e < length (e_buffer e)"
  obtains rest where "(e_buffer e)[e_encode e := b, e_codep e := c] = pre @ c # acc @ b # rest"
    "length pre + length acc + 2 + length rest = length (e_buffer e)"
    "\<exists>hole. (e_buffer e)[e_encode e := b] = pre @ hole # acc @ b # rest"
proof -
  obtain hole rest where b: "e_buffer e = pre @ hole # acc @ rest"
    using assms(1) by (auto simp: in_block_def)
  with assms obtain r rs where "rest = r # rs"
    by (cases rest) (auto simp: in_block_def)
  with assms(1) b show ?thesis
    using that [of rs] by (auto simp: in_block_def list_update_append nth_append)
qed

lemma in_block_code:
  assumes "in_block pre acc e"
  obtains rest where "(e_buffer e)[e_codep e := c] = pre @ c # acc @ rest"
    "length pre + length acc + 1 + length rest = length (e_buffer e)"
  using assms by (auto simp: in_block_def list_update_append)

text \<open>The three ways a byte is encoded.\<close>

lemma encode_zero:
  assumes "in_block pre acc e" and "e_encode e < length (e_buffer e)"
  obtains e' where "encode_loop (0 # bs) e = encode_loop bs e'" "in_block (pre @ e_code e # acc) [] e'"
    "length (e_buffer e') = length (e_buffer e)"
proof -
  obtain rest where r: "(e_buffer e)[e_codep e := e_code e] = pre @ e_code e # acc @ rest"
      "length pre + length acc + 1 + length rest = length (e_buffer e)"
    by (rule in_block_code [OF assms(1)])
  then obtain h rs where "rest = h # rs"
    using assms by (cases rest) (auto simp: in_block_def)
  then have "\<exists>hole rs. (e_buffer e)[e_codep e := e_code e] = (pre @ e_code e # acc) @ hole # rs"
    using r(1) by simp
  then show ?thesis
    using that [of "e\<lparr>e_buffer := (e_buffer e)[e_codep e := e_code e], e_code := 1, e_codep := e_encode e,
        e_encode := e_encode e + 1\<rparr>"] assms(1)
    by (simp add: in_block_def)
qed

lemma encode_inner:
  assumes "in_block pre acc e" and "e_encode e < length (e_buffer e)" and "b \<noteq> 0" and "Suc (length acc) < 254"
  obtains e' where "encode_loop (b # bs) e = encode_loop bs e'" "in_block pre (acc @ [b]) e'"
    "length (e_buffer e') = length (e_buffer e)"
proof -
  let ?e = "e\<lparr>e_buffer := (e_buffer e)[e_encode e := b], e_encode := e_encode e + 1, e_code := e_code e + 1\<rparr>"
  have code: "e_code ?e = of_nat (Suc (Suc (length acc)))"
    using assms(1) by (simp add: in_block_def add.commute)
  moreover have "\<exists>hole rest. e_buffer ?e = pre @ hole # (acc @ [b]) @ rest"
    by (rule in_block_put [OF assms(1,2), of b]) auto
  ultimately have "in_block pre (acc @ [b]) ?e"
    using assms(1,4) by (simp add: in_block_def)
  moreover have "e_code ?e \<noteq> 255"
    unfolding code using assms(4) by (subst code_full) simp_all
  ultimately show ?thesis
    using that [of ?e] assms(3) by simp
qed

lemma encode_full:
  assumes "in_block pre acc e" and "e_encode e < length (e_buffer e)" and "b \<noteq> 0" and "Suc (length acc) = 254"
  obtains e' rest where "encode_loop (b # bs) e = encode_loop bs e'" "e_buffer e' = pre @ 255 # acc @ b # rest"
    "length (e_buffer e') = length (e_buffer e)" "e_codep e' = length pre + 255" "e_code e' = 1"
    "e_encode e' = length pre + 255 + (if bs = [] then 0 else 1)"
proof -
  have "e_code e = of_nat (Suc 253)"
    using assms(1,4) by (simp add: in_block_def)
  then have code: "e_code e + 1 = 255"
    by simp
  obtain rest where r: "(e_buffer e)[e_encode e := b, e_codep e := 255] = pre @ 255 # acc @ b # rest"
    using in_block_put [OF assms(1,2), of b 255] by metis
  show ?thesis
    using that [of "e\<lparr>e_buffer := pre @ 255 # acc @ b # rest, e_code := 1, e_codep := e_encode e + 1,
        e_encode := e_encode e + 1 + (if bs = [] then 0 else 1)\<rparr>"] r code assms(1,3,4) arg_cong [OF r, of length]
    by (cases "bs = []") (simp_all add: in_block_def Let_def)
qed

lemma encode_loop_stuff:
  assumes "in_block pre acc e" and "length pre + length (stuff acc bs) < length (e_buffer e)"
  defines "e' \<equiv> encode_finish (encode_loop bs e)"
  shows "take (e_encode e') (e_buffer e') = pre @ stuff acc bs @ [0] \<and>
    e_encode e' = length pre + length (stuff acc bs) + 1"
  using assms(1,2) unfolding e'_def
proof (induction acc bs arbitrary: pre e rule: stuff.induct)
  case (1 acc)
  then have "e_encode e < length (e_buffer e)"
    by (simp add: in_block_def)
  then obtain rest where "(e_buffer e)[e_encode e := 0, e_codep e := e_code e] = pre @ e_code e # acc @ 0 # rest"
    using in_block_put [OF 1(1)] by metis
  then have "(e_buffer e)[e_codep e := e_code e, e_encode e := 0] = pre @ e_code e # acc @ 0 # rest"
    using 1(1) by (simp add: in_block_def list_update_swap)
  then show ?case
    using 1(1) by (simp add: encode_finish_def in_block_def)
next
  case (2 acc b bs)
  have len: "e_encode e < length (e_buffer e)"
    using 2(4,5) stuff_longer [of acc "b # bs"] by (simp add: in_block_def)
  consider "b = 0" | "b \<noteq> 0" "Suc (length acc) = 254" "bs = []" | "b \<noteq> 0" "Suc (length acc) = 254" "bs \<noteq> []"
    | "b \<noteq> 0" "Suc (length acc) < 254"
    using 2(4) by (fastforce simp: in_block_def)
  then show ?case
  proof cases
    case 1
    then obtain e' where e': "encode_loop (b # bs) e = encode_loop bs e'" "in_block (pre @ e_code e # acc) [] e'"
        "length (e_buffer e') = length (e_buffer e)"
      using encode_zero [OF 2(4) len] by metis
    moreover have "e_code e = of_nat (Suc (length acc))"
      using 2(4) by (simp add: in_block_def)
    ultimately show ?thesis
      using 2(1) [OF 1 e'(2)] 2(5) 1 by (auto simp del: encode_loop.simps)
  next
    case b: 2
    obtain e' rest where e': "encode_loop (b # bs) e = encode_loop bs e'" "e_buffer e' = pre @ 255 # acc @ b # rest"
        "length (e_buffer e') = length (e_buffer e)" "e_codep e' = length pre + 255" "e_code e' = 1"
        "e_encode e' = length pre + 255 + (if bs = [] then 0 else 1)"
      by (rule encode_full [OF 2(4) len b(1,2)])
    then have "e_buffer (encode_finish e') = (pre @ 255 # acc @ [b]) @ rest[0 := 0]"
      using b(2,3) by (simp add: encode_finish_def list_update_append)
    moreover have "rest \<noteq> []"
      using e'(2,3) 2(5) b by auto
    ultimately show ?thesis
      using e'(1,6) b by (cases rest) (simp_all add: encode_finish_def)
  next
    case b: 3
    obtain e' rest where e': "encode_loop (b # bs) e = encode_loop bs e'" "e_buffer e' = pre @ 255 # acc @ b # rest"
        "length (e_buffer e') = length (e_buffer e)" "e_codep e' = length pre + 255" "e_code e' = 1"
        "e_encode e' = length pre + 255 + (if bs = [] then 0 else 1)"
      by (rule encode_full [OF 2(4) len b(1,2)])
    have "rest \<noteq> []"
      using e'(2,3) 2(5) b stuff_longer [of "[]" bs] by auto
    then have i: "in_block (pre @ 255 # acc @ [b]) [] e'"
      using e' b by (cases rest) (auto simp: in_block_def)
    show ?thesis
      using 2(2) [OF b i] e'(1,3) 2(5) b by (auto simp del: encode_loop.simps)
  next
    case b: 4
    then obtain e' where e': "encode_loop (b # bs) e = encode_loop bs e'" "in_block pre (acc @ [b]) e'"
        "length (e_buffer e') = length (e_buffer e)"
      using encode_inner [OF 2(4) len] by metis
    then show ?thesis
      using 2(3) [OF _ _ e'(2)] 2(5) b by (auto simp del: encode_loop.simps)
  qed
qed

lemma stuff_length: "length acc < 254 \<Longrightarrow>
    length (stuff acc bs) \<le> length acc + length bs + 1 + (length acc + length bs) div 254"
proof (induction acc bs rule: stuff.induct)
  case (2 acc b bs)
  have div: "x div 254 + y div 254 \<le> (x + y) div 254" "(y + 254) div 254 = y div 254 + 1" for x y :: nat
    by auto
  consider "b = 0" | "b \<noteq> 0" "Suc (length acc) = 254" "bs = []" | "b \<noteq> 0" "Suc (length acc) = 254" "bs \<noteq> []"
    | "b \<noteq> 0" "Suc (length acc) < 254"
    using 2(4) by fastforce
  then show ?case
  proof cases
    case 1
    then show ?thesis
      using 2(1) div(1) [of "length acc + 1" "length bs"] by (auto simp: add_ac)
  next
    case 3
    then show ?thesis
      using 2(2) div(2) [of "length bs"] by (auto simp: add_ac)
  next
    case 4
    then show ?thesis
      using 2(3) by simp
  qed simp
qed simp

lemma cobsEncode_stuff:
  assumes "length data + length data div 254 + 2 \<le> length buffer"
  shows "(let (buf, len) = cobsEncode data buffer in take len buf) = stuff [] data @ [0] \<and>
    snd (cobsEncode data buffer) \<le> length data + length data div 254 + 2"
proof -
  let ?e = "\<lparr>e_buffer = buffer, e_encode = 1, e_codep = 0, e_code = 1\<rparr>"
  have "in_block [] [] ?e"
    using assms by (cases buffer) (auto simp: in_block_def)
  moreover have "length (stuff [] data) \<le> length data + 1 + length data div 254"
    using stuff_length [of "[]" data] by simp
  ultimately show ?thesis
    using encode_loop_stuff [of "[]" "[]" ?e data] assms by (auto simp: cobsEncode_def Let_def)
qed

text \<open>The encoding ends with a full block exactly if the number of nonzero bytes at the end of the data is a
  positive multiple of 254.\<close>

definition run_at_end :: "byte list \<Rightarrow> nat" where
  "run_at_end xs = length (takeWhile (\<lambda>b. b \<noteq> 0) (rev xs))"

lemma run_at_end_append:
  "run_at_end (xs @ ys) = (if 0 \<in> set ys then run_at_end ys else run_at_end xs + length ys)"
  unfolding run_at_end_def by (auto simp: takeWhile_append)

lemma run_at_end_all: "0 \<notin> set xs \<Longrightarrow> run_at_end xs = length xs"
  unfolding run_at_end_def by (subst takeWhile_eq_all_conv [THEN iffD2]) auto

lemma full_end_run:
  assumes "length acc < 254" and "0 \<notin> set acc"
  shows "full_end acc bs \<longleftrightarrow> bs \<noteq> [] \<and> 0 < run_at_end (acc @ bs) \<and> 254 dvd run_at_end (acc @ bs)"
  using assms
proof (induction acc bs rule: full_end.induct)
  case (2 acc b bs)
  consider "b = 0" | "b \<noteq> 0" "Suc (length acc) = 254" | "b \<noteq> 0" "Suc (length acc) < 254"
    using 2(4) by fastforce
  then show ?case
  proof cases
    case 1
    then have "run_at_end (acc @ b # bs) = run_at_end bs"
      using run_at_end_append [of "acc @ [0]" bs] run_at_end_append [of acc "[0]"] run_at_end_all [of bs]
      by (auto simp: run_at_end_def)
    then show ?thesis
      using 2(1) 1 by (auto simp: run_at_end_def)
  next
    case 2
    then have "run_at_end (acc @ b # bs) = (if 0 \<in> set bs then run_at_end bs else 254 + length bs)"
      using run_at_end_append [of "acc @ [b]" bs] run_at_end_all [of "acc @ [b]"] \<open>0 \<notin> set acc\<close> by simp
    then show ?thesis
      using "2.IH"(2) 2 run_at_end_all [of bs] by auto
  next
    case 3
    then show ?thesis
      using "2.IH"(3) "2.prems" run_at_end_all [of "acc @ [b]"] by (auto dest: dvd_imp_le)
  qed
qed simp

section \<open>The decoder\<close>

text \<open>The decoder has decoded \<open>xs\<close>, in a block that began with the code \<open>c\<close> and lacks \<open>k\<close> bytes.\<close>

definition rx_state :: "evSerial \<Rightarrow> byte list \<Rightarrow> byte \<Rightarrow> byte \<Rightarrow> evSerial \<Rightarrow> bool" where
  "rx_state base xs c k s \<longleftrightarrow> (\<exists>rest. length (xs @ rest) = 2048 \<and>
     s = base\<lparr>rx_msg := xs @ rest, rx_decode := length xs, rx_code := c, rx_block := k\<rparr>)"

lemma rx_stateE:
  assumes "rx_state base xs c k s"
  obtains rest where "length xs + length rest = 2048"
    "s = base\<lparr>rx_msg := xs @ rest, rx_decode := length xs, rx_code := c, rx_block := k\<rparr>"
  using assms by (auto simp: rx_state_def)

lemma rx_put:
  assumes "rx_state base xs c k s" and "length xs < 2048"
  shows "rx_state base (xs @ [b]) c k (exec (put_msg b) s)"
proof -
  obtain rest where r: "length xs + length rest = 2048"
      "s = base\<lparr>rx_msg := xs @ rest, rx_decode := length xs, rx_code := c, rx_block := k\<rparr>"
    by (rule rx_stateE [OF assms(1)])
  moreover obtain h rs where "rest = h # rs"
    using r(1) assms(2) by (cases rest) auto
  ultimately show ?thesis
    using assms(2) unfolding rx_state_def put_msg_def
    by (intro exI [of _ rs]) (simp add: run_simps)
qed

lemma rx_registers:
  "rx_state base xs c k s \<Longrightarrow> rx_state base xs c' k' (s\<lparr>rx_code := c', rx_block := k'\<rparr>)"
  "rx_state base xs c k s \<Longrightarrow> rx_state base xs c k' (s\<lparr>rx_block := k'\<rparr>)"
  "rx_state base xs c k s \<Longrightarrow> rx_state base xs c' k' (s\<lparr>rx_block := k', rx_code := c'\<rparr>)"
  by (auto simp: rx_state_def)

lemma rx_fields:
  "rx_state base xs c k s \<Longrightarrow> rx_decode s = length xs" "rx_state base xs c k s \<Longrightarrow> rx_code s = c"
  "rx_state base xs c k s \<Longrightarrow> rx_block s = k"
  "rx_state base xs c k s \<Longrightarrow> take n (rx_msg s) = take n (xs @ drop (length xs) (rx_msg s))"
  by (auto simp: rx_state_def)

definition pend :: "byte \<Rightarrow> byte list" where
  "pend c = (if c = 255 then [] else [0])"

lemma pend_full [simp]: "pend 255 = []"
  by (simp add: pend_def)

lemma rx_pend:
  assumes "rx_state base xs c k s" and "length xs < 2048"
  shows "rx_state base (xs @ pend c) c k (exec (do_if (rx_code s \<noteq> 255) (put_msg 0)) s)"
  using rx_put [OF assms] assms(1) rx_fields(2) [OF assms(1)] by (auto simp: pend_def run_simps)

lemma decode_in_block:
  assumes s: "rx_state base xs c k s" and "k \<noteq> 0" "b \<noteq> 0" "length xs < 2047"
  shows "rx_state base (xs @ [b]) c (k - 1) (exec (cobsDecodeByte pb b) s)"
proof -
  have p: "rx_state base (xs @ [b]) c k (exec (put_msg b) s)"
    using assms by (intro rx_put) simp_all
  then show ?thesis
    using rx_registers(2) [OF p, of "k - 1"] assms rx_fields(1,3) [OF s] rx_fields(3) [OF p]
    by (simp add: cobsDecodeByte_def run_simps)
qed

lemma decode_header:
  assumes s: "rx_state base xs c 0 s" and "b \<noteq> 0" "length xs < 2047"
  shows "rx_state base (xs @ pend c) b (b - 1) (exec (cobsDecodeByte pb b) s)"
proof -
  have p: "rx_state base (xs @ pend c) c 0 (exec (do_if (rx_code s \<noteq> 255) (put_msg 0)) s)"
    using assms by (intro rx_pend) simp_all
  then show ?thesis
    using rx_registers(1) [OF p, of b "b - 1"] assms rx_fields(1,3) [OF s]
    by (cases "rx_code s = 255") (simp_all add: cobsDecodeByte_def run_simps)
qed

text \<open>The handling of a packet does not look at the registers of the decoder.\<close>

lemma deliver_registers:
  "exec (deliver pb buf) (s\<lparr>rx_msg := m, rx_decode := d, rx_code := c, rx_block := k\<rparr>) =
     (exec (deliver pb buf) s)\<lparr>rx_msg := m, rx_decode := d, rx_code := c, rx_block := k\<rparr>"
  by (simp add: deliver_def emit_signal_def run_simps split: option.split McuToEverest.split)

lemma handlePacket_registers:
  "exec (handlePacket pb buf) (s\<lparr>rx_msg := m, rx_decode := d, rx_code := c, rx_block := k\<rparr>) =
     (exec (handlePacket pb buf) s)\<lparr>rx_msg := m, rx_decode := d, rx_code := c, rx_block := k\<rparr>"
  by (simp add: handlePacket_def run_simps deliver_registers)

lemma rx_handlePacket:
  "rx_state base xs c k s \<Longrightarrow> rx_state (exec (handlePacket pb buf) base) xs c k (exec (handlePacket pb buf) s)"
  by (auto simp: rx_state_def handlePacket_registers)

lemma rx_reset: "rx_state base xs c k s \<Longrightarrow> rx_state base [] 255 0 (exec cobsDecodeReset s)"
  unfolding rx_state_def cobsDecodeReset_def by (intro exI [of _ "rx_msg s"]) (auto simp: run_simps)

lemma rx_take:
  "rx_state base xs c k s \<Longrightarrow> n \<le> length xs \<Longrightarrow> take n (rx_msg s) = take n xs"
  by (auto simp: rx_state_def)

lemma decode_end:
  assumes s: "rx_state base xs c 0 s" and "length xs \<le> 2047" and "xs @ pend c \<noteq> []"
  shows "rx_state (exec (handlePacket pb (butlast (xs @ pend c))) base) [] 255 0 (exec (cobsDecodeByte pb 0) s)"
proof -
  let ?s = "exec (do_if (rx_code s \<noteq> 255) (put_msg 0)) s"
  have p: "rx_state base (xs @ pend c) c 0 ?s"
    using assms by (intro rx_pend) simp_all
  have q: "rx_state base (xs @ pend c) 0 0 (?s\<lparr>rx_block := 0, rx_code := 0\<rparr>)"
    by (rule rx_registers(3) [OF p])
  then have "take (rx_decode ?s - 1) (rx_msg ?s) = butlast (xs @ pend c)" and "rx_decode ?s \<noteq> 0"
    using rx_take [OF p, of "rx_decode ?s - 1"] rx_fields(1) [OF p] assms(3) by (simp_all add: butlast_conv_take)
  moreover have "exec (cobsDecodeByte pb 0) s = exec cobsDecodeReset
      (exec (do_if (rx_decode ?s \<noteq> 0) (handlePacket pb (take (rx_decode ?s - 1) (rx_msg ?s)))) (?s\<lparr>rx_block := 0, rx_code := 0\<rparr>))"
    using rx_fields(3) [OF s] by (simp add: cobsDecodeByte_def run_simps)
  ultimately show ?thesis
    using rx_reset [OF rx_handlePacket [OF q]] by (simp add: run_simps)
qed

abbreviation decode_bytes :: "pb_decoder \<Rightarrow> byte list \<Rightarrow> evSerial \<Rightarrow> evSerial" where
  "decode_bytes pb bs s \<equiv> exec (cobsDecode pb bs) s"

lemma decode_bytes_simps [simp]:
  "decode_bytes pb [] s = s" "decode_bytes pb (b # bs) s = decode_bytes pb bs (exec (cobsDecodeByte pb b) s)"
  "decode_bytes pb (bs @ cs) s = decode_bytes pb cs (decode_bytes pb bs s)"
proof -
  show "decode_bytes pb [] s = s" "decode_bytes pb (b # bs) s = decode_bytes pb bs (exec (cobsDecodeByte pb b) s)" for b bs s
    by (simp_all add: cobsDecode_def run_simps)
  then show "decode_bytes pb (bs @ cs) s = decode_bytes pb cs (decode_bytes pb bs s)"
    by (induction bs arbitrary: s) simp_all
qed

lemma decode_rest_of_block:
  "rx_state base xs c (of_nat (length ys)) s \<Longrightarrow> 0 \<notin> set ys \<Longrightarrow> length ys < 255 \<Longrightarrow> length xs + length ys \<le> 2047 \<Longrightarrow>
     rx_state base (xs @ ys) c 0 (decode_bytes pb ys s)"
proof (induction ys arbitrary: xs s)
  case (Cons y ys)
  have "(of_nat (length (y # ys)) :: byte) \<noteq> 0"
    using Cons.prems(3) by (simp add: word_of_nat_eq_0_iff del: of_nat_Suc) (auto dest: dvd_imp_le)
  then have "rx_state base (xs @ [y]) c (of_nat (length ys)) (exec (cobsDecodeByte pb y) s)"
    using decode_in_block [OF Cons.prems(1), of y pb] Cons.prems by simp
  then show ?case
    using Cons.IH [of "xs @ [y]"] Cons.prems by simp
qed simp

lemma decode_block:
  assumes "rx_state base xs c 0 s" and "0 \<notin> set ys" and "length ys < 255" and "length (xs @ pend c @ ys) \<le> 2047"
    and "ys \<noteq> [] \<or> length xs < 2047"
  shows "rx_state base (xs @ pend c @ ys) (of_nat (Suc (length ys))) 0
    (decode_bytes pb (of_nat (Suc (length ys)) # ys) s)"
proof -
  let ?c = "of_nat (Suc (length ys)) :: byte"
  have "?c \<noteq> 0"
    using assms(3) by (simp add: word_of_nat_eq_0_iff del: of_nat_Suc) (auto dest: dvd_imp_le)
  moreover have "length xs < 2047"
    using assms(4,5) by (cases ys) auto
  ultimately have "rx_state base (xs @ pend c) ?c (of_nat (length ys)) (exec (cobsDecodeByte pb ?c) s)"
    using decode_header [OF assms(1), of ?c pb] by simp
  then show ?thesis
    using decode_rest_of_block [of base "xs @ pend c" ?c ys _ pb] assms(2-4) by simp
qed

text \<open>What the decoder makes of an encoded packet.\<close>

lemma decode_stuff:
  assumes "rx_state base xs c 0 s" and "length acc < 254" and "0 \<notin> set acc"
    and "length (xs @ pend c @ acc @ bs) \<le> 2047" and "length xs < 2047"
  shows "rx_state (exec (handlePacket pb (if full_end acc bs then butlast (xs @ pend c @ acc @ bs)
      else xs @ pend c @ acc @ bs)) base) [] 255 0 (decode_bytes pb (stuff acc bs @ [0]) s)"
  using assms
proof (induction acc bs arbitrary: xs c s rule: stuff.induct)
  case (1 acc)
  let ?c = "of_nat (Suc (length acc)) :: byte"
  have "?c \<noteq> 255"
    using 1(2) by (subst code_full) simp_all
  then have "pend ?c = [0]"
    by (simp add: pend_def)
  then show ?case
    using decode_end [OF decode_block [OF 1(1,3), of pb], of pb] 1 by (simp add: butlast_append)
next
  case (2 acc b bs)
  consider "b = 0" | "b \<noteq> 0" "Suc (length acc) = 254" | "b \<noteq> 0" "Suc (length acc) < 254"
    using 2(5) by fastforce
  then show ?case
  proof cases
    case b: 1
    let ?c = "of_nat (Suc (length acc)) :: byte"
    have "?c \<noteq> 255"
      using 2(5) by (subst code_full) simp_all
    then have p: "pend ?c = [0]"
      by (simp add: pend_def)
    show ?thesis
      using 2(1) [OF b decode_block [OF 2(4,6), of pb]] 2(5-8) b p
      by (cases "full_end [] bs") simp_all
  next
    case b: 2
    have s: "rx_state base (xs @ pend c @ acc @ [b]) 255 0 (decode_bytes pb (255 # acc @ [b]) s)"
      using decode_block [OF 2(4), of "acc @ [b]" pb] 2(5-8) b by simp
    show ?thesis
    proof (cases "bs = []")
      case True
      then show ?thesis
        using decode_end [OF s, of pb] b 2(7) by simp
    next
      case False
      then have "length (xs @ pend c @ acc @ [b]) < 2047"
        using 2(7) b(2) by (cases bs) auto
      then show ?thesis
        using 2(2) [OF b False s] 2(5-8) b False by (cases "full_end [] bs") simp_all
    qed
  next
    case b: 3
    then show ?thesis
      using 2(3) [OF _ _ 2(4)] 2(5-8) by (cases "full_end (acc @ [b]) bs") simp_all
  qed
qed

end
