(* ===== verification/Serial_Frames.thy ===== *)
theory Serial_Frames
  imports Serial_Laws
begin

text \<open>
  The properties of the serial link: which frames come through, that the decoder finds the frames again after
  anything, and that no buffer is overrun.
\<close>

section \<open>Bounds\<close>

definition rx_wf :: "evSerial \<Rightarrow> bool" where
  "rx_wf s \<longleftrightarrow> length (rx_msg s) = 2048 \<and> rx_decode s < 2048 \<and> \<not> rx_overrun s"

definition synced :: "evSerial \<Rightarrow> bool" where
  "synced s \<longleftrightarrow> length (rx_msg s) = 2048 \<and> rx_decode s = 0 \<and> rx_code s = 255 \<and> rx_block s = 0"

lemma handlePacket_keeps:
  "rx_msg (exec (handlePacket pb buf) s) = rx_msg s" "rx_decode (exec (handlePacket pb buf) s) = rx_decode s"
  "rx_overrun (exec (handlePacket pb buf) s) = rx_overrun s"
  by (simp_all add: handlePacket_def deliver_def emit_signal_def run_simps split: option.split McuToEverest.split)

lemma decode_byte_wf: "rx_wf s \<Longrightarrow> rx_wf (exec (cobsDecodeByte pb b) s)"
  by (auto simp: rx_wf_def cobsDecodeByte_def cobsDecodeReset_def put_msg_def run_simps handlePacket_keeps)

lemma decode_zero_synced: "rx_wf s \<Longrightarrow> synced (exec (cobsDecodeByte pb 0) s)"
  by (auto simp: rx_wf_def synced_def cobsDecodeByte_def cobsDecodeReset_def put_msg_def run_simps handlePacket_keeps)

lemma decode_wf: "rx_wf s \<Longrightarrow> rx_wf (decode_bytes pb bs s)"
  by (induction bs arbitrary: s) (simp_all add: decode_byte_wf)

lemma init_wf: "rx_wf (evSerial_init now)" "synced (evSerial_init now)"
  by (simp_all add: rx_wf_def synced_def evSerial_init_def cobsDecodeReset_def run_simps)

text \<open>C17. Whatever bytes come in, the decoder never writes behind the end of its buffer of 2048 bytes.\<close>

theorem decoder_stays_in_buffer:
  "let s = exec (cobsDecode pb bytes) (evSerial_init now)
   in \<not> rx_overrun s \<and> rx_decode s < 2048 \<and> length (rx_msg s) = 2048"
  using decode_wf [OF init_wf(1), of pb bytes now] by (simp add: rx_wf_def Let_def)

text \<open>C28. A packet that passes the check has at least the four bytes that are then cut off, and no packet that
  differs from it in up to four bytes in a row passes the check.\<close>

theorem accepted_packet_sound:
  assumes "crc32 (p @ w @ q) = 0"
  shows "4 \<le> length (p @ w @ q) \<and>
    (length w' = length w \<and> length w \<le> 4 \<and> crc32 (p @ w' @ q) = 0 \<longrightarrow> w' = w)"
  using crc32_0_length [OF assms] crc32_burst [of w' w p q] assms by auto
section \<open>Frames\<close>

abbreviation packet :: "byte list \<Rightarrow> byte list" where
  "packet payload \<equiv> append_crc 4 (crc32 payload) payload"

lemma length_packet [simp]: "length (packet p) = length p + 4"
  by (simp add: append_crc_bytes)

lemma frame_stuff:
  assumes "length p \<le> 1020"
  shows "frame p = stuff [] (packet p) @ [0]"
proof -
  have "length (packet p) + length (packet p) div 254 + 2 \<le> length (replicate 1500 (0 :: byte))"
    using assms by simp
  then show ?thesis
    unfolding frame_def using cobsEncode_stuff by blast
qed

lemma handle_packet: "exec (handlePacket pb (packet p)) s = exec (deliver pb p) s"
  by (simp add: handlePacket_def crc32_residue) (simp add: append_crc_bytes)

lemma crc_butlast:
  assumes "crc32 xs = 0" and "xs \<noteq> []" and "last xs \<noteq> 0"
  shows "crc32 (butlast xs) \<noteq> 0"
proof
  assume z: "crc32 (butlast xs) = 0"
  have "crc32 (butlast xs @ [last xs]) = crc_byte (last xs) (crc32 (butlast xs))"
    unfolding crc32_def fold_append by simp
  then have "crc32 xs = crc_byte (last xs) (crc32 (butlast xs))"
    using assms(2) by simp
  then have "(ucast (last xs) :: 32 word) = 0"
    using assms(1) z by (simp add: crc_byte_def crc_shift_0_iff)
  then have "last xs = 0"
    unfolding bit_eq_iff by (auto simp: bit_ucast_iff dest: bit_imp_le_length)
  with assms(3) show False ..
qed

lemma handle_truncated:
  assumes "full_end [] (packet p)"
  shows "exec (handlePacket pb (butlast (packet p))) s = s"
proof -
  have r: "0 < run_at_end (packet p)"
    using assms full_end_run [of "[]" "packet p"] by simp
  then have "packet p \<noteq> []" "last (packet p) \<noteq> 0"
    by (auto simp: run_at_end_def simp flip: hd_rev) (cases "rev (packet p)"; auto)
  then show ?thesis
    using crc_butlast [of "packet p"] by (simp add: crc32_residue handlePacket_def run_simps)
qed

lemma synced_rx: "synced s \<Longrightarrow> rx_state s [] 255 0 s"
  unfolding synced_def rx_state_def by (intro exI [of _ "rx_msg s"]) simp

lemma deliver_keeps_registers:
  "rx_msg (exec (deliver pb buf) s) = rx_msg s" "rx_decode (exec (deliver pb buf) s) = rx_decode s"
  "rx_code (exec (deliver pb buf) s) = rx_code s" "rx_block (exec (deliver pb buf) s) = rx_block s"
  by (simp_all add: deliver_def emit_signal_def run_simps split: option.split McuToEverest.split)

lemma frame_decoded:
  assumes "synced s" and "length payload \<le> 1020"
  defines "run \<equiv> run_at_end (append_crc 4 (crc32 payload) payload)"
  shows "\<exists>m. length m = 2048 \<and> exec (cobsDecode pb (frame payload)) s =
    (if 0 < run \<and> 254 dvd run then s else exec (deliver pb payload) s)\<lparr>rx_msg := m\<rparr>"
proof -
  have full: "full_end [] (packet payload) \<longleftrightarrow> 0 < run \<and> 254 dvd run"
    using full_end_run [of "[]" "packet payload"] by (auto simp: run_def run_at_end_def)
  have "rx_state (exec (handlePacket pb (if full_end [] (packet payload) then butlast (packet payload)
      else packet payload)) s) [] 255 0 (decode_bytes pb (frame payload) s)"
    using decode_stuff [OF synced_rx [OF assms(1)], of "[]" "packet payload" pb] assms(2) frame_stuff [OF assms(2)]
    by (cases "full_end [] (packet payload)") simp_all
  then have "rx_state (if 0 < run \<and> 254 dvd run then s else exec (deliver pb payload) s) [] 255 0
      (decode_bytes pb (frame payload) s)"
    unfolding full [symmetric]
    by (cases "full_end [] (packet payload)") (simp_all add: handle_truncated handle_packet)
  then show ?thesis
    using assms(1) by (auto simp: rx_state_def synced_def deliver_keeps_registers)
qed

text \<open>C15. A frame that the link writes is decoded to its payload by a decoder that waits for a frame, unless the nonzero
  bytes at the end of the payload with its CRC are a positive multiple of 254; in that case the last byte is lost, the
  check fails and the frame is dropped without a trace.\<close>

theorem frame_round_trip:
  assumes "synced s" and "length payload \<le> 1020"
  shows "\<exists>m. exec (cobsDecode pb (frame payload)) s =
    (let run = run_at_end (append_crc 4 (crc32 payload) payload)
     in if 0 < run \<and> 254 dvd run then s else exec (deliver pb payload) s)\<lparr>rx_msg := m\<rparr>"
  using frame_decoded [OF assms, of pb] by (auto simp: Let_def)

definition plain :: "byte list \<Rightarrow> bool" where
  "plain payload \<longleftrightarrow> length payload \<le> 1020 \<and>
     \<not> (0 < run_at_end (packet payload) \<and> 254 dvd run_at_end (packet payload))"

lemma short_plain: "length payload < 250 \<Longrightarrow> plain payload"
proof -
  assume len: "length payload < 250"
  have "run_at_end xs \<le> length xs" for xs
    unfolding run_at_end_def by (metis length_rev length_takeWhile_le)
  from this [of "packet payload"] show ?thesis
    using len by (auto simp: plain_def dest: dvd_imp_le)
qed

lemma deliver_msg: "exec (deliver pb p) (s\<lparr>rx_msg := m\<rparr>) = (exec (deliver pb p) s)\<lparr>rx_msg := m\<rparr>"
  by (simp add: deliver_def emit_signal_def run_simps split: option.split McuToEverest.split)

lemma deliver_all_msg:
  "exec (for_each ps (deliver pb)) (s\<lparr>rx_msg := m\<rparr>) = (exec (for_each ps (deliver pb)) s)\<lparr>rx_msg := m\<rparr>"
  by (induction ps arbitrary: s) (simp_all add: run_simps deliver_msg)

lemma frames_delivered:
  assumes "synced s" and "list_all plain ps"
  shows "\<exists>m. length m = 2048 \<and>
    decode_bytes pb (concat (map frame ps)) s = (exec (for_each ps (deliver pb)) s)\<lparr>rx_msg := m\<rparr>"
  using assms
proof (induction ps arbitrary: s)
  case Nil
  then show ?case
    by (intro exI [of _ "rx_msg s"]) (simp add: run_simps synced_def)
next
  case (Cons p ps)
  let ?s = "exec (deliver pb p) s"
  obtain m where m: "length m = 2048" "decode_bytes pb (frame p) s = ?s\<lparr>rx_msg := m\<rparr>"
    using frame_decoded [of s p pb] Cons.prems by (auto simp: plain_def)
  then have "synced (?s\<lparr>rx_msg := m\<rparr>)"
    using Cons.prems(1) by (simp add: synced_def deliver_keeps_registers)
  then obtain m' where "length m' = 2048"
      "decode_bytes pb (concat (map frame ps)) (?s\<lparr>rx_msg := m\<rparr>) = (exec (for_each ps (deliver pb)) (?s\<lparr>rx_msg := m\<rparr>))\<lparr>rx_msg := m'\<rparr>"
    using Cons.IH Cons.prems(2) by auto
  then show ?case
    using m by (auto simp: run_simps deliver_all_msg)
qed

text \<open>C16. After any bytes whatever, also the rest of a frame or noise, a single zero byte makes the decoder wait for a
  frame; the payloads of all frames that follow are then delivered, in their order and nothing else, as long as none
  ends with a full block.\<close>

theorem decoder_resynchronises:
  assumes "rx_wf s" and "list_all plain payloads"
  shows "signals (exec (cobsDecode pb (noise @ [0] @ concat (map frame payloads))) s) =
    signals (exec (for_each payloads (deliver pb)) (exec (cobsDecode pb (noise @ [0])) s))"
proof -
  have "synced (decode_bytes pb (noise @ [0]) s)"
    using decode_zero_synced [OF decode_wf [OF assms(1)]] by simp
  from frames_delivered [OF this assms(2)] obtain m where
    "decode_bytes pb (noise @ [0] @ concat (map frame payloads)) s =
      (exec (for_each payloads (deliver pb)) (decode_bytes pb (noise @ [0]) s))\<lparr>rx_msg := m\<rparr>"
    by auto
  then show ?thesis
    by simp
qed

section \<open>Witnesses\<close>

definition example_decoder :: pb_decoder where
  "example_decoder bs = (if bs = [] then None else Some (Rx_relais_state (hd bs \<noteq> 0)))"

theorem accepted_packet_sound_witness:
  "crc32 ([1] @ [2, 3] @ le_bytes 4 (crc32 [1, 2, 3])) = 0 \<and> crc32 ([1] @ [2, 4] @ le_bytes 4 (crc32 [1, 2, 3])) \<noteq> 0"
proof -
  have "crc32 ([1] @ [2, 3] @ le_bytes 4 (crc32 [1, 2, 3])) = 0"
    using crc32_residue [of "[1, 2, 3]"] by (simp add: append_crc_bytes)
  then show ?thesis
    using accepted_packet_sound [of "[1]" "[2, 3]" "le_bytes 4 (crc32 [1, 2, 3])" "[2, 4]"] by auto
qed

text \<open>A payload of 250 nonzero bytes, with four nonzero bytes of CRC: after its first four bytes the register has a value
  that a byte 1 does not change.\<close>

definition example_full :: "byte list" where
  "example_full = [4, 144, 187, 212] @ replicate 246 1"

lemma crc_byte_bits:
  "crc_byte b c = crc_bit (crc_bit (crc_bit (crc_bit (crc_bit (crc_bit (crc_bit (crc_bit (c XOR ucast b))))))))"
  by (simp add: crc_byte_def numeral_eq_Suc)

lemma le_bytes_4: "le_bytes 4 c = [ucast c, ucast (drop_bit 8 c), ucast (drop_bit 16 c), ucast (drop_bit 24 c)]"
  by (simp add: numeral_eq_Suc)

lemma crc_fixpoint: "crc_byte b c = c \<Longrightarrow> fold crc_byte (replicate n b) c = c"
  by (induction n) simp_all

lemma example_full_run: "run_at_end (packet example_full) = 254"
proof -
  have "fold crc_byte [4, 144, 187, 212] 0xFFFFFFFF = 709193466" "crc_byte 1 709193466 = 709193466"
    by (simp_all add: crc_byte_bits crc_bit_cases)
  then have "crc32 example_full = 709193466"
    unfolding crc32_def example_full_def fold_append comp_apply by (simp only: crc_fixpoint)
  then have "0 \<notin> set (packet example_full)"
    by (simp add: append_crc_bytes le_bytes_4 example_full_def)
  then have "run_at_end (packet example_full) = length (packet example_full)"
    by (rule run_at_end_all)
  then show ?thesis
    by (simp add: example_full_def)
qed

theorem frame_round_trip_witness:
  "(\<exists>m. exec (cobsDecode example_decoder (frame [1, 2])) (evSerial_init 0) =
      (exec (deliver example_decoder [1, 2]) (evSerial_init 0))\<lparr>rx_msg := m\<rparr>) \<and>
   (\<exists>m. exec (cobsDecode example_decoder (frame example_full)) (evSerial_init 0) = (evSerial_init 0)\<lparr>rx_msg := m\<rparr>)"
proof
  have "\<not> (0 < run_at_end (packet [1, 2]) \<and> 254 dvd run_at_end (packet [1, 2]))"
    using short_plain [of "[1, 2]"] by (simp add: plain_def)
  then show "\<exists>m. exec (cobsDecode example_decoder (frame [1, 2])) (evSerial_init 0) =
      (exec (deliver example_decoder [1, 2]) (evSerial_init 0))\<lparr>rx_msg := m\<rparr>"
    using frame_round_trip [OF init_wf(2) [of 0], of "[1, 2]" example_decoder] by (auto simp: Let_def)
  show "\<exists>m. exec (cobsDecode example_decoder (frame example_full)) (evSerial_init 0) = (evSerial_init 0)\<lparr>rx_msg := m\<rparr>"
    using frame_round_trip [OF init_wf(2) [of 0], of example_full example_decoder] example_full_run
    by (simp add: Let_def example_full_def)
qed

theorem decoder_resynchronises_witness:
  "signals (exec (cobsDecode example_decoder ([7, 9, 1] @ [0] @ concat (map frame [[1], [0]]))) (evSerial_init 0)) =
     [Sig_RelaisState True, Sig_RelaisState False]"
proof -
  have "signals (exec (for_each [[1], [0]] (deliver example_decoder))
      (exec (cobsDecode example_decoder ([7, 9, 1] @ [0])) (evSerial_init 0))) = [Sig_RelaisState True, Sig_RelaisState False]"
    by code_simp
  then show ?thesis
    using decoder_resynchronises [OF init_wf(1) [of 0], of "[[1], [0]]" example_decoder "[7, 9, 1]"]
    by (simp add: short_plain)
qed

end
