(* ===== verification/Yeti_Laws.thy ===== *)
theory Yeti_Laws
  imports Yeti_Driver Serial_Frames
begin

text \<open>
  The errors that the driver of the board reports, against the flags that the controller sends.
\<close>

section \<open>The error framework\<close>

abbreviation active :: "'d error_framework \<Rightarrow> string \<Rightarrow> 'd \<Rightarrow> bool" where
  "active fw t d \<equiv> is_error_active fw t '''' d"

lemma active_raise:
  assumes "framework_ok fw"
  shows "active fw t (raise_error fw (create_error fw t' '''' m v) d) \<longleftrightarrow> t = t' \<or> active fw t d"
  using framework_laws [OF assms] by auto

lemma active_clear:
  assumes "framework_ok fw"
  shows "active fw t (clear_error_type fw t' d) \<longleftrightarrow> t \<noteq> t' \<and> active fw t d"
  using framework_laws [OF assms] by auto

section \<open>Errors and flags\<close>

definition flags_inv :: "'d error_framework \<Rightarrow> 'd yeti \<Rightarrow> bool" where
  "flags_inv fw y \<longleftrightarrow>
     active fw ''evse_board_support/DiodeFault'' (board_errors y) = diode_fault (last_error_flags y) \<and>
     active fw ''evse_board_support/VentilationNotAvailable'' (board_errors y) =
       ventilation_not_available (last_error_flags y) \<and>
     active fw ''evse_board_support/MREC14PilotFault'' (board_errors y) = cp_signal_fault (last_error_flags y) \<and>
     active fw ''evse_board_support/MREC2GroundFailure'' (board_errors y) = error_MREC2GroundFailure y \<and>
     active fw ''connector_lock/MREC1ConnectorLockFailure'' (lock_errors y) = error_MREC1ConnectorLockFailure y"

definition keeps_flags :: "'d error_framework \<Rightarrow> 'd yeti \<Rightarrow> 'd yeti \<Rightarrow> bool" where
  "keeps_flags fw y y' \<longleftrightarrow> (framework_ok fw \<and> flags_inv fw y \<longrightarrow> flags_inv fw y')"

interpretation kf: frame_rel "keeps_flags fw" for fw
  by unfold_locales (auto simp: keeps_flags_def)

lemma kf_modify:
  "(\<And>y. board_errors (f y) = board_errors y) \<Longrightarrow> (\<And>y. lock_errors (f y) = lock_errors y) \<Longrightarrow>
   (\<And>y. last_error_flags (f y) = last_error_flags y) \<Longrightarrow>
   (\<And>y. error_MREC2GroundFailure (f y) = error_MREC2GroundFailure y) \<Longrightarrow>
   (\<And>y. error_MREC1ConnectorLockFailure (f y) = error_MREC1ConnectorLockFailure y) \<Longrightarrow> kf.keeps fw (modify f)"
  by (rule kf.keeps_modify) (simp add: keeps_flags_def flags_inv_def)

lemma follow_flag_active:
  assumes "framework_ok fw"
  shows "active fw t' (board_errors (exec (follow_flag fw flag t m old e) y)) \<longleftrightarrow>
    (if t' = t then (if flag e then \<not> flag old \<or> active fw t (board_errors y)
       else \<not> flag old \<and> active fw t (board_errors y))
     else active fw t' (board_errors y))"
  using active_raise [OF assms] active_clear [OF assms]
  by (simp add: follow_flag_def on_board_errors_def run_simps)

lemma follow_flag_keeps:
  "lock_errors (exec (follow_flag fw flag t m old e) y) = lock_errors y"
  "last_error_flags (exec (follow_flag fw flag t m old e) y) = last_error_flags y"
  "error_MREC2GroundFailure (exec (follow_flag fw flag t m old e) y) = error_MREC2GroundFailure y"
  "error_MREC1ConnectorLockFailure (exec (follow_flag fw flag t m old e) y) = error_MREC1ConnectorLockFailure y"
  "published (exec (follow_flag fw flag t m old e) y) = published y"
  by (simp_all add: follow_flag_def on_board_errors_def run_simps)

lemma kf_error_handling: "kf.keeps fw (error_handling fw e)"
proof (rule kf.keepsI)
  fix y
  show "keeps_flags fw y (exec (error_handling fw e) y)"
    unfolding keeps_flags_def
  proof
    assume "framework_ok fw \<and> flags_inv fw y"
    then show "flags_inv fw (exec (error_handling fw e) y)"
      unfolding flags_inv_def error_handling_def
      by (cases "rcd_triggered e \<and> \<not> rcd_triggered (last_error_flags y)";
          cases "connector_lock_failed e \<and> \<not> connector_lock_failed (last_error_flags y)")
         (simp_all add: run_simps follow_flag_active follow_flag_keeps on_board_errors_def on_lock_errors_def active_raise)
  qed
qed

lemma kf_unplug: "kf.keeps fw (yeti_clear_errors_on_unplug fw)"
proof (rule kf.keepsI)
  show "keeps_flags fw y (exec (yeti_clear_errors_on_unplug fw) y)" for y
    by (auto simp: keeps_flags_def flags_inv_def yeti_clear_errors_on_unplug_def on_board_errors_def on_lock_errors_def
        run_simps active_clear)
qed

lemma kf_publish: "kf.keeps fw (publish m)"
  unfolding publish_def by (rule kf_modify) simp_all

lemma kf_signal: "kf.keeps fw (on_signal fw g)"
  by (cases g)
     (simp_all add: on_cp_state_def on_relais_state_def on_pp_state_def on_keep_alive_def Let_def kf.keeps_rules
        kf_publish kf_modify kf_error_handling kf_unplug)

lemma kf_with_serial: "kf.keeps fw (with_serial fw m)"
  unfolding with_serial_def by (intro kf.keeps_rules kf_signal kf_modify) simp_all

lemma kf_call: "kf.keeps fw (handle_call fw enc c)"
  by (cases c)
     (simp_all add: handle_pwm_on_def handle_pwm_off_def handle_pwm_F_def handle_allow_power_on_def handle_enable_def
        handle_ac_switch_three_phases_while_charging_def handle_unlock_def kf_with_serial kf.keeps_rules kf_publish kf_modify)

lemma kf_handle: "kf.keeps fw (yeti_handle fw dec enc i)"
  by (cases i) (simp_all add: kf_with_serial kf_call)

lemma kf_start: "kf.keeps fw (yeti_init fw h b n)" "kf.keeps fw (yeti_ready fw v dec enc gpio rs cs)"
proof -
  have "kf.keeps fw (wait_for_caps fw dec cs)" for cs
    by (induction cs) (simp_all add: kf.keeps_rules kf_with_serial)
  moreover have "kf.keeps fw (on_board_errors (raise_error fw
      (create_error fw ''evse_board_support/CommunicationFault'' '''' m v)))" for m
    unfolding on_board_errors_def
    by (rule kf.keeps_modify) (simp add: keeps_flags_def flags_inv_def active_raise)
  ultimately show "kf.keeps fw (yeti_init fw h b n)" "kf.keeps fw (yeti_ready fw v dec enc gpio rs cs)"
    unfolding yeti_init_def yeti_ready_def by (simp_all add: kf.keeps_rules kf_with_serial kf_publish kf_modify)
qed

text \<open>The driver from its construction on.\<close>

definition yeti_from_start :: "'d error_framework \<Rightarrow> Severity \<Rightarrow> pb_decoder \<Rightarrow> pb_encoder \<Rightarrow> int \<Rightarrow> bool \<Rightarrow> nat \<Rightarrow> bool \<Rightarrow>
    byte list list \<Rightarrow> byte list list \<Rightarrow> yeti_input list \<Rightarrow> 'd yeti \<Rightarrow> 'd yeti" where
  "yeti_from_start fw v dec enc h b n gpio rs cs inputs y =
     yeti_run fw dec enc inputs (exec (yeti_ready fw v dec enc gpio rs cs) (exec (yeti_init fw h b n) y))"

definition no_flags :: ErrorFlags where
  "no_flags = \<lparr>diode_fault = False, rcd_selftest_failed = False, rcd_triggered = False,
     ventilation_not_available = False, connector_lock_failed = False, cp_signal_fault = False, over_current = False\<rparr>"

text \<open>C19. If the flags in memory are clear at the start, then whatever bytes, calls and timeouts the driver handles, the
  errors for the diode, the ventilation and the pilot are active exactly if the last flags of the controller say so,
  and those for the RCD and the lock exactly while the driver remembers them.\<close>

theorem errors_follow_flags:
  assumes "framework_ok fw" and "get_active_errors fw d = []"
  shows "let y = yeti_from_start fw v dec enc h b n gpio rs cs inputs (yeti_new mn mx no_flags c d now);
      board = (\<lambda>t. is_error_active fw t '''' (board_errors y))
    in board ''evse_board_support/DiodeFault'' = diode_fault (last_error_flags y) \<and>
      board ''evse_board_support/VentilationNotAvailable'' = ventilation_not_available (last_error_flags y) \<and>
      board ''evse_board_support/MREC14PilotFault'' = cp_signal_fault (last_error_flags y) \<and>
      board ''evse_board_support/MREC2GroundFailure'' = error_MREC2GroundFailure y \<and>
      is_error_active fw ''connector_lock/MREC1ConnectorLockFailure'' '''' (lock_errors y) =
        error_MREC1ConnectorLockFailure y"
proof -
  let ?y = "yeti_new mn mx no_flags c d now"
  have "flags_inv fw ?y"
    using framework_laws(4) [OF assms(1), of _ _ d] assms(2) by (simp add: flags_inv_def yeti_new_def no_flags_def)
  moreover have "keeps_flags fw y (exec (yeti_init fw h b n) y)" "keeps_flags fw y (exec (yeti_ready fw v dec enc gpio rs cs) y)"
      "keeps_flags fw y (yeti_run fw dec enc inputs y)" for y
    unfolding yeti_run_def by (rule kf.keepsD, intro kf_start kf.keeps_for_each kf_handle)+
  ultimately have "flags_inv fw (yeti_from_start fw v dec enc h b n gpio rs cs inputs ?y)"
    using assms(1) unfolding keeps_flags_def yeti_from_start_def by blast
  then show ?thesis
    by (simp add: flags_inv_def Let_def)
qed

text \<open>The flags of the controller for an over-current and for a failed self-test of the RCD are never reported: the
  errors are the same as if they were not set.\<close>

theorem over_current_not_reported:
  "let y1 = exec (error_handling fw e) y;
       y2 = exec (error_handling fw (e\<lparr>over_current := False, rcd_selftest_failed := False\<rparr>)) y
   in board_errors y1 = board_errors y2 \<and> lock_errors y1 = lock_errors y2 \<and> published y1 = published y"
proof -
  let ?e = "e\<lparr>over_current := False, rcd_selftest_failed := False\<rparr>"
  have flags: "follow_flag fw diode_fault t m old ?e = follow_flag fw diode_fault t m old e"
    "follow_flag fw ventilation_not_available t m old ?e = follow_flag fw ventilation_not_available t m old e"
    "follow_flag fw cp_signal_fault t m old ?e = follow_flag fw cp_signal_fault t m old e" for t m old
    by (simp_all add: follow_flag_def)
  have "published (exec (error_handling fw e) y) = published y"
    by (cases "rcd_triggered e \<and> \<not> rcd_triggered (last_error_flags y)";
        cases "connector_lock_failed e \<and> \<not> connector_lock_failed (last_error_flags y)")
       (simp_all add: error_handling_def run_simps follow_flag_keeps on_board_errors_def on_lock_errors_def)
  then show ?thesis
    by (simp add: Let_def error_handling_def run_simps flags)
qed

text \<open>C40. The error of the RCD is cleared when the car is unplugged, also if the controller still reports that the RCD
  has triggered, and further reports do not raise it again.\<close>

theorem ground_failure_hidden:
  assumes "framework_ok fw" and "rcd_triggered (last_error_flags y)" and "error_MREC2GroundFailure y"
    and "yeti_last_cp_state y \<noteq> Cp_STATE_A" and "rcd_triggered e"
  shows "\<not> is_error_active fw ''evse_board_support/MREC2GroundFailure'' ''''
    (board_errors (exec (error_handling fw e) (exec (on_cp_state fw Cp_STATE_A) y)))"
proof -
  let ?y = "exec (on_cp_state fw Cp_STATE_A) y"
  have y: "\<not> active fw ''evse_board_support/MREC2GroundFailure'' (board_errors ?y)"
    "last_error_flags ?y = last_error_flags y"
    using assms by (auto simp: on_cp_state_def yeti_clear_errors_on_unplug_def on_board_errors_def on_lock_errors_def
        publish_def run_simps active_clear)
  then show ?thesis
    using assms(1,2,5)
    by (cases "connector_lock_failed e \<and> \<not> connector_lock_failed (last_error_flags y)")
       (simp_all add: error_handling_def run_simps follow_flag_active follow_flag_keeps on_lock_errors_def)
qed

section \<open>Witnesses\<close>

definition example_yeti :: "error list yeti" where
  "example_yeti = exec (error_handling list_framework (no_flags\<lparr>rcd_triggered := True\<rparr>))
     ((yeti_new 6 16 no_flags default_caps [] 0)\<lparr>yeti_last_cp_state := Cp_STATE_C\<rparr>)"

theorem errors_follow_flags_witness:
  "let y = yeti_from_start list_framework High example_decoder (\<lambda>_. None) 3 True 115200 True [[0]] [[0]]
      [Y_bytes [1, 2, 3], Y_call (call_enable True)] (yeti_new 6 16 no_flags default_caps [] 0)
   in is_error_active list_framework ''evse_board_support/DiodeFault'' '''' (board_errors y) = diode_fault (last_error_flags y)"
  using errors_follow_flags [OF list_framework_ok, of "[]" High example_decoder "\<lambda>_. None" 3 True 115200 True "[[0]]" "[[0]]"
      "[Y_bytes [1, 2, 3], Y_call (call_enable True)]" 6 16 default_caps 0]
  by (simp add: Let_def list_framework_def)

theorem ground_failure_hidden_witness:
  "is_error_active list_framework ''evse_board_support/MREC2GroundFailure'' '''' (board_errors example_yeti) \<and>
   \<not> is_error_active list_framework ''evse_board_support/MREC2GroundFailure'' '''' (board_errors
     (exec (error_handling list_framework (no_flags\<lparr>rcd_triggered := True\<rparr>))
       (exec (on_cp_state list_framework Cp_STATE_A) example_yeti)))"
proof -
  have y: "rcd_triggered (last_error_flags example_yeti)" "error_MREC2GroundFailure example_yeti"
    "yeti_last_cp_state example_yeti = Cp_STATE_C"
    "is_error_active list_framework ''evse_board_support/MREC2GroundFailure'' '''' (board_errors example_yeti)"
    by (simp_all add: example_yeti_def error_handling_def follow_flag_def on_board_errors_def run_simps no_flags_def
        yeti_new_def list_framework_def)
  then show ?thesis
    using ground_failure_hidden [OF list_framework_ok y(1,2)] by (simp add: no_flags_def)
qed

end
