(* ===== verification/Yeti_System.thy ===== *)
theory Yeti_System
  imports Evse_System Yeti_Laws
begin

text \<open>
  The EVSE of \<open>Evse_System\<close> with the driver of its board.  The calls of the IEC machine go to the driver, which writes
  them to the serial line; what the driver publishes reaches the IEC machine, in its order and at any later time, and
  the errors it has raised reach the error handling.

  Shown here: the last message about power on the serial line is the permission only if the charger's last word is.
\<close>

section \<open>The system\<close>

record 'd plant =
  pl_evse :: "'d evse"
  pl_yeti :: "'d yeti"
  pl_delivered :: nat

text \<open>The steps of the EVSE that do not come from the board.\<close>

inductive own_step :: "'d error_framework \<Rightarrow> 'd evse \<Rightarrow> 'd evse \<Rightarrow> bool" for fw where
  own_charger: "external_input i \<Longrightarrow> own_step fw s (charger_step fw i s)"
| own_errors: "(\<And>es. j \<noteq> In_req Req_bsp es) \<Longrightarrow> (\<And>es. j \<noteq> In_req Req_connector_lock es) \<Longrightarrow>
    own_step fw s (call_errors fw [j] s)"
| own_call: "external_iec i \<Longrightarrow> (\<And>e. i \<noteq> In_bsp_event e) \<Longrightarrow>
    own_step fw s (s\<lparr>ev_iec := exec (iec_handle i) (ev_iec s)\<rparr>)"
| own_feed: "0 < feeds (ev_iec s) \<Longrightarrow> own_step fw s
    (s\<lparr>ev_iec := exec feed_state_machine_no_thread ((ev_iec s)\<lparr>feeds := feeds (ev_iec s) - 1\<rparr>)\<rparr>)"
| own_timer: "async_reached (iec_now (ev_iec s)) (timeout_state_c1 (ev_iec s)) \<or>
    async_reached (iec_now (ev_iec s)) (timeout_unlock_state_F (ev_iec s)) \<Longrightarrow>
    own_step fw s (s\<lparr>ev_iec := exec feed_state_machine_no_thread (ev_iec s)\<rparr>)"
| own_clock: "iec_now (ev_iec s) \<le> later \<Longrightarrow> own_step fw s (s\<lparr>ev_iec := (ev_iec s)\<lparr>iec_now := later\<rparr>\<rparr>)"

definition board_event :: "yeti_message \<Rightarrow> 'd evse \<Rightarrow> 'd evse" where
  "board_event m s = (case m of
     Pub_event e \<Rightarrow> s\<lparr>ev_iec := exec (iec_handle (In_bsp_event e)) (ev_iec s)\<rparr> | _ \<Rightarrow> s)"

text \<open>The calls that a step of the EVSE has added go to the driver.\<close>

definition calls_of_step :: "'d evse \<Rightarrow> 'd evse \<Rightarrow> bsp_call list" where
  "calls_of_step s s' = drop (length (bsp_calls (ev_iec s))) (bsp_calls (ev_iec s'))"

definition move_evse :: "'d error_framework \<Rightarrow> pb_encoder \<Rightarrow> 'd evse \<Rightarrow> 'd plant \<Rightarrow> 'd plant" where
  "move_evse fw enc e' p = p\<lparr>pl_evse := e',
     pl_yeti := exec (for_each (calls_of_step (pl_evse p) e') (handle_call fw enc)) (pl_yeti p)\<rparr>"

inductive plant_step :: "'d error_framework \<Rightarrow> pb_decoder \<Rightarrow> pb_encoder \<Rightarrow> 'd plant \<Rightarrow> 'd plant \<Rightarrow> bool" for fw dec enc where
  plant_own: "own_step fw (pl_evse p) e' \<Longrightarrow> plant_step fw dec enc p (move_evse fw enc e' p)"
| plant_event: "pl_delivered p < length (published (pl_yeti p)) \<Longrightarrow>
    plant_step fw dec enc p ((move_evse fw enc (board_event (published (pl_yeti p) ! pl_delivered p) (pl_evse p)) p)
      \<lparr>pl_delivered := Suc (pl_delivered p)\<rparr>)"
| plant_board_errors: "plant_step fw dec enc p (move_evse fw enc
    (call_errors fw [In_req Req_bsp (get_active_errors fw (board_errors (pl_yeti p)))] (pl_evse p)) p)"
| plant_lock_errors: "plant_step fw dec enc p (move_evse fw enc
    (call_errors fw [In_req Req_connector_lock (get_active_errors fw (lock_errors (pl_yeti p)))] (pl_evse p)) p)"
| plant_driver: "(\<And>c. i \<noteq> Y_call c) \<Longrightarrow>
    plant_step fw dec enc p (p\<lparr>pl_yeti := exec (yeti_handle fw dec enc i) (pl_yeti p)\<rparr>)"

text \<open>The driver has started: its device is open or not, and the controller was reset.\<close>

definition yeti_started :: "'d error_framework \<Rightarrow> pb_decoder \<Rightarrow> pb_encoder \<Rightarrow> 'd yeti \<Rightarrow> bool" where
  "yeti_started fw dec enc y \<longleftrightarrow> (\<exists>mn mx flags c d now h b n v gpio rs cs.
     y = exec (yeti_ready fw v dec enc gpio rs cs) (exec (yeti_init fw h b n) (yeti_new mn mx flags c d now)))"

inductive plant_reachable :: "'d error_framework \<Rightarrow> pb_decoder \<Rightarrow> pb_encoder \<Rightarrow> 'd plant \<Rightarrow> bool" for fw dec enc where
  plant_init: "evse_start fw (pl_evse p) \<Longrightarrow> yeti_started fw dec enc (pl_yeti p) \<Longrightarrow> plant_reachable fw dec enc p"
| plant_next: "plant_reachable fw dec enc p \<Longrightarrow> plant_step fw dec enc p p' \<Longrightarrow> plant_reachable fw dec enc p'"

section \<open>The EVSE within the system\<close>

lemma own_evse_step: "own_step fw s s' \<Longrightarrow> evse_step fw s s'"
  by (induction rule: own_step.induct) (auto intro: evse_step.intros simp del: One_nat_def)

lemma plant_evse_reachable: "plant_reachable fw dec enc p \<Longrightarrow> evse_reachable fw (pl_evse p)"
proof (induction rule: plant_reachable.induct)
  case (plant_next p p')
  have "evse_reachable fw (board_event m (pl_evse p))" for m
    using plant_next(3) evse_next [OF plant_next(3) by_iec_call [of "In_bsp_event _"]]
    by (auto simp: board_event_def split: yeti_message.split)
  with plant_next(2,3) show ?case
    by (cases rule: plant_step.cases) (auto simp: move_evse_def intro: evse_next own_evse_step by_errors)
qed (rule evse_init)

text \<open>The calls of the IEC machine are only added.\<close>

definition grows :: "iec \<Rightarrow> iec \<Rightarrow> bool" where
  "grows s t \<longleftrightarrow> (\<exists>cs. bsp_calls t = bsp_calls s @ cs)"

interpretation gr: frame_rel grows
  by unfold_locales (auto simp: grows_def)

lemma gr_modify: "(\<And>s. \<exists>cs. bsp_calls (f s) = bsp_calls s @ cs) \<Longrightarrow> gr.keeps (modify f)"
  by (rule gr.keeps_modify) (simp add: grows_def)

lemma gr_ops:
  "gr.keeps (bsp b)" "gr.keeps (push_event e)" "gr.keeps (set_timer_C1 t)" "gr.keeps (set_timer_F t)"
  "gr.keeps (set_pwm_running p)" "gr.keeps feed_state_machine" "gr.keeps connector_lock"
  "gr.keeps connector_unlock" "gr.keeps check_connector_lock" "gr.keeps run_timers"
  "gr.keeps (call_allow_power_on_bsp v)"
  by (simp_all add: iec_basic_defs feed_state_machine_def connector_lock_def connector_unlock_def
      check_connector_lock_def run_timers_def call_allow_power_on_bsp_def gr.keeps_rules gr_modify Let_def)

lemma gr_sm_case: "gr.keeps (sm_case cp)"
  by (cases cp) (simp_all add: sm_defs gr.keeps_rules gr_ops gr_modify)

lemma gr_feed: "gr.keeps feed_state_machine_no_thread"
  by (simp add: feed_state_machine_no_thread_def state_machine_def sm_begin_def sm_finish_def
      gr.keeps_rules gr_ops gr_sm_case gr_modify)

lemma gr_iec_handle: "gr.keeps (iec_handle i)"
  by (cases i) (auto simp: on_bsp_event_def process_bsp_event_def set_pwm_def set_pwm_off_def
      set_pwm_F_def enable_def iec_setup_def evse_replug_def switch_three_phases_while_charging_def
      set_overcurrent_limit_def set_three_phases_def set_ev_simplified_mode_evse_limit_def allow_power_on_def
      connector_force_unlock_def gr.keeps_rules gr_ops gr_modify Let_def split: sum.split)

lemma evse_step_grows:
  assumes "evse_step fw s s'"
  shows "bsp_calls (ev_iec s') = bsp_calls (ev_iec s) @ calls_of_step s s'"
proof -
  have "gr.keeps (for_each is iec_handle)" for "is"
    by (intro gr.keeps_for_each gr_iec_handle)
  then have iec: "grows t (exec (for_each is iec_handle) t)" "grows t (exec (iec_handle i) t)"
      "grows t (exec feed_state_machine_no_thread t)" for t i "is"
    using gr.keepsD gr_iec_handle gr_feed by blast+
  have "grows (ev_iec s) (ev_iec s')"
    using assms
  proof cases
    case (by_charger i)
    then show ?thesis
      using iec(1) by (simp add: charger_step_def call_errors_def Let_def)
  next
    case by_iec_feed
    then show ?thesis
      using iec(3) [of "(ev_iec s)\<lparr>feeds := feeds (ev_iec s) - 1\<rparr>"] by (simp add: grows_def)
  qed (use iec in \<open>auto simp: call_errors_def Let_def grows_def\<close>)
  then show ?thesis
    by (auto simp: grows_def calls_of_step_def)
qed

section \<open>Messages\<close>

definition call_messages :: "bsp_call \<Rightarrow> EverestToMcu list" where
  "call_messages c = (case c of
     call_pwm_off \<Rightarrow> [Tx_pwm_duty_cycle 10001] | call_pwm_F \<Rightarrow> [Tx_pwm_duty_cycle 0]
   | call_pwm_on v \<Rightarrow> [Tx_pwm_duty_cycle (word_of_int \<lfloor>v * 100\<rfloor>)]
   | call_allow_power_on v r \<Rightarrow> [Tx_allow_power_on v]
   | call_ac_switch_three_phases_while_charging v \<Rightarrow> [Tx_set_number_of_phases v]
   | signal_unlock \<Rightarrow> [Tx_connector_lock False]
   | _ \<Rightarrow> [])"

definition calls_messages :: "bsp_call list \<Rightarrow> EverestToMcu list" where
  "calls_messages cs = concat (map call_messages cs)"

definition power_message :: "bool \<Rightarrow> EverestToMcu \<Rightarrow> bool" where
  "power_message b m = (case m of Tx_allow_power_on v \<Rightarrow> v | _ \<Rightarrow> b)"

definition starts :: "EverestToMcu \<Rightarrow> bool" where
  "starts m = (case m of Tx_reset b \<Rightarrow> True | Tx_keep_alive k \<Rightarrow> True | _ \<Rightarrow> False)"

definition frames :: "pb_encoder \<Rightarrow> EverestToMcu list \<Rightarrow> byte list" where
  "frames enc ms = concat (map (\<lambda>m. frame (the (enc m))) ms)"

text \<open>The line: whether the device is open, and what was written.\<close>

definition line :: "evSerial \<Rightarrow> int \<times> byte list" where
  "line s = (fd s, wire s)"

interpretation ln: frame_rel "\<lambda>s s'. line s' = line s"
  by unfold_locales auto

lemma ln_modify: "(\<And>s. fd (f s) = fd s) \<Longrightarrow> (\<And>s. wire (f s) = wire s) \<Longrightarrow> ln.keeps (modify f)"
  by (rule ln.keeps_modify) (simp add: line_def)

lemma ln_emit: "ln.keeps (emit_signal g)"
  unfolding emit_signal_def by (rule ln_modify) simp_all

lemma ln_deliver: "ln.keeps (deliver dec buf)"
  unfolding deliver_def
  by (auto intro!: ln.keeps_rules ln_modify ln_emit split: option.split McuToEverest.split)

lemma ln_decode: "ln.keeps (cobsDecode dec bs)"
proof -
  have "ln.keeps (cobsDecodeByte dec b)" for b
    unfolding cobsDecodeByte_def cobsDecodeReset_def put_msg_def handlePacket_def
    by (intro ln.keeps_rules ln_modify ln_deliver) simp_all
  then show ?thesis
    unfolding cobsDecode_def by (intro ln.keeps_for_each)
qed

text \<open>The functions for the signals do not touch the serial link.\<close>

interpretation sr: frame_rel "\<lambda>y y'. serial y' = serial y"
  by unfold_locales auto

lemma sr_signal: "sr.keeps (on_signal fw g)"
proof -
  have pub: "sr.keeps (publish m)" "sr.keeps (on_board_errors f)" "sr.keeps (on_lock_errors f)" for m f
    unfolding publish_def on_board_errors_def on_lock_errors_def by (rule sr.keeps_modify; simp)+
  have err: "sr.keeps (error_handling fw e)" "sr.keeps (yeti_clear_errors_on_unplug fw)" for e
    unfolding error_handling_def follow_flag_def yeti_clear_errors_on_unplug_def
    by (intro sr.keeps_rules sr.keeps_modify pub; simp)+
  show ?thesis
    by (cases g) (auto simp: on_cp_state_def on_relais_state_def on_pp_state_def on_keep_alive_def Let_def
        intro!: sr.keeps_rules sr.keeps_modify pub err)
qed

lemma serial_with_serial: "serial (exec (with_serial fw m) y) = exec m (serial y)"
proof -
  have "serial (exec (for_each gs (on_signal fw)) z) = serial z" for gs z
    by (rule sr.keepsD) (intro sr.keeps_for_each sr_signal)
  then show ?thesis
    by (simp add: with_serial_def run_simps)
qed

lemma serial_handle_bytes:
  "(\<And>c. i \<noteq> Y_call c) \<Longrightarrow> line (serial (exec (yeti_handle fw dec enc i) y)) = line (serial y)"
proof -
  have "ln.keeps timeoutDetection" "ln.keeps (modify (\<lambda>s. s\<lparr>serial_now := t, unix_time := u\<rparr>))" for t u
    unfolding timeoutDetection_def by (intro ln.keeps_rules ln_modify ln_emit; simp)+
  then show "(\<And>c. i \<noteq> Y_call c) \<Longrightarrow> ?thesis"
    using ln.keepsD ln_decode by (cases i) (auto simp: serial_with_serial)
qed

text \<open>What was written, as messages: the line is open and carries them, or closed and empty.\<close>

definition carries :: "pb_encoder \<Rightarrow> EverestToMcu list \<Rightarrow> evSerial \<Rightarrow> bool" where
  "carries enc ms s \<longleftrightarrow> wire s = (if 0 < fd s then frames enc ms else [])"

lemma carries_line: "line s' = line s \<Longrightarrow> carries enc ms s' = carries enc ms s"
  by (simp add: carries_def line_def)

lemma carries_send:
  assumes "\<And>m. enc m \<noteq> None" and "carries enc ms s"
  shows "carries enc (ms @ [m]) (exec (send enc m) s)"
proof -
  obtain payload where "enc m = Some payload"
    using assms(1) by blast
  then show ?thesis
    using assms(2) by (simp add: send_def linkWrite_def carries_def frames_def run_simps)
qed

lemma carries_call:
  assumes "\<And>m. enc m \<noteq> None" and "carries enc ms (serial y)"
  shows "carries enc (ms @ call_messages c) (serial (exec (handle_call fw enc c) y))"
  using carries_send [OF assms] assms(2)
  by (cases c) (simp_all add: call_messages_def handle_pwm_off_def handle_pwm_F_def handle_pwm_on_def
      handle_allow_power_on_def handle_ac_switch_three_phases_while_charging_def handle_unlock_def handle_enable_def
      publish_def serial_with_serial setPWM_def allowPowerOn_def set_number_of_phases_def forceUnlock_def run_simps)

lemma carries_calls:
  assumes "\<And>m. enc m \<noteq> None" and "carries enc ms (serial y)"
  shows "carries enc (ms @ calls_messages cs) (serial (exec (for_each cs (handle_call fw enc)) y))"
  using assms(2)
proof (induction cs arbitrary: ms y)
  case (Cons c cs)
  show ?case
    using Cons.IH [OF carries_call [OF assms(1) Cons.prems]] by (simp add: calls_messages_def run_simps)
qed (simp add: calls_messages_def run_simps)

lemma commanded_on_messages: "foldl power_message False (calls_messages cs) = commanded_on cs"
  by (induction cs rule: rev_induct)
    (auto simp: calls_messages_def commanded_on_def call_messages_def power_message_def power_cmd_def
      split: bsp_call.split)

section \<open>The start\<close>

lemma ln_reset_wait: "ln.keeps (reset_wait dec chunks)"
  by (induction chunks) (simp_all add: ln.keeps_rules ln_decode)

definition starting :: "pb_encoder \<Rightarrow> evSerial \<Rightarrow> bool" where
  "starting enc s \<longleftrightarrow> (\<exists>ms. list_all starts ms \<and> carries enc ms s)"

lemma starting_line: "line s' = line s \<Longrightarrow> starting enc s' = starting enc s"
  by (simp add: starting_def carries_line [of s' s])

lemma starting_send:
  assumes "\<And>m. enc m \<noteq> None" and "starts m" and "starting enc s"
  shows "starting enc (exec (send enc m) s)"
proof -
  obtain ms where "list_all starts ms" "carries enc ms s"
    using assms(3) by (auto simp: starting_def)
  then have "list_all starts (ms @ [m])" "carries enc (ms @ [m]) (exec (send enc m) s)"
    using assms(2) carries_send [OF assms(1)] by simp_all
  then show ?thesis
    unfolding starting_def by blast
qed

lemma starting_reset:
  assumes "\<And>m. enc m \<noteq> None" and "starting enc s"
  shows "starting enc (exec (serial_reset dec enc gpio chunks) s)"
proof -
  have flags: "starting enc (s\<lparr>reset_done_flag := a, forced_reset := b\<rparr>) = starting enc s" for s a b
    by (rule starting_line) (simp add: line_def)
  have wait: "starting enc (exec (reset_wait dec cs) s) = starting enc s" for s cs
    by (rule starting_line) (rule ln.keepsD [OF ln_reset_wait])
  have alive: "starting enc s \<Longrightarrow> starting enc (exec (keepAlive enc) s)" for s
    unfolding keepAlive_def by (rule starting_send [OF assms(1)]) (simp_all add: starts_def)
  have "starting enc (exec (do_if b (send enc (Tx_reset False))) t)" if "starting enc t" for b t
    using that starting_send [OF assms(1), of "Tx_reset False"] by (simp add: starts_def run_simps)
  with assms(2) show ?thesis
    by (simp add: serial_reset_def exec_bind exec_modify exec_return result_bind flags wait alive)
qed

lemma sr_wait_for_caps: "line (serial (exec (wait_for_caps fw dec cs) y)) = line (serial y)"
proof (induction cs arbitrary: y)
  case (Cons c cs)
  show ?case
    using ln.keepsD [OF ln_decode] by (simp add: run_simps Cons.IH serial_with_serial)
qed (simp add: run_simps)

lemma starting_yeti:
  assumes "\<And>m. enc m \<noteq> None" and "yeti_started fw dec enc y"
  shows "starting enc (serial y)"
proof -
  have init: "starting enc (serial (exec (yeti_init fw h b n) (yeti_new mn mx flags c d now)))"
    for h b n mn mx flags c d now
  proof -
    have "wire (exec (openDevice h b n) (evSerial_init now)) = []"
      by (simp add: openDevice_def cobsDecodeReset_def evSerial_init_def run_simps)
    then have "starting enc (exec (openDevice h b n) (evSerial_init now))"
      by (auto simp: starting_def carries_def frames_def intro!: exI [of _ "[]"])
    then show ?thesis
      by (simp add: yeti_init_def yeti_new_def run_simps serial_with_serial)
  qed
  have ready: "starting enc (serial (exec (yeti_ready fw v dec enc gpio rs cs) z))"
    if "starting enc (serial z)" for v gpio rs cs z
  proof -
    have "starting enc (serial (exec (wait_for_caps fw dec (take 50 cs))
        (exec (with_serial fw (serial_reset dec enc gpio rs)) z)))"
      using that by (simp add: starting_line [OF sr_wait_for_caps] serial_with_serial starting_reset [of enc, OF assms(1)])
    then show ?thesis
      by (simp add: yeti_ready_def publish_def on_board_errors_def run_simps)
  qed
  show ?thesis
    using assms(2) init ready by (auto simp: yeti_started_def)
qed

section \<open>The invariant of the system\<close>

definition wire_inv :: "pb_encoder \<Rightarrow> 'd plant \<Rightarrow> bool" where
  "wire_inv enc p \<longleftrightarrow> (\<exists>ms. list_all starts ms \<and>
     carries enc (ms @ calls_messages (bsp_calls (ev_iec (pl_evse p)))) (serial (pl_yeti p)))"

lemma move_evse_inv:
  assumes "\<And>m. enc m \<noteq> None" and "wire_inv enc p"
    and "bsp_calls (ev_iec e') = bsp_calls (ev_iec (pl_evse p)) @ calls_of_step (pl_evse p) e'"
  shows "wire_inv enc (move_evse fw enc e' p)"
proof -
  obtain ms where ms: "list_all starts ms"
      "carries enc (ms @ calls_messages (bsp_calls (ev_iec (pl_evse p)))) (serial (pl_yeti p))"
    using assms(2) by (auto simp: wire_inv_def)
  have "calls_messages (bsp_calls (ev_iec e')) =
      calls_messages (bsp_calls (ev_iec (pl_evse p))) @ calls_messages (calls_of_step (pl_evse p) e')"
    unfolding assms(3) by (simp add: calls_messages_def)
  then show ?thesis
    using ms(1) carries_calls [OF assms(1) ms(2)] by (auto simp: wire_inv_def move_evse_def)
qed

lemma wire_inv_step:
  assumes "\<And>m. enc m \<noteq> None" and "plant_step fw dec enc p p'" and "wire_inv enc p"
  shows "wire_inv enc p'"
  using assms(2)
proof cases
  case (plant_own e')
  then show ?thesis
    using move_evse_inv [OF assms(1,3)] evse_step_grows [OF own_evse_step] by blast
next
  case plant_event
  let ?m = "published (pl_yeti p) ! pl_delivered p"
  have "bsp_calls (ev_iec (board_event ?m (pl_evse p))) =
      bsp_calls (ev_iec (pl_evse p)) @ calls_of_step (pl_evse p) (board_event ?m (pl_evse p))"
    using evse_step_grows [OF by_iec_call [of "In_bsp_event _" fw]]
    by (cases ?m) (simp_all add: board_event_def calls_of_step_def)
  then show ?thesis
    using plant_event move_evse_inv [OF assms(1,3)] by (simp add: wire_inv_def)
next
  case (plant_driver i)
  then show ?thesis
    using assms(3) carries_line [OF serial_handle_bytes [of i fw dec enc "pl_yeti p"]] by (simp add: wire_inv_def)
qed (use move_evse_inv [OF assms(1,3)] evse_step_grows [OF by_errors] in blast)+

lemma wire_inv_reachable:
  assumes "\<And>m. enc m \<noteq> None" and "plant_reachable fw dec enc p"
  shows "wire_inv enc p"
  using assms(2)
proof (induction rule: plant_reachable.induct)
  case (plant_init p)
  have "bsp_calls (ev_iec (pl_evse p)) = []"
    using plant_init(1) by (auto simp: evse_start_def iec_init_def)
  then show ?case
    using starting_yeti [OF assms(1) plant_init(2)] by (simp add: starting_def wire_inv_def calls_messages_def)
qed (rule wire_inv_step [OF assms(1)])

section \<open>Properties\<close>

text \<open>C9. If every message can be encoded, then in every reachable state of the charger, the IEC machine and the driver
  together the serial line carries, after the messages of the start, exactly the messages of the IEC machine's calls in
  their order, one frame each (nothing if the device is not open); and while the charger's last word about power is not the
  permission, or the IEC machine did not last run in CP state C or D, the last message about power on the line does not
  allow it.\<close>

theorem wire_carries_calls:
  assumes "framework_ok fw" and "\<And>m. enc m \<noteq> None" and "plant_reachable fw dec enc p"
  shows "(\<exists>ms. list_all starts ms \<and> wire (serial (pl_yeti p)) = (if 0 < fd (serial (pl_yeti p))
        then frames enc (ms @ calls_messages (bsp_calls (ev_iec (pl_evse p)))) else [])) \<and>
    (\<not> permitted (actions (ev_charger (pl_evse p))) \<or> last_cp_state (ev_iec (pl_evse p)) \<notin> {CP_C, CP_D} \<longrightarrow>
      \<not> foldl power_message False (calls_messages (bsp_calls (ev_iec (pl_evse p)))))"
  using wire_inv_reachable [of enc, OF assms(2,3)] commanded_on_permitted [OF assms(1) plant_evse_reachable [OF assms(3)]]
  unfolding wire_inv_def carries_def commanded_on_messages by blast

text \<open>Witness: the driver opens its device, the charger starts; the line carries the messages of the start and of the
  calls.\<close>

definition example_plant :: "error list plant" where
  "example_plant = \<lparr>pl_evse = example_evse, pl_yeti = exec (yeti_ready list_framework High example_decoder (\<lambda>_. Some [1]) True [] [])
     (exec (yeti_init list_framework 3 True 115200) (yeti_new 6 16 no_flags default_caps [] 0)), pl_delivered = 0\<rparr>"

lemma example_plant_reachable:
  "plant_reachable list_framework example_decoder (\<lambda>_. Some [1])
     (move_evse list_framework (\<lambda>_. Some [1]) (charger_step list_framework C_run example_evse) example_plant)"
proof -
  have "yeti_started list_framework example_decoder (\<lambda>_. Some [1]) (pl_yeti example_plant)"
    unfolding yeti_started_def example_plant_def by fastforce
  then have "plant_reachable list_framework example_decoder (\<lambda>_. Some [1]) example_plant"
    using example_evse_start by (intro plant_init) (simp_all add: example_plant_def)
  then show ?thesis
    by (rule plant_next) (simp add: plant_own own_charger example_plant_def)
qed

theorem wire_carries_calls_witness:
  "\<not> foldl power_message False (calls_messages (bsp_calls (ev_iec (charger_step list_framework C_run example_evse))))"
proof -
  let ?s = "charger_step list_framework C_run example_evse"
  have "\<not> permitted (actions (ev_charger ?s))"
    by (simp add: step_actions example_evse_def charger_construct_def main_thread_start_def get_max_current_internal_def
        Charger_State.emit_def on_shared_def on_internal_def run_simps permitted_def) (simp add: example_charger_def)
  then show ?thesis
    using wire_carries_calls [OF list_framework_ok _ example_plant_reachable] by (simp add: move_evse_def)
qed

end
