(* ===== verification/Evse_Power.thy ===== *)
theory Evse_Power
  imports Charger_Interface Energy_Node
begin

text \<open>
  The part of the module EvseManager that deals with power: the capabilities of the board and of the DC supply, the local
  limits and the control of the supply (\<^verbatim>\<open>modules/EVSE/EvseManager/EvseManager.cpp\<close>), and the energy interface, which
  requests energy and applies the limits of the energy manager (\<^verbatim>\<open>energy_grid/energyImpl.cpp\<close>).

  The charger is a part of the state, and its methods are called on it.  What goes to other modules is the trace
  \<open>power_out\<close>; the session log and the messages over MQTT are left out.  The steady clock is the one in the environment of
  the charger, \<open>utc_now\<close> is the other.  The value of \<^verbatim>\<open>std::rand\<close> is an argument; \<open>trapped\<close> records a remainder by zero,
  which ends the process.  Numbers are reals; a quotient with a zero voltage, which is infinite in the code, is 0.
\<close>

section \<open>Data\<close>

datatype supply_mode = Mode_Off | Mode_Export | Mode_Import | Mode_Fault

datatype ChargingPhase = Phase_Other | Phase_CableCheck | Phase_PreCharge | Phase_Charging

datatype ServiceCategory =
    Service_AC | Service_DC | Service_WPT | Service_DC_ACDP | Service_AC_BPT | Service_DC_BPT | Service_DC_ACDP_BPT
  | Service_Internet | Service_ParkingStatus

record Capabilities =
  bidirectional :: bool
  current_regulation_tolerance_A :: real
  peak_current_ripple_A :: real
  max_export_voltage_V :: real
  min_export_voltage_V :: real
  max_export_current_A :: real
  min_export_current_A :: real
  max_import_voltage_V :: "real option"
  min_import_voltage_V :: "real option"
  max_import_current_A :: "real option"
  min_import_current_A :: "real option"
  max_export_power_W :: real
  max_import_power_W :: "real option"
  conversion_efficiency_import :: "real option"
  conversion_efficiency_export :: "real option"

record ExternalDerating =
  derate_max_export_current_A :: "real option"
  derate_max_import_current_A :: "real option"
  derate_max_export_power_W :: "real option"
  derate_max_import_power_W :: "real option"

text \<open>The properties of \<^verbatim>\<open>EVInfo\<close> that are read.\<close>

record EVInfo =
  target_voltage :: "real option"
  target_current :: "real option"
  present_voltage :: "real option"
  maximum_current_limit :: "real option"
  maximum_power_limit :: "real option"
  maximum_voltage_limit :: "real option"

record CountDown =
  countdown_s :: int
  current_limit_after_delay_A :: real
  current_limit_during_delay_A :: real
  start_time_utc :: "string option"

record DcChargeDynamicModeValues =
  dyn_max_charge_power :: real
  dyn_min_charge_power :: real
  dyn_max_charge_current :: real
  dyn_max_voltage :: real
  dyn_min_voltage :: real
  dyn_max_discharge_power :: "real option"
  dyn_min_discharge_power :: "real option"
  dyn_max_discharge_current :: "real option"

datatype evse_power_message =
    Supply_mode supply_mode ChargingPhase
  | Supply_export real real
  | Supply_import real real
  | Hlc_supply_capabilities Capabilities
  | Hlc_charging_parameters real real
  | Hlc_max_limits DcEvseMaximumLimits
  | Hlc_min_limits DcEvseMinimumLimits
  | Ovm_limits real real
  | Nr_of_phases int
  | Bsp_three_phases bool
  | Published_hw_capabilities HardwareCapabilities
  | Published_ev_info EVInfo
  | Published_enforced EnforcedLimits
  | Published_flow EnergyFlowRequest
  | Published_countdown CountDown

record evse_config =
  module_id :: string
  config_charge_mode :: string
  hlc_on :: bool
  has_over_voltage_monitor :: bool
  request_zero_power_in_idle :: bool
  max_current_import_A :: real
  max_current_export_A :: real
  ac_nominal_voltage :: real
  random_delay_at_any_change :: bool
  hack_allow_bpt_with_iso2 :: bool
  hack_fix_hlc_integer_current_requests :: bool
  hack_skoda_enyaq :: bool
  sae_j2847_2_bpt_enabled :: bool
  sae_j2847_2_bpt_mode :: string

text \<open>The members of \<^verbatim>\<open>EvseManager\<close> first, those of \<^verbatim>\<open>energyImpl\<close> after them.  The two variables \<^verbatim>\<open>static bool
  last_is_actually_exporting_to_grid\<close> are \<open>supply_was_exporting\<close> and \<open>dynamic_was_exporting\<close>.\<close>

record evse_power =
  pw_config :: evse_config
  pw_charger :: charger
  hw_capabilities :: HardwareCapabilities
  ac_nr_phases_active :: int
  external_local_energy_limits :: ExternalLimits
  powersupply_capabilities :: Capabilities
  dc_external_derate :: ExternalDerating
  ev_info :: EVInfo
  latest_target_voltage :: real
  latest_target_current :: real
  contactor_open :: bool
  current_demand_active :: bool
  powersupply_dc_is_on :: bool
  power_supply_DC_charging_phase :: ChargingPhase
  last_power_supply_DC_charging_phase :: ChargingPhase
  supply_was_exporting :: bool
  dynamic_was_exporting :: bool
  is_actually_exporting_to_grid :: bool
  sae_bidi_active :: bool
  selected_d20_energy_service :: "ServiceCategory option"
  random_delay_enabled :: bool
  random_delay_running :: bool
  random_delay_end_time :: time
  random_delay_start_time :: time
  random_delay_max_duration :: int
  timepoint_ready_for_charging :: time
  flow_request :: flow_node
  last_enforced_limits_ampere :: real
  last_enforced_limits_watt :: real
  last_target_voltage :: real
  last_actual_voltage :: real
  last_powersupply_capabilities :: Capabilities
  hw_caps :: HardwareCapabilities
  last_enforced_limit :: real
  limit_when_random_delay_started :: real
  charger_state :: EvseState
  utc_now :: time
  trapped :: bool
  power_out :: "evse_power_message list"

type_synonym 'a powerM = "(evse_power, 'a) state"

definition send_out :: "evse_power_message \<Rightarrow> unit powerM" where
  "send_out m = modify (\<lambda>s. s\<lparr>power_out := power_out s @ [m]\<rparr>)"

definition on_charger :: "'a chargerM \<Rightarrow> 'a powerM" where
  "on_charger m = do {
     s \<leftarrow> State_Monad.get;
     modify (\<lambda>s. s\<lparr>pw_charger := exec m (pw_charger s)\<rparr>);
     State_Monad.return (result m (pw_charger s))
   }"

definition pw_steady_now :: "evse_power \<Rightarrow> time" where
  "pw_steady_now s = steady_now (env (pw_charger s))"

definition dc_mode :: "evse_power \<Rightarrow> bool" where
  "dc_mode s \<longleftrightarrow> config_charge_mode (pw_config s) = ''DC''"

section \<open>Capabilities\<close>

definition get_sane_default_power_supply_capabilities :: Capabilities where
  "get_sane_default_power_supply_capabilities = \<lparr>bidirectional = False, current_regulation_tolerance_A = 1 / 2,
     peak_current_ripple_A = 1 / 2, max_export_voltage_V = 60, min_export_voltage_V = 0, max_export_current_A = 0,
     min_export_current_A = 0, max_import_voltage_V = None, min_import_voltage_V = None, max_import_current_A = None,
     min_import_current_A = None, max_export_power_W = 0, max_import_power_W = None, conversion_efficiency_import = None,
     conversion_efficiency_export = None\<rparr>"

definition min_optional_float :: "real option \<Rightarrow> real option \<Rightarrow> real option" where
  "min_optional_float a b = (case a of
     Some x \<Rightarrow> (case b of Some y \<Rightarrow> Some (if y < x then y else x) | None \<Rightarrow> a)
   | None \<Rightarrow> b)"

definition min_with_optional :: "real \<Rightarrow> real option \<Rightarrow> real" where
  "min_with_optional a b = (case b of Some y \<Rightarrow> if y < a then y else a | None \<Rightarrow> a)"

definition get_powersupply_capabilities :: "evse_power \<Rightarrow> Capabilities" where
  "get_powersupply_capabilities s =
     (let caps = powersupply_capabilities s; derate = dc_external_derate s
      in caps\<lparr>max_export_current_A := min_with_optional (max_export_current_A caps) (derate_max_export_current_A derate),
         max_import_current_A := min_optional_float (max_import_current_A caps) (derate_max_import_current_A derate),
         max_export_power_W := min_with_optional (max_export_power_W caps) (derate_max_export_power_W derate),
         max_import_power_W := min_optional_float (max_import_power_W caps) (derate_max_import_power_W derate)\<rparr>)"

definition set_external_derating :: "ExternalDerating \<Rightarrow> unit powerM" where
  "set_external_derating d = modify (\<lambda>s. s\<lparr>dc_external_derate := d\<rparr>)"

definition update_powersupply_capabilities :: "Capabilities \<Rightarrow> unit powerM" where
  "update_powersupply_capabilities c = do {
     s \<leftarrow> State_Monad.get;
     do_if (c \<noteq> powersupply_capabilities s) (send_out (Hlc_supply_capabilities c));
     modify (\<lambda>s. s\<lparr>powersupply_capabilities := c\<rparr>);
     send_out (Hlc_charging_parameters (current_regulation_tolerance_A c) (peak_current_ripple_A c));
     send_out (Hlc_min_limits \<lparr>evse_minimum_current_limit = min_export_current_A c,
       evse_minimum_power_limit = min_export_current_A c * min_export_voltage_V c,
       evse_minimum_voltage_limit = min_export_voltage_V c, evse_minimum_discharge_current_limit = None,
       evse_minimum_discharge_power_limit = None\<rparr>)
   }"

text \<open>The capabilities of the board, limited by the configuration.\<close>

definition on_bsp_capabilities :: "HardwareCapabilities \<Rightarrow> unit powerM" where
  "on_bsp_capabilities c = do {
     s \<leftarrow> State_Monad.get;
     let g = pw_config s;
     modify (\<lambda>s. s\<lparr>hw_capabilities := c\<lparr>
       max_current_A_import := (if max_current_import_A g < max_current_A_import c then max_current_import_A g
         else max_current_A_import c),
       max_current_A_export := (if max_current_export_A g < max_current_A_export c then max_current_export_A g
         else max_current_A_export c)\<rparr>\<rparr>);
     do_if (ac_nr_phases_active s = 0) (modify (\<lambda>s. s\<lparr>ac_nr_phases_active := max_phase_count_import c\<rparr>));
     s \<leftarrow> State_Monad.get;
     do_if (ac_nr_phases_active s > max_phase_count_import c)
       (modify (\<lambda>s. s\<lparr>ac_nr_phases_active := min_phase_count_import c\<rparr>));
     s \<leftarrow> State_Monad.get;
     send_out (Nr_of_phases (ac_nr_phases_active s));
     send_out (Bsp_three_phases (max_phase_count_import c \<noteq> 0));
     on_charger (modify (\<lambda>h. h\<lparr>connector_type := caps_connector_type c\<rparr>));
     send_out (Published_hw_capabilities c)
   }"

section \<open>Local limits\<close>

definition limit_entry :: "string \<Rightarrow> LimitsReq \<Rightarrow> ScheduleReqEntry" where
  "limit_entry tp leaves = \<lparr>req_timestamp = tp, limits_to_root = empty_limits_req, limits_to_leaves = leaves,
     conversion_efficiency = None, price_per_kwh = None\<rparr>"

definition watt_entry :: "string \<Rightarrow> real \<Rightarrow> string \<Rightarrow> ScheduleReqEntry" where
  "watt_entry tp w source = limit_entry tp (empty_limits_req\<lparr>total_power_W := Some (number w source)\<rparr>)"

definition ampere_entry :: "string \<Rightarrow> real \<Rightarrow> string \<Rightarrow> ScheduleReqEntry" where
  "ampere_entry tp a source = limit_entry tp (empty_limits_req\<lparr>ac_max_current_A := Some (number a source)\<rparr>)"

definition update_local_energy_limit :: "ExternalLimits \<Rightarrow> bool powerM" where
  "update_local_energy_limit l = do {
     modify (\<lambda>s. s\<lparr>external_local_energy_limits := l\<rparr>);
     State_Monad.return True
   }"

definition update_max_watt_limit :: "dates \<Rightarrow> evse_power \<Rightarrow> ExternalLimits \<Rightarrow> real \<Rightarrow> real option \<Rightarrow> ExternalLimits" where
  "update_max_watt_limit d s limits max_watt_export max_watt_import =
     (let tp = print_date d (utc_now s); source = module_id (pw_config s) @ '' update_max_watt_limit''
      in limits\<lparr>ext_import := [watt_entry tp max_watt_export source],
         ext_export := [watt_entry tp (case max_watt_import of Some w \<Rightarrow> w | None \<Rightarrow> 0) source]\<rparr>)"

definition update_max_current_limit :: "dates \<Rightarrow> evse_power \<Rightarrow> ExternalLimits \<Rightarrow> real \<Rightarrow> real \<Rightarrow> ExternalLimits" where
  "update_max_current_limit d s limits max_current_import max_current_export =
     (if dc_mode s then limits
      else let tp = print_date d (utc_now s); source = module_id (pw_config s) @ '' update_max_current_limit''
      in limits\<lparr>ext_import := [ampere_entry tp max_current_import source],
         ext_export := [ampere_entry tp max_current_export source]\<rparr>)"

definition get_local_energy_limits :: "dates \<Rightarrow> evse_power \<Rightarrow> ExternalLimits" where
  "get_local_energy_limits d s =
     (let none = \<lparr>ext_import = [], ext_export = [], ext_setpoints = []\<rparr>;
          ext = external_local_energy_limits s
      in if ext_import ext = [] \<and> ext_export ext = [] then
           if config_charge_mode (pw_config s) = ''AC''
           then update_max_current_limit d s none (max_current_A_import (hw_capabilities s))
             (max_current_A_export (hw_capabilities s))
           else update_max_watt_limit d s none (max_export_power_W (get_powersupply_capabilities s))
             (max_import_power_W (get_powersupply_capabilities s))
         else ext)"

definition setup_v2h_mode :: "dates \<Rightarrow> unit powerM" where
  "setup_v2h_mode d = do {
     s \<leftarrow> State_Monad.get;
     let tp = print_date d (utc_now s);
     let w = (case max_import_power_W (powersupply_capabilities s) of Some w \<Rightarrow> w | None \<Rightarrow> 0);
     _ \<leftarrow> update_local_energy_limit \<lparr>ext_import = [watt_entry tp 0 ''''],
       ext_export = [watt_entry tp w (module_id (pw_config s) @ ''/setup_v2h_mode'')], ext_setpoints = []\<rparr>;
     skip
   }"

section \<open>The DC supply\<close>

definition session_is_iso_d20_ac_bpt :: "evse_power \<Rightarrow> bool" where
  "session_is_iso_d20_ac_bpt s \<longleftrightarrow> selected_d20_energy_service s = Some Service_AC_BPT"

definition session_is_iso_d20_dc_bpt :: "evse_power \<Rightarrow> bool" where
  "session_is_iso_d20_dc_bpt s \<longleftrightarrow> selected_d20_energy_service s = Some Service_DC_BPT"

definition powersupply_DC_on :: "unit powerM" where
  "powersupply_DC_on = do {
     s \<leftarrow> State_Monad.get;
     do_if (\<not> powersupply_dc_is_on s) (do {
       send_out (Supply_mode Mode_Export (power_supply_DC_charging_phase s));
       modify (\<lambda>s. s\<lparr>powersupply_dc_is_on := True\<rparr>)
     })
   }"

definition powersupply_DC_off :: "unit powerM" where
  "powersupply_DC_off = do {
     s \<leftarrow> State_Monad.get;
     do_if (powersupply_dc_is_on s) (do {
       send_out (Supply_mode Mode_Off (power_supply_DC_charging_phase s));
       modify (\<lambda>s. s\<lparr>powersupply_dc_is_on := False\<rparr>)
     });
     modify (\<lambda>s. s\<lparr>power_supply_DC_charging_phase := Phase_Other\<rparr>)
   }"

text \<open>The conversion to \<^verbatim>\<open>int\<close>.\<close>

definition to_int :: "real \<Rightarrow> int" where
  "to_int x = (if 0 \<le> x then \<lfloor>x\<rfloor> else \<lceil>x\<rceil>)"

text \<open>Lines 2012--2020: the current that is asked for.\<close>

definition wanted_current :: "evse_power \<Rightarrow> real \<Rightarrow> real" where
  "wanted_current s current =
     (let offered = evse_maximum_current_limit (current_evse_max_limits (shared (pw_charger s)));
          c = (if hack_fix_hlc_integer_current_requests (pw_config s) \<and> offered - of_int (to_int current) < 1
               then offered else current)
      in if sae_j2847_2_bpt_enabled (pw_config s) then \<bar>c\<bar> else c)"

definition bpt_allowed :: "evse_power \<Rightarrow> bool" where
  "bpt_allowed s \<longleftrightarrow> hack_allow_bpt_with_iso2 (pw_config s) \<or> sae_bidi_active s \<or> session_is_iso_d20_dc_bpt s"

definition supply_import :: "real \<Rightarrow> real \<Rightarrow> bool powerM" where
  "supply_import voltage current = do {
     s \<leftarrow> State_Monad.get;
     do_if (\<not> supply_was_exporting s \<and> powersupply_dc_is_on s)
       (send_out (Supply_mode Mode_Import (power_supply_DC_charging_phase s)));
     modify (\<lambda>s. s\<lparr>supply_was_exporting := is_actually_exporting_to_grid s\<rparr>);
     let caps = get_powersupply_capabilities s;
     (case (min_import_voltage_V caps, max_import_voltage_V caps) of
        (Some lo, Some hi) \<Rightarrow>
          if lo \<le> voltage \<and> voltage \<le> hi then do {
            let current = (case max_import_current_A caps of Some m \<Rightarrow> if current > m then m else current | None \<Rightarrow> current);
            let current = (case min_import_current_A caps of Some m \<Rightarrow> if current < m then m else current | None \<Rightarrow> current);
            send_out (Supply_import voltage current);
            State_Monad.return True
          } else State_Monad.return False
      | _ \<Rightarrow> State_Monad.return False)
   }"

definition supply_export :: "bool \<Rightarrow> real \<Rightarrow> real \<Rightarrow> bool powerM" where
  "supply_export phase_changed voltage current = do {
     s \<leftarrow> State_Monad.get;
     do_if (powersupply_dc_is_on s \<and> (phase_changed \<or> bpt_allowed s \<and> supply_was_exporting s \<and> current_demand_active s)) (do {
       send_out (Supply_mode Mode_Export (power_supply_DC_charging_phase s));
       modify (\<lambda>s. s\<lparr>supply_was_exporting := is_actually_exporting_to_grid s\<rparr>)
     });
     let caps = get_powersupply_capabilities s;
     if min_export_voltage_V caps \<le> voltage \<and> voltage \<le> max_export_voltage_V caps then do {
       let current = (if current > max_export_current_A caps then max_export_current_A caps else current);
       let current = (if current < min_export_current_A caps then min_export_current_A caps else current);
       send_out (Supply_export voltage current);
       State_Monad.return True
     } else State_Monad.return False
   }"

definition powersupply_DC_set :: "real \<Rightarrow> real \<Rightarrow> bool powerM" where
  "powersupply_DC_set voltage current = do {
     s \<leftarrow> State_Monad.get;
     let phase_changed = (last_power_supply_DC_charging_phase s \<noteq> power_supply_DC_charging_phase s);
     modify (\<lambda>s. s\<lparr>last_power_supply_DC_charging_phase := power_supply_DC_charging_phase s\<rparr>);
     let c = wanted_current s current;
     if bpt_allowed s \<and> current_demand_active s \<and> is_actually_exporting_to_grid s
     then supply_import voltage c
     else supply_export phase_changed voltage c
   }"

definition apply_new_target_voltage_current :: "unit powerM" where
  "apply_new_target_voltage_current = do {
     s \<leftarrow> State_Monad.get;
     do_if (latest_target_voltage s > 0) (do {
       _ \<leftarrow> powersupply_DC_set (latest_target_voltage s) (latest_target_current s);
       skip
     })
   }"

section \<open>Messages of the car and of the supply\<close>

definition publish_target :: "unit powerM" where
  "publish_target = do {
     modify (\<lambda>s. s\<lparr>ev_info := (ev_info s)\<lparr>target_voltage := Some (latest_target_voltage s),
       target_current := Some (latest_target_current s)\<rparr>\<rparr>);
     s \<leftarrow> State_Monad.get;
     send_out (Published_ev_info (ev_info s))
   }"

text \<open>Lines 574--589 and 680--691: the new target goes to the supply.\<close>

definition new_target :: "unit powerM" where
  "new_target = do {
     apply_new_target_voltage_current;
     s \<leftarrow> State_Monad.get;
     do_if (\<not> contactor_open s) powersupply_DC_on;
     publish_target
   }"

text \<open>Lines 538--564: the target, limited by what the car and the EVSE have announced.\<close>

definition limited_target :: "evse_power \<Rightarrow> real \<Rightarrow> real \<Rightarrow> real \<times> real" where
  "limited_target s voltage current =
     (let ev = ev_info s; hlc = current_evse_max_limits (shared (pw_charger s));
          c1 = (case maximum_current_limit ev of Some m \<Rightarrow> if current > m then m else current | None \<Rightarrow> current);
          v = (case maximum_voltage_limit ev of Some m \<Rightarrow> if voltage > m then m else voltage | None \<Rightarrow> voltage);
          c2 = (if c1 > evse_maximum_current_limit hlc then evse_maximum_current_limit hlc else c1);
          actual = (case present_voltage ev of Some u \<Rightarrow> u | None \<Rightarrow> v);
          c3 = (if c2 * actual > evse_maximum_power_limit hlc then evse_maximum_power_limit hlc / actual else c2)
      in (v, c3))"

definition on_dc_ev_target :: "real \<Rightarrow> real \<Rightarrow> unit powerM" where
  "on_dc_ev_target voltage current = do {
     s \<leftarrow> State_Monad.get;
     do_if (\<not> (hack_skoda_enyaq (pw_config s) \<and> (voltage < 300 \<or> current < 0))) (do {
       let (v, c) = limited_target s voltage current;
       do_if (v \<noteq> latest_target_voltage s \<or> c \<noteq> latest_target_current s) (do {
         modify (\<lambda>s. s\<lparr>latest_target_voltage := v, latest_target_current := c\<rparr>);
         new_target
       })
     })
   }"

text \<open>Lines 608--671: the limits of a session of ISO 15118-20 in dynamic mode; None if the lower one of the power is above
  the upper one.\<close>

definition dynamic_limits :: "evse_power \<Rightarrow> DcChargeDynamicModeValues \<Rightarrow> real \<times> real \<times> real" where
  "dynamic_limits s values =
     (let mx = current_evse_max_limits (shared (pw_charger s)); mn = current_evse_min_limits (shared (pw_charger s))
      in if is_actually_exporting_to_grid s \<and> current_demand_active s then
           (case (dyn_max_discharge_power values, evse_maximum_discharge_power_limit mx) of
              (Some a, Some b) \<Rightarrow> min \<bar>a\<bar> \<bar>b\<bar> | _ \<Rightarrow> 0,
            case (dyn_min_discharge_power values, evse_minimum_discharge_power_limit mn) of
              (Some a, Some b) \<Rightarrow> max \<bar>a\<bar> \<bar>b\<bar> | _ \<Rightarrow> 0,
            case (dyn_max_discharge_current values, evse_maximum_discharge_current_limit mx) of
              (Some a, Some b) \<Rightarrow> min \<bar>a\<bar> \<bar>b\<bar> | _ \<Rightarrow> 0)
         else (min (dyn_max_charge_power values) (evse_maximum_power_limit mx),
           max (dyn_min_charge_power values) (evse_minimum_power_limit mn),
           min (dyn_max_charge_current values) (evse_maximum_current_limit mx)))"

definition dynamic_target :: "evse_power \<Rightarrow> DcChargeDynamicModeValues \<Rightarrow> (real \<times> real) option" where
  "dynamic_target s values =
     (let (max_power, min_power, max_current) = dynamic_limits s values;
          v = (if is_actually_exporting_to_grid s
               then max (dyn_min_voltage values) (evse_minimum_voltage_limit (current_evse_min_limits (shared (pw_charger s))))
               else dyn_max_voltage values);
          actual = (case present_voltage (ev_info s) of Some u \<Rightarrow> u | None \<Rightarrow> latest_target_voltage s)
      in if min_power > max_power then None
         else Some (v, if actual \<le> 0 then max_current else min (max_power / actual) max_current))"

definition close_to :: "real \<Rightarrow> real \<Rightarrow> bool" where
  "close_to a b \<longleftrightarrow> \<bar>a - b\<bar> \<le> 1 / 1000000"

definition on_d20_dynamic_mode :: "DcChargeDynamicModeValues \<Rightarrow> unit powerM" where
  "on_d20_dynamic_mode values = do {
     s \<leftarrow> State_Monad.get;
     let flow_changed = (is_actually_exporting_to_grid s \<noteq> dynamic_was_exporting s);
     modify (\<lambda>s. s\<lparr>dynamic_was_exporting := is_actually_exporting_to_grid s\<rparr>);
     (case dynamic_target s values of
        None \<Rightarrow> skip
      | Some (v, c) \<Rightarrow> do {
          let changed = (\<not> (close_to v (latest_target_voltage s) \<and> close_to c (latest_target_current s)));
          do_if changed (modify (\<lambda>s. s\<lparr>latest_target_voltage := v, latest_target_current := c\<rparr>));
          do_if (changed \<or> flow_changed) new_target
        })
   }"

definition on_current_demand_started :: "unit powerM" where
  "on_current_demand_started = do {
     modify (\<lambda>s. s\<lparr>power_supply_DC_charging_phase := Phase_Charging, current_demand_active := True\<rparr>);
     apply_new_target_voltage_current;
     on_charger notify_currentdemand_started
   }"

definition on_current_demand_finished :: "unit powerM" where
  "on_current_demand_finished = do {
     modify (\<lambda>s. s\<lparr>current_demand_active := False, sae_bidi_active := False\<rparr>);
     powersupply_DC_off
   }"

definition on_sae_bidi_mode_active :: "dates \<Rightarrow> unit powerM" where
  "on_sae_bidi_mode_active d = do {
     modify (\<lambda>s. s\<lparr>sae_bidi_active := True\<rparr>);
     s \<leftarrow> State_Monad.get;
     do_if (sae_j2847_2_bpt_mode (pw_config s) = ''V2H'') (setup_v2h_mode d)
   }"

definition get_emergency_over_voltage_threshold :: "evse_power \<Rightarrow> real" where
  "get_emergency_over_voltage_threshold s =
     (let ev_max_voltage = (case maximum_voltage_limit (ev_info s) of Some v \<Rightarrow> v | None \<Rightarrow> 500);
          negotiated = min ev_max_voltage (max_export_voltage_V (get_powersupply_capabilities s))
      in if negotiated > 1000 then 1375 else if negotiated > 850 then 1100 else if negotiated > 750 then 935
         else if negotiated > 500 then 825 else 550)"

definition get_error_over_voltage_threshold :: "evse_power \<Rightarrow> real" where
  "get_error_over_voltage_threshold s = (case maximum_voltage_limit (ev_info s) of Some v \<Rightarrow> v | None \<Rightarrow> 500)"

definition on_ev_maximum_limits :: "real option \<Rightarrow> real option \<Rightarrow> real option \<Rightarrow> unit powerM" where
  "on_ev_maximum_limits current watt voltage = do {
     modify (\<lambda>s. s\<lparr>ev_info := (ev_info s)\<lparr>maximum_current_limit := current, maximum_power_limit := watt,
       maximum_voltage_limit := voltage\<rparr>\<rparr>);
     s \<leftarrow> State_Monad.get;
     send_out (Published_ev_info (ev_info s));
     do_if (has_over_voltage_monitor (pw_config s))
       (send_out (Ovm_limits (get_emergency_over_voltage_threshold s) (get_error_over_voltage_threshold s)))
   }"

text \<open>A measurement of the supply; what is sent to the car, and the current, which is only passed on, are left out.\<close>

definition on_voltage_current :: "real \<Rightarrow> unit powerM" where
  "on_voltage_current voltage =
     modify (\<lambda>s. s\<lparr>ev_info := (ev_info s)\<lparr>present_voltage := Some (if voltage > 0 then voltage else 0)\<rparr>\<rparr>)"

text \<open>Lines 960--984, after the event has been handled by the charger.\<close>

definition on_cp_event :: "CPEvent \<Rightarrow> unit powerM" where
  "on_cp_event e = do {
     on_charger (process_event e);
     s \<leftarrow> State_Monad.get;
     do_if (hlc_on (pw_config s)) (do {
       do_if (e = CarPluggedIn) (modify (\<lambda>s. s\<lparr>latest_target_voltage := 0, latest_target_current := 0\<rparr>));
       do_if (e = PowerOn) (modify (\<lambda>s. s\<lparr>contactor_open := False\<rparr>));
       do_if (e = PowerOff) (modify (\<lambda>s. s\<lparr>contactor_open := True, latest_target_voltage := 0, latest_target_current := 0\<rparr>))
     })
   }"

section \<open>Requests for energy\<close>

definition source_bsp_caps :: "evse_power \<Rightarrow> string" where
  "source_bsp_caps s = module_id (pw_config s) @ ''/evse_board_support_caps''"

definition source_psu_caps :: "evse_power \<Rightarrow> string" where
  "source_psu_caps s = module_id (pw_config s) @ ''/powersupply_dc_caps''"

definition cleared_import_entry :: "dates \<Rightarrow> evse_power \<Rightarrow> ScheduleReqEntry" where
  "cleared_import_entry d s =
     (let caps = get_powersupply_capabilities s
      in \<lparr>req_timestamp = print_date d (hours_floor (utc_now s) + leap_elapsed d (utc_now s)),
        limits_to_root = empty_limits_req\<lparr>ac_max_phase_count := Some (integer (max_phase_count_import (hw_caps s)) ''''),
          ac_min_phase_count := Some (integer (min_phase_count_import (hw_caps s)) ''''),
          ac_max_current_A := Some (number (max_current_A_import (hw_caps s)) ''''),
          ac_min_current_A := Some (number (min_current_A_import (hw_caps s)) ''''),
          ac_supports_changing_phases_during_charging := Some (supports_changing_phases_during_charging (hw_caps s)),
          ac_number_of_active_phases := Some (ac_nr_phases_active s)\<rparr>,
        limits_to_leaves = (if dc_mode s then empty_limits_req\<lparr>total_power_W := Some (number (max_export_power_W caps)
          (module_id (pw_config s) @ ''/clear_import_request_schedule''))\<rparr> else empty_limits_req),
        conversion_efficiency = (if dc_mode s then conversion_efficiency_export caps else None), price_per_kwh = None\<rparr>)"

definition clear_import_request_schedule :: "dates \<Rightarrow> unit powerM" where
  "clear_import_request_schedule d =
     modify (\<lambda>s. s\<lparr>flow_request := (flow_request s)\<lparr>schedule_import := [cleared_import_entry d s]\<rparr>\<rparr>)"

definition cleared_export_entry :: "dates \<Rightarrow> evse_power \<Rightarrow> ScheduleReqEntry" where
  "cleared_export_entry d s =
     (let caps = get_powersupply_capabilities s; source = source_bsp_caps s
      in \<lparr>req_timestamp = print_date d (hours_floor (utc_now s) + leap_elapsed d (utc_now s)),
        limits_to_root = empty_limits_req\<lparr>ac_max_phase_count := Some (integer (max_phase_count_export (hw_caps s)) source),
          ac_min_phase_count := Some (integer (min_phase_count_export (hw_caps s)) source),
          ac_max_current_A := Some (number (max_current_A_export (hw_caps s)) source),
          ac_min_current_A := Some (number (min_current_A_export (hw_caps s)) source),
          ac_supports_changing_phases_during_charging := Some (supports_changing_phases_during_charging (hw_caps s)),
          ac_number_of_active_phases := Some (ac_nr_phases_active s)\<rparr>,
        limits_to_leaves = (if dc_mode s then empty_limits_req\<lparr>total_power_W :=
          Some (number (case max_import_power_W caps of Some w \<Rightarrow> w | None \<Rightarrow> 0) (source_psu_caps s))\<rparr> else empty_limits_req),
        conversion_efficiency = (if dc_mode s then conversion_efficiency_import caps else None), price_per_kwh = None\<rparr>)"

definition clear_export_request_schedule :: "dates \<Rightarrow> unit powerM" where
  "clear_export_request_schedule d =
     modify (\<lambda>s. s\<lparr>flow_request := (flow_request s)\<lparr>schedule_export := [cleared_export_entry d s]\<rparr>\<rparr>)"

fun to_energy_evse_state :: "EvseState \<Rightarrow> EnergyEvseState" where
  "to_energy_evse_state St_Disabled = ES_Disabled"
| "to_energy_evse_state St_Idle = ES_Unplugged"
| "to_energy_evse_state St_WaitingForAuthentication = ES_WaitForAuth"
| "to_energy_evse_state St_PrepareCharging = ES_PrepareCharging"
| "to_energy_evse_state St_WaitingForEnergy = ES_WaitForEnergy"
| "to_energy_evse_state St_Charging = ES_Charging"
| "to_energy_evse_state St_ChargingPausedEV = ES_PausedEV"
| "to_energy_evse_state St_ChargingPausedEVSE = ES_PausedEVSE"
| "to_energy_evse_state St_StoppingCharging = ES_Finished"
| "to_energy_evse_state St_Finished = ES_Finished"
| "to_energy_evse_state St_T_step_EF = ES_PrepareCharging"
| "to_energy_evse_state St_T_step_X1 = ES_PrepareCharging"
| "to_energy_evse_state St_SwitchPhases = ES_Charging"
| "to_energy_evse_state St_Replug = ES_PrepareCharging"

text \<open>Lines 206--212 and 249--254: the limit of the supply on the side of the leaves.\<close>

definition cap_power :: "real option \<Rightarrow> string \<Rightarrow> ScheduleReqEntry \<Rightarrow> ScheduleReqEntry" where
  "cap_power limit source e = (case (total_power_W (limits_to_leaves e), limit) of
     (Some w, Some m) \<Rightarrow>
       if nvalue w > m then e\<lparr>limits_to_leaves := (limits_to_leaves e)\<lparr>total_power_W := Some (number m source)\<rparr>\<rparr> else e
   | _ \<Rightarrow> e)"

text \<open>Lines 217--240 and 259--282: the limits of the hardware on one entry.\<close>

definition hardware_limits :: "evse_power \<Rightarrow> real \<Rightarrow> real \<Rightarrow> int \<Rightarrow> int \<Rightarrow> bool \<Rightarrow> string \<Rightarrow> LimitsReq \<Rightarrow> LimitsReq" where
  "hardware_limits s max_A min_A max_phases min_phases paused paused_source l =
     (let source = source_bsp_caps s
      in l\<lparr>ac_max_current_A := (case ac_max_current_A l of
             Some a \<Rightarrow> if nvalue a > max_A then Some (if paused then number min_A paused_source else number max_A source) else Some a
           | None \<Rightarrow> Some (if paused then number min_A paused_source else number max_A source)),
         ac_max_phase_count := (case ac_max_phase_count l of
             Some n \<Rightarrow> if ivalue n > max_phases then Some (integer max_phases source) else Some n
           | None \<Rightarrow> Some (integer max_phases source)),
         ac_min_phase_count := Some (integer min_phases source),
         ac_min_current_A := Some (number min_A source),
         ac_supports_changing_phases_during_charging := Some (supports_changing_phases_during_charging (hw_caps s)),
         ac_number_of_active_phases := Some (ac_nr_phases_active s)\<rparr>)"

definition limit_import_entry :: "evse_power \<Rightarrow> ScheduleReqEntry \<Rightarrow> ScheduleReqEntry" where
  "limit_import_entry s e = e\<lparr>limits_to_root := hardware_limits s (max_current_A_import (hw_caps s))
     (min_current_A_import (hw_caps s)) (max_phase_count_import (hw_caps s)) (min_phase_count_import (hw_caps s))
     (charger_state s = St_ChargingPausedEV \<and> request_zero_power_in_idle (pw_config s)) (source_bsp_caps s)
     (limits_to_root e)\<rparr>"

definition limit_export_entry :: "evse_power \<Rightarrow> ScheduleReqEntry \<Rightarrow> ScheduleReqEntry" where
  "limit_export_entry s e = e\<lparr>limits_to_root := hardware_limits s (max_current_A_export (hw_caps s))
     (min_current_A_export (hw_caps s)) (max_phase_count_export (hw_caps s)) (min_phase_count_export (hw_caps s))
     (charger_state s = St_ChargingPausedEV) (source_bsp_caps s @ ''_pause'') (limits_to_root e)\<rparr>"

definition remove_ampere :: "ScheduleReqEntry \<Rightarrow> ScheduleReqEntry" where
  "remove_ampere e = e\<lparr>limits_to_leaves := (limits_to_leaves e)\<lparr>ac_max_current_A := None\<rparr>\<rparr>"

text \<open>Lines 199--292: the schedules of an EVSE that needs energy.\<close>

definition needed_import :: "dates \<Rightarrow> evse_power \<Rightarrow> ScheduleReq \<Rightarrow> ScheduleReq" where
  "needed_import d s cleared =
     (let local = ext_import (get_local_energy_limits d s);
          caps = get_powersupply_capabilities s;
          base = (if local = [] then cleared
             else if dc_mode s then map (cap_power (Some (max_export_power_W caps)) (source_psu_caps s)) local else local);
          limited = map (limit_import_entry s) base
      in if dc_mode s then map remove_ampere limited else limited)"

definition needed_export :: "dates \<Rightarrow> evse_power \<Rightarrow> ScheduleReq \<Rightarrow> ScheduleReq" where
  "needed_export d s cleared =
     (let local = ext_export (get_local_energy_limits d s);
          caps = get_powersupply_capabilities s;
          base = (if local = [] then cleared
             else if dc_mode s then map (cap_power (max_import_power_W caps) (source_bsp_caps s)) local else local);
          limited = map (limit_export_entry s) base
      in if dc_mode s then map remove_ampere limited else limited)"

definition idle_entry :: "evse_power \<Rightarrow> ScheduleReqEntry \<Rightarrow> ScheduleReqEntry" where
  "idle_entry s e = e\<lparr>limits_to_leaves := (if dc_mode s then (limits_to_leaves e)\<lparr>total_power_W := Some (number 0 ''Idle'')\<rparr>
     else (limits_to_leaves e)\<lparr>ac_max_current_A := Some (number 0 ''Idle'')\<rparr>)\<rparr>"

definition idle_schedule :: "evse_power \<Rightarrow> ScheduleReq \<Rightarrow> ScheduleReq" where
  "idle_schedule s es = (case es of e # es \<Rightarrow> idle_entry s e # es | [] \<Rightarrow> [])"

definition needs_energy :: "evse_power \<Rightarrow> bool" where
  "needs_energy s \<longleftrightarrow> charger_state s \<in> {St_Charging, St_PrepareCharging, St_WaitingForEnergy, St_WaitingForAuthentication,
     St_ChargingPausedEV} \<or> \<not> request_zero_power_in_idle (pw_config s)"

definition request_energy_from_energy_manager :: "dates \<Rightarrow> bool \<Rightarrow> unit powerM" where
  "request_energy_from_energy_manager d prio = do {
     clear_import_request_schedule d;
     clear_export_request_schedule d;
     s \<leftarrow> State_Monad.get;
     let r = flow_request s;
     modify (\<lambda>s. s\<lparr>flow_request := (if needs_energy s
       then r\<lparr>schedule_import := needed_import d s (schedule_import r), schedule_export := needed_export d s (schedule_export r)\<rparr>
       else r\<lparr>schedule_import := idle_schedule s (schedule_import r), schedule_export := idle_schedule s (schedule_export r)\<rparr>)\<rparr>);
     modify (\<lambda>s. s\<lparr>flow_request := (flow_request s)\<lparr>priority_request := Some prio,
       evse_state := Some (to_energy_evse_state (charger_state s))\<rparr>\<rparr>);
     s \<leftarrow> State_Monad.get;
     send_out (Published_flow (Flow_Request (flow_request s) []))
   }"

section \<open>Enforced limits\<close>

definition almost_eq :: "real \<Rightarrow> real \<Rightarrow> bool" where
  "almost_eq a b \<longleftrightarrow> a > b - 1 / 10 \<and> a < b + 1 / 10"

definition almost_eq_option :: "real option \<Rightarrow> real option \<Rightarrow> bool" where
  "almost_eq_option a b = (case (a, b) of
     (Some x, Some y) \<Rightarrow> almost_eq x y | (None, None) \<Rightarrow> True | _ \<Rightarrow> False)"

definition almost_eq_capabilities :: "Capabilities \<Rightarrow> Capabilities \<Rightarrow> bool" where
  "almost_eq_capabilities a b \<longleftrightarrow> bidirectional a = bidirectional b \<and>
     almost_eq (current_regulation_tolerance_A a) (current_regulation_tolerance_A b) \<and>
     almost_eq (peak_current_ripple_A a) (peak_current_ripple_A b) \<and>
     almost_eq (max_export_voltage_V a) (max_export_voltage_V b) \<and>
     almost_eq (min_export_voltage_V a) (min_export_voltage_V b) \<and>
     almost_eq (max_export_current_A a) (max_export_current_A b) \<and>
     almost_eq (min_export_current_A a) (min_export_current_A b) \<and>
     almost_eq (max_export_power_W a) (max_export_power_W b) \<and>
     almost_eq_option (max_import_voltage_V a) (max_import_voltage_V b) \<and>
     almost_eq_option (min_import_voltage_V a) (min_import_voltage_V b) \<and>
     almost_eq_option (max_import_current_A a) (max_import_current_A b) \<and>
     almost_eq_option (min_import_current_A a) (min_import_current_A b) \<and>
     almost_eq_option (max_import_power_W a) (max_import_power_W b) \<and>
     almost_eq_option (conversion_efficiency_import a) (conversion_efficiency_import b) \<and>
     almost_eq_option (conversion_efficiency_export a) (conversion_efficiency_export b)"

definition voltage_changed :: "real \<Rightarrow> real \<Rightarrow> bool" where
  "voltage_changed a b \<longleftrightarrow> \<bar>a - b\<bar> > 1"

text \<open>The states in which a random delay makes sense.\<close>

definition delay_state :: "EvseState \<Rightarrow> bool" where
  "delay_state st \<longleftrightarrow> st \<in> {St_PrepareCharging, St_Charging, St_WaitingForAuthentication, St_WaitingForEnergy}"

text \<open>A start with a car attached, lines 366--374.\<close>

definition startup_with_ev :: "evse_power \<Rightarrow> bool" where
  "startup_with_ev s \<longleftrightarrow> delay_state (charger_state s) \<and>
     pw_steady_now s - timepoint_ready_for_charging s < milliseconds 5000"

definition limit_change :: "evse_config \<Rightarrow> real \<Rightarrow> real \<Rightarrow> bool" where
  "limit_change g prev limit \<longleftrightarrow> (if random_delay_at_any_change g then \<not> almost_eq prev limit
     else almost_eq prev 0 \<and> limit > 1 / 10 \<or> prev > 1 / 10 \<and> almost_eq limit 0)"

definition random_delay_needed :: "real \<Rightarrow> real \<Rightarrow> bool powerM" where
  "random_delay_needed prev limit = do {
     s \<leftarrow> State_Monad.get;
     if limit_change (pw_config s) prev limit then State_Monad.return True
     else if startup_with_ev s then do {
       modify (\<lambda>s. s\<lparr>last_enforced_limit := 0\<rparr>);
       State_Monad.return True
     } else State_Monad.return False
   }"

text \<open>Lines 444--453: the start of a delay; \<open>rand\<close> is the value of \<^verbatim>\<open>std::rand\<close>.\<close>

definition start_random_delay :: "int \<Rightarrow> real \<Rightarrow> unit powerM" where
  "start_random_delay rand limit = do {
     s \<leftarrow> State_Monad.get;
     do_if (\<not> random_delay_running s) (do {
       needed \<leftarrow> random_delay_needed (last_enforced_limit s) limit;
       do_if needed (modify (\<lambda>s. s\<lparr>random_delay_running := True, random_delay_start_time := utc_now s,
         random_delay_end_time := pw_steady_now s + milliseconds (1000 * (rand mod \<bar>random_delay_max_duration s\<bar>)),
         limit_when_random_delay_started := last_enforced_limit s,
         trapped := trapped s \<or> random_delay_max_duration s = 0\<rparr>))
     })
   }"

text \<open>Lines 434--486: the limit that is applied.\<close>

definition random_delay_limit :: "dates \<Rightarrow> int \<Rightarrow> real \<Rightarrow> real powerM" where
  "random_delay_limit d rand limit = do {
     s \<leftarrow> State_Monad.get;
     do_if (\<not> delay_state (charger_state s)) (modify (\<lambda>s. s\<lparr>random_delay_running := False\<rparr>));
     start_random_delay rand limit;
     s \<leftarrow> State_Monad.get;
     let during = limit_when_random_delay_started s;
     let left = count_s (random_delay_end_time s - pw_steady_now s);
     if random_delay_running s then do {
       do_if (left \<le> 0) (modify (\<lambda>s. s\<lparr>random_delay_running := False\<rparr>));
       send_out (Published_countdown \<lparr>countdown_s = max 0 left, current_limit_after_delay_A = limit,
         current_limit_during_delay_A = during,
         start_time_utc = (if left \<le> 0 then None else Some (print_date d (random_delay_start_time s)))\<rparr>);
       State_Monad.return during
     } else do {
       send_out (Published_countdown \<lparr>countdown_s = 0, current_limit_after_delay_A = limit,
         current_limit_during_delay_A = during, start_time_utc = None\<rparr>);
       State_Monad.return limit
     }
   }"

text \<open>Lines 397--417: the number of phases.\<close>

definition enforce_phases :: "LimitsRes \<Rightarrow> unit powerM" where
  "enforce_phases l = do {
     s \<leftarrow> State_Monad.get;
     (case sold_phase_count l of
        None \<Rightarrow> skip
      | Some n \<Rightarrow> do_if (ivalue n \<noteq> ac_nr_phases_active s \<and> supports_changing_phases_during_charging (hw_capabilities s)) (do {
          switched \<leftarrow> on_charger (charger_switch_three_phases (ivalue n = 3));
          do_if switched (modify (\<lambda>s. s\<lparr>ac_nr_phases_active := ivalue n\<rparr>))
        }))
   }"

text \<open>Lines 392--395 and 419--429: the current, also from the limit of the power.  Before the capabilities of the board
  have come in there are 0 phases, and the quotient is infinite or no number: nothing changes for a current and a power that
  are not negative, and no other case of it is modelled.\<close>

definition enforced_ampere :: "evse_power \<Rightarrow> LimitsRes \<Rightarrow> real" where
  "enforced_ampere s l =
     (let limit = (case sold_current_A l of Some a \<Rightarrow> nvalue a | None \<Rightarrow> 0)
      in case sold_power_W l of
           None \<Rightarrow> limit
         | Some w \<Rightarrow>
             let by_power = nvalue w / ac_nominal_voltage (pw_config s) / of_int (ac_nr_phases_active s)
             in if ac_nominal_voltage (pw_config s) = 0 \<or> ac_nr_phases_active s = 0 then limit
                else if 0 \<le> limit \<and> limit > by_power \<or> limit < 0 \<and> limit < by_power then by_power else limit)"

text \<open>Lines 490--506: the limit at the charger.\<close>

definition apply_limit :: "real \<Rightarrow> int \<Rightarrow> unit powerM" where
  "apply_limit limit seconds = do {
     s \<leftarrow> State_Monad.get;
     let valid_until = pw_steady_now s + milliseconds (1000 * seconds);
     _ \<leftarrow> on_charger (set_max_current (if limit \<ge> 0 \<or> session_is_iso_d20_ac_bpt s then limit else 0) valid_until);
     do_if (limit > 1 / 100000 \<or> limit < - 1 / 100000) (do {
       _ \<leftarrow> on_charger resume_charging_power_available;
       skip
     })
   }"

text \<open>Lines 539--604: the limits that are announced to the car.\<close>

definition dc_total_current :: "Capabilities \<Rightarrow> real \<Rightarrow> real \<Rightarrow> real \<Rightarrow> real" where
  "dc_total_current caps watt target actual =
     (if target > 10 then if actual > 10 then watt / actual else watt / target else max_export_current_A caps)"

definition dc_max_limits :: "Capabilities \<Rightarrow> real \<Rightarrow> real \<Rightarrow> DcEvseMaximumLimits" where
  "dc_max_limits caps watt total_A = \<lparr>
     evse_maximum_current_limit = (if 0 \<le> total_A then min total_A (max_export_current_A caps) else max_export_current_A caps),
     evse_maximum_power_limit = (if 0 \<le> watt then min watt (max_export_power_W caps) else max_export_power_W caps),
     evse_maximum_voltage_limit = max_export_voltage_V caps,
     evse_maximum_discharge_current_limit = (if 0 \<le> total_A then max_import_current_A caps
       else case max_import_current_A caps of Some m \<Rightarrow> Some (min \<bar>total_A\<bar> m) | None \<Rightarrow> Some \<bar>total_A\<bar>),
     evse_maximum_discharge_power_limit = (if 0 \<le> watt then max_import_power_W caps
       else case max_import_power_W caps of Some m \<Rightarrow> Some (min \<bar>watt\<bar> m) | None \<Rightarrow> Some \<bar>watt\<bar>)\<rparr>"

definition dc_min_limits :: "Capabilities \<Rightarrow> DcEvseMinimumLimits" where
  "dc_min_limits caps = \<lparr>evse_minimum_current_limit = min_export_current_A caps,
     evse_minimum_power_limit = min_export_voltage_V caps * min_export_current_A caps,
     evse_minimum_voltage_limit = min_export_voltage_V caps,
     evse_minimum_discharge_current_limit = min_import_current_A caps,
     evse_minimum_discharge_power_limit = Some ((case min_import_voltage_V caps of Some v \<Rightarrow> v | None \<Rightarrow> 0) *
       (case min_import_current_A caps of Some c \<Rightarrow> c | None \<Rightarrow> 0))\<rparr>"

text \<open>Lines 609--634: power that is fed back.  The result tells whether it is.\<close>

definition dc_export_limits :: "evse_power \<Rightarrow> real \<Rightarrow> real \<Rightarrow> DcEvseMaximumLimits \<Rightarrow> bool \<times> DcEvseMaximumLimits" where
  "dc_export_limits s watt total_A l =
     (case (evse_maximum_discharge_power_limit l, evse_maximum_discharge_current_limit l) of
        (Some p, Some c) \<Rightarrow>
          if watt < 0 \<and> total_A < 0 then
            if hack_allow_bpt_with_iso2 (pw_config s)
            then (True, l\<lparr>evse_maximum_power_limit := p, evse_maximum_current_limit := c\<rparr>)
            else if sae_bidi_active s
            then (True, l\<lparr>evse_maximum_power_limit := - p, evse_maximum_current_limit := - c\<rparr>)
            else (session_is_iso_d20_dc_bpt s, l)
          else (False, l)
      | _ \<Rightarrow> (False, l))"

definition enforce_dc :: "real \<Rightarrow> real \<Rightarrow> unit powerM" where
  "enforce_dc watt ampere = do {
     s \<leftarrow> State_Monad.get;
     let target = (case target_voltage (ev_info s) of Some v \<Rightarrow> v | None \<Rightarrow> 0);
     let actual = (case present_voltage (ev_info s) of Some v \<Rightarrow> v | None \<Rightarrow> 0);
     let caps = get_powersupply_capabilities s;
     do_if (\<not> (almost_eq (last_enforced_limits_watt s) watt \<and> almost_eq (last_enforced_limits_ampere s) ampere \<and>
        almost_eq target (last_target_voltage s) \<and> \<not> voltage_changed actual (last_actual_voltage s) \<and>
        almost_eq_capabilities caps (last_powersupply_capabilities s))) (do {
       let total_A = dc_total_current caps watt target actual;
       let (exporting, limits) = dc_export_limits s watt total_A (dc_max_limits caps watt total_A);
       modify (\<lambda>s. s\<lparr>last_enforced_limits_ampere := ampere, last_enforced_limits_watt := watt, last_target_voltage := target,
         last_actual_voltage := actual, last_powersupply_capabilities := caps, is_actually_exporting_to_grid := exporting\<rparr>);
       send_out (Hlc_max_limits limits);
       send_out (Hlc_min_limits (dc_min_limits caps));
       on_charger (inform_new_evse_max_hlc_limits limits);
       on_charger (inform_new_evse_min_hlc_limits (dc_min_limits caps));
       do_if (target > 0) apply_new_target_voltage_current
     })
   }"

definition evse_enforce_limits :: "dates \<Rightarrow> int \<Rightarrow> EnforcedLimits \<Rightarrow> unit powerM" where
  "evse_enforce_limits d rand value = do {
     s \<leftarrow> State_Monad.get;
     do_if (enf_uuid value = uuid (flow_request s)) (do {
       send_out (Published_enforced value);
       enforce_phases (limits_root_side value);
       s \<leftarrow> State_Monad.get;
       let enforced_limit = enforced_ampere s (limits_root_side value);
       limit \<leftarrow> (if random_delay_enabled s then random_delay_limit d rand enforced_limit
         else State_Monad.return enforced_limit);
       modify (\<lambda>s. s\<lparr>last_enforced_limit := enforced_limit\<rparr>);
       apply_limit limit (valid_for value);
       (case (sold_power_W (limits_root_side value), sold_current_A (limits_root_side value)) of
          (Some w, Some a) \<Rightarrow> do_if (dc_mode s) (enforce_dc (nvalue w) (nvalue a))
        | _ \<Rightarrow> skip)
     })
   }"

section \<open>Runs\<close>

definition power_ready :: "dates \<Rightarrow> unit powerM" where
  "power_ready d = do {
     modify (\<lambda>s. s\<lparr>hw_caps := hw_capabilities s, last_powersupply_capabilities := get_powersupply_capabilities s\<rparr>);
     request_energy_from_energy_manager d True
   }"

text \<open>A round of the thread that requests energy every second.\<close>

definition request_round :: "dates \<Rightarrow> unit powerM" where
  "request_round d = do {
     modify (\<lambda>s. s\<lparr>hw_caps := hw_capabilities s\<rparr>);
     request_energy_from_energy_manager d False
   }"

datatype power_input =
    P_charger charger_input
  | P_cp_event CPEvent
  | P_charger_state EvseState
  | P_supply_off
  | P_bsp_capabilities HardwareCapabilities
  | P_supply_capabilities Capabilities
  | P_derate ExternalDerating
  | P_local_limits ExternalLimits
  | P_voltage real
  | P_ev_target real real
  | P_dynamic_mode DcChargeDynamicModeValues
  | P_ev_limits "real option" "real option" "real option"
  | P_phase ChargingPhase
  | P_demand_started
  | P_demand_finished
  | P_sae_bidi
  | P_service "ServiceCategory option"
  | P_delay_enable | P_delay_disable | P_delay_cancel
  | P_delay_duration int
  | P_ready_for_charging
  | P_request bool
  | P_request_round
  | P_enforce int EnforcedLimits
  | P_clock time

text \<open>The signals of the charger for a new state and for switching off the supply are inputs of their own.\<close>

fun power_handle :: "dates \<Rightarrow> power_input \<Rightarrow> unit powerM" where
  "power_handle d (P_charger i) = on_charger (charger_handle i)"
| "power_handle d (P_cp_event e) = on_cp_event e"
| "power_handle d (P_charger_state st) = modify (\<lambda>s. s\<lparr>charger_state := st\<rparr>)"
| "power_handle d P_supply_off = powersupply_DC_off"
| "power_handle d (P_bsp_capabilities c) = on_bsp_capabilities c"
| "power_handle d (P_supply_capabilities c) = update_powersupply_capabilities c"
| "power_handle d (P_derate x) = set_external_derating x"
| "power_handle d (P_local_limits l) = do { _ \<leftarrow> update_local_energy_limit l; skip }"
| "power_handle d (P_voltage v) = on_voltage_current v"
| "power_handle d (P_ev_target v c) = on_dc_ev_target v c"
| "power_handle d (P_dynamic_mode v) = on_d20_dynamic_mode v"
| "power_handle d (P_ev_limits c w v) = on_ev_maximum_limits c w v"
| "power_handle d (P_phase p) = modify (\<lambda>s. s\<lparr>power_supply_DC_charging_phase := p\<rparr>)"
| "power_handle d P_demand_started = on_current_demand_started"
| "power_handle d P_demand_finished = on_current_demand_finished"
| "power_handle d P_sae_bidi = on_sae_bidi_mode_active d"
| "power_handle d (P_service c) = modify (\<lambda>s. s\<lparr>selected_d20_energy_service := c\<rparr>)"
| "power_handle d P_delay_enable = modify (\<lambda>s. s\<lparr>random_delay_running := False, random_delay_enabled := True\<rparr>)"
| "power_handle d P_delay_disable = modify (\<lambda>s. s\<lparr>random_delay_running := False, random_delay_enabled := False\<rparr>)"
| "power_handle d P_delay_cancel = modify (\<lambda>s. s\<lparr>random_delay_running := False\<rparr>)"
| "power_handle d (P_delay_duration n) = modify (\<lambda>s. s\<lparr>random_delay_max_duration := n\<rparr>)"
| "power_handle d P_ready_for_charging = modify (\<lambda>s. s\<lparr>timepoint_ready_for_charging := pw_steady_now s\<rparr>)"
| "power_handle d (P_request prio) = request_energy_from_energy_manager d prio"
| "power_handle d P_request_round = request_round d"
| "power_handle d (P_enforce rand l) = evse_enforce_limits d rand l"
| "power_handle d (P_clock t) = modify (\<lambda>s. s\<lparr>utc_now := t\<rparr>)"

definition power_run :: "dates \<Rightarrow> power_input list \<Rightarrow> evse_power \<Rightarrow> evse_power" where
  "power_run d inputs s = exec (for_each inputs (power_handle d)) s"

end
