(* ===== verification/Evse_Power_Laws.thy ===== *)
theory Evse_Power_Laws
  imports Evse_Power Charger_Limits
begin

text \<open>
  The power of an EVSE: what it requests is within its hardware, what the DC supply is told is within the supply, and what
  the energy manager allows reaches the charger, at once or after a random delay.
\<close>

section \<open>The supply\<close>


















section \<open>Requests\<close>

text \<open>The limits towards the root stay within the hardware.\<close>

definition within_hw :: "real \<Rightarrow> int \<Rightarrow> ScheduleReqEntry \<Rightarrow> bool" where
  "within_hw amps phases e \<longleftrightarrow>
     (\<exists>a. ac_max_current_A (limits_to_root e) = Some a \<and> nvalue a \<le> amps) \<and>
     (\<exists>n. ac_max_phase_count (limits_to_root e) = Some n \<and> ivalue n \<le> phases)"

text \<open>Nothing is requested at the side of the car.\<close>

definition asks_nothing :: "evse_power \<Rightarrow> ScheduleReqEntry \<Rightarrow> bool" where
  "asks_nothing s e \<longleftrightarrow> map_option nvalue (if dc_mode s then total_power_W (limits_to_leaves e)
     else ac_max_current_A (limits_to_leaves e)) = Some 0"

lemma hardware_limits_within:
  assumes "min_A \<le> max_A"
  shows "within_hw max_A phases (e\<lparr>limits_to_root := hardware_limits s max_A min_A phases n paused src l\<rparr>)"
  using assms by (auto simp: within_hw_def hardware_limits_def Let_def split: option.split)

lemma remove_ampere_within: "within_hw a n (remove_ampere e) = within_hw a n e"
  by (simp add: within_hw_def remove_ampere_def)

lemma needed_within:
  assumes "min_current_A_import (hw_caps s) \<le> max_current_A_import (hw_caps s)"
    and "min_current_A_export (hw_caps s) \<le> max_current_A_export (hw_caps s)"
  shows "list_all (within_hw (max_current_A_import (hw_caps s)) (max_phase_count_import (hw_caps s))) (needed_import d s es)"
    and "list_all (within_hw (max_current_A_export (hw_caps s)) (max_phase_count_export (hw_caps s))) (needed_export d s es)"
  using hardware_limits_within [OF assms(1)] hardware_limits_within [OF assms(2)]
  by (auto simp: needed_import_def needed_export_def Let_def list_all_iff limit_import_entry_def limit_export_entry_def
      remove_ampere_within)

lemma cleared_within:
  "within_hw (max_current_A_import (hw_caps s)) (max_phase_count_import (hw_caps s)) (cleared_import_entry d s)"
  "within_hw (max_current_A_export (hw_caps s)) (max_phase_count_export (hw_caps s)) (cleared_export_entry d s)"
  by (simp_all add: within_hw_def cleared_import_entry_def cleared_export_entry_def Let_def)

text \<open>C20. A request for energy is published once, has an entry for each direction, and no entry asks the root for more
  current or more phases than the hardware has; an EVSE that needs no energy and is configured to say so asks for none.\<close>

theorem request_within_hardware:
  assumes "min_current_A_import (hw_caps s) \<le> max_current_A_import (hw_caps s)"
    and "min_current_A_export (hw_caps s) \<le> max_current_A_export (hw_caps s)"
    and "s' = exec (request_energy_from_energy_manager d prio) s" and "r = flow_request s'"
  shows "power_out s' = power_out s @ [Published_flow (Flow_Request r [])] \<and>
    schedule_import r \<noteq> [] \<and> schedule_export r \<noteq> [] \<and>
    list_all (within_hw (max_current_A_import (hw_caps s)) (max_phase_count_import (hw_caps s))) (schedule_import r) \<and>
    list_all (within_hw (max_current_A_export (hw_caps s)) (max_phase_count_export (hw_caps s))) (schedule_export r) \<and>
    (\<not> needs_energy s \<longrightarrow> list_all (asks_nothing s) (schedule_import r @ schedule_export r))"
proof -
  define i where "i = cleared_import_entry d s"
  define e where "e = cleared_export_entry d (s\<lparr>flow_request := (flow_request s)\<lparr>schedule_import := [i]\<rparr>\<rparr>)"
  have w: "within_hw (max_current_A_import (hw_caps s)) (max_phase_count_import (hw_caps s)) i"
      "within_hw (max_current_A_export (hw_caps s)) (max_phase_count_export (hw_caps s)) e"
    using cleared_within(1) cleared_within(2) [of "s\<lparr>flow_request := (flow_request s)\<lparr>schedule_import := [i]\<rparr>\<rparr>"]
    by (simp_all add: i_def e_def)
  let ?s = "s\<lparr>flow_request := (flow_request s)\<lparr>schedule_import := [i], schedule_export := [e]\<rparr>\<rparr>"
  have c: "exec (clear_export_request_schedule d) (exec (clear_import_request_schedule d) s) = ?s"
    by (simp add: clear_import_request_schedule_def clear_export_request_schedule_def run_simps i_def e_def)
  have n: "needs_energy ?s = needs_energy s" "dc_mode ?s = dc_mode s"
    by (simp_all add: needs_energy_def dc_mode_def)
  have r: "power_out s' = power_out s @ [Published_flow (Flow_Request r [])]"
    "schedule_import r = (if needs_energy s then needed_import d ?s [i] else [idle_entry ?s i])"
    "schedule_export r = (if needs_energy s then needed_export d ?s [e] else [idle_entry ?s e])"
    by (simp_all add: assms(3,4) request_energy_from_energy_manager_def c send_out_def Let_def run_simps n
        idle_schedule_def)
  have "needed_import d ?s [i] \<noteq> []" "needed_export d ?s [e] \<noteq> []"
    by (auto simp: needed_import_def needed_export_def Let_def)
  then show ?thesis
    using r needed_within [of ?s d] assms(1,2) w
    by (auto simp: idle_entry_def within_hw_def asks_nothing_def n)
qed

section \<open>Limits at the charger\<close>

definition charger_limit :: "evse_power \<Rightarrow> real" where
  "charger_limit s = max_current (shared (pw_charger s))"

text \<open>What is left alone by all that follows the new limit, and by the choice of the phases.\<close>

definition limit_part :: "evse_power \<Rightarrow> real \<times> string \<times> time \<times> ServiceCategory option" where
  "limit_part s = (charger_limit s, uuid (flow_request s), pw_steady_now s, selected_d20_energy_service s)"

interpretation lp: frame_rel "\<lambda>s s'. limit_part s' = limit_part s"
  by unfold_locales auto

lemma lp_modify:
  "(\<And>s. pw_charger (f s) = pw_charger s) \<Longrightarrow> (\<And>s. uuid (flow_request (f s)) = uuid (flow_request s)) \<Longrightarrow>
    (\<And>s. selected_d20_energy_service (f s) = selected_d20_energy_service s) \<Longrightarrow> lp.keeps (modify f)"
  by (rule lp.keeps_modify) (simp add: limit_part_def charger_limit_def pw_steady_now_def)

lemma lp_send: "lp.keeps (send_out m)"
  unfolding send_out_def by (rule lp_modify) simp_all

lemma lp_charger:
  assumes "\<And>c. max_current (shared (exec m c)) = max_current (shared c)" and "\<And>c. env (exec m c) = env c"
  shows "lp.keeps (on_charger m)"
  using assms
  by (intro lp.keepsI) (simp add: on_charger_def run_simps limit_part_def charger_limit_def pw_steady_now_def)

lemma lp_supply: "lp.keeps apply_new_target_voltage_current"
  unfolding apply_new_target_voltage_current_def powersupply_DC_set_def supply_import_def supply_export_def Let_def
  by (auto intro!: lp.keeps_rules lp_modify lp_send split: option.split prod.split)

lemma lp_phases: "lp.keeps (enforce_phases l)"
  unfolding enforce_phases_def
  by (auto intro!: lp.keeps_rules lp_modify lp_charger split: option.split
      simp: charger_switch_three_phases_def on_shared_def on_internal_def set_current_state_def emit_def run_simps)

lemma lp_dc: "lp.keeps (enforce_dc w a)"
  unfolding enforce_dc_def Let_def
  by (auto intro!: lp.keeps_rules lp_modify lp_send lp_supply lp_charger split: prod.split
      simp: inform_new_evse_max_hlc_limits_def inform_new_evse_min_hlc_limits_def on_shared_def run_simps)

lemma lp_delay: "lp.keeps (random_delay_limit d rand x)"
  unfolding random_delay_limit_def start_random_delay_def random_delay_needed_def Let_def
  by (intro lp.keeps_rules lp_modify lp_send) simp_all

lemma apply_limit_effect:
  assumes "\<not> session_is_iso_d20_ac_bpt s" and "x \<le> 1000" and "0 < n"
  shows "charger_limit (exec (apply_limit x n) s) = max 0 x"
    and "snd (limit_part (exec (apply_limit x n) s)) = snd (limit_part s)"
proof -
  let ?until = "pw_steady_now s + milliseconds (1000 * n)"
  let ?c = "exec (set_max_current (max 0 x) ?until) (pw_charger s)"
  have later: "pw_steady_now s < ?until"
    using assms(3) by (simp add: milliseconds_def ns_per_ms_def)
  then have c: "max_current (shared ?c) = max 0 x" "max_current_valid_until (shared ?c) = ?until"
      "steady_now (env ?c) = pw_steady_now s"
    using assms(2) by (simp_all add: set_max_current_def CHARGER_ABSOLUTE_MAX_CURRENT_def on_shared_def emit_def run_simps
        pw_steady_now_def Let_def)
  have "\<not> 0 < count_s (steady_now (env ?c) - max_current_valid_until (shared ?c))"
    using later unfolding c(2,3) count_s_pos_iff by (simp add: milliseconds_def ns_per_ms_def)
  then have "exec power_available ?c = ?c"
    by (simp add: exec_power_available)
  then have "max_current (shared (exec resume_charging_power_available ?c)) = max_current (shared ?c)"
      "env (exec resume_charging_power_available ?c) = env ?c"
    by (simp_all add: resume_charging_power_available_def set_current_state_def on_shared_def run_simps)
  moreover have "(if x \<ge> 0 \<or> session_is_iso_d20_ac_bpt s then x else 0) = max 0 x"
    using assms(1) by simp
  ultimately show "charger_limit (exec (apply_limit x n) s) = max 0 x"
    "snd (limit_part (exec (apply_limit x n) s)) = snd (limit_part s)"
    using c(1,3) by (simp_all add: apply_limit_def on_charger_def run_simps Let_def charger_limit_def limit_part_def
        pw_steady_now_def)
qed

text \<open>The part of the handler in front of the new limit.\<close>

definition enforce_begin :: "EnforcedLimits \<Rightarrow> evse_power \<Rightarrow> evse_power" where
  "enforce_begin l s = exec (enforce_phases (limits_root_side l)) (exec (send_out (Published_enforced l)) s)"

lemma enforce_begin_keeps:
  "limit_part (enforce_begin l s) = limit_part s" "pw_config (enforce_begin l s) = pw_config s"
  "random_delay_enabled (enforce_begin l s) = random_delay_enabled s"
  "random_delay_running (enforce_begin l s) = random_delay_running s"
  "random_delay_end_time (enforce_begin l s) = random_delay_end_time s"
  "limit_when_random_delay_started (enforce_begin l s) = limit_when_random_delay_started s"
  "last_enforced_limit (enforce_begin l s) = last_enforced_limit s" "charger_state (enforce_begin l s) = charger_state s"
  "timepoint_ready_for_charging (enforce_begin l s) = timepoint_ready_for_charging s"
  using lp.keepsD [OF lp_phases] lp.keepsD [OF lp_send]
  by (simp_all add: enforce_begin_def)
    (auto simp: enforce_phases_def send_out_def on_charger_def run_simps split: option.split)

definition applied_limit :: "dates \<Rightarrow> int \<Rightarrow> EnforcedLimits \<Rightarrow> evse_power \<Rightarrow> real" where
  "applied_limit d rand l s = (let x = enforced_ampere s (limits_root_side l)
     in if random_delay_enabled s then result (random_delay_limit d rand x) s else x)"

lemma enforce_effect:
  assumes "enf_uuid l = uuid (flow_request s)" and "\<not> session_is_iso_d20_ac_bpt s" and "0 < valid_for l"
    and "applied_limit d rand l (enforce_begin l s) \<le> 1000"
  shows "charger_limit (exec (evse_enforce_limits d rand l) s) = max 0 (applied_limit d rand l (enforce_begin l s))"
    and "snd (limit_part (exec (evse_enforce_limits d rand l) s)) = snd (limit_part s)"
proof -
  let ?s = "enforce_begin l s" and ?r = "limits_root_side l"
  define x where "x = enforced_ampere ?s ?r"
  define t where "t = (if random_delay_enabled ?s then exec (random_delay_limit d rand x) ?s else ?s)\<lparr>last_enforced_limit := x\<rparr>"
  have lp: "limit_part t = limit_part s"
    using lp.keepsD [OF lp_delay, of d rand x ?s] enforce_begin_keeps(1) [of l s]
    by (simp add: t_def limit_part_def charger_limit_def pw_steady_now_def)
  then have bpt: "\<not> session_is_iso_d20_ac_bpt t"
    using assms(2) by (simp add: limit_part_def session_is_iso_d20_ac_bpt_def)
  define u where "u = exec (apply_limit (applied_limit d rand l ?s) (valid_for l)) t"
  have "exec (evse_enforce_limits d rand l) s =
      (case (sold_power_W ?r, sold_current_A ?r) of (Some w, Some a) \<Rightarrow>
         exec (do_if (dc_mode ?s) (enforce_dc (nvalue w) (nvalue a))) u | _ \<Rightarrow> u)"
    using assms(1)
    by (simp add: evse_enforce_limits_def run_simps Let_def enforce_begin_def u_def t_def x_def applied_limit_def
        split: option.split)
  moreover have "limit_part (exec (do_if b (enforce_dc w a)) u) = limit_part u" for b w a
    by (rule lp.keepsD) (intro lp.keeps_rules lp_dc)
  ultimately have "limit_part (exec (evse_enforce_limits d rand l) s) = limit_part u"
    by (simp split: option.split)
  moreover have "charger_limit u = max 0 (applied_limit d rand l ?s)" "snd (limit_part u) = snd (limit_part t)"
    using apply_limit_effect [OF bpt assms(4,3)] by (simp_all add: u_def)
  ultimately show "charger_limit (exec (evse_enforce_limits d rand l) s) = max 0 (applied_limit d rand l ?s)"
    "snd (limit_part (exec (evse_enforce_limits d rand l) s)) = snd (limit_part s)"
    using lp by (simp_all add: limit_part_def)
qed

lemma enforced_ampere_bound:
  assumes "sold_current_A l = Some a" and "0 \<le> nvalue a"
  shows "enforced_ampere s l \<le> nvalue a"
  using assms by (auto simp: enforced_ampere_def Let_def split: option.split)

text \<open>The limit that an EVSE without random delays takes over.\<close>

lemma enforce_limit_bound:
  assumes "enf_uuid l = uuid (flow_request s)" and "\<not> session_is_iso_d20_ac_bpt s" and "0 < valid_for l"
    and "\<not> random_delay_enabled s" and "0 \<le> a" and "a \<le> 1000"
    and "a = (case sold_current_A (limits_root_side l) of Some x \<Rightarrow> nvalue x | None \<Rightarrow> 0)"
  shows "charger_limit (exec (evse_enforce_limits d rand l) s) \<le> a"
proof -
  have "enforced_ampere t (limits_root_side l) \<le> a" for t
    using assms(5,7) by (auto simp: enforced_ampere_def Let_def split: option.split)
  then have "applied_limit d rand l (enforce_begin l s) \<le> a"
    using assms(4) by (simp add: applied_limit_def enforce_begin_keeps)
  then show ?thesis
    using enforce_effect(1) [OF assms(1-3), of d rand] assms(5,6) by simp
qed

section \<open>Random delays\<close>













section \<open>Properties\<close>


text \<open>C33. The threshold for an emergency is above the voltage that car and supply have agreed on, up to 1375 volts; the one
  for an error is the voltage of the car alone: it is above the agreed one whenever the supply's is lower, and may be above
  the one for an emergency.\<close>

theorem over_voltage_thresholds:
  assumes "maximum_voltage_limit (ev_info s) = Some v" and "m = max_export_voltage_V (get_powersupply_capabilities s)"
  shows "(min v m < get_emergency_over_voltage_threshold s \<longleftrightarrow> min v m < 1375) \<and>
    (get_error_over_voltage_threshold s = min v m \<longleftrightarrow> v \<le> m) \<and>
    (get_emergency_over_voltage_threshold s < get_error_over_voltage_threshold s \<longleftrightarrow>
      550 < v \<and> m \<le> 500 \<or> 825 < v \<and> m \<le> 750 \<or> 935 < v \<and> m \<le> 850 \<or> 1100 < v \<and> m \<le> 1000 \<or> 1375 < v)"
  using assms by (auto simp: get_emergency_over_voltage_threshold_def get_error_over_voltage_threshold_def Let_def min_def)

section \<open>Witnesses\<close>

definition example_capabilities :: HardwareCapabilities where
  "example_capabilities = \<lparr>max_current_A_import = 32, min_current_A_import = 6, max_phase_count_import = 3,
     min_phase_count_import = 1, max_current_A_export = 0, min_current_A_export = 0, max_phase_count_export = 3,
     min_phase_count_export = 1, supports_changing_phases_during_charging = False,
     caps_connector_type = IEC62196Type2Cable\<rparr>"

definition example_evse_config :: evse_config where
  "example_evse_config = \<lparr>module_id = ''evse'', config_charge_mode = ''AC'', hlc_on = False,
     has_over_voltage_monitor = False, request_zero_power_in_idle = True, max_current_import_A = 32,
     max_current_export_A = 0, ac_nominal_voltage = 230, random_delay_at_any_change = True,
     hack_allow_bpt_with_iso2 = False, hack_fix_hlc_integer_current_requests = False, hack_skoda_enyaq = False,
     sae_j2847_2_bpt_enabled = False, sae_j2847_2_bpt_mode = ''None''\<rparr>"

definition example_flow :: flow_node where
  "example_flow = \<lparr>uuid = ''evse'', node_type = NT_Evse, priority_request = None, evse_state = None,
     optimizer_target = None, energy_usage_root = None, energy_usage_leaves = None, schedule_import = [],
     schedule_export = [], schedule_setpoints = []\<rparr>"

definition example_power :: evse_power where
  "example_power = \<lparr>pw_config = example_evse_config, pw_charger = example_charger, hw_capabilities = example_capabilities,
     ac_nr_phases_active = 3, external_local_energy_limits = \<lparr>ext_import = [], ext_export = [], ext_setpoints = []\<rparr>,
     powersupply_capabilities = get_sane_default_power_supply_capabilities,
     dc_external_derate = \<lparr>derate_max_export_current_A = None, derate_max_import_current_A = None,
       derate_max_export_power_W = None, derate_max_import_power_W = None\<rparr>,
     ev_info = \<lparr>target_voltage = None, target_current = None, present_voltage = None, maximum_current_limit = None,
       maximum_power_limit = None, maximum_voltage_limit = None\<rparr>,
     latest_target_voltage = 0, latest_target_current = 0, contactor_open = True, current_demand_active = False,
     powersupply_dc_is_on = False, power_supply_DC_charging_phase = Phase_Other,
     last_power_supply_DC_charging_phase = Phase_Other, supply_was_exporting = False, dynamic_was_exporting = False,
     is_actually_exporting_to_grid = False, sae_bidi_active = False, selected_d20_energy_service = None,
     random_delay_enabled = False, random_delay_running = False, random_delay_end_time = 0, random_delay_start_time = 0,
     random_delay_max_duration = 600, timepoint_ready_for_charging = 0, flow_request = example_flow,
     last_enforced_limits_ampere = -9999, last_enforced_limits_watt = -9999, last_target_voltage = -9999,
     last_actual_voltage = -9999, last_powersupply_capabilities = get_sane_default_power_supply_capabilities,
     hw_caps = example_capabilities, last_enforced_limit = 0, limit_when_random_delay_started = 0,
     charger_state = St_Disabled, utc_now = 0, trapped = False, power_out = []\<rparr>"

theorem request_within_hardware_witness:
  "let r = flow_request (exec (request_energy_from_energy_manager example_dates True) example_power)
   in schedule_import r \<noteq> [] \<and> list_all (within_hw 32 3) (schedule_import r) \<and> list_all (asks_nothing example_power) (schedule_import r)"
  using request_within_hardware [of example_power _ example_dates True, OF _ _ refl refl]
  by (simp add: Let_def needs_energy_def) (simp add: example_power_def example_capabilities_def example_evse_config_def)




theorem over_voltage_thresholds_witness:
  "let s = example_power\<lparr>ev_info := (ev_info example_power)\<lparr>maximum_voltage_limit := Some 920\<rparr>,
      powersupply_capabilities := get_sane_default_power_supply_capabilities\<lparr>max_export_voltage_V := 500\<rparr>\<rparr>
   in get_emergency_over_voltage_threshold s < get_error_over_voltage_threshold s"
  using over_voltage_thresholds [OF _ refl, of "example_power\<lparr>ev_info := (ev_info example_power)\<lparr>maximum_voltage_limit := Some 920\<rparr>,
      powersupply_capabilities := get_sane_default_power_supply_capabilities\<lparr>max_export_voltage_V := 500\<rparr>\<rparr>" 920]
  by (simp add: Let_def get_powersupply_capabilities_def)

end
