(* ===== verification/Site_Power.thy ===== *)
theory Site_Power
  imports Evse_Power_Laws Energy_Safety
begin

text \<open>
  A site: the energy nodes, the energy manager and the chargers of the EVSEs together.  The limits of a run of the
  optimizer reach all EVSEs, and each takes over its own; so the fuse of a node also holds for the chargers below it.
\<close>

section \<open>The slot in force\<close>

text \<open>All schedules of a run have the same times, so all EVSEs get the limits of the same slot.\<close>

definition slot_in_force :: "dates \<Rightarrow> time \<Rightarrow> string list \<Rightarrow> nat" where
  "slot_in_force d start stamps = length (takeWhile (\<lambda>t. \<not> start < parse_date d t) stamps) - 1"

lemma select_limits_slot:
  assumes "sold \<noteq> []"
  shows "select_limits d start sold = res_limits (sold ! slot_in_force d start (map res_timestamp sold))"
    and "slot_in_force d start (map res_timestamp sold) < length sold"
proof -
  let ?P = "\<lambda>e. \<not> start < parse_date d (res_timestamp e)"
  have len: "slot_in_force d start (map res_timestamp sold) = length (takeWhile ?P sold) - 1"
    by (simp add: slot_in_force_def takeWhile_map comp_def)
  show "slot_in_force d start (map res_timestamp sold) < length sold"
    using assms length_takeWhile_le [of ?P sold] unfolding len by (cases sold) auto
  show "select_limits d start sold = res_limits (sold ! slot_in_force d start (map res_timestamp sold))"
  proof (cases "takeWhile ?P sold")
    case Nil
    then show ?thesis
      using assms unfolding len by (simp add: select_limits_def hd_conv_nth)
  next
    case (Cons e es)
    have "length (takeWhile ?P sold) - 1 < length (takeWhile ?P sold)"
      using Cons by simp
    then have "last (takeWhile ?P sold) = sold ! (length (takeWhile ?P sold) - 1)"
      using Cons takeWhile_nth [of _ ?P sold] by (metis last_conv_nth list.distinct(1))
    then show ?thesis
      using Cons unfolding len by (simp add: select_limits_def)
  qed
qed

definition stamps :: "market list \<Rightarrow> string list list" where
  "stamps ms = map (\<lambda>m. map res_timestamp (sold_root m)) ms"

lemma stamps_add: "map res_timestamp (schedule_add a b) = map res_timestamp a"
  by (auto simp: schedule_add_def intro: nth_equalityI)

lemma stamps_trade: "stamps (market_trade i t ms) = stamps ms"
proof (induction i t ms rule: market_trade.induct)
  case (1 i t ms)
  let ?ms = "ms[i := (ms ! i)\<lparr>sold_root := schedule_add (sold_root (ms ! i)) t\<rparr>]"
  have "stamps ?ms = stamps ms"
    by (cases "i < length ms") (simp_all add: stamps_def map_update stamps_add list_update_same_conv list_update_beyond)
  then show ?case
    using 1 by (subst market_trade.simps) (auto simp: Let_def split: option.split)
qed

interpretation st: frame_rel "\<lambda>s s'. stamps (markets s') = stamps (markets s)"
  by unfold_locales auto

lemma st_turn: "st.keeps (broker_turn d ec g now k)"
  by (rule st.keepsI)
    (auto simp: broker_turn_def run_simps Let_def stamps_trade split: option.split prod.split)

lemma st_rounds: "st.keeps (trading_rounds d ec g now n)"
proof -
  have "st.keeps (trading_round d ec g now ks)" for ks
    by (induction ks) (auto intro!: st.keeps_rules st_turn)
  then show ?thesis
    by (induction n) (auto intro!: st.keeps_rules)
qed

lemma stamps_end:
  assumes "evse_leaves request" and "g = config_globals d ec start request"
    and "ms = markets (snd (optimizer_end d ec now request start cs))" and "j < length ms"
  shows "map res_timestamp (sold_root (ms ! j)) = map res_timestamp (empty_schedule_res g)"
proof -
  define ms0 where "ms0 = create_market d g (em_nominal_ac_voltage ec) None request []"
  have "markets (start_run d ec g now request cs) = ms0"
    using create_brokers [of "get_list_of_evses ms0" ec g now "\<lparr>markets = ms0, brokers = [], contexts = cs\<rparr>"]
    by (simp add: start_run_def Let_def ms0_def)
  then have st: "stamps ms = stamps ms0"
    using st.keepsD [OF st_rounds, of d ec g now 100 "start_run d ec g now request cs"]
    by (simp add: assms(2,3) optimizer_end_def Let_def exec_def)
  have "length ms = length ms0"
    using arg_cong [OF st, of length] by (simp add: stamps_def)
  then have "sold_root (ms0 ! j) = empty_schedule_res g"
    using built_create [OF assms(1), of d g "em_nominal_ac_voltage ec"] assms(4) new_market_fields(4)
    unfolding built_def ms0_def by metis
  then show ?thesis
    using arg_cong [OF st, of "\<lambda>xs. xs ! j"] assms(4) \<open>length ms = length ms0\<close> by (simp add: stamps_def)
qed

section \<open>The limits of an EVSE\<close>

text \<open>An EVSE takes over its own limits and ignores those of the others.\<close>

lemma others_ignored:
  assumes "\<And>l. l \<in> set ls \<Longrightarrow> enf_uuid l \<noteq> uuid (flow_request s)"
  shows "exec (for_each ls (evse_enforce_limits d rand)) s = s"
  using assms
proof (induction ls)
  case (Cons l ls)
  then have "exec (evse_enforce_limits d rand l) s = s"
    by (simp add: evse_enforce_limits_def run_simps)
  then show ?case
    using Cons by (simp add: run_simps)
qed (simp add: run_simps)

lemma own_limit_bound:
  assumes "ls = before @ l # behind" and "distinct (map enf_uuid ls)" and "enf_uuid l = uuid (flow_request s)"
    and "\<not> session_is_iso_d20_ac_bpt s" and "\<not> random_delay_enabled s" and "0 < valid_for l"
    and "a = val (sold_current_A (limits_root_side l))" and "0 \<le> a" and "a \<le> 1000"
  shows "charger_limit (exec (for_each ls (evse_enforce_limits d rand)) s) \<le> a"
proof -
  let ?t = "exec (evse_enforce_limits d rand l) s"
  have a: "a = (case sold_current_A (limits_root_side l) of Some x \<Rightarrow> nvalue x | None \<Rightarrow> 0)"
    unfolding assms(7) by (simp add: val_def split: option.split)
  have "applied_limit d rand l (enforce_begin l s) \<le> 1000"
  proof -
    have "enforced_ampere t (limits_root_side l) \<le> a" for t
      using assms(8) a by (auto simp: enforced_ampere_def Let_def split: option.split)
    then show ?thesis
      using assms(5,9) by (force simp: applied_limit_def enforce_begin_keeps intro: order_trans)
  qed
  then have "uuid (flow_request ?t) = uuid (flow_request s)"
    using enforce_effect(2) [OF assms(3,4,6)] by (simp add: limit_part_def)
  then have "exec (for_each behind (evse_enforce_limits d rand)) ?t = ?t"
    using assms(1,2,3) by (intro others_ignored) (auto simp: image_iff)
  moreover have "exec (for_each before (evse_enforce_limits d rand)) s = s"
    using assms(1,2,3) by (intro others_ignored) (auto simp: image_iff)
  ultimately have "exec (for_each ls (evse_enforce_limits d rand)) s = ?t"
    by (simp add: assms(1) exec_for_each_append run_simps)
  then show ?thesis
    using enforce_limit_bound [OF assms(3,4,6,5,8,9) a] by simp
qed

lemma run_optimizer_limits:
  assumes "evse_leaves request" and "em_config_ok ec" and "g = config_globals d ec start request"
    and "ms = markets (snd (optimizer_end d ec now request start cs))" and "0 < schedule_length g"
  shows "fst (run_optimizer d ec now request start cs) = map (\<lambda>e. \<lparr>enf_uuid = uuid (energy_flow_request (ms ! e)),
    valid_for = update_interval ec * 10, enf_schedule = sold_root (ms ! e),
    limits_root_side = res_limits (sold_root (ms ! e) ! slot_in_force d start (map res_timestamp (empty_schedule_res g)))\<rparr>)
    (get_list_of_evses ms)"
proof -
  let ?s = "snd (optimizer_end d ec now request start cs)"
  have inv: "run_inv g (create_market d g (em_nominal_ac_voltage ec) None request []) ?s"
    using optimizer_end_inv [OF assms(1,2)] by (simp add: assms(3))
  then have brokers: "map local_market (brokers ?s) = get_list_of_evses ms"
    by (auto simp: run_inv_def assms(4) dest: same_tree_evses)
  have len: "length (empty_schedule_res g) = schedule_length g"
    using globals_ok_config by (simp add: assms(3) globals_ok_def)
  have "enforced_limits d ec g (ms ! e) = [\<lparr>enf_uuid = uuid (energy_flow_request (ms ! e)),
      valid_for = update_interval ec * 10, enf_schedule = sold_root (ms ! e), limits_root_side =
        res_limits (sold_root (ms ! e) ! slot_in_force d start (map res_timestamp (empty_schedule_res g)))\<rparr>]"
    if "e \<in> set (get_list_of_evses ms)" for e
  proof -
    have st: "map res_timestamp (sold_root (ms ! e)) = map res_timestamp (empty_schedule_res g)"
      using that stamps_end [OF assms(1,3,4)] by (simp add: evse_range)
    then have "sold_root (ms ! e) \<noteq> []"
      using assms(5) len by (metis length_map list.size(3) less_irrefl)
    moreover have "start_time g = start"
      by (simp add: assms(3) config_globals_def globals_init_def Let_def)
    ultimately show ?thesis
      using select_limits_slot(1) [of "sold_root (ms ! e)" d start] by (simp add: enforced_limits_def st)
  qed
  then have "concat (map (enforced_limits d ec g \<circ> (!) ms) (get_list_of_evses ms)) =
      concat (map (\<lambda>e. [\<lparr>enf_uuid = uuid (energy_flow_request (ms ! e)),
        valid_for = update_interval ec * 10, enf_schedule = sold_root (ms ! e), limits_root_side =
          res_limits (sold_root (ms ! e) ! slot_in_force d start (map res_timestamp (empty_schedule_res g)))\<rparr>])
        (get_list_of_evses ms))"
    by (intro arg_cong [where f = concat] map_cong) simp_all
  then show ?thesis
    unfolding brokers [symmetric]
    by (simp add: run_optimizer_def Let_def assms(3,4) comp_def)
qed

section \<open>EVSEs that do not feed back\<close>

text \<open>An EVSE that offers no current to the grid is never given a negative one.\<close>

definition no_feedback :: "flow_node \<Rightarrow> bool" where
  "no_feedback f \<longleftrightarrow> list_all (\<lambda>e. \<exists>x. ac_max_current_A (limits_to_root e) = Some x \<and> nvalue x \<le> 0) (schedule_export f)"

lemma requested_no_feedback:
  assumes "no_feedback f" and "g = config_globals d ec start request" and "t < schedule_length g"
  shows "\<exists>x. amps (requested d g (schedule_export f)) t = Some x \<and> nvalue x \<le> 0"
proof (cases "schedule_export f = []")
  case True
  then show ?thesis
    using assms(2,3) by (auto simp: requested_def config_globals_def globals_init_def Let_def zero_req_entry_def)
next
  case False
  define a where "a = empty_schedule_req g ! t"
  obtain e where e: "e \<in> set (schedule_export f)"
      "find_entry (parse_date d \<circ> req_timestamp) (parse_date d (req_timestamp a)) True (schedule_export f) = Some e"
    using find_entry_member [OF False] by blast
  have "requested d g (schedule_export f) ! t = merge_limits e a"
    using globals_ok_config assms(2,3) False e(2)
    by (simp add: requested_def get_max_available_energy_def globals_ok_def a_def)
  moreover have "stricter (ac_max_current_A (limits_to_root (merge_limits e a))) (ac_max_current_A (limits_to_root e))"
    by (simp add: merge_limits_def Let_def min_optional_stricter)
  ultimately show ?thesis
    using assms(1) e(1) by (fastforce simp: stricter_def no_feedback_def list_all_iff)
qed

lemma sold_not_negative:
  assumes "evse_leaves request" and "em_config_ok ec" and "g = config_globals d ec start request"
    and "ms = markets (snd (optimizer_end d ec now request start cs))" and "e < length ms" and "t < schedule_length g"
    and "no_feedback (energy_flow_request (ms ! e))"
  shows "0 \<le> sold_amps (sold_root (ms ! e)) t"
proof -
  have ok: "globals_ok g"
    using globals_ok_config by (simp add: assms(3))
  have "markets_safe g ms"
    using optimizer_end_inv [OF assms(1,2), of d start now cs] by (simp add: run_inv_def assms(3,4))
  then have lim: "keeps_limit (amps (export_max_available (ms ! e)) t) (- sold_amps (sold_root (ms ! e)) t)"
    using assms(5,6) by (simp add: markets_safe_def market_safe_def)
  obtain v p where m: "export_max_available (ms ! e) = export_max_available (new_market d g v p (energy_flow_request (ms ! e)))"
    using optimizer_market [OF assms(1-5)] by blast
  have "- sold_amps (sold_root (ms ! e)) t \<le> max 0 0"
    by (rule capped_keeps [OF lim [unfolded m] new_market_capped(4) [OF ok assms(6)]
        requested_no_feedback [OF assms(7,3,6)]])
  then show ?thesis by simp
qed

section \<open>Properties\<close>

text \<open>C8. Energy nodes, energy manager and chargers together.  A node was configured with a fuse and handled any sequence of
  inputs; a request that it published is part of the tree of a run of the optimizer, in which no EVSE below it offers to feed back.
  When each of these EVSEs has handled all limits that the run sent, then together the chargers may draw no more current than
  the fuse allows.  The EVSEs have different names, no random delay and no session that feeds back.\<close>

theorem chargers_within_fuse:
  assumes "node_run d xs (node_init d name fuse phases k t0) = Some n" and "Published_request r \<in> set (node_out n)"
    and "0 \<le> fuse" and "fuse \<le> 1000" and "evse_leaves request" and "em_config_ok ec" and "0 < update_interval ec"
    and "ms = markets (snd (optimizer_end d ec now request start cs))"
    and "j < length ms" and "energy_flow_request (ms ! j) = flow r"
    and "0 < schedule_length (config_globals d ec start request)"
    and "distinct (map (\<lambda>e. uuid (energy_flow_request (ms ! e))) (get_list_of_evses ms))"
    and "\<And>e. e \<in> set (evses_below ms j) \<Longrightarrow> uuid (flow_request (evse e)) = uuid (energy_flow_request (ms ! e)) \<and>
      \<not> random_delay_enabled (evse e) \<and> \<not> session_is_iso_d20_ac_bpt (evse e) \<and> no_feedback (energy_flow_request (ms ! e))"
  shows "(\<Sum>e \<in> set (evses_below ms j). charger_limit (exec (for_each (fst (run_optimizer d ec now request start cs))
    (evse_enforce_limits d rand)) (evse e))) \<le> fuse"
proof -
  define g where "g = config_globals d ec start request"
  define t where "t = slot_in_force d start (map res_timestamp (empty_schedule_res g))"
  define lim where "lim = (\<lambda>e. \<lparr>enf_uuid = uuid (energy_flow_request (ms ! e)),
    valid_for = update_interval ec * 10, enf_schedule = sold_root (ms ! e),
    limits_root_side = res_limits (sold_root (ms ! e) ! t)\<rparr>)"
  let ?ls = "fst (run_optimizer d ec now request start cs)" and ?E = "set (evses_below ms j)"
  have ls: "?ls = map lim (get_list_of_evses ms)"
    using run_optimizer_limits [OF assms(5,6) g_def assms(8)] assms(11) by (simp add: g_def lim_def t_def)
  have len: "length (empty_schedule_res g) = schedule_length g"
    using globals_ok_config by (simp add: g_def globals_ok_def)
  then have t: "t < schedule_length g"
    using select_limits_slot(2) [of "empty_schedule_res g" d start] assms(11) by (fastforce simp: t_def g_def)
  have total: "(\<Sum>e \<in> ?E. sold_amps (sold_root (ms ! e)) t) \<le> fuse"
    using fuse_bound [OF assms(1-3,5,6,8,9,10) t [unfolded g_def]] by (simp add: total_sold_def)
  have pos: "0 \<le> sold_amps (sold_root (ms ! e)) t" if "e \<in> ?E" for e
    using that sold_not_negative [OF assms(5,6) g_def assms(8) _ t, of e] assms(13)
    by (simp add: evses_below_def evse_range)
  have "charger_limit (exec (for_each ?ls (evse_enforce_limits d rand)) (evse e)) \<le> sold_amps (sold_root (ms ! e)) t"
    if e: "e \<in> ?E" for e
  proof -
    have "e \<in> set (get_list_of_evses ms)"
      using e by (simp add: evses_below_def)
    then obtain before behind where "?ls = before @ lim e # behind"
      unfolding ls by (metis list.set_map split_list image_eqI)
    moreover have "distinct (map enf_uuid ?ls)"
      using assms(12) by (simp add: ls lim_def comp_def)
    moreover have "sold_amps (sold_root (ms ! e)) t \<le> 1000"
      using total assms(4) pos e member_le_sum [of e ?E "\<lambda>e. sold_amps (sold_root (ms ! e)) t"]
      by force
    ultimately show ?thesis
      using assms(7) assms(13) [OF e] pos [OF e]
      by (intro own_limit_bound) (auto simp: lim_def sold_amps_def g_def)
  qed
  then show ?thesis
    by (rule order_trans [OF sum_mono total])
qed

section \<open>An example\<close>

text \<open>The site of \<open>example_request\<close>: one EVSE behind a node with a fuse of 63 ampere.\<close>

definition example_markets :: "market list" where
  "example_markets = markets (snd (optimizer_end example_dates example_em_config 0 example_request 0 (\<lambda>_. None)))"

lemma example_site:
  "get_list_of_evses example_markets = [1]" "energy_flow_request (example_markets ! 1) = flow example_evse"
  "evses_below example_markets 0 = [1]"
proof -
  define g where "g = config_globals example_dates example_em_config 0 example_request"
  define ms0 where "ms0 = create_market example_dates g 230 None example_request []"
  have st: "same_tree ms0 example_markets"
    using optimizer_end_inv [OF example_ok, of example_dates 0 0 "\<lambda>_. None"]
    by (simp add: run_inv_def example_markets_def ms0_def g_def example_em_config_def)
  have ms0: "ms0 = [new_market example_dates g 230 None (node_request example_node),
      new_market example_dates g 230 (Some 0) (flow example_evse)]"
    by (simp add: ms0_def example_request_def example_evse_def)
  have evses: "get_list_of_evses ms0 = [1]"
    by (simp add: ms0 get_list_of_evses_def example_evse_def example_node_def node_init_def Let_def upt_rec)
  then show "get_list_of_evses example_markets = [1]"
    using same_tree_evses [OF st] evses by simp
  show "energy_flow_request (example_markets ! 1) = flow example_evse"
    using same_tree_nth [OF st, of 1] by (simp add: ms0)
  have "0 \<in> set (ancestors ms0 1)"
    by (simp add: ms0 ancestors.simps)
  then show "evses_below example_markets 0 = [1]"
    unfolding same_tree_below [OF st] by (simp add: evses_below_def evses del: One_nat_def)
qed

theorem chargers_within_fuse_witness:
  "evses_below example_markets 0 = [1] \<and> (\<Sum>e \<in> set (evses_below example_markets 0). charger_limit (exec (for_each
     (fst (run_optimizer example_dates example_em_config 0 example_request 0 (\<lambda>_. None)))
     (evse_enforce_limits example_dates 0)) example_power)) \<le> 63"
proof -
  let ?n = "example_node\<lparr>node_children := [example_evse]\<rparr>"
  have run: "node_run example_dates [N_child example_evse] (node_init example_dates ''grid'' 63 3 1 0) = Some (publish_request ?n)"
    by (simp add: on_child_request_def publish_complete_energy_object_def Let_def example_node_def node_init_def)
  have pub: "Published_request example_request \<in> set (node_out (publish_request ?n))"
    by (simp add: publish_request_def example_request_def)
  have root: "0 < length example_markets" "energy_flow_request (example_markets ! 0) = flow example_request"
    using optimizer_root [OF example_ok [unfolded example_request_def] refl, of example_dates 0 0 "\<lambda>_. None"]
    by (simp_all add: example_request_def example_markets_def)
  show ?thesis
  proof (intro conjI example_site(3), rule chargers_within_fuse [OF run pub _ _ example_ok _ example_markets_def root example_schedule])
    show "uuid (flow_request example_power) = uuid (energy_flow_request (example_markets ! e)) \<and>
      \<not> random_delay_enabled example_power \<and> \<not> session_is_iso_d20_ac_bpt example_power \<and>
      no_feedback (energy_flow_request (example_markets ! e))" if "e \<in> set (evses_below example_markets 0)" for e
    proof -
      have "e = 1"
        using that by (simp add: example_site(3))
      then show ?thesis
        unfolding \<open>e = 1\<close> example_site(2) by (simp add: example_evse_def example_power_def example_flow_def
            session_is_iso_d20_ac_bpt_def no_feedback_def)
    qed
  qed (simp_all add: example_site example_em_config_def)
qed

end
