(* ===== verification/Spec2Isabelle.thy ===== *)
theory Spec2Isabelle
  imports Charger_Sessions Charger_Limits Evse_System Reservation_Runs Energy_Safety Auth_Runs Yeti_System Site_Power
begin

text \<open>
  A verification development for EVerest core: the control of an EVSE from its session down to the bytes on the
  serial line of its board, the authorisation of tokens and the reservations, and the distribution of energy.

  \<^bold>\<open>The program.\<close>  An EVSE is controlled by three classes of \<^verbatim>\<open>src/modules/EVSE/EvseManager\<close>.  The class
  \<^verbatim>\<open>IECStateMachine\<close> follows the control pilot line to the car, drives the PWM signal, the connector lock
  and the contactors, and reports events.  The class \<^verbatim>\<open>Charger\<close> runs the session: it waits for
  authorisation and energy, prepares, charges, pauses and stops, and is the only one that permits the
  IEC machine to close the contactors.  The class \<^verbatim>\<open>ErrorHandling\<close> watches the errors of all hardware
  modules, and forces a shutdown of the charger as long as one of them prevents charging.  The class \<^verbatim>\<open>EvseManager\<close> itself
  sets the DC supply to what the car asks for, and its interface \<^verbatim>\<open>energy_grid\<close> requests energy and hands the limits that
  come back to the charger, after a random delay where the law demands one.

  The calls of the IEC machine go to a driver of the board, here the one of the Yeti board
  (\<^verbatim>\<open>src/modules/HardwareDrivers/EVSE/YetiDriver\<close>), which sends them as messages over a serial line and turns the
  messages of the board into events and errors.

  In \<^verbatim>\<open>src/modules/EVSE/Auth\<close> the class \<^verbatim>\<open>AuthHandler\<close> has the tokens validated that users present, selects the EVSE
  of each and authorises it; the class \<^verbatim>\<open>ReservationHandler\<close> decides which reservations of EVSEs and of connector
  types can be held together, and cancels them when connectors fail.

  In \<^verbatim>\<open>src/modules/EnergyManagement\<close> every \<^verbatim>\<open>EnergyNode\<close> collects the requests of the nodes below it and adds the limits
  of its fuse; the \<^verbatim>\<open>EnergyManager\<close> at the root lets a broker for each EVSE buy current and power for time slots
  on a tree of markets, and sends the limits that result to the EVSEs.

  \<^bold>\<open>How code is represented.\<close>  The members of a class are a record, a method is a program of the state
  monad over it (\<open>Prelude\<close>), a callback or a call into another module is an entry of a trace in the
  state or an argument.  A mutex that is held over a method makes the method one step; a method that gives the mutex
  away in the middle is cut there, and what is left of it is a value in the state that a later step takes up.  Time is an
  integer that the state carries, in nanoseconds (in milliseconds for the serial line); durations, casts and comparisons
  are those of the code.  Currents and powers are real numbers.  Bytes, the registers of the serial decoder and the
  checksum are words of their width.  Code of other packages is a parameter with its documented laws
  as hypotheses: the error framework (record of functions, hypotheses \<open>framework_ok\<close>), the library for
  dates, the codec of nanopb, the random session ids, the answers of power meters and of validators.

  \<^bold>\<open>Theories and sources.\<close>
  \<^item> \<open>Prelude\<close>: combinators, weakest preconditions, the locale of frame relations, clock arithmetic.
  \<^item> \<open>Sync_Primitives\<close>: \<^verbatim>\<open>Timeout.hpp\<close>, \<^verbatim>\<open>EventQueue.hpp\<close>, \<^verbatim>\<open>VarContainer.hpp\<close>.
  \<^item> \<open>IEC_State_Machine\<close>: \<^verbatim>\<open>IECStateMachine.cpp\<close> and its header.  \<open>state_machine\<close> is one run, composed of
    one definition per case label (\<open>sm_A\<close>, \<open>sm_B\<close> and so on); \<open>iec_step\<close> is the step relation of the object
    with its callbacks and timers.
  \<^item> \<open>Error_Handling\<close>: \<^verbatim>\<open>ErrorHandling.cpp\<close> and its header.
  \<^item> \<open>Enable_Table\<close>: the table of enable and disable commands of \<^verbatim>\<open>Charger.cpp\<close>
    (\<^verbatim>\<open>parse_enable_disable_source_table\<close>).
  \<^item> \<open>Evse_Types\<close>, \<open>Charger_State\<close>, \<open>Charger_Operations\<close>, \<open>Charger_Machine\<close>, \<open>Charger_Interface\<close>: \<^verbatim>\<open>Charger.cpp\<close>,
    \<^verbatim>\<open>Charger.hpp\<close>, \<^verbatim>\<open>utils.hpp\<close>, \<^verbatim>\<open>PersistentStore.cpp\<close>: the contexts, the operations, the state machine with
    one definition per state (\<open>st_Idle\<close>, \<open>st_Charging\<close> and so on), and the public methods with the inputs
    of the charger (\<open>charger_input\<close>, \<open>charger_handle\<close>).
  \<^item> \<open>Charger_Effects\<close>, \<open>Charger_Safety\<close>, \<open>Charger_Sessions\<close>, \<open>Charger_Limits\<close>: what the charger does:
    frames of its operations, permissions and shutdowns, sessions, currents and duty cycles.
  \<^item> \<open>Evse_System\<close>: the three classes together.  A step hands every call of the charger to the IEC
    machine and to the error handling, and every signal of the error handling to the charger, in
    the order in which the code calls them; the events of the IEC machine and all other inputs are free.
  \<^item> \<open>Serial_Link\<close>: \<^verbatim>\<open>yeti_comms/evSerial.cpp\<close> with its header and the messages of \<^verbatim>\<open>yeti.proto\<close>; \<open>Serial_Laws\<close>,
    \<open>Serial_Frames\<close>: the checksum and the framing.
  \<^item> \<open>Yeti_Driver\<close>: \<^verbatim>\<open>YetiDriver.cpp\<close> and its implementations of the interfaces of the board, the lock and the power
    meter; \<open>Yeti_Laws\<close>: its errors; \<open>Yeti_System\<close>: the system of \<open>Evse_System\<close> with this driver.
  \<^item> \<open>Auth_Connector\<close>: \<^verbatim>\<open>ConnectorStateMachine.cpp\<close>, \<^verbatim>\<open>Connector.cpp\<close>, the comparison of tokens of
    \<^verbatim>\<open>lib/everest/helpers\<close>.
  \<^item> \<open>Permutations\<close>: \<^verbatim>\<open>std::next_permutation\<close> and \<^verbatim>\<open>std::prev_permutation\<close>.
  \<^item> \<open>Reservation\<close>: \<^verbatim>\<open>ReservationHandler.cpp\<close>; \<open>Reservation_Laws\<close>, \<open>Reservation_Promise\<close> and
    \<open>Reservation_Runs\<close>: its search, its invariant and its properties.
  \<^item> \<open>Auth_Handler\<close>: \<^verbatim>\<open>AuthHandler.cpp\<close> with the calls of \<^verbatim>\<open>Auth.cpp\<close> and \<^verbatim>\<open>reservationImpl.cpp\<close>.  A run is a sequence
    of inputs that start a method or let one of the waiting threads go on, so every interleaving is a run.
    \<open>Auth_Grants\<close>, \<open>Auth_Laws\<close>, \<open>Auth_Runs\<close>: who gets an EVSE, the threads, the properties.
  \<^item> \<open>Energy_Types\<close>: the data of \<^verbatim>\<open>types/energy.yaml\<close>; \<open>Energy_Market\<close>, \<open>Energy_Broker\<close>: \<^verbatim>\<open>Market.cpp\<close>, \<^verbatim>\<open>Offer.cpp\<close>,
    \<^verbatim>\<open>Broker.cpp\<close>, \<^verbatim>\<open>BrokerFastCharging.cpp\<close>, \<^verbatim>\<open>EnergyManagerImpl.cpp\<close>; \<open>Energy_Node\<close>: \<^verbatim>\<open>energyImpl.cpp\<close> of the node;
    \<open>Energy_Laws\<close>, \<open>Energy_Schedules\<close>, \<open>Energy_Safety\<close>: the trade, the look-ups in schedules, a whole run.
  \<^item> \<open>Evse_Power\<close>: the capabilities, limits and targets in \<^verbatim>\<open>EvseManager.cpp\<close> and its \<^verbatim>\<open>energy_grid/energyImpl.cpp\<close>, around
    the charger of \<open>Charger_Interface\<close>; \<open>power_handle\<close> is one input.  \<open>Evse_Power_Laws\<close>: the supply, the requests, the
    random delay; \<open>Site_Power\<close>: nodes, energy manager, EVSEs and chargers together.

  \<^bold>\<open>What is shown.\<close>
  \<^item> Safety of the contactors.  The IEC machine commands them on only with the permission of the
    charger, in CP state C or D and with PWM or within six seconds after it went off; the connector is
    locked while they are closed; in the composed system no error that prevents charging leaves the
    permission in place for longer than one round of each thread, and no step gives it back.  Down on the serial
    line exactly the calls of the IEC machine are sent, so that the board is not told to allow power without
    the charger's permission.
  \<^item> Errors.  Inoperative is active exactly when an error outside the ignore lists is; the cascade of
    checks equals one search; a shutdown of the charger follows the errors; the errors of the driver follow the
    flags of its controller.
  \<^item> The serial line.  A frame is decoded to what was encoded, but for one kind of frame; after any noise the decoder
    finds the next frame; it never writes outside its buffer; the checksum excludes every error within four bytes.
  \<^item> The charger.  Its state machine settles after at most seven passes, sessions start and end in
    turn, permission is given only while charging or preparing DC, an expired budget stops charging,
    the duty cycle encodes the current and changes at most every five seconds, the over current error
    is raised for exactly the runs of samples that last long enough, the enable table refines the
    last command of each source.
  \<^item> Reservations.  The search over all orders of arrival decides exactly whether nobody is ever left
    without a place; accepted reservations keep this promise; the check after a failure restores it;
    ids and timers correspond; what is stored can be loaded.
  \<^item> Authorisation.  An EVSE is given to a token only with its reservation or where all reservations can still be
    served; no token is handled by two threads; an accepted token gets the available EVSE, with exactly the expected
    messages.
  \<^item> Energy.  No node of the tree is overloaded, in any slot, by what the EVSEs below it are given; with the nodes,
    no fuse is, also not by the chargers once they have the limits; schedules are read at the entry in force; an EVSE
    asks for no more than its hardware has and sets its supply within the capabilities; a random delay ends.
  \<^item> Deviations, each as a theorem with a concrete run: an expired asynchronous timer opens contactors
    again, an over current failure is not escalated, errors count as cleared with a warning active, a
    DC charger permits power under a shutdown, untyped reservations survive the check, the last
    reservation stays in the store; tokens are withdrawn, blocked, lost or replaced; new prices may stop a node for good;
    the interpolation in the frequency table is wrong; the threshold for an over voltage ignores the supply; an error of the RCD and an over-current of the board are hidden.

  \<^bold>\<open>Bounds and termination.\<close>  No definition uses fuel to cut off a behaviour.  The loop of the charger's
  state machine (\<open>run_loop\<close>) terminates by a rank of the states that every pass which changes the state
  decreases; it makes at most seven passes from any state, and has then settled.  The loop over permutations
  terminates because every step increases the list in the lexicographic order.  The walks over the markets terminate
  because a parent has a smaller index than its children.  The bound of 100 trading rounds and those of 20 and 50 rounds
  of waiting for the board are those of the code.  The loop that merges prices may not return; it is a partial function,
  and it is shown when it returns.

  \<^bold>\<open>Not modelled.\<close>  Logging; rounding of floating point numbers; the interleaving of threads inside a
  method that holds the mutex; destructors; telemetry.  The clock does not advance during a run of the energy manager.
  The protocol stacks SLAC, ISO 15118 and OCPP rest on generated codecs and on libraries that are not part of the
  repository, the modules for the API only translate messages, and simulators and examples are test equipment.  The other
  hardware drivers are not modelled; two of them have a serial link that resembles the one of the Yeti board.  Of
  \<^verbatim>\<open>EvseManager.cpp\<close> the cable check and the wiring of the ISO 15118 stack are not modelled: they are calls of other modules,
  whose answers would all be parameters.
\<close>

end
